(* ===== verification/Prelude.thy ===== *)
theory Prelude
  imports Main "HOL-Library.Char_ord"
begin

section \<open>Prelude: Python exceptions, results, effects\<close>

text \<open>
  What every component of the development shares.  A Python exception is a value of
  \<open>exc\<close>: its class, the text \<open>str(e)\<close>, the HTTP headers an \<open>HTTPException\<close> may carry and
  the exception it was raised from (\<open>raise \<dots> from e\<close> sets \<open>__cause__\<close>).  A pure function
  of the code that may raise returns \<open>exc + 'a\<close> (\<open>'a res\<close>).  Code that talks to a
  remote system threads an explicit world \<open>'w\<close>: an \<open>('w, 'a) io\<close> maps the world to a result
  and the next world; which effects the world has is up to the caller, who passes the
  third-party operations (an SSH process, an HTTP request) as arguments.

  The texts of exceptions that the interpreter itself raises (a failed \<open>int()\<close>, a missing
  key) are not modelled: such exceptions carry the empty text.
\<close>

subsection \<open>Exception classes and their hierarchy\<close>

text \<open>
  The classes of \<open>lib/exceptions.py\<close> and \<open>lib/ssh_clients/ssh_client.py\<close>, the framework's
  \<open>HTTPException\<close> (with its status code), and the classes of Python's library and of
  asyncssh, aiohttp and jose that the code names in an \<open>except\<close> clause.
\<close>

datatype exc_class =
    HTTPException nat
  | RequestValidationError
  | SchedulerError | SlurmError | SlurmAuthTokenError | SlurmQuotaError | PbsError
  | SSHServiceError | SSHCredentials
  | SSHClientError | OutputLimitExceeded | TimeoutLimitExceeded | SSHConnectionError
  | BaseExc | ValueError | JSONDecodeError | KeyError | IndexError | TypeError
  | AttributeError | ZeroDivisionError | NotImplementedError | StopIteration
  | OSError | FileNotFoundError | FileExistsError | TimeoutError | ConnectionResetError
  | ConnectionLost | ChannelOpenError | PermissionDenied | ProtocolError
  | JWTError | ExpiredSignatureError
  | InvalidStatus | InvalidMessage | ConnectionClosedError
  | BucketAlreadyOwnedByYou | ClickException | OverflowError | Base64Error
  | ContextDoesNotExistError

text \<open>
  \<open>exc_parent c\<close> is the direct base class of \<open>c\<close> among the modelled ones; the classes
  whose bases are not modelled derive from \<open>Exception\<close>, written \<open>BaseExc\<close>.
\<close>

fun exc_parent :: "exc_class \<Rightarrow> exc_class option" where
  "exc_parent BaseExc = None"
| "exc_parent SlurmError = Some SchedulerError"
| "exc_parent SlurmAuthTokenError = Some SlurmError"
| "exc_parent SlurmQuotaError = Some SlurmError"
| "exc_parent PbsError = Some SchedulerError"
| "exc_parent SSHCredentials = Some SSHServiceError"
| "exc_parent OutputLimitExceeded = Some SSHClientError"
| "exc_parent TimeoutLimitExceeded = Some SSHClientError"
| "exc_parent SSHConnectionError = Some SSHClientError"
| "exc_parent JSONDecodeError = Some ValueError"
| "exc_parent Base64Error = Some ValueError"
| "exc_parent FileNotFoundError = Some OSError"
| "exc_parent FileExistsError = Some OSError"
| "exc_parent TimeoutError = Some OSError"
| "exc_parent ConnectionResetError = Some OSError"
| "exc_parent ExpiredSignatureError = Some JWTError"
| "exc_parent _ = Some BaseExc"

text \<open>\<open>isinstance\<close> climbs at most three levels, the depth of the hierarchy above.\<close>

definition exc_le :: "exc_class \<Rightarrow> exc_class \<Rightarrow> bool" where
  "exc_le c d \<longleftrightarrow> c = d \<or>
     (case exc_parent c of None \<Rightarrow> False
      | Some c1 \<Rightarrow> c1 = d \<or>
         (case exc_parent c1 of None \<Rightarrow> False
          | Some c2 \<Rightarrow> c2 = d \<or> exc_parent c2 = Some d))"

lemma exc_le_refl [simp]: "exc_le c c"
  by (simp add: exc_le_def)

lemma exc_le_Base [simp]: "exc_le c BaseExc"
  by (cases c) (simp_all add: exc_le_def)

lemma exc_le_trans: "exc_le a b \<Longrightarrow> exc_le b c \<Longrightarrow> exc_le a c"
  by (cases a) (auto simp: exc_le_def)

datatype exc =
  Exc (exc_cls: exc_class) (exc_msg: string) (exc_headers: "(string \<times> string) list")
      (exc_cause: "exc option")

definition isinstance :: "exc \<Rightarrow> exc_class \<Rightarrow> bool" where
  "isinstance e c \<longleftrightarrow> exc_le (exc_cls e) c"

lemma isinstance_Base [simp]: "isinstance e BaseExc"
  by (simp add: isinstance_def)

subsection \<open>Results\<close>

type_synonym 'a res = "exc + 'a"

abbreviation new_exc :: "exc_class \<Rightarrow> string \<Rightarrow> exc" where
  "new_exc c m \<equiv> Exc c m [] None"

abbreviation raise :: "exc_class \<Rightarrow> string \<Rightarrow> 'a res" where
  "raise c m \<equiv> Inl (new_exc c m)"

abbreviation http_error :: "nat \<Rightarrow> string \<Rightarrow> 'a res" where
  "http_error status detail \<equiv> raise (HTTPException status) detail"

definition bind_res :: "'a res \<Rightarrow> ('a \<Rightarrow> 'b res) \<Rightarrow> 'b res" where
  "bind_res m f = (case m of Inl e \<Rightarrow> Inl e | Inr x \<Rightarrow> f x)"

definition catch_res :: "'a res \<Rightarrow> (exc \<Rightarrow> 'a res) \<Rightarrow> 'a res" where
  "catch_res m h = (case m of Inl e \<Rightarrow> h e | Inr x \<Rightarrow> Inr x)"

definition map_res :: "('a \<Rightarrow> 'b) \<Rightarrow> 'a res \<Rightarrow> 'b res" where
  "map_res f m = bind_res m (\<lambda>x. Inr (f x))"

text \<open>A comprehension \<open>[f(x) for x in xs]\<close> whose body may raise: the first exception wins.\<close>

fun traverse :: "('a \<Rightarrow> 'b res) \<Rightarrow> 'a list \<Rightarrow> 'b list res" where
  "traverse f [] = Inr []"
| "traverse f (x # xs) =
     bind_res (f x) (\<lambda>y. bind_res (traverse f xs) (\<lambda>ys. Inr (y # ys)))"

named_theorems res_iff \<open>when a monadic computation returns a value\<close>

lemma bind_res_simps [simp]:
  "bind_res (Inl e) f = Inl e"
  "bind_res (Inr x) f = f x"
  by (simp_all add: bind_res_def)

lemma catch_res_simps [simp]:
  "catch_res (Inl e) h = h e"
  "catch_res (Inr x) h = Inr x"
  by (simp_all add: catch_res_def)

lemma map_res_simps [simp]:
  "map_res f (Inl e) = Inl e"
  "map_res f (Inr x) = Inr (f x)"
  by (simp_all add: map_res_def)

lemma bind_res_Inr_iff [res_iff]:
  "bind_res m f = Inr y \<longleftrightarrow> (\<exists>x. m = Inr x \<and> f x = Inr y)"
  by (cases m) simp_all

lemma bind_res_Inl_iff [res_iff]:
  "bind_res m f = Inl e \<longleftrightarrow> m = Inl e \<or> (\<exists>x. m = Inr x \<and> f x = Inl e)"
  by (cases m) simp_all

lemma map_res_Inr_iff [res_iff]: "map_res f m = Inr y \<longleftrightarrow> (\<exists>x. m = Inr x \<and> y = f x)"
  by (cases m) auto

lemma traverse_Inr_iff:
  "traverse f xs = Inr ys \<longleftrightarrow> list_all2 (\<lambda>x y. f x = Inr y) xs ys"
proof (induction xs arbitrary: ys)
  case Nil
  then show ?case by (cases ys) auto
next
  case (Cons x xs)
  then show ?case by (cases ys) (auto simp: res_iff)
qed

lemma traverse_length: "traverse f xs = Inr ys \<Longrightarrow> length ys = length xs"
  by (auto simp: traverse_Inr_iff dest: list_all2_lengthD)

lemma traverse_member:
  assumes "traverse f xs = Inr ys" and "y \<in> set ys"
  obtains x where "x \<in> set xs" "f x = Inr y"
proof -
  have "\<exists>x \<in> set xs. f x = Inr y"
    using assms by (induction xs arbitrary: ys) (auto simp: bind_res_def split: sum.splits)
  then show ?thesis using that by blast
qed

lemma traverse_total: "(\<And>x. x \<in> set xs \<Longrightarrow> f x = Inr (g x)) \<Longrightarrow> traverse f xs = Inr (map g xs)"
  by (induction xs) auto

lemma traverse_append:
  "traverse f (xs @ ys) =
     bind_res (traverse f xs) (\<lambda>us. bind_res (traverse f ys) (\<lambda>vs. Inr (us @ vs)))"
proof (induction xs)
  case Nil
  then show ?case by (cases "traverse f ys") simp_all
next
  case (Cons x xs)
  then show ?case
    by (cases "f x"; cases "traverse f xs"; cases "traverse f ys") simp_all
qed

lemma traverse_map: "traverse f (map g xs) = traverse (\<lambda>x. f (g x)) xs"
  by (induction xs) simp_all

subsection \<open>Effects\<close>

type_synonym ('w, 'a) io = "'w \<Rightarrow> 'a res \<times> 'w"

definition io_return :: "'a \<Rightarrow> ('w, 'a) io" where
  "io_return x = (\<lambda>w. (Inr x, w))"

definition io_lift :: "'a res \<Rightarrow> ('w, 'a) io" where
  "io_lift r = (\<lambda>w. (r, w))"

abbreviation io_raise :: "exc_class \<Rightarrow> string \<Rightarrow> ('w, 'a) io" where
  "io_raise c m \<equiv> io_lift (raise c m)"

definition io_bind :: "('w, 'a) io \<Rightarrow> ('a \<Rightarrow> ('w, 'b) io) \<Rightarrow> ('w, 'b) io" where
  "io_bind m f = (\<lambda>w. case m w of (Inl e, w') \<Rightarrow> (Inl e, w') | (Inr x, w') \<Rightarrow> f x w')"

definition io_catch :: "('w, 'a) io \<Rightarrow> (exc \<Rightarrow> ('w, 'a) io) \<Rightarrow> ('w, 'a) io" where
  "io_catch m h = (\<lambda>w. case m w of (Inl e, w') \<Rightarrow> h e w' | (Inr x, w') \<Rightarrow> (Inr x, w'))"

definition io_map :: "('a \<Rightarrow> 'b) \<Rightarrow> ('w, 'a) io \<Rightarrow> ('w, 'b) io" where
  "io_map f m = io_bind m (\<lambda>x. io_return (f x))"

text \<open>
  \<open>asyncio.gather(*cs, return_exceptions=True)\<close>: every awaitable runs, an exception is
  delivered as the result of its own awaitable, and the results keep the order of the
  arguments.  The awaitables are run here one after the other; where their interleaving
  matters a component has its own step relation.
\<close>

fun io_gather :: "('w, 'a) io list \<Rightarrow> 'w \<Rightarrow> 'a res list \<times> 'w" where
  "io_gather [] w = ([], w)"
| "io_gather (m # ms) w =
     (case m w of (r, w') \<Rightarrow> (case io_gather ms w' of (rs, w'') \<Rightarrow> (r # rs, w'')))"

text \<open>A \<open>for\<close> loop whose body has effects and may raise.\<close>

fun io_traverse :: "('a \<Rightarrow> ('w, 'b) io) \<Rightarrow> 'a list \<Rightarrow> ('w, 'b list) io" where
  "io_traverse f [] = io_return []"
| "io_traverse f (x # xs) =
     io_bind (f x) (\<lambda>y. io_bind (io_traverse f xs) (\<lambda>ys. io_return (y # ys)))"

named_theorems io_simps \<open>one step of an effectful computation\<close>

lemma io_return_apply [io_simps]: "io_return x w = (Inr x, w)"
  by (simp add: io_return_def)

lemma io_lift_apply [io_simps]: "io_lift r w = (r, w)"
  by (simp add: io_lift_def)

lemma io_bind_apply [io_simps]:
  "io_bind m f w = (case m w of (Inl e, w') \<Rightarrow> (Inl e, w') | (Inr x, w') \<Rightarrow> f x w')"
  by (simp add: io_bind_def)

lemma io_catch_apply [io_simps]:
  "io_catch m h w = (case m w of (Inl e, w') \<Rightarrow> h e w' | (Inr x, w') \<Rightarrow> (Inr x, w'))"
  by (simp add: io_catch_def)

lemma io_map_apply [io_simps]:
  "io_map f m w = (case m w of (Inl e, w') \<Rightarrow> (Inl e, w') | (Inr x, w') \<Rightarrow> (Inr (f x), w'))"
  by (simp add: io_map_def io_bind_def io_return_def)

lemma io_bind_assoc: "io_bind (io_bind m f) g = io_bind m (\<lambda>x. io_bind (f x) g)"
  by (rule ext) (auto simp: io_bind_def split: prod.splits sum.splits)

lemma io_bind_return [simp]: "io_bind (io_return x) f = f x"
  by (rule ext) (simp add: io_simps)

lemma io_bind_lift_Inl [simp]: "io_bind (io_lift (Inl e)) f = io_lift (Inl e)"
  by (rule ext) (simp add: io_simps)

lemma io_bind_lift_Inr [simp]: "io_bind (io_lift (Inr x)) f = f x"
  by (rule ext) (simp add: io_simps)

lemma io_gather_length: "length (fst (io_gather ms w)) = length ms"
  by (induction ms arbitrary: w) (auto split: prod.splits dest: arg_cong [where f = "\<lambda>p. length (fst p)"])

lemma io_bind_Inr_iff:
  "io_bind m f w = (Inr y, w2) \<longleftrightarrow> (\<exists>x w1. m w = (Inr x, w1) \<and> f x w1 = (Inr y, w2))"
  by (auto simp: io_bind_def split: prod.splits sum.splits)

subsection \<open>Association lists as insertion-ordered dictionaries\<close>

text \<open>
  A Python \<open>dict\<close> keeps the order in which its keys were first inserted; assigning to a
  key that exists replaces the value in place.  \<open>dict_set\<close> is \<open>d[k] = v\<close>, \<open>map_of\<close> is
  the lookup, \<open>map snd\<close> is \<open>list(d.values())\<close>.
\<close>

fun dict_set :: "'k \<Rightarrow> 'v \<Rightarrow> ('k \<times> 'v) list \<Rightarrow> ('k \<times> 'v) list" where
  "dict_set k v [] = [(k, v)]"
| "dict_set k v ((k', v') # d) = (if k' = k then (k', v) # d else (k', v') # dict_set k v d)"

lemma map_of_dict_set [simp]: "map_of (dict_set k v d) = (map_of d)(k \<mapsto> v)"
  by (induction d) auto

lemma keys_dict_set:
  "map fst (dict_set k v d) =
     (if k \<in> set (map fst d) then map fst d else map fst d @ [k])"
proof (induction d)
  case (Cons p d)
  then show ?case by (cases p) (simp split: if_splits)
qed simp

lemma distinct_dict_set: "distinct (map fst d) \<Longrightarrow> distinct (map fst (dict_set k v d))"
  by (simp add: keys_dict_set)

lemma dict_set_in: "(k', v') \<in> set (dict_set k v d) \<Longrightarrow> (k', v') = (k, v) \<or> (k', v') \<in> set d"
  by (induction d) (auto split: if_splits)

text \<open>\<open>{**d, **e}\<close>: the entries of \<open>e\<close> are assigned over those of \<open>d\<close>.\<close>

definition dict_update :: "('k \<times> 'v) list \<Rightarrow> ('k \<times> 'v) list \<Rightarrow> ('k \<times> 'v) list" where
  "dict_update d e = foldl (\<lambda>acc (k, v). dict_set k v acc) d e"

lemma map_of_dict_update: "map_of (dict_update d e) k = (map_of d ++ map_of (rev e)) k"
  by (induction e arbitrary: d) (auto simp: dict_update_def map_add_def split: option.splits)

text \<open>\<open>next(iter(xs), None)\<close> and the truth value Python gives an optional text.\<close>

definition first_of :: "'a list \<Rightarrow> 'a option" where
  "first_of xs = (case xs of [] \<Rightarrow> None | x # _ \<Rightarrow> Some x)"

definition truthy :: "string option \<Rightarrow> bool" where
  "truthy s = (case s of None \<Rightarrow> False | Some t \<Rightarrow> t \<noteq> [])"

lemma truthy_simps [simp]: "truthy None = False" "truthy (Some t) = (t \<noteq> [])"
  by (simp_all add: truthy_def)

lemma first_of_simps [simp]: "first_of [] = None" "first_of (x # xs) = Some x"
  by (simp_all add: first_of_def)

text \<open>\<open>f"{v}"\<close> of an optional text.\<close>

definition opt_str :: "string option \<Rightarrow> string" where
  "opt_str v = (case v of None \<Rightarrow> ''None'' | Some s \<Rightarrow> s)"

lemma opt_str_simps [simp]: "opt_str None = ''None''" "opt_str (Some s) = s"
  by (simp_all add: opt_str_def)

end
