(* ===== verification/PyString.thy ===== *)
theory PyString
  imports Prelude
begin

section \<open>Python text\<close>

text \<open>
  The operations of Python's \<open>str\<close> the code uses.  A text is a list of \<open>char\<close>, read as
  the code points U+0000 to U+00FF (Latin-1); code points above are outside the model.
  Within that range the character classes below are Python's: \<open>str.isspace\<close> (also the
  regular expression class \<open>\s\<close>), decimal digits, word characters.  Indices are \<open>int\<close>
  where the code may compute a negative one.
\<close>

subsection \<open>Character classes\<close>

abbreviation code :: "char \<Rightarrow> nat" where
  "code c \<equiv> of_char c"

definition is_digit :: "char \<Rightarrow> bool" where
  "is_digit c \<longleftrightarrow> 48 \<le> code c \<and> code c \<le> 57"

definition is_ws :: "char \<Rightarrow> bool" where
  "is_ws c \<longleftrightarrow> (9 \<le> code c \<and> code c \<le> 13) \<or> (28 \<le> code c \<and> code c \<le> 32)
     \<or> code c = 133 \<or> code c = 160"

definition is_ascii_letter :: "char \<Rightarrow> bool" where
  "is_ascii_letter c \<longleftrightarrow>
     (65 \<le> code c \<and> code c \<le> 90) \<or> (97 \<le> code c \<and> code c \<le> 122)"

definition is_ascii_word :: "char \<Rightarrow> bool" where
  "is_ascii_word c \<longleftrightarrow> is_ascii_letter c \<or> is_digit c \<or> code c = 95"

definition is_word :: "char \<Rightarrow> bool" where
  "is_word c \<longleftrightarrow> is_ascii_word c
     \<or> code c \<in> {170, 178, 179, 181, 185, 186, 188, 189, 190}
     \<or> (192 \<le> code c \<and> code c \<noteq> 215 \<and> code c \<noteq> 247)"

abbreviation newline :: char where
  "newline \<equiv> CHR 0x0A"

definition lower_char :: "char \<Rightarrow> char" where
  "lower_char c =
     (if (65 \<le> code c \<and> code c \<le> 90) \<or> (192 \<le> code c \<and> code c \<le> 222 \<and> code c \<noteq> 215)
      then char_of (code c + 32) else c)"

definition lower :: "string \<Rightarrow> string" where
  "lower s = map lower_char s"

lemma lower_Nil [simp]: "lower [] = []"
  and lower_Cons [simp]: "lower (c # s) = lower_char c # lower s"
  and lower_append [simp]: "lower (s @ t) = lower s @ lower t"
  and length_lower [simp]: "length (lower s) = length s"
  by (simp_all add: lower_def)

lemma lower_char_idem [simp]: "lower_char (lower_char c) = lower_char c"
  by (auto simp: lower_char_def)

text \<open>Evaluation on literals.\<close>

lemma lower_char_id [simp]: "\<not> (65 \<le> code c \<and> code c \<le> 90) \<Longrightarrow> code c < 192 \<Longrightarrow> lower_char c = c"
  by (auto simp: lower_char_def)

lemma lower_char_upper [simp]:
  "lower_char CHR ''A'' = CHR ''a''"
  "lower_char CHR ''B'' = CHR ''b''"
  "lower_char CHR ''C'' = CHR ''c''"
  "lower_char CHR ''D'' = CHR ''d''"
  "lower_char CHR ''E'' = CHR ''e''"
  "lower_char CHR ''F'' = CHR ''f''"
  "lower_char CHR ''G'' = CHR ''g''"
  "lower_char CHR ''H'' = CHR ''h''"
  "lower_char CHR ''I'' = CHR ''i''"
  "lower_char CHR ''J'' = CHR ''j''"
  "lower_char CHR ''K'' = CHR ''k''"
  "lower_char CHR ''L'' = CHR ''l''"
  "lower_char CHR ''M'' = CHR ''m''"
  "lower_char CHR ''N'' = CHR ''n''"
  "lower_char CHR ''O'' = CHR ''o''"
  "lower_char CHR ''P'' = CHR ''p''"
  "lower_char CHR ''Q'' = CHR ''q''"
  "lower_char CHR ''R'' = CHR ''r''"
  "lower_char CHR ''S'' = CHR ''s''"
  "lower_char CHR ''T'' = CHR ''t''"
  "lower_char CHR ''U'' = CHR ''u''"
  "lower_char CHR ''V'' = CHR ''v''"
  "lower_char CHR ''W'' = CHR ''w''"
  "lower_char CHR ''X'' = CHR ''x''"
  "lower_char CHR ''Y'' = CHR ''y''"
  "lower_char CHR ''Z'' = CHR ''z''"
  by (simp_all add: lower_char_def char_of_def bit_0)

lemma lower_idem [simp]: "lower (lower s) = lower s"
  by (simp add: lower_def)

subsection \<open>Prefixes, search, replacement\<close>

fun starts_with :: "string \<Rightarrow> string \<Rightarrow> bool" where
  "starts_with [] s = True"
| "starts_with (p # ps) [] = False"
| "starts_with (p # ps) (c # cs) = (p = c \<and> starts_with ps cs)"

lemma starts_with_iff: "starts_with p s \<longleftrightarrow> (\<exists>t. s = p @ t)"
  by (induction p s rule: starts_with.induct) auto

lemma starts_with_append [simp]: "starts_with p (p @ t)"
  by (simp add: starts_with_iff)

lemma starts_with_take: "starts_with p s \<longleftrightarrow> take (length p) s = p"
  by (induction p s rule: starts_with.induct) auto

text \<open>\<open>sub in s\<close>.\<close>

fun contains :: "string \<Rightarrow> string \<Rightarrow> bool" where
  "contains p [] = (p = [])"
| "contains p (c # s) = (starts_with p (c # s) \<or> contains p s)"

lemma contains_iff: "contains p s \<longleftrightarrow> (\<exists>a b. s = a @ p @ b)"
proof (induction s)
  case Nil
  then show ?case by auto
next
  case (Cons c s)
  show ?case
  proof
    assume "contains p (c # s)"
    then consider "starts_with p (c # s)" | "contains p s" by auto
    then show "\<exists>a b. c # s = a @ p @ b"
    proof cases
      case 1
      then show ?thesis by (metis append_Nil starts_with_iff)
    next
      case 2
      then obtain a b where "s = a @ p @ b" using Cons.IH by blast
      then have "c # s = (c # a) @ p @ b" by simp
      then show ?thesis by blast
    qed
  next
    assume "\<exists>a b. c # s = a @ p @ b"
    then obtain a b where ab: "c # s = a @ p @ b" by blast
    show "contains p (c # s)"
    proof (cases a)
      case Nil
      with ab have "starts_with p (c # s)" by simp
      then show ?thesis by simp
    next
      case (Cons x a')
      with ab have "s = a' @ p @ b" by simp
      then show ?thesis using Cons.IH by auto
    qed
  qed
qed

text \<open>\<open>s.find(sub, start)\<close> with \<open>0 \<le> start\<close>: the least index, or -1.\<close>

fun find_at :: "string \<Rightarrow> string \<Rightarrow> nat option" where
  "find_at p [] = (if p = [] then Some 0 else None)"
| "find_at p (c # s) =
     (if starts_with p (c # s) then Some 0 else map_option Suc (find_at p s))"

text \<open>An index of a sequence of length \<open>n\<close>, where negative ones count from its end.\<close>

definition clamp_index :: "nat \<Rightarrow> int \<Rightarrow> nat" where
  "clamp_index n i = (if i < 0 then nat (max 0 (int n + i)) else nat (min (int n) i))"

definition str_find :: "string \<Rightarrow> string \<Rightarrow> int \<Rightarrow> int" where
  "str_find s p start =
     (if start > int (length s) then -1
      else (case find_at p (drop (clamp_index (length s) start) s) of
              None \<Rightarrow> -1 | Some i \<Rightarrow> int (clamp_index (length s) start + i)))"

lemma find_at_Some_bound: "find_at p s = Some i \<Longrightarrow> i + length p \<le> length s"
proof (induction p s arbitrary: i rule: find_at.induct)
  case (1 p)
  then show ?case by (auto split: if_splits)
next
  case (2 p c s)
  show ?case
  proof (cases "starts_with p (c # s)")
    case True
    then obtain t where "c # s = p @ t" by (auto simp: starts_with_iff)
    then have "length p \<le> length (c # s)" by simp
    with True 2(2) show ?thesis by simp
  next
    case False
    then show ?thesis using 2 by auto
  qed
qed

lemma find_at_char:
  "c \<notin> set a \<Longrightarrow> find_at [c] (a @ c # b) = Some (length a)"
  by (induction a) auto

lemma find_at_upto:
  assumes "c \<notin> set p" and "c \<notin> set a"
  shows "find_at (p @ [c]) (a @ p @ c # t) = Some (length a)"
  using assms(2)
proof (induction a)
  case Nil
  have "starts_with (p @ [c]) ((p @ [c]) @ t)" by (rule starts_with_append)
  then show ?case by (cases p) simp_all
next
  case (Cons x a)
  have "\<not> starts_with (p @ [c]) (x # a @ p @ c # t)"
  proof
    assume "starts_with (p @ [c]) (x # a @ p @ c # t)"
    then obtain u where "x # a @ p @ c # t = p @ c # u" by (auto simp: starts_with_iff)
    then have "takeWhile (\<lambda>y. y \<noteq> c) (x # a @ p @ c # t) = takeWhile (\<lambda>y. y \<noteq> c) (p @ c # u)" by simp
    moreover have "takeWhile (\<lambda>y. y \<noteq> c) (p @ c # u) = p"
      using assms(1) by (subst takeWhile_append2) auto
    moreover have "takeWhile (\<lambda>y. y \<noteq> c) (x # a @ p @ c # t) = x # a @ p"
    proof -
      have "takeWhile (\<lambda>y. y \<noteq> c) ((x # a @ p) @ c # t) = x # a @ p"
        using assms(1) Cons.prems by (subst takeWhile_append2) auto
      then show ?thesis by simp
    qed
    ultimately have "x # a @ p = p" by simp
    then have "length (x # a @ p) = length p" by simp
    then show False by simp
  qed
  with Cons show ?case by simp
qed

text \<open>Searching from a position that is the length of a known beginning.\<close>

lemma str_find_from:
  "str_find (a @ s) p (int (length a)) =
     (case find_at p s of None \<Rightarrow> -1 | Some i \<Rightarrow> int (length a + i))"
  by (simp add: str_find_def clamp_index_def split: option.splits)

lemma str_find_0: "str_find s p 0 = (case find_at p s of None \<Rightarrow> -1 | Some i \<Rightarrow> int i)"
  by (simp add: str_find_def clamp_index_def split: option.splits)

lemma str_find_char:
  "c \<notin> set b \<Longrightarrow> str_find (a @ b @ c # s) [c] (int (length a)) = int (length a + length b)"
  by (simp add: str_find_from find_at_char)

text \<open>Slices \<open>s[i:j]\<close>: negative indices count from the end, both ends are clamped.\<close>

definition slice :: "'a list \<Rightarrow> int \<Rightarrow> int \<Rightarrow> 'a list" where
  "slice s i j =
     (let n = length s; a = clamp_index n i; b = clamp_index n j in take (b - a) (drop a s))"

definition slice_to :: "'a list \<Rightarrow> int \<Rightarrow> 'a list" where
  "slice_to s j = take (clamp_index (length s) j) s"

definition slice_from :: "'a list \<Rightarrow> int \<Rightarrow> 'a list" where
  "slice_from s i = drop (clamp_index (length s) i) s"

lemma slice_mid: "slice (a @ b @ c) (int (length a)) (int (length a + length b)) = b"
  by (simp add: slice_def clamp_index_def)

lemma slice_nonneg:
  assumes "0 \<le> i" and "i \<le> j"
  shows "slice s i j = take (nat j - nat i) (drop (nat i) s)"
proof (cases "nat i \<le> length s")
  case True
  with assms show ?thesis by (auto simp: slice_def clamp_index_def Let_def min_def nat_diff_distrib)
next
  case False
  with assms show ?thesis by (simp add: slice_def clamp_index_def Let_def min_def)
qed

text \<open>\<open>s.replace(old, new)\<close> for a non-empty \<open>old\<close>, left to right.\<close>

fun replace_fuel :: "nat \<Rightarrow> string \<Rightarrow> string \<Rightarrow> string \<Rightarrow> string" where
  "replace_fuel 0 old new s = s"
| "replace_fuel (Suc n) old new [] = []"
| "replace_fuel (Suc n) old new (c # s) =
     (if starts_with old (c # s) then new @ replace_fuel n old new (drop (length old) (c # s))
      else c # replace_fuel n old new s)"

definition replace :: "string \<Rightarrow> string \<Rightarrow> string \<Rightarrow> string" where
  "replace s old new = replace_fuel (length s) old new s"

lemma replace_fuel_char:
  "length s \<le> n \<Longrightarrow> replace_fuel n [q] new s = concat (map (\<lambda>c. if c = q then new else [c]) s)"
proof (induction s arbitrary: n)
  case Nil
  then show ?case by (cases n) simp_all
next
  case (Cons c s)
  then show ?case by (cases n) auto
qed

lemma replace_char: "replace s [q] new = concat (map (\<lambda>c. if c = q then new else [c]) s)"
  by (simp add: replace_def replace_fuel_char)

subsection \<open>Splitting and joining\<close>

text \<open>\<open>s.split(c)\<close> for a one-character separator: always at least one piece.\<close>

fun split_on :: "char \<Rightarrow> string \<Rightarrow> string list" where
  "split_on sep [] = [[]]"
| "split_on sep (c # s) =
     (if c = sep then [] # split_on sep s
      else (case split_on sep s of [] \<Rightarrow> [[c]] | w # ws \<Rightarrow> (c # w) # ws))"

text \<open>\<open>sep.join(ws)\<close>.\<close>

fun join :: "string \<Rightarrow> string list \<Rightarrow> string" where
  "join sep [] = []"
| "join sep [w] = w"
| "join sep (w # v # ws) = w @ sep @ join sep (v # ws)"

lemma split_on_nonempty [simp]: "split_on sep s \<noteq> []"
  by (induction s) (auto split: list.splits)

lemma split_on_no_sep: "sep \<notin> set s \<Longrightarrow> split_on sep s = [s]"
  by (induction s) auto

lemma split_on_append:
  "sep \<notin> set w \<Longrightarrow> split_on sep (w @ sep # s) = w # split_on sep s"
  by (induction w) auto

theorem split_on_join:
  assumes "ws \<noteq> []" and "\<forall>w \<in> set ws. sep \<notin> set w"
  shows "split_on sep (join [sep] ws) = ws"
  using assms
proof (induction "[sep]" ws rule: join.induct)
  case (2 w)
  then show ?case by (simp add: split_on_no_sep)
next
  case (3 w v ws)
  then show ?case by (simp add: split_on_append)
qed simp

lemma split_on_pieces: "w \<in> set (split_on sep s) \<Longrightarrow> sep \<notin> set w"
  by (induction s arbitrary: w) (auto split: if_splits list.splits)

lemma join_split_on: "join [sep] (split_on sep s) = s"
proof (induction s)
  case (Cons c s)
  obtain w ws where ws: "split_on sep s = w # ws"
    by (meson list.exhaust split_on_nonempty)
  show ?case
  proof (cases "c = sep")
    case True
    with ws Cons.IH show ?thesis by simp
  next
    case False
    with ws Cons.IH show ?thesis by (cases ws) simp_all
  qed
qed simp

text \<open>\<open>s.split(sep)\<close> for a longer separator.\<close>

fun split_str_fuel :: "nat \<Rightarrow> string \<Rightarrow> string \<Rightarrow> string \<Rightarrow> string list" where
  "split_str_fuel 0 sep acc s = [rev acc @ s]"
| "split_str_fuel (Suc n) sep acc [] = [rev acc]"
| "split_str_fuel (Suc n) sep acc (c # s) =
     (if starts_with sep (c # s)
      then rev acc # split_str_fuel n sep [] (drop (length sep) (c # s))
      else split_str_fuel n sep (c # acc) s)"

definition split_str :: "string \<Rightarrow> string \<Rightarrow> string list" where
  "split_str sep s = split_str_fuel (length s) sep [] s"

text \<open>\<open>s.split(sep, 1)\<close>.\<close>

fun split_first :: "char \<Rightarrow> string \<Rightarrow> string list" where
  "split_first sep [] = [[]]"
| "split_first sep (c # s) =
     (if c = sep then [[], s]
      else (case split_first sep s of [] \<Rightarrow> [[c]] | w # ws \<Rightarrow> (c # w) # ws))"

text \<open>\<open>s.split()\<close>: the maximal runs of non-space characters.\<close>

fun split_ws_acc :: "string \<Rightarrow> string \<Rightarrow> string list" where
  "split_ws_acc acc [] = (if acc = [] then [] else [rev acc])"
| "split_ws_acc acc (c # s) =
     (if is_ws c then (if acc = [] then split_ws_acc [] s else rev acc # split_ws_acc [] s)
      else split_ws_acc (c # acc) s)"

definition split_ws :: "string \<Rightarrow> string list" where
  "split_ws s = split_ws_acc [] s"

lemma split_ws_acc_word:
  "list_all (\<lambda>c. \<not> is_ws c) w \<Longrightarrow> split_ws_acc acc (w @ s) = split_ws_acc (rev w @ acc) s"
  by (induction w arbitrary: acc) auto

lemma is_ws_space [simp]: "is_ws CHR '' ''"
  by (simp add: is_ws_def)

lemma is_ws_newline [simp]: "is_ws newline"
  by (simp add: is_ws_def)

lemma split_ws_acc_snoc: "is_ws c \<Longrightarrow> split_ws_acc acc (s @ [c]) = split_ws_acc acc s"
  by (induction s arbitrary: acc) auto

lemma split_ws_snoc: "is_ws c \<Longrightarrow> split_ws (s @ [c]) = split_ws s"
  by (simp add: split_ws_def split_ws_acc_snoc)

lemma split_ws_lead: "is_ws c \<Longrightarrow> split_ws (c # s) = split_ws s"
  by (simp add: split_ws_def)

lemma split_ws_word:
  "list_all (\<lambda>c. \<not> is_ws c) w \<Longrightarrow> w \<noteq> [] \<Longrightarrow> is_ws c \<Longrightarrow> split_ws (w @ c # s) = w # split_ws s"
  by (simp add: split_ws_def split_ws_acc_word)

theorem split_ws_join:
  assumes "\<forall>w \<in> set ws. w \<noteq> [] \<and> list_all (\<lambda>c. \<not> is_ws c) w"
  shows "split_ws (join '' '' ws) = ws"
  using assms
proof (induction "'' ''" ws rule: join.induct)
  case 1
  then show ?case by (simp add: split_ws_def)
next
  case (2 w)
  then show ?case using split_ws_acc_word [of w "[]" "[]"] by (simp add: split_ws_def)
next
  case (3 w v ws)
  then show ?case
    using split_ws_acc_word [of w "[]" "CHR '' '' # join '' '' (v # ws)"]
    by (simp add: split_ws_def)
qed

text \<open>\<open>s.splitlines()\<close>: no empty last line for a text that ends in a line boundary.\<close>

definition is_line_end :: "char \<Rightarrow> bool" where
  "is_line_end c \<longleftrightarrow> (10 \<le> code c \<and> code c \<le> 13) \<or> (28 \<le> code c \<and> code c \<le> 30) \<or> code c = 133"

fun splitlines_acc :: "string \<Rightarrow> string \<Rightarrow> string list" where
  "splitlines_acc acc [] = (if acc = [] then [] else [rev acc])"
| "splitlines_acc acc (c # s) =
     (if c = CHR 0x0D then
        (case s of
           c' # s' \<Rightarrow> if c' = newline then rev acc # splitlines_acc [] s'
                      else rev acc # splitlines_acc [] s
         | [] \<Rightarrow> [rev acc])
      else if is_line_end c then rev acc # splitlines_acc [] s
      else splitlines_acc (c # acc) s)"

definition splitlines :: "string \<Rightarrow> string list" where
  "splitlines s = splitlines_acc [] s"

lemma is_line_end_newline [simp]: "is_line_end newline" "is_line_end CHR 0x0D"
  by (simp_all add: is_line_end_def)

lemma splitlines_acc_line:
  "list_all (\<lambda>c. \<not> is_line_end c) l \<Longrightarrow>
     splitlines_acc acc (l @ newline # s) = (rev acc @ l) # splitlines_acc [] s"
  by (induction l arbitrary: acc) auto

lemma splitlines_line:
  "list_all (\<lambda>c. \<not> is_line_end c) l \<Longrightarrow> splitlines (l @ newline # s) = l # splitlines s"
  by (simp add: splitlines_def splitlines_acc_line)

lemma splitlines_Nil [simp]: "splitlines [] = []"
  by (simp add: splitlines_def)

lemma splitlines_lines:
  "list_all (list_all (\<lambda>c. \<not> is_line_end c)) ls \<Longrightarrow>
     splitlines (concat (map (\<lambda>l. l @ [newline]) ls)) = ls"
  by (induction ls) (simp_all add: splitlines_line)

subsection \<open>Stripping\<close>

definition lstrip :: "string \<Rightarrow> string" where
  "lstrip s = dropWhile is_ws s"

definition rstrip :: "string \<Rightarrow> string" where
  "rstrip s = rev (dropWhile is_ws (rev s))"

definition strip :: "string \<Rightarrow> string" where
  "strip s = rstrip (lstrip s)"

definition rstrip_chars :: "string \<Rightarrow> string \<Rightarrow> string" where
  "rstrip_chars cs s = rev (dropWhile (\<lambda>c. c \<in> set cs) (rev s))"

lemma dropWhile_head: "s = [] \<or> \<not> P (hd s) \<Longrightarrow> dropWhile P s = s"
  by (cases s) auto

lemma strip_id:
  assumes "s = [] \<or> \<not> is_ws (hd s) \<and> \<not> is_ws (last s)"
  shows "strip s = s"
  using assms by (auto simp: strip_def lstrip_def rstrip_def dropWhile_head hd_rev)

lemma strip_no_ws: "list_all (\<lambda>c. \<not> is_ws c) s \<Longrightarrow> strip s = s"
  by (rule strip_id) (cases s; auto simp: list_all_iff)

lemma rstrip_chars_last:
  "rstrip_chars cs s = [] \<or> last (rstrip_chars cs s) \<notin> set cs"
  by (metis hd_dropWhile last_rev rev_is_Nil_conv rstrip_chars_def)

end
