(* ===== verification/Numerals.thy ===== *)
theory Numerals
  imports PyString
begin

section \<open>Numbers as text\<close>

text \<open>
  \<open>str(n)\<close> and the f-string \<open>{n}\<close> of an integer, \<open>int(s)\<close> and \<open>int(s, base=16)\<close> with the
  whitespace, sign and underscores Python accepts, and the zero-padded form
  \<open>{n:0{width}d}\<close>.  The lemmas at the end show that reading what was printed gives the
  number back.
\<close>

subsection \<open>Digits\<close>

definition digit_char :: "nat \<Rightarrow> char" where
  "digit_char d = ''0123456789abcdef'' ! d"

text \<open>The value of a digit in bases up to 16, either case of the letters.\<close>

definition digit_val :: "char \<Rightarrow> nat option" where
  "digit_val c =
     (if is_digit c then Some (code c - 48)
      else if 97 \<le> code c \<and> code c \<le> 102 then Some (code c - 87)
      else if 65 \<le> code c \<and> code c \<le> 70 then Some (code c - 55)
      else None)"

definition digit_in :: "nat \<Rightarrow> char \<Rightarrow> bool" where
  "digit_in b c = (case digit_val c of None \<Rightarrow> False | Some d \<Rightarrow> d < b)"

lemma digit_val_digit_char: "d < 16 \<Longrightarrow> digit_val (digit_char d) = Some d"
proof -
  assume "d < 16"
  then have "d = 0 \<or> d = 1 \<or> d = 2 \<or> d = 3 \<or> d = 4 \<or> d = 5 \<or> d = 6 \<or> d = 7 \<or>
      d = 8 \<or> d = 9 \<or> d = 10 \<or> d = 11 \<or> d = 12 \<or> d = 13 \<or> d = 14 \<or> d = 15"
    by presburger
  then show ?thesis by (elim disjE) (simp_all add: digit_char_def digit_val_def is_digit_def)
qed

lemma digit_in_digit_char: "d < b \<Longrightarrow> b \<le> 16 \<Longrightarrow> digit_in b (digit_char d)"
  by (simp add: digit_in_def digit_val_digit_char)

lemma digit_in_10: "digit_in 10 = is_digit"
  by (rule ext) (auto simp: digit_in_def digit_val_def is_digit_def)

lemma is_digit_digit_char [simp]: "d < 10 \<Longrightarrow> is_digit (digit_char d)"
  using digit_in_digit_char [of d 10] by (simp add: digit_in_10)

lemma digit_not_ws: "digit_in b c \<Longrightarrow> \<not> is_ws c"
  by (auto simp: digit_in_def digit_val_def is_digit_def is_ws_def split: if_splits)

lemma is_digit_not_ws: "is_digit c \<Longrightarrow> \<not> is_ws c"
  using digit_not_ws [of 10 c] by (simp add: digit_in_10)

subsection \<open>Printing\<close>

fun show_base :: "nat \<Rightarrow> nat \<Rightarrow> string" where
  "show_base b n =
     (if b < 2 \<or> n < b then [digit_char n] else show_base b (n div b) @ [digit_char (n mod b)])"

declare show_base.simps [simp del]

definition show_nat :: "nat \<Rightarrow> string" where
  "show_nat n = show_base 10 n"

definition show_int :: "int \<Rightarrow> string" where
  "show_int i = (if i < 0 then CHR ''-'' # show_nat (nat (- i)) else show_nat (nat i))"

definition show_padded :: "nat \<Rightarrow> nat \<Rightarrow> string" where
  "show_padded width n = (let s = show_nat n in replicate (width - length s) CHR ''0'' @ s)"

lemma show_base_nonempty [simp]: "show_base b n \<noteq> []"
  by (subst show_base.simps) simp

lemma show_nat_nonempty [simp]: "show_nat n \<noteq> []"
  by (simp add: show_nat_def)

lemma show_base_digits: "2 \<le> b \<Longrightarrow> b \<le> 16 \<Longrightarrow> list_all (digit_in b) (show_base b n)"
proof (induction b n rule: show_base.induct)
  case (1 b n)
  show ?case
  proof (cases "n < b")
    case True
    then show ?thesis using 1(3) by (subst show_base.simps) (simp add: digit_in_digit_char)
  next
    case False
    then have "list_all (digit_in b) (show_base b (n div b))" using 1 by simp
    then show ?thesis using 1(2,3)
      by (subst show_base.simps) (simp add: digit_in_digit_char)
  qed
qed

lemma show_nat_digits: "list_all is_digit (show_nat n)"
  using show_base_digits [of 10 n] by (simp add: show_nat_def digit_in_10 list_all_iff)

lemma show_nat_no_ws: "list_all (\<lambda>c. \<not> is_ws c) (show_nat n)"
  using show_nat_digits [of n] by (auto simp: list_all_iff is_digit_not_ws)

lemma show_nat_set: "c \<in> set (show_nat n) \<Longrightarrow> is_digit c"
  using show_nat_digits [of n] by (auto simp: list_all_iff)

lemma show_nat_hd_digit: "is_digit (hd (show_nat n))"
  by (rule show_nat_set [of _ n]) simp

lemma show_nat_small: "n < 10 \<Longrightarrow> show_nat n = [digit_char n]"
  unfolding show_nat_def by (subst show_base.simps) simp

subsection \<open>Reading\<close>

fun read_base :: "nat \<Rightarrow> nat \<Rightarrow> string \<Rightarrow> nat" where
  "read_base b acc [] = acc"
| "read_base b acc (c # s) =
     read_base b (case digit_val c of None \<Rightarrow> acc | Some d \<Rightarrow> b * acc + d) s"

text \<open>Digits, with single underscores between them.\<close>

fun int_body :: "nat \<Rightarrow> string \<Rightarrow> bool" where
  "int_body b [] = False"
| "int_body b [c] = digit_in b c"
| "int_body b (c # d # s) =
     (digit_in b c \<and> (if d = CHR ''_'' then int_body b s else int_body b (d # s)))"

definition split_sign :: "string \<Rightarrow> bool \<times> string" where
  "split_sign s =
     (case s of [] \<Rightarrow> (False, [])
      | c # t \<Rightarrow> if c = CHR ''-'' then (True, t) else if c = CHR ''+'' then (False, t)
                else (False, s))"

definition drop_0x :: "string \<Rightarrow> string" where
  "drop_0x s =
     (if starts_with ''0x'' s \<or> starts_with ''0X'' s
      then (let t = drop 2 s in if starts_with ''_'' t then drop 1 t else t) else s)"

definition int_of_sign :: "bool \<Rightarrow> nat \<Rightarrow> int" where
  "int_of_sign neg n = (if neg then - int n else int n)"

text \<open>\<open>int(s)\<close> and \<open>int(s, base=16)\<close>.\<close>

definition py_int :: "string \<Rightarrow> int res" where
  "py_int s =
     (case split_sign (strip s) of (neg, t) \<Rightarrow>
        if int_body 10 t then Inr (int_of_sign neg (read_base 10 0 t)) else raise ValueError [])"

definition py_int16 :: "string \<Rightarrow> int res" where
  "py_int16 s =
     (case split_sign (strip s) of (neg, u) \<Rightarrow>
        let t = drop_0x u in
        if int_body 16 t then Inr (int_of_sign neg (read_base 16 0 t)) else raise ValueError [])"

lemma int_body_digits: "s \<noteq> [] \<Longrightarrow> list_all (digit_in b) s \<Longrightarrow> int_body b s"
proof (induction b s rule: int_body.induct)
  case (3 b c d s)
  from 3(4) have c: "digit_in b c" and d: "digit_in b d" by simp_all
  then have "d \<noteq> CHR ''_''" by (auto simp: digit_in_def digit_val_def is_digit_def)
  then show ?case using 3 c by simp
qed simp_all

lemma read_base_append: "read_base b acc (s @ t) = read_base b (read_base b acc s) t"
  by (induction b acc s rule: read_base.induct) auto

lemma read_show_base: "2 \<le> b \<Longrightarrow> b \<le> 16 \<Longrightarrow> read_base b 0 (show_base b n) = n"
proof (induction b n rule: show_base.induct)
  case (1 b n)
  show ?case
  proof (cases "n < b")
    case True
    then show ?thesis using 1(3) by (subst show_base.simps) (simp add: digit_val_digit_char)
  next
    case False
    then have IH: "read_base b 0 (show_base b (n div b)) = n div b" using 1 by simp
    have "n mod b < b" using 1(2) by simp
    then have "n mod b < 16" using 1(3) by linarith
    with IH False 1(2) show ?thesis
      by (subst show_base.simps) (simp add: read_base_append digit_val_digit_char)
  qed
qed

lemma read_show_nat [simp]: "read_base 10 0 (show_nat n) = n"
  by (simp add: show_nat_def read_show_base)

lemma read_base_zeros: "read_base b 0 (replicate k CHR ''0'' @ s) = read_base b 0 s"
  by (induction k) (simp_all add: digit_val_def is_digit_def)

lemma split_sign_digit: "s \<noteq> [] \<Longrightarrow> digit_in b (hd s) \<Longrightarrow> split_sign s = (False, s)"
  by (cases s) (auto simp: split_sign_def digit_in_def digit_val_def is_digit_def)

lemma py_int_digits:
  assumes "s \<noteq> []" and "list_all is_digit s"
  shows "py_int s = Inr (int (read_base 10 0 s))"
proof -
  have d: "list_all (digit_in 10) s" using assms(2) by (simp add: digit_in_10)
  then have "list_all (\<lambda>c. \<not> is_ws c) s" by (auto simp: list_all_iff digit_not_ws)
  then have "strip s = s" by (rule strip_no_ws)
  moreover have "split_sign s = (False, s)"
    using assms d by (cases s) (auto intro!: split_sign_digit)
  ultimately show ?thesis
    using int_body_digits [OF assms(1) d] by (simp add: py_int_def int_of_sign_def)
qed

theorem py_int_show_nat [simp]: "py_int (show_nat n) = Inr (int n)"
  by (simp add: py_int_digits show_nat_digits)

theorem py_int_show_int [simp]: "py_int (show_int i) = Inr i"
proof (cases "i < 0")
  case True
  let ?d = "show_nat (nat (- i))"
  have d: "list_all (digit_in 10) ?d" using show_nat_digits by (simp add: digit_in_10)
  have "list_all (\<lambda>c. \<not> is_ws c) (CHR ''-'' # ?d)"
    using show_nat_no_ws by (simp add: is_ws_def)
  then have "strip (CHR ''-'' # ?d) = CHR ''-'' # ?d" by (rule strip_no_ws)
  then show ?thesis using True int_body_digits [OF _ d]
    by (simp add: py_int_def show_int_def split_sign_def int_of_sign_def)
next
  case False
  then show ?thesis by (simp add: show_int_def)
qed

theorem py_int16_show: "py_int16 (show_base 16 n) = Inr (int n)"
proof -
  let ?s = "show_base 16 n"
  have d: "list_all (digit_in 16) ?s" by (simp add: show_base_digits)
  have x: "\<not> digit_in 16 CHR ''x''" "\<not> digit_in 16 CHR ''X''"
    by (simp_all add: digit_in_def digit_val_def is_digit_def)
  have "strip ?s = ?s" using d by (intro strip_no_ws) (auto simp: list_all_iff digit_not_ws)
  moreover have "split_sign ?s = (False, ?s)"
    using d show_base_nonempty [of 16 n] by (cases ?s) (auto intro!: split_sign_digit)
  moreover have "drop_0x ?s = ?s"
    using d x by (auto simp: drop_0x_def starts_with_iff list_all_iff)
  ultimately show ?thesis using int_body_digits [OF _ d]
    by (simp add: py_int16_def int_of_sign_def read_show_base)
qed

theorem py_int_show_padded: "py_int (show_padded w n) = Inr (int n)"
proof -
  have "list_all is_digit (show_padded w n)"
    using show_nat_digits [of n] by (auto simp: show_padded_def Let_def list_all_iff is_digit_def)
  moreover have "show_padded w n \<noteq> []" by (simp add: show_padded_def Let_def)
  ultimately show ?thesis
    by (simp add: py_int_digits) (simp add: show_padded_def Let_def read_base_zeros)
qed

lemma show_nat_inj [simp]: "show_nat m = show_nat n \<longleftrightarrow> m = n"
  by (metis read_show_nat)

lemma show_int_inj [simp]: "show_int i = show_int j \<longleftrightarrow> i = j"
  by (metis py_int_show_int sum.inject(2))

text \<open>Two digits: the \<open>%02d\<close> of clock times.\<close>

definition show2 :: "nat \<Rightarrow> string" where
  "show2 n = [digit_char (n div 10), digit_char (n mod 10)]"

lemma show2_digits: "n < 100 \<Longrightarrow> list_all is_digit (show2 n)"
  by (simp add: show2_def)

lemma digit_val_small: "d < 10 \<Longrightarrow> digit_val (digit_char d) = Some d"
  by (simp add: digit_val_digit_char)

lemma py_int_show2: "n < 100 \<Longrightarrow> py_int (show2 n) = Inr (int n)"
  by (subst py_int_digits) (simp_all add: show2_def digit_val_small)

end
