(* ===== verification/Regex.thy ===== *)
theory Regex
  imports PyString
begin

section \<open>Python regular expressions\<close>

text \<open>
  A backtracking matcher for the constructs of Python's \<open>re\<close> the code uses: characters
  by class, sequence, ordered choice, the greedy star, numbered groups, the anchors
  \<open>^\<close> (also in multi-line mode) and \<open>$\<close>, the word boundary \<open>\b\<close> and a literal
  look-ahead.  The matcher is in continuation style: \<open>rmatch r k s\<close> tries the ways \<open>r\<close>
  matches at \<open>s\<close> in Python's order of preference and returns the first result the
  continuation \<open>k\<close> accepts, so alternatives and stars backtrack exactly as in \<open>re\<close>.

  A position is the reversed text before it, the text after it and the groups captured
  so far.  The star repeats its body at most as often as there are characters left, which
  is enough because an iteration must consume at least one of them.
\<close>

type_synonym rx_state = "string \<times> string \<times> (nat \<rightharpoonup> string)"

datatype rx =
    REps
  | RChar "char \<Rightarrow> bool"
  | RSeq rx rx
  | RAlt rx rx
  | RStar rx
  | RGroup nat rx
  | RBegin
  | RLineBegin
  | REnd
  | RWordB
  | RAhead string

primrec rstar ::
  "((rx_state \<Rightarrow> 'r option) \<Rightarrow> rx_state \<Rightarrow> 'r option) \<Rightarrow> nat \<Rightarrow>
     (rx_state \<Rightarrow> 'r option) \<Rightarrow> rx_state \<Rightarrow> 'r option" where
  "rstar m 0 k s = k s"
| "rstar m (Suc n) k s =
     (case m (\<lambda>s'. if length (fst (snd s')) < length (fst (snd s)) then rstar m n k s'
                  else None) s of
        None \<Rightarrow> k s | Some x \<Rightarrow> Some x)"

definition word_boundary :: "string \<Rightarrow> string \<Rightarrow> bool" where
  "word_boundary b r \<longleftrightarrow>
     (b \<noteq> [] \<and> is_word (hd b)) \<noteq> (r \<noteq> [] \<and> is_word (hd r))"

primrec rmatch :: "rx \<Rightarrow> (rx_state \<Rightarrow> 'r option) \<Rightarrow> rx_state \<Rightarrow> 'r option" where
  "rmatch REps k s = k s"
| "rmatch (RChar P) k s =
     (case s of (b, r, g) \<Rightarrow>
        (case r of [] \<Rightarrow> None | c # r' \<Rightarrow> if P c then k (c # b, r', g) else None))"
| "rmatch (RSeq r1 r2) k s = rmatch r1 (rmatch r2 k) s"
| "rmatch (RAlt r1 r2) k s =
     (case rmatch r1 k s of None \<Rightarrow> rmatch r2 k s | Some x \<Rightarrow> Some x)"
| "rmatch (RStar r) k s = rstar (rmatch r) (length (fst (snd s))) k s"
| "rmatch (RGroup i r) k s =
     rmatch r (\<lambda>(b, r', g). k (b, r', g(i \<mapsto> rev (take (length b - length (fst s)) b)))) s"
| "rmatch RBegin k s = (if fst s = [] then k s else None)"
| "rmatch RLineBegin k s =
     (case fst s of [] \<Rightarrow> k s | c # _ \<Rightarrow> if c = newline then k s else None)"
| "rmatch REnd k s =
     (if fst (snd s) = [] \<or> fst (snd s) = [newline] then k s else None)"
| "rmatch RWordB k s = (if word_boundary (fst s) (fst (snd s)) then k s else None)"
| "rmatch (RAhead w) k s = (if starts_with w (fst (snd s)) then k s else None)"

text \<open>
  The equations on an explicit position; they leave a matcher that still waits for its
  continuation alone.
\<close>

declare rmatch.simps [simp del]

lemma rmatch_steps [simp]:
  "rmatch REps k (b, r, g) = k (b, r, g)"
  "rmatch (RChar P) k (b, r, g) =
     (case r of [] \<Rightarrow> None | c # r' \<Rightarrow> if P c then k (c # b, r', g) else None)"
  "rmatch (RSeq r1 r2) k (b, r, g) = rmatch r1 (rmatch r2 k) (b, r, g)"
  "rmatch (RAlt r1 r2) k (b, r, g) =
     (case rmatch r1 k (b, r, g) of None \<Rightarrow> rmatch r2 k (b, r, g) | Some x \<Rightarrow> Some x)"
  "rmatch (RStar r1) k (b, r, g) = rstar (rmatch r1) (length r) k (b, r, g)"
  "rmatch (RGroup i r1) k (b, r, g) =
     rmatch r1 (\<lambda>(b', r', g'). k (b', r', g'(i \<mapsto> rev (take (length b' - length b) b')))) (b, r, g)"
  "rmatch RBegin k (b, r, g) = (if b = [] then k (b, r, g) else None)"
  "rmatch RLineBegin k (b, r, g) =
     (case b of [] \<Rightarrow> k (b, r, g) | c # _ \<Rightarrow> if c = newline then k (b, r, g) else None)"
  "rmatch REnd k (b, r, g) = (if r = [] \<or> r = [newline] then k (b, r, g) else None)"
  "rmatch RWordB k (b, r, g) = (if word_boundary b r then k (b, r, g) else None)"
  "rmatch (RAhead w) k (b, r, g) = (if starts_with w r then k (b, r, g) else None)"
  by (simp_all add: rmatch.simps)

subsection \<open>Derived forms\<close>

definition rlit :: "string \<Rightarrow> rx" where
  "rlit w = foldr (\<lambda>c r. RSeq (RChar (\<lambda>x. x = c)) r) w REps"

definition rlit_ci :: "string \<Rightarrow> rx" where
  "rlit_ci w = foldr (\<lambda>c r. RSeq (RChar (\<lambda>x. lower_char x = lower_char c)) r) w REps"

definition rplus :: "rx \<Rightarrow> rx" where
  "rplus r = RSeq r (RStar r)"

fun rrep :: "nat \<Rightarrow> rx \<Rightarrow> rx" where
  "rrep 0 r = REps"
| "rrep (Suc n) r = RSeq r (rrep n r)"

definition rseqs :: "rx list \<Rightarrow> rx" where
  "rseqs rs = foldr RSeq rs REps"

definition ralts :: "rx \<Rightarrow> rx list \<Rightarrow> rx" where
  "ralts r rs = foldl RAlt r rs"

abbreviation r_digit :: rx where
  "r_digit \<equiv> RChar is_digit"

abbreviation r_ws :: rx where
  "r_ws \<equiv> RChar is_ws"

abbreviation r_nonws :: rx where
  "r_nonws \<equiv> RChar (\<lambda>c. \<not> is_ws c)"

abbreviation r_dot :: rx where
  "r_dot \<equiv> RChar (\<lambda>c. c \<noteq> newline)"

subsection \<open>The entry points of \<open>re\<close>\<close>

definition re_match :: "rx \<Rightarrow> string \<Rightarrow> rx_state option" where
  "re_match r s = rmatch r Some ([], s, Map.empty)"

definition re_fullmatch :: "rx \<Rightarrow> string \<Rightarrow> rx_state option" where
  "re_fullmatch r s =
     rmatch r (\<lambda>st. if fst (snd st) = [] then Some st else None) ([], s, Map.empty)"

fun re_search_from :: "rx \<Rightarrow> string \<Rightarrow> string \<Rightarrow> rx_state option" where
  "re_search_from r b [] = rmatch r Some (b, [], Map.empty)"
| "re_search_from r b (c # s) =
     (case rmatch r Some (b, c # s, Map.empty) of
        Some m \<Rightarrow> Some m | None \<Rightarrow> re_search_from r (c # b) s)"

definition re_search :: "rx \<Rightarrow> string \<Rightarrow> rx_state option" where
  "re_search r s = re_search_from r [] s"

text \<open>\<open>m.group(i)\<close>.\<close>

definition m_group :: "rx_state \<Rightarrow> nat \<Rightarrow> string option" where
  "m_group m i = snd (snd m) i"

text \<open>
  \<open>re.finditer\<close>: the matches from left to right, each with its start, its end and its
  groups.  No pattern of the code matches the empty text.
\<close>

type_synonym rx_span = "nat \<times> nat \<times> (nat \<rightharpoonup> string)"

fun re_iter :: "nat \<Rightarrow> rx \<Rightarrow> string \<Rightarrow> string \<Rightarrow> rx_span list" where
  "re_iter 0 r b s = []"
| "re_iter (Suc n) r b s =
     (case rmatch r Some (b, s, Map.empty) of
        Some (b', s', g) \<Rightarrow>
          (length b, length b', g) #
            (if length b < length b' then re_iter n r b' s'
             else (case s of [] \<Rightarrow> [] | c # cs \<Rightarrow> re_iter n r (c # b) cs))
      | None \<Rightarrow> (case s of [] \<Rightarrow> [] | c # cs \<Rightarrow> re_iter n r (c # b) cs))"

definition re_finditer :: "rx \<Rightarrow> string \<Rightarrow> rx_span list" where
  "re_finditer r s = re_iter (Suc (length s)) r [] s"

text \<open>\<open>re.split\<close>: the texts between the matches, with the listed groups in between.\<close>

fun split_spans :: "nat list \<Rightarrow> string \<Rightarrow> nat \<Rightarrow> rx_span list \<Rightarrow> string list" where
  "split_spans gs s p [] = [drop p s]"
| "split_spans gs s p ((i, j, g) # ms) =
     take (i - p) (drop p s) # map (\<lambda>n. case g n of None \<Rightarrow> [] | Some t \<Rightarrow> t) gs
       @ split_spans gs s j ms"

definition re_split :: "nat list \<Rightarrow> rx \<Rightarrow> string \<Rightarrow> string list" where
  "re_split gs r s = split_spans gs s 0 (re_finditer r s)"

text \<open>\<open>re.sub(r, \<open>''\<close>, s)\<close>: the text without its matches.\<close>

definition re_remove :: "rx \<Rightarrow> string \<Rightarrow> string" where
  "re_remove r s = concat (split_spans [] s 0 (re_finditer r s))"

subsection \<open>Stepping through a match\<close>

named_theorems rx_simps \<open>one step of the matcher on a text that begins with known pieces\<close>

lemma rmatch_lit [rx_simps]:
  "rmatch (rlit w) k (b, w @ t, g) = k (rev w @ b, t, g)"
  by (induction w arbitrary: b) (simp_all add: rlit_def)

lemma rmatch_lit_iff:
  "rmatch (rlit w) k (b, s, g) =
     (if starts_with w s then k (rev w @ b, drop (length w) s, g) else None)"
proof (induction w arbitrary: b s)
  case Nil
  then show ?case by (simp add: rlit_def)
next
  case (Cons c w)
  then show ?case by (cases s) (auto simp: rlit_def)
qed

lemma rmatch_rplus [rx_simps]:
  "rmatch (rplus r) k (b, s, g) = rmatch r (rmatch (RStar r) k) (b, s, g)"
  by (simp add: rplus_def)

lemma rmatch_rseqs [rx_simps]:
  "rmatch (rseqs []) k (b, s, g) = k (b, s, g)"
  "rmatch (rseqs (r # rs)) k (b, s, g) = rmatch r (rmatch (rseqs rs) k) (b, s, g)"
  by (simp_all add: rseqs_def)

text \<open>
  A greedy run over one character class stops at the first character outside it; if the
  continuation succeeds there, that is the result, whatever shorter runs would give.
\<close>

lemma rstar_class_run:
  assumes "list_all P xs" and "ys = [] \<or> \<not> P (hd ys)" and "length xs \<le> n"
    and "k (rev xs @ b, ys, g) = Some r"
  shows "rstar (rmatch (RChar P)) n k (b, xs @ ys, g) = Some r"
  using assms
proof (induction xs arbitrary: b n)
  case Nil
  then show ?case by (cases n; cases ys) auto
next
  case (Cons x xs)
  then obtain m where n: "n = Suc m" "length xs \<le> m" by (cases n) auto
  have "rstar (rmatch (RChar P)) m k (x # b, xs @ ys, g) = Some r"
    using Cons n by simp
  with Cons.prems(1) n show ?case by simp
qed

lemma rmatch_star_class:
  assumes "list_all P xs" and "ys = [] \<or> \<not> P (hd ys)"
    and "k (rev xs @ b, ys, g) = Some r"
  shows "rmatch (RStar (RChar P)) k (b, xs @ ys, g) = Some r"
proof -
  have "rstar (rmatch (RChar P)) (length (xs @ ys)) k (b, xs @ ys, g) = Some r"
    by (rule rstar_class_run [OF assms(1,2)]) (use assms(3) in simp_all)
  then show ?thesis by simp
qed

lemma rmatch_plus_class:
  assumes "list_all P xs" and "xs \<noteq> []" and "ys = [] \<or> \<not> P (hd ys)"
    and "k (rev xs @ b, ys, g) = Some r"
  shows "rmatch (rplus (RChar P)) k (b, xs @ ys, g) = Some r"
proof -
  obtain x xs' where xs: "xs = x # xs'" using assms(2) by (cases xs) auto
  have "rmatch (RStar (RChar P)) k (x # b, xs' @ ys, g) = Some r"
    by (rule rmatch_star_class) (use assms xs in simp_all)
  then show ?thesis using assms(1) xs by (simp add: rplus_def)
qed

lemma rmatch_group_apply [rx_simps]:
  "rmatch (RGroup i r) k (b, s, g) =
     rmatch r (\<lambda>(b', r', g'). k (b', r', g'(i \<mapsto> rev (take (length b' - length b) b')))) (b, s, g)"
  by simp

lemma rmatch_group_plus_class:
  assumes "list_all P xs" and "xs \<noteq> []" and "ys = [] \<or> \<not> P (hd ys)"
    and "k (rev xs @ b, ys, g(i \<mapsto> xs)) = Some r"
  shows "rmatch (RGroup i (rplus (RChar P))) k (b, xs @ ys, g) = Some r"
  unfolding rmatch_group_apply
  by (rule rmatch_plus_class) (use assms in simp_all)

lemma rmatch_group_star_class:
  assumes "list_all P xs" and "ys = [] \<or> \<not> P (hd ys)"
    and "k (rev xs @ b, ys, g(i \<mapsto> xs)) = Some r"
  shows "rmatch (RGroup i (RStar (RChar P))) k (b, xs @ ys, g) = Some r"
  unfolding rmatch_group_apply
  by (rule rmatch_star_class) (use assms in simp_all)

text \<open>
  The same for a sequence of patterns, to be chained by \<open>intro rx_run\<close>: each rule reads one
  piece of the text and leaves the side conditions on it.
\<close>

lemma rseqs_plus:
  assumes "list_all P xs" and "xs \<noteq> []" and "ys = [] \<or> \<not> P (hd ys)"
    and "rmatch (rseqs rs) k (rev xs @ b, ys, g) = Some r"
  shows "rmatch (rseqs (rplus (RChar P) # rs)) k (b, xs @ ys, g) = Some r"
  unfolding rmatch_rseqs(2) by (rule rmatch_plus_class) (use assms in simp_all)

lemma rseqs_group_plus:
  assumes "list_all P xs" and "xs \<noteq> []" and "ys = [] \<or> \<not> P (hd ys)"
    and "rmatch (rseqs rs) k (rev xs @ b, ys, g(i \<mapsto> xs)) = Some r"
  shows "rmatch (rseqs (RGroup i (rplus (RChar P)) # rs)) k (b, xs @ ys, g) = Some r"
  unfolding rmatch_rseqs(2) by (rule rmatch_group_plus_class) (use assms in simp_all)

lemma rseqs_group_char:
  assumes "P c" and "rmatch (rseqs rs) k (c # b, ys, g(i \<mapsto> [c])) = Some r"
  shows "rmatch (rseqs (RGroup i (RChar P) # rs)) k (b, c # ys, g) = Some r"
  using assms by (simp add: rx_simps)

lemma rseqs_begin:
  "rmatch (rseqs rs) k ([], s, g) = Some r \<Longrightarrow> rmatch (rseqs (RBegin # rs)) k ([], s, g) = Some r"
  by (simp add: rx_simps)

lemma rseqs_lit:
  "rmatch (rseqs rs) k (rev w @ b, s, g) = Some r \<Longrightarrow> rmatch (rseqs (rlit w # rs)) k (b, w @ s, g) = Some r"
  by (simp add: rx_simps)

lemma rseqs_end: "k (b, [], g) = Some r \<Longrightarrow> rmatch (rseqs [REnd]) k (b, [], g) = Some r"
  by (simp add: rx_simps)

lemma rseqs_Nil: "k (b, s, g) = Some r \<Longrightarrow> rmatch (rseqs []) k (b, s, g) = Some r"
  by (simp add: rx_simps)

lemmas rx_run = rseqs_begin rseqs_lit rseqs_group_char rseqs_group_plus rseqs_plus rseqs_end rseqs_Nil

text \<open>When a pattern cannot start at a position, the search moves on.\<close>

lemma re_search_from_here:
  "rmatch r Some (b, s, Map.empty) = Some m \<Longrightarrow> re_search_from r b s = Some m"
  by (cases s) simp_all

lemma re_search_from_skip:
  assumes "\<And>b' s'. length s < length s' \<Longrightarrow> length s' \<le> length (p @ s) \<Longrightarrow>
      rev b' @ s' = rev b @ p @ s \<Longrightarrow> rmatch r Some (b', s', Map.empty) = None"
  shows "re_search_from r b (p @ s) = re_search_from r (rev p @ b) s"
  using assms
proof (induction p arbitrary: b)
  case Nil
  then show ?case by simp
next
  case (Cons c p)
  have "rmatch r Some (b, c # p @ s, Map.empty) = None"
    by (rule Cons.prems) simp_all
  moreover have "re_search_from r (c # b) (p @ s) = re_search_from r (rev p @ c # b) s"
    by (rule Cons.IH, rule Cons.prems) simp_all
  ultimately show ?case by simp
qed

text \<open>
  The language of a pattern, forgetting its anchors: what a match consumes is a word of it.
\<close>

primrec rx_lang :: "rx \<Rightarrow> string set" where
  "rx_lang REps = {[]}"
| "rx_lang (RChar P) = {[c] | c. P c}"
| "rx_lang (RSeq r1 r2) = {u @ v | u v. u \<in> rx_lang r1 \<and> v \<in> rx_lang r2}"
| "rx_lang (RAlt r1 r2) = rx_lang r1 \<union> rx_lang r2"
| "rx_lang (RStar r) = {concat us | us. set us \<subseteq> rx_lang r}"
| "rx_lang (RGroup i r) = rx_lang r"
| "rx_lang RBegin = {[]}"
| "rx_lang RLineBegin = {[]}"
| "rx_lang REnd = {[]}"
| "rx_lang RWordB = {[]}"
| "rx_lang (RAhead w) = {[]}"

definition rx_eats :: "string set \<Rightarrow> rx_state \<Rightarrow> rx_state \<Rightarrow> bool" where
  "rx_eats L s s' \<longleftrightarrow> (\<exists>u \<in> L. fst (snd s) = u @ fst (snd s') \<and> fst s' = rev u @ fst s)"

lemma rx_eats_append:
  assumes "rx_eats L s t" and "rx_eats M t u"
  shows "rx_eats {v @ w | v w. v \<in> L \<and> w \<in> M} s u"
proof -
  obtain v w where "v \<in> L" "fst (snd s) = v @ fst (snd t)" "fst t = rev v @ fst s"
    "w \<in> M" "fst (snd t) = w @ fst (snd u)" "fst u = rev w @ fst t"
    using assms by (auto simp: rx_eats_def)
  then show ?thesis unfolding rx_eats_def by (intro bexI [of _ "v @ w"]) auto
qed

lemma rx_eats_mono: "rx_eats L s t \<Longrightarrow> L \<subseteq> M \<Longrightarrow> rx_eats M s t"
  by (auto simp: rx_eats_def)

lemma rstar_eats:
  assumes "\<And>k s x. m k s = Some x \<Longrightarrow> \<exists>s'. rx_eats L s s' \<and> k s' = Some x"
    and "rstar m n k s = Some x"
  shows "\<exists>s'. rx_eats {concat us | us. set us \<subseteq> L} s s' \<and> k s' = Some x"
  using assms(2)
proof (induction n arbitrary: s)
  case 0
  then have "k s = Some x" by simp
  moreover have "rx_eats {concat us | us. set us \<subseteq> L} s s"
    unfolding rx_eats_def by (rule bexI [of _ "[]"]) (auto intro!: exI [of _ "[]"])
  ultimately show ?case by blast
next
  case (Suc n)
  show ?case
  proof (cases "m (\<lambda>s'. if length (fst (snd s')) < length (fst (snd s)) then rstar m n k s'
                  else None) s")
    case None
    then have "k s = Some x" using Suc.prems by simp
    moreover have "rx_eats {concat us | us. set us \<subseteq> L} s s"
      unfolding rx_eats_def by (rule bexI [of _ "[]"]) (auto intro!: exI [of _ "[]"])
    ultimately show ?thesis by blast
  next
    case (Some y)
    then obtain s1 where s1: "rx_eats L s s1"
      "(if length (fst (snd s1)) < length (fst (snd s)) then rstar m n k s1 else None) = Some y"
      using assms(1) by blast
    then have "rstar m n k s1 = Some x" using Some Suc.prems by (simp split: if_splits)
    then obtain s2 where s2: "rx_eats {concat us | us. set us \<subseteq> L} s1 s2" "k s2 = Some x"
      using Suc.IH by blast
    from s1(1) obtain u where u: "u \<in> L" "fst (snd s) = u @ fst (snd s1)" "fst s1 = rev u @ fst s"
      by (auto simp: rx_eats_def)
    from s2(1) obtain us where us: "set us \<subseteq> L" "fst (snd s1) = concat us @ fst (snd s2)"
      "fst s2 = rev (concat us) @ fst s1" by (auto simp: rx_eats_def)
    have "rx_eats {concat us | us. set us \<subseteq> L} s s2"
      unfolding rx_eats_def
      by (rule bexI [of _ "concat (u # us)"]) (use u us in \<open>auto intro!: exI [of _ "u # us"]\<close>)
    with s2(2) show ?thesis by blast
  qed
qed

theorem rmatch_eats:
  "rmatch r k s = Some x \<Longrightarrow> \<exists>s'. rx_eats (rx_lang r) s s' \<and> k s' = Some x"
proof (induction r arbitrary: k s x)
  case (RChar P)
  obtain b t g where s: "s = (b, t, g)" by (cases s)
  with RChar obtain c t' where "t = c # t'" "P c" and k: "k (c # b, t', g) = Some x"
    by (auto split: list.splits if_splits)
  then have "rx_eats (rx_lang (RChar P)) s (c # b, t', g)" by (auto simp: rx_eats_def s)
  with k show ?case by blast
next
  case (RSeq r1 r2)
  have "rmatch r1 (rmatch r2 k) s = Some x" using RSeq.prems by (cases s) simp
  then obtain s1 where s1: "rx_eats (rx_lang r1) s s1" "rmatch r2 k s1 = Some x"
    using RSeq.IH(1) by blast
  from RSeq.IH(2) [OF s1(2)] obtain s2 where "rx_eats (rx_lang r2) s1 s2" "k s2 = Some x" by blast
  with rx_eats_append [OF s1(1)] show ?case unfolding rx_lang.simps by blast
next
  case (RAlt r1 r2)
  have "rmatch r1 k s = Some x \<or> rmatch r2 k s = Some x"
    using RAlt.prems by (cases s) (auto split: option.splits)
  then consider (1) "rmatch r1 k s = Some x" | (2) "rmatch r2 k s = Some x" by blast
  then show ?case
  proof cases
    case 1
    from RAlt.IH(1) [OF this] obtain s' where "rx_eats (rx_lang r1) s s'" "k s' = Some x" by blast
    then show ?thesis using rx_eats_mono [of "rx_lang r1" s s' "rx_lang (RAlt r1 r2)"]
      by (intro exI [of _ s']) simp
  next
    case 2
    from RAlt.IH(2) [OF this] obtain s' where "rx_eats (rx_lang r2) s s'" "k s' = Some x" by blast
    then show ?thesis using rx_eats_mono [of "rx_lang r2" s s' "rx_lang (RAlt r1 r2)"]
      by (intro exI [of _ s']) simp
  qed
next
  case (RStar r)
  obtain b t g where s: "s = (b, t, g)" by (cases s)
  from RStar.prems have "rstar (rmatch r) (length t) k s = Some x" by (simp add: s)
  with RStar.IH show ?case unfolding rx_lang.simps by (rule rstar_eats)
next
  case (RGroup i r)
  obtain b t g where s: "s = (b, t, g)" by (cases s)
  from RGroup.prems have "rmatch r (\<lambda>(b', r', g').
      k (b', r', g'(i \<mapsto> rev (take (length b' - length b) b')))) s = Some x" by (simp add: s)
  then obtain s' where "rx_eats (rx_lang r) s s'"
    "(\<lambda>(b', r', g'). k (b', r', g'(i \<mapsto> rev (take (length b' - length b) b')))) s' = Some x"
    using RGroup.IH by blast
  then show ?case by (cases s') (auto simp: rx_eats_def)
qed (auto simp: rmatch.simps rx_eats_def split: if_splits list.splits)

lemma rx_lang_derived [simp]:
  "rx_lang (rplus r) = {u @ v | u v. u \<in> rx_lang r \<and> v \<in> rx_lang (RStar r)}"
  "rx_lang (rseqs []) = {[]}"
  "rx_lang (rseqs (r # rs)) = {u @ v | u v. u \<in> rx_lang r \<and> v \<in> rx_lang (rseqs rs)}"
  by (simp_all add: rplus_def rseqs_def)

lemma rx_lang_star_class: "v \<in> rx_lang (RStar (RChar P)) \<Longrightarrow> list_all P v"
  by (fastforce simp: list_all_iff subset_iff)

lemma rx_lang_plus_class: "v \<in> rx_lang (rplus (RChar P)) \<Longrightarrow> list_all P v \<and> v \<noteq> []"
  using rx_lang_star_class [of _ P] by (auto simp del: rx_lang.simps(5) simp: list_all_iff)

lemma rx_lang_lit: "rx_lang (rlit w) = {w}"
  by (induction w) (auto simp: rlit_def)

lemma re_fullmatch_lang:
  assumes "re_fullmatch r s = Some m"
  shows "s \<in> rx_lang r"
proof -
  from rmatch_eats [OF assms [unfolded re_fullmatch_def]] obtain s' where
    "rx_eats (rx_lang r) ([], s, Map.empty) s'" "fst (snd s') = []" by (auto split: if_splits)
  then show ?thesis by (auto simp: rx_eats_def)
qed

lemma re_match_lang:
  assumes "rmatch r Some (b, s, g) = Some m"
  shows "\<exists>u \<in> rx_lang r. s = u @ fst (snd m) \<and> fst m = rev u @ b"
  using rmatch_eats [OF assms] by (auto simp: rx_eats_def)

text \<open>Every match of a pattern splits the text it was given: nothing is lost or invented.\<close>

theorem re_match_splits:
  "re_match r s = Some (b, t, g) \<Longrightarrow> s = rev b @ t"
  using re_match_lang [of r "[]" s Map.empty "(b, t, g)"] by (auto simp: re_match_def)

end
