(* ===== verification/Shell.thy ===== *)
theory Shell
  imports PyString
begin

section \<open>Quoting for the shell and splitting like a shell\<close>

text \<open>
  Two functions of Python's \<open>shlex\<close> the code calls: \<open>shlex.quote\<close>, which the scheduler
  commands use to build command lines, and \<open>shlex.split\<close>, which the parser of \<open>ls\<close> uses
  to undo C-style quoting.

  The specification side is \<open>sh_tokens\<close>, a deliberately strict reading of a command line
  by a POSIX shell: it returns the words and operators of the line when no expansion of
  any kind can happen, and \<open>None\<close> as soon as an unquoted character could start a parameter
  expansion, a command substitution, a pattern, a redirection or another operator that is
  not one of \<open>&&\<close>, \<open>;\<close>, \<open>|\<close>, \<open>>\<close>.  A theorem \<open>sh_tokens line = Some ts\<close> therefore says
  which program runs and with exactly which arguments, whatever the user's text was.
\<close>

subsection \<open>\<open>shlex.quote\<close>\<close>

definition shlex_safe :: "char \<Rightarrow> bool" where
  "shlex_safe c \<longleftrightarrow> is_ascii_word c \<or> c \<in> set ''@%+=:,./-''"

abbreviation squote :: char where
  "squote \<equiv> CHR 0x27"

abbreviation dquote :: char where
  "dquote \<equiv> CHR 0x22"

definition shlex_quote :: "string \<Rightarrow> string" where
  "shlex_quote s =
     (if s = [] then [squote, squote]
      else if list_all shlex_safe s then s
      else squote # replace s [squote] [squote, dquote, squote, dquote, squote] @ [squote])"

subsection \<open>\<open>shlex.split\<close> in POSIX mode\<close>

text \<open>
  The state of \<open>shlex.read_token\<close>: between words, in a word, inside a quote, or after a
  backslash (with the state to go back to).  \<open>quoted\<close> records that the current token had a
  quote, so that an empty quoted token is still a token.
\<close>

datatype shlex_state = LxStart | LxWord | LxQuote char | LxEscape | LxQuoteEscape char

definition shlex_ws :: "char \<Rightarrow> bool" where
  "shlex_ws c \<longleftrightarrow> c = CHR '' '' \<or> c = CHR 0x09 \<or> c = CHR 0x0D \<or> c = newline"

fun shlex_go :: "shlex_state \<Rightarrow> string \<Rightarrow> bool \<Rightarrow> string \<Rightarrow> string list res" where
  "shlex_go LxStart acc quoted [] = Inr (if acc = [] \<and> \<not> quoted then [] else [rev acc])"
| "shlex_go LxWord acc quoted [] = Inr (if acc = [] \<and> \<not> quoted then [] else [rev acc])"
| "shlex_go (LxQuote q) acc quoted [] = raise ValueError ''No closing quotation''"
| "shlex_go LxEscape acc quoted [] = raise ValueError ''No escaped character''"
| "shlex_go (LxQuoteEscape q) acc quoted [] = raise ValueError ''No escaped character''"
| "shlex_go LxStart acc quoted (c # s) =
     (if shlex_ws c then
        (if acc \<noteq> [] \<or> quoted
         then map_res (\<lambda>ts. rev acc # ts) (shlex_go LxStart [] False s)
         else shlex_go LxStart acc quoted s)
      else if c = CHR 0x5C then shlex_go LxEscape acc quoted s
      else if c = squote \<or> c = dquote then shlex_go (LxQuote c) acc quoted s
      else shlex_go LxWord [c] quoted s)"
| "shlex_go LxWord acc quoted (c # s) =
     (if shlex_ws c then
        (if acc \<noteq> [] \<or> quoted
         then map_res (\<lambda>ts. rev acc # ts) (shlex_go LxStart [] False s)
         else shlex_go LxStart acc quoted s)
      else if c = squote \<or> c = dquote then shlex_go (LxQuote c) acc quoted s
      else if c = CHR 0x5C then shlex_go LxEscape acc quoted s
      else shlex_go LxWord (c # acc) quoted s)"
| "shlex_go (LxQuote q) acc quoted (c # s) =
     (if c = q then shlex_go LxWord acc True s
      else if c = CHR 0x5C \<and> q = dquote then shlex_go (LxQuoteEscape q) acc True s
      else shlex_go (LxQuote q) (c # acc) True s)"
| "shlex_go LxEscape acc quoted (c # s) = shlex_go LxWord (c # acc) quoted s"
| "shlex_go (LxQuoteEscape q) acc quoted (c # s) =
     shlex_go (LxQuote q)
       (if c \<noteq> CHR 0x5C \<and> c \<noteq> q then c # CHR 0x5C # acc else c # acc) quoted s"

definition shlex_split :: "string \<Rightarrow> string list res" where
  "shlex_split s = shlex_go LxStart [] False s"

subsection \<open>The words a POSIX shell sees\<close>

datatype sh_token = ShWord string | ShOp string

datatype sh_mode = ShPlain | ShSingle | ShDouble

definition sh_safe :: "char \<Rightarrow> bool" where
  "sh_safe c \<longleftrightarrow> is_ascii_word c \<or> c \<in> set ''@%+=:,./-''"

definition sh_emit :: "bool \<Rightarrow> string \<Rightarrow> sh_token list \<Rightarrow> sh_token list" where
  "sh_emit inw acc ts = (if inw then ShWord (rev acc) # ts else ts)"

fun sh_scan :: "sh_mode \<Rightarrow> string \<Rightarrow> bool \<Rightarrow> string \<Rightarrow> sh_token list option" where
  "sh_scan ShPlain acc inw [] = Some (sh_emit inw acc [])"
| "sh_scan ShSingle acc inw [] = None"
| "sh_scan ShDouble acc inw [] = None"
| "sh_scan ShPlain acc inw (c # s) =
     (if sh_safe c then sh_scan ShPlain (c # acc) True s
      else if c = CHR '' '' then map_option (sh_emit inw acc) (sh_scan ShPlain [] False s)
      else if c = squote then sh_scan ShSingle acc True s
      else if c = dquote then sh_scan ShDouble acc True s
      else if c = CHR '';'' \<or> c = CHR ''|'' \<or> c = CHR ''>'' then
        map_option (\<lambda>ts. sh_emit inw acc (ShOp [c] # ts)) (sh_scan ShPlain [] False s)
      else if c = CHR ''&'' then
        (case s of [] \<Rightarrow> None
         | d # s' \<Rightarrow> if d = CHR ''&''
             then map_option (\<lambda>ts. sh_emit inw acc (ShOp ''&&'' # ts)) (sh_scan ShPlain [] False s')
             else None)
      else None)"
| "sh_scan ShSingle acc inw (c # s) =
     (if c = squote then sh_scan ShPlain acc inw s else sh_scan ShSingle (c # acc) inw s)"
| "sh_scan ShDouble acc inw (c # s) =
     (if c = dquote then sh_scan ShPlain acc inw s
      else if c = CHR ''$'' \<or> c = CHR 0x60 \<or> c = CHR 0x5C then None
      else sh_scan ShDouble (c # acc) inw s)"

definition sh_tokens :: "string \<Rightarrow> sh_token list option" where
  "sh_tokens s = sh_scan ShPlain [] False s"

subsection \<open>Pieces of a command line\<close>

text \<open>
  \<open>sh_piece w v\<close>: wherever the text \<open>w\<close> stands in a command line, it adds exactly \<open>v\<close> to
  the current word.  \<open>lx_piece\<close> says the same for \<open>shlex.split\<close>.
\<close>

definition sh_piece :: "string \<Rightarrow> string \<Rightarrow> bool" where
  "sh_piece w v \<longleftrightarrow>
     (\<forall>acc inw s. sh_scan ShPlain acc inw (w @ s) = sh_scan ShPlain (rev v @ acc) True s)"

named_theorems sh_intro \<open>the pieces command lines are made of\<close>

lemma sh_pieceD: "sh_piece w v \<Longrightarrow> sh_scan ShPlain acc inw (w @ s) = sh_scan ShPlain (rev v @ acc) True s"
  by (simp add: sh_piece_def)

lemma sh_piece_append [sh_intro]:
  "sh_piece w v \<Longrightarrow> sh_piece w' v' \<Longrightarrow> sh_piece (w @ w') (v @ v')"
  by (simp add: sh_piece_def)

lemma sh_scan_safe:
  "list_all sh_safe w \<Longrightarrow> w \<noteq> [] \<Longrightarrow>
     sh_scan ShPlain acc inw (w @ s) = sh_scan ShPlain (rev w @ acc) True s"
proof (induction w arbitrary: acc inw)
  case (Cons c w)
  then show ?case by (cases w) simp_all
qed simp

lemma sh_piece_safe [sh_intro]: "list_all sh_safe w \<Longrightarrow> w \<noteq> [] \<Longrightarrow> sh_piece w w"
  by (simp add: sh_piece_def sh_scan_safe)

lemma sh_piece_safe_append:
  "list_all sh_safe w \<Longrightarrow> sh_piece u v \<Longrightarrow> sh_piece (w @ u) (w @ v)"
  by (cases "w = []") (simp_all add: sh_piece_append sh_piece_safe)

lemma sh_scan_single:
  "squote \<notin> set w \<Longrightarrow> sh_scan ShSingle acc inw (w @ squote # s) = sh_scan ShPlain (rev w @ acc) inw s"
  by (induction w arbitrary: acc) auto

lemma sh_piece_single [sh_intro]:
  "squote \<notin> set w \<Longrightarrow> sh_piece (squote # w @ [squote]) w"
  by (simp add: sh_piece_def sh_scan_single sh_safe_def is_ascii_word_def is_ascii_letter_def
      is_digit_def)

lemma sh_scan_requote:
  "sh_scan ShSingle acc inw
     (replace s [squote] [squote, dquote, squote, dquote, squote] @ squote # t) =
   sh_scan ShPlain (rev s @ acc) True t"
  if "inw"
  using that
proof (induction s arbitrary: acc)
  case Nil
  then show ?case by (simp add: replace_char)
next
  case (Cons c s)
  then show ?case
    by (simp add: replace_char sh_safe_def is_ascii_word_def is_ascii_letter_def is_digit_def)
qed

theorem sh_piece_quote [sh_intro]: "sh_piece (shlex_quote s) s"
proof -
  consider "s = []" | "s \<noteq> []" "list_all shlex_safe s" | "s \<noteq> []" "\<not> list_all shlex_safe s" by blast
  then show ?thesis
  proof cases
    case 1
    then show ?thesis using sh_piece_single [of "[]"] by (simp add: shlex_quote_def)
  next
    case 2
    then have "list_all sh_safe s" by (simp add: shlex_safe_def sh_safe_def list_all_iff)
    with 2 show ?thesis by (simp add: shlex_quote_def sh_piece_safe)
  next
    case 3
    then show ?thesis
      by (simp add: shlex_quote_def sh_piece_def sh_scan_requote sh_safe_def is_ascii_word_def
          is_ascii_letter_def is_digit_def)
  qed
qed

lemma sh_scan_space:
  "sh_scan ShPlain acc inw (CHR '' '' # s) = map_option (sh_emit inw acc) (sh_scan ShPlain [] False s)"
  by (simp add: sh_safe_def is_ascii_word_def is_ascii_letter_def is_digit_def)

lemma sh_emit_True: "sh_emit True acc = (\<lambda>ts. ShWord (rev acc) # ts)"
  by (rule ext) (simp add: sh_emit_def)

lemma sh_scan_piece_end: "sh_piece w v \<Longrightarrow> sh_scan ShPlain acc inw w = Some [ShWord (rev acc @ v)]"
  using sh_pieceD [of w v acc inw "[]"] by (simp add: sh_emit_def)

lemma sh_scan_piece_space:
  "sh_piece w v \<Longrightarrow>
     sh_scan ShPlain [] False (w @ CHR '' '' # s) =
       map_option (\<lambda>ts. ShWord v # ts) (sh_scan ShPlain [] False s)"
  by (simp add: sh_pieceD sh_scan_space sh_emit_True del: sh_scan.simps)

text \<open>A command line joined from pieces has exactly the words of the pieces.\<close>

theorem sh_tokens_join:
  assumes "list_all2 sh_piece ws vs"
  shows "sh_tokens (join '' '' ws) = Some (map ShWord vs)"
  using assms unfolding sh_tokens_def
proof (induction "'' ''" ws arbitrary: vs rule: join.induct)
  case 1
  then show ?case by (simp add: sh_emit_def)
next
  case (2 w)
  then obtain v where "vs = [v]" "sh_piece w v" by (auto simp: list_all2_Cons1)
  then show ?case by (simp add: sh_scan_piece_end)
next
  case (3 w u ws)
  then obtain v vs' where vs: "vs = v # vs'" "sh_piece w v" "list_all2 sh_piece (u # ws) vs'"
    by (auto simp: list_all2_Cons1)
  have "sh_scan ShPlain [] False (join '' '' (u # ws)) = Some (map ShWord vs')"
    by (rule 3) (use vs in simp)
  with vs show ?case by (simp add: sh_scan_piece_space)
qed

text \<open>Words, an operator, more words: how the commands with \<open>&&\<close> are read.\<close>

lemma sh_scan_words_then:
  assumes "list_all2 sh_piece ws vs"
  shows "sh_scan ShPlain [] False (concat (map (\<lambda>w. w @ '' '') ws) @ s) =
     map_option (\<lambda>ts. map ShWord vs @ ts) (sh_scan ShPlain [] False s)"
  using assms
proof (induction ws arbitrary: vs)
  case Nil
  then show ?case by (simp add: option.map_ident)
next
  case (Cons w ws)
  then obtain v vs' where vs: "vs = v # vs'" "sh_piece w v" "list_all2 sh_piece ws vs'"
    by (auto simp: list_all2_Cons1)
  then show ?case
    using sh_scan_piece_space [OF vs(2), of "concat (map (\<lambda>w. w @ '' '') ws) @ s"] Cons.IH [OF vs(3)]
    by (simp add: option.map_comp comp_def)
qed

lemma sh_scan_and:
  "sh_scan ShPlain [] False (''&& '' @ s) =
     map_option (\<lambda>ts. ShOp ''&&'' # ts) (sh_scan ShPlain [] False s)"
  by (simp add: sh_safe_def is_ascii_word_def is_ascii_letter_def is_digit_def sh_emit_def
      option.map_comp comp_def)

subsection \<open>Splitting what was quoted\<close>

definition lx_piece :: "string \<Rightarrow> string \<Rightarrow> bool" where
  "lx_piece w v \<longleftrightarrow>
     (\<forall>acc q s. \<exists>q'. (v = [] \<longrightarrow> q') \<and> shlex_go LxWord acc q (w @ s) = shlex_go LxWord (rev v @ acc) q' s)
   \<and> (\<forall>s. \<exists>q'. (v = [] \<longrightarrow> q') \<and> shlex_go LxStart [] False (w @ s) = shlex_go LxWord (rev v) q' s)"

lemma shlex_go_safe:
  "list_all shlex_safe w \<Longrightarrow> shlex_go LxWord acc q (w @ s) = shlex_go LxWord (rev w @ acc) q s"
proof (induction w arbitrary: acc)
  case (Cons c w)
  then have "\<not> shlex_ws c" "c \<noteq> squote" "c \<noteq> dquote" "c \<noteq> CHR 0x5C"
    by (auto simp: shlex_safe_def shlex_ws_def is_ascii_word_def is_ascii_letter_def is_digit_def)
  with Cons show ?case by simp
qed simp

lemma shlex_go_requote:
  "shlex_go (LxQuote squote) acc q
     (replace s [squote] [squote, dquote, squote, dquote, squote] @ squote # t) =
   shlex_go LxWord (rev s @ acc) True t"
proof (induction s arbitrary: acc q)
  case Nil
  then show ?case by (simp add: replace_char)
next
  case (Cons c s)
  then show ?case by (simp add: replace_char shlex_ws_def)
qed

theorem lx_piece_quote: "lx_piece (shlex_quote s) s"
proof -
  consider "s = []" | "s \<noteq> []" "list_all shlex_safe s" | "s \<noteq> []" "\<not> list_all shlex_safe s" by blast
  then show ?thesis
  proof cases
    case 1
    then show ?thesis by (auto simp: shlex_quote_def lx_piece_def shlex_ws_def)
  next
    case 2
    then obtain c w where s: "s = c # w" by (cases s) auto
    with 2 have "\<not> shlex_ws c" "c \<noteq> squote" "c \<noteq> dquote" "c \<noteq> CHR 0x5C" "list_all shlex_safe w"
      by (auto simp: shlex_safe_def shlex_ws_def is_ascii_word_def is_ascii_letter_def is_digit_def)
    with 2 s show ?thesis by (auto simp: shlex_quote_def lx_piece_def shlex_go_safe)
  next
    case 3
    then show ?thesis by (auto simp: shlex_quote_def lx_piece_def shlex_go_requote shlex_ws_def)
  qed
qed

text \<open>\<open>shlex.split(" ".join(map(shlex.quote, xs))) == xs\<close>, the law \<open>shlex\<close> documents.\<close>

theorem shlex_split_quote: "shlex_split (join '' '' (map shlex_quote xs)) = Inr xs"
  unfolding shlex_split_def
proof (induction xs)
  case Nil
  then show ?case by simp
next
  case (Cons x xs)
  have start: "\<exists>q. (x = [] \<longrightarrow> q) \<and>
      shlex_go LxStart [] False (shlex_quote x @ s) = shlex_go LxWord (rev x) q s" for s
    using lx_piece_quote [of x] unfolding lx_piece_def by blast
  show ?case
  proof (cases xs)
    case Nil
    with start [of "[]"] show ?thesis by auto
  next
    case (Cons y ys)
    then have j: "join '' '' (map shlex_quote (x # xs)) =
        shlex_quote x @ CHR '' '' # join '' '' (map shlex_quote xs)" by simp
    obtain q where "x = [] \<longrightarrow> q" "shlex_go LxStart [] False (join '' '' (map shlex_quote (x # xs))) =
        shlex_go LxWord (rev x) q (CHR '' '' # join '' '' (map shlex_quote xs))"
      using start j by metis
    then show ?thesis using Cons.IH by (auto simp: shlex_ws_def)
  qed
qed

text \<open>Evaluation of the scanner on literal text.\<close>

lemmas sh_eval = sh_safe_def is_ascii_word_def is_ascii_letter_def is_digit_def sh_emit_def

end
