(* ===== verification/PosixPath.thy ===== *)
theory PosixPath
  imports PyString
begin

section \<open>Paths\<close>

text \<open>
  \<open>os.path\<close> on a POSIX host, as the code uses it: \<open>isabs\<close>, \<open>normpath\<close>, \<open>join\<close>,
  \<open>basename\<close> and \<open>dirname\<close>.  The specification \<open>path_under\<close> says what it means that a
  path lies inside a mounted file system, on lists of components.
\<close>

abbreviation slash :: char where
  "slash \<equiv> CHR ''/''"

definition isabs :: "string \<Rightarrow> bool" where
  "isabs p \<longleftrightarrow> starts_with ''/'' p"

text \<open>
  The loop of \<open>normpath\<close> over the components; \<open>acc\<close> is the reversed list \<open>new_comps\<close>.
\<close>

fun norm_comps :: "bool \<Rightarrow> string list \<Rightarrow> string list \<Rightarrow> string list" where
  "norm_comps absolute acc [] = rev acc"
| "norm_comps absolute acc (c # cs) =
     (if c = [] \<or> c = ''.'' then norm_comps absolute acc cs
      else if c \<noteq> ''..'' \<or> (\<not> absolute \<and> acc = []) \<or> (acc \<noteq> [] \<and> hd acc = ''..'')
      then norm_comps absolute (c # acc) cs
      else norm_comps absolute (tl acc) cs)"

definition initial_slashes :: "string \<Rightarrow> nat" where
  "initial_slashes p =
     (if starts_with ''//'' p \<and> \<not> starts_with ''///'' p then 2
      else if starts_with ''/'' p then 1 else 0)"

definition normpath :: "string \<Rightarrow> string" where
  "normpath p =
     (if p = [] then ''.''
      else let n = initial_slashes p;
               cs = norm_comps (n \<noteq> 0) [] (split_on slash p);
               q = replicate n slash @ join ''/'' cs
           in if q = [] then ''.'' else q)"

definition path_join :: "string \<Rightarrow> string \<Rightarrow> string" where
  "path_join a b =
     (if starts_with ''/'' b then b
      else if a = [] \<or> last a = slash then a @ b
      else a @ ''/'' @ b)"

definition basename :: "string \<Rightarrow> string" where
  "basename p = last (split_on slash p)"

definition dirname :: "string \<Rightarrow> string" where
  "dirname p =
     (let head = take (length p - length (basename p)) p
      in if list_all (\<lambda>c. c = slash) head then head else rstrip_chars ''/'' head)"

subsection \<open>Properties of \<open>normpath\<close>\<close>

definition plain_comp :: "string \<Rightarrow> bool" where
  "plain_comp c \<longleftrightarrow> c \<noteq> [] \<and> c \<noteq> ''.'' \<and> c \<noteq> ''..'' \<and> slash \<notin> set c"

lemma norm_comps_plain:
  assumes "list_all plain_comp acc" and "\<forall>c \<in> set cs. slash \<notin> set c"
  shows "list_all plain_comp (norm_comps True acc cs)"
  using assms
proof (induction "True" acc cs rule: norm_comps.induct)
  case (1 acc)
  then show ?case by (simp add: list_all_iff)
next
  case (2 acc c cs)
  have h: "acc \<noteq> [] \<Longrightarrow> hd acc \<noteq> ''..''"
    using 2(4) by (cases acc) (auto simp: plain_comp_def)
  have t: "list_all plain_comp (tl acc)" using 2(4) by (cases acc) auto
  consider "c = [] \<or> c = ''.''" | "c \<noteq> []" "c \<noteq> ''.''" "c \<noteq> ''..''"
    | "c = ''..''" by blast
  then show ?case
  proof cases
    case 1
    then show ?thesis using 2 by auto
  next
    case 2
    then have "plain_comp c" using \<open>\<forall>c \<in> set (c # cs). slash \<notin> set c\<close> by (simp add: plain_comp_def)
    with 2 show ?thesis using "2.hyps"(2) "2.prems" by simp
  next
    case 3
    then show ?thesis using "2.hyps"(3) "2.prems" h t by auto
  qed
qed

lemma norm_comps_plain_id:
  "list_all plain_comp cs \<Longrightarrow> norm_comps b acc cs = rev acc @ cs"
  by (induction cs arbitrary: acc) (auto simp: plain_comp_def)

lemma isabs_initial: "isabs p \<longleftrightarrow> initial_slashes p \<noteq> 0"
proof -
  have "starts_with ''//'' p \<Longrightarrow> starts_with ''/'' p" by (auto simp: starts_with_iff)
  then show ?thesis by (auto simp: isabs_def initial_slashes_def)
qed

text \<open>
  A normalised absolute path: one or two slashes, then components none of which is empty,
  \<open>.\<close> or \<open>..\<close>.
\<close>

definition norm_abs :: "string \<Rightarrow> nat \<Rightarrow> string list \<Rightarrow> bool" where
  "norm_abs p n cs \<longleftrightarrow> p = replicate n slash @ join ''/'' cs \<and> (n = 1 \<or> n = 2) \<and> list_all plain_comp cs"

theorem normpath_abs:
  assumes "isabs p"
  obtains cs where "norm_abs (normpath p) (initial_slashes p) cs"
proof -
  have n: "initial_slashes p \<noteq> 0" using assms by (simp add: isabs_initial)
  then have n': "initial_slashes p = 1 \<or> initial_slashes p = 2"
    by (auto simp: initial_slashes_def split: if_splits)
  have p: "p \<noteq> []" using assms by (auto simp: isabs_def)
  let ?cs = "norm_comps True [] (split_on slash p)"
  have "list_all plain_comp ?cs"
    by (rule norm_comps_plain) (auto dest: split_on_pieces)
  moreover have "normpath p = replicate (initial_slashes p) slash @ join ''/'' ?cs"
    using n p by (simp add: normpath_def Let_def)
  ultimately show ?thesis using that n' by (auto simp: norm_abs_def)
qed

lemma join_slash_first:
  "list_all plain_comp cs \<Longrightarrow> cs = [] \<or> (join ''/'' cs \<noteq> [] \<and> hd (join ''/'' cs) \<noteq> slash)"
  by (cases cs; cases "tl cs") (auto simp: plain_comp_def neq_Nil_conv)

lemma split_on_join_plain:
  "list_all plain_comp cs \<Longrightarrow> cs \<noteq> [] \<Longrightarrow> split_on slash (join ''/'' cs) = cs"
  by (rule split_on_join) (auto simp: list_all_iff plain_comp_def)

lemma norm_abs_initial:
  assumes "norm_abs p n cs"
  shows "initial_slashes p = n"
proof -
  have j: "cs = [] \<or> (join ''/'' cs \<noteq> [] \<and> hd (join ''/'' cs) \<noteq> slash)"
    using assms join_slash_first [of cs] by (simp add: norm_abs_def)
  show ?thesis
  proof (cases "join ''/'' cs")
    case Nil
    with assms show ?thesis by (auto simp: norm_abs_def initial_slashes_def numeral_2_eq_2)
  next
    case (Cons c t)
    with j have "c \<noteq> slash" by auto
    with Cons assms show ?thesis
      by (auto simp: norm_abs_def initial_slashes_def numeral_2_eq_2)
  qed
qed

lemma norm_abs_comps:
  assumes "norm_abs p n cs"
  shows "norm_comps True [] (split_on slash p) = cs"
proof -
  have "norm_comps True [] (split_on slash (replicate n slash @ s)) =
      norm_comps True [] (split_on slash s)" for s
    by (induction n) simp_all
  moreover have "norm_comps True [] (split_on slash (join ''/'' cs)) = cs"
  proof (cases "cs = []")
    case True
    then show ?thesis by simp
  next
    case False
    then show ?thesis using assms
      by (simp add: norm_abs_def split_on_join_plain norm_comps_plain_id)
  qed
  ultimately show ?thesis using assms by (simp add: norm_abs_def)
qed

theorem normpath_norm_abs: "norm_abs p n cs \<Longrightarrow> normpath p = p"
  using norm_abs_initial [of p n cs] norm_abs_comps [of p n cs]
  by (auto simp: normpath_def Let_def norm_abs_def)

theorem normpath_idem: "isabs p \<Longrightarrow> normpath (normpath p) = normpath p"
  using normpath_abs [of p] normpath_norm_abs by blast

theorem normpath_isabs: "isabs p \<Longrightarrow> isabs (normpath p)"
  by (rule normpath_abs [of p]) (auto simp: norm_abs_def isabs_def numeral_2_eq_2)

subsection \<open>Lying inside a directory\<close>

text \<open>
  The specification: \<open>path_under root p\<close> when both are normalised absolute paths with as
  many leading slashes and the components of \<open>root\<close> are the first components of \<open>p\<close>.
\<close>

definition path_under :: "string \<Rightarrow> string \<Rightarrow> bool" where
  "path_under root p \<longleftrightarrow>
     (\<exists>n cs ds. norm_abs root n cs \<and> norm_abs p n (cs @ ds))"

lemma join_append:
  "cs \<noteq> [] \<Longrightarrow> ds \<noteq> [] \<Longrightarrow> join sep (cs @ ds) = join sep cs @ sep @ join sep ds"
proof (induction sep cs rule: join.induct)
  case (2 sep w)
  then show ?case by (cases ds) auto
qed auto

lemma rstrip_chars_id: "s \<noteq> [] \<Longrightarrow> last s \<notin> set cs \<Longrightarrow> rstrip_chars cs s = s"
  by (simp add: rstrip_chars_def dropWhile_head hd_rev)

lemma rstrip_all: "list_all (\<lambda>c. c \<in> set cs) s \<Longrightarrow> rstrip_chars cs s = []"
  by (simp add: rstrip_chars_def list_all_iff)

lemma join_plain_last:
  "list_all plain_comp cs \<Longrightarrow> cs \<noteq> [] \<Longrightarrow> join ''/'' cs \<noteq> [] \<and> last (join ''/'' cs) \<noteq> slash"
proof (induction "''/''" cs rule: join.induct)
  case (2 w)
  then show ?case by (cases w rule: rev_cases) (auto simp: plain_comp_def)
next
  case (3 w v ws)
  then show ?case by simp
qed simp

lemma norm_abs_rstrip:
  assumes "norm_abs r n cs"
  shows "rstrip_chars ''/'' r = (if cs = [] then [] else r)"
proof (cases "cs = []")
  case True
  then show ?thesis using assms by (simp add: norm_abs_def rstrip_all list_all_iff)
next
  case False
  then have "join ''/'' cs \<noteq> []" "last (join ''/'' cs) \<noteq> slash"
    using assms join_plain_last by (auto simp: norm_abs_def)
  then show ?thesis using assms False
    by (simp add: norm_abs_def rstrip_chars_id)
qed

lemma split_join_tail:
  assumes "list_all plain_comp cs" and "list_all plain_comp es" and "cs \<noteq> []"
    and "join ''/'' es = join ''/'' cs @ slash # t"
  shows "\<exists>ds. es = cs @ ds"
proof -
  have "es \<noteq> []" using assms(4) by auto
  have sp: "split_on slash (join ''/'' cs @ slash # t) = cs @ split_on slash t"
    using assms(1,3)
  proof (induction "''/''" cs rule: join.induct)
    case (2 w)
    then show ?case by (simp add: split_on_append plain_comp_def)
  next
    case (3 w v ws)
    then show ?case by (simp add: split_on_append plain_comp_def)
  qed simp
  have "es = split_on slash (join ''/'' es)"
    using assms(2) \<open>es \<noteq> []\<close> by (simp add: split_on_join_plain)
  also have "\<dots> = cs @ split_on slash t" using assms(4) sp by simp
  finally show ?thesis by blast
qed

text \<open>
  The test of the availability check, \<open>p == root or p.startswith(root.rstrip("/") + "/")\<close>,
  decides \<open>path_under\<close> for normalised paths with a single leading slash.
\<close>

definition under_test :: "string \<Rightarrow> string \<Rightarrow> bool" where
  "under_test root p \<longleftrightarrow> p = root \<or> starts_with (rstrip_chars ''/'' root @ ''/'') p"

theorem under_test_path_under:
  assumes r: "norm_abs root 1 cs" and p: "norm_abs p 1 es"
  shows "under_test root p \<longleftrightarrow> path_under root p"
proof
  assume t: "under_test root p"
  show "path_under root p"
  proof (cases "p = root")
    case True
    with r show ?thesis unfolding path_under_def by (metis append_Nil2)
  next
    case False
    with t have st: "starts_with (rstrip_chars ''/'' root @ ''/'') p" by (simp add: under_test_def)
    show ?thesis
    proof (cases "cs = []")
      case True
      with r p show ?thesis unfolding path_under_def by (metis append_Nil)
    next
      case False
      then obtain u where "p = root @ slash # u"
        using st norm_abs_rstrip [OF r] by (auto simp: starts_with_iff)
      then have "join ''/'' es = join ''/'' cs @ slash # u"
        using r p by (simp add: norm_abs_def)
      then obtain ds where "es = cs @ ds"
        using split_join_tail r p False by (metis norm_abs_def)
      with r p show ?thesis unfolding path_under_def by blast
    qed
  qed
next
  assume "path_under root p"
  then obtain n cs' ds where n: "norm_abs root n cs'" "norm_abs p n (cs' @ ds)"
    unfolding path_under_def by blast
  then have n1: "n = 1" using norm_abs_initial r by (metis)
  show "under_test root p"
  proof (cases "ds = []")
    case True
    with n show ?thesis by (simp add: under_test_def norm_abs_def)
  next
    case False
    show ?thesis
    proof (cases "cs' = []")
      case True
      with n n1 norm_abs_rstrip [OF n(1)] show ?thesis by (simp add: under_test_def norm_abs_def)
    next
      case F: False
      with n n1 norm_abs_rstrip [OF n(1)] False show ?thesis
        by (simp add: under_test_def norm_abs_def join_append starts_with_iff)
    qed
  qed
qed

text \<open>
  Whatever the number of slashes, a path that passes the test against a file system root
  with a single leading slash has none of the components the test could be fooled with.
\<close>

theorem under_test_confined:
  assumes r: "norm_abs root 1 cs" and p: "norm_abs p n es" and t: "under_test root p"
  shows "cs = [] \<or> path_under root p"
proof (rule disjCI)
  assume "\<not> path_under root p"
  then have neq: "p \<noteq> root" using r unfolding path_under_def by (metis append_Nil2)
  show "cs = []"
  proof (rule ccontr)
    assume cs: "cs \<noteq> []"
    then obtain u where u: "p = root @ slash # u"
      using t neq norm_abs_rstrip [OF r] by (auto simp: under_test_def starts_with_iff)
    have "n = 1"
    proof (rule ccontr)
      assume "n \<noteq> 1"
      then have "p = slash # slash # join ''/'' es" using p by (auto simp: norm_abs_def numeral_2_eq_2)
      with u r have "slash # join ''/'' es = join ''/'' cs @ slash # u" by (simp add: norm_abs_def)
      moreover have "join ''/'' cs \<noteq> [] \<and> hd (join ''/'' cs) \<noteq> slash"
        using r cs join_slash_first by (auto simp: norm_abs_def)
      ultimately show False by (cases "join ''/'' cs") auto
    qed
    with under_test_path_under [OF r] p t \<open>\<not> path_under root p\<close> show False by blast
  qed
qed

end
