(* ===== verification/Json.thy ===== *)
theory Json
  imports Complex_Main Prelude PyString Numerals
begin

section \<open>JSON values as Python reads them\<close>

text \<open>
  The values \<open>json.loads\<close> and \<open>response.json()\<close> produce, and the operations the code performs
  on them.  An object is the dictionary it becomes: an association list in insertion order.
  \<open>None\<close>, as \<open>dict.get\<close> returns it for a missing key, is \<open>JNull\<close>.  A float is kept as the
  rational number it denotes; infinities and NaN do not occur.
\<close>

datatype json =
    JNull | JBool bool | JInt int | JFloat rat | JStr string
  | JList "json list" | JObj "(string \<times> json) list"

text \<open>The truth value of \<open>if x\<close> and \<open>x or y\<close>.\<close>

fun jtruthy :: "json \<Rightarrow> bool" where
  "jtruthy JNull = False"
| "jtruthy (JBool b) = b"
| "jtruthy (JInt i) = (i \<noteq> 0)"
| "jtruthy (JFloat r) = (r \<noteq> 0)"
| "jtruthy (JStr s) = (s \<noteq> [])"
| "jtruthy (JList xs) = (xs \<noteq> [])"
| "jtruthy (JObj d) = (d \<noteq> [])"

definition jor :: "json \<Rightarrow> json \<Rightarrow> json" where
  "jor x y = (if jtruthy x then x else y)"

text \<open>\<open>d.get(k)\<close> and \<open>d.get(k, default)\<close>.\<close>

definition jget_def :: "(string \<times> json) list \<Rightarrow> string \<Rightarrow> json \<Rightarrow> json" where
  "jget_def d k v = (case map_of d k of None \<Rightarrow> v | Some x \<Rightarrow> x)"

abbreviation jget :: "(string \<times> json) list \<Rightarrow> string \<Rightarrow> json" where
  "jget d k \<equiv> jget_def d k JNull"

definition jhas :: "(string \<times> json) list \<Rightarrow> string \<Rightarrow> bool" where
  "jhas d k \<longleftrightarrow> map_of d k \<noteq> None"

text \<open>\<open>x[k]\<close> with a text key: a \<open>KeyError\<close> when it is missing, a \<open>TypeError\<close> when \<open>x\<close> is no
  dictionary.\<close>

fun jindex :: "json \<Rightarrow> string \<Rightarrow> json res" where
  "jindex (JObj d) k = (case map_of d k of None \<Rightarrow> raise KeyError k | Some x \<Rightarrow> Inr x)"
| "jindex _ k = raise TypeError []"

text \<open>\<open>for x in v\<close> and \<open>v.items()\<close>.\<close>

fun jelems :: "json \<Rightarrow> json list res" where
  "jelems (JList xs) = Inr xs"
| "jelems _ = raise TypeError []"

fun jitems :: "json \<Rightarrow> (string \<times> json) list res" where
  "jitems (JObj d) = Inr d"
| "jitems _ = raise AttributeError []"

fun jnum :: "json \<Rightarrow> rat option" where
  "jnum (JInt i) = Some (of_int i)"
| "jnum (JFloat r) = Some r"
| "jnum (JBool b) = Some (if b then 1 else 0)"
| "jnum _ = None"

fun jtext :: "json \<Rightarrow> string option" where
  "jtext (JStr s) = Some s"
| "jtext _ = None"

lemma jget_simps [simp]:
  "jget_def [] k v = v"
  "jget_def ((k', x) # d) k v = (if k' = k then x else jget_def d k v)"
  by (simp_all add: jget_def_def)

lemma jhas_simps [simp]:
  "jhas [] k = False"
  "jhas ((k', x) # d) k = (k' = k \<or> jhas d k)"
  by (auto simp: jhas_def)

lemma jor_simps [simp]:
  "jor JNull y = y"
  "jor (JStr s) y = (if s = [] then y else JStr s)"
  by (simp_all add: jor_def)

lemma jindex_Inr_iff [res_iff]: "jindex x k = Inr y \<longleftrightarrow> (\<exists>d. x = JObj d \<and> map_of d k = Some y)"
  by (cases x) (auto split: option.splits)

end
