(* ===== verification/Errors.thy ===== *)
theory Errors
  imports Prelude PyString Numerals
begin

section \<open>From exceptions to HTTP responses\<close>

text \<open>
  How FirecREST answers when something fails: the classification of a remote command's
  stderr (\<open>firecrest/filesystem/ops/commands/base_command_error_handling.py\<close> and
  \<open>base_command_with_timeout.py\<close>), the error model built from an exception
  (\<open>lib/models/apis/api_response_model.py\<close>), the response headers
  (\<open>lib/handlers/api_response_handler.py\<close>) and the application's exception handler, path
  middleware and access-log filter (\<open>firecrest/main.py\<close>).

  \<open>exc.args\<close> prints with Python's \<open>repr\<close> and a \<open>RequestValidationError\<close> carries the errors
  pydantic found; both come in as arguments (\<open>args_repr\<close>, \<open>val_errors\<close>).  An exception is a
  finite tree of causes here, so the \<open>visited\<close> set that stops a cyclic chain is not needed.
\<close>

subsection \<open>Errors of a remote command\<close>

definition remote_error_message :: "string \<Rightarrow> int \<Rightarrow> string" where
  "remote_error_message stderr exit_status =
     ''Remote process failed with exit status:'' @ show_int exit_status @
     (if stderr \<noteq> [] then '' and error message:'' @ strip stderr else [])"

definition error_handling :: "string \<Rightarrow> int \<Rightarrow> 'a res" where
  "error_handling stderr exit_status =
     (let error_mess = remote_error_message stderr exit_status in
      if contains ''No such file or directory'' stderr then http_error 404 error_mess
      else if contains ''Permission denied'' stderr then http_error 403 error_mess
      else if contains ''Operation not permitted'' stderr then http_error 403 error_mess
      else if contains ''File exists'' stderr then http_error 400 error_mess
      else if contains ''invalid user'' stderr then http_error 400 error_mess
      else http_error 500 error_mess)"

definition error_handling_timeout :: "string \<Rightarrow> int \<Rightarrow> 'a res" where
  "error_handling_timeout stderr exit_status =
     (let error_mess = remote_error_message stderr exit_status in
      if exit_status = 124 then http_error 408 error_mess
      else error_handling stderr exit_status)"

text \<open>Neither ever returns: the callers rely on it to leave \<open>parse_output\<close>.\<close>

lemma error_handling_raises:
  "\<exists>s. error_handling stderr ex = http_error s (remote_error_message stderr ex) \<and>
       s \<in> {400, 403, 404, 500}"
  by (auto simp: error_handling_def Let_def)

lemma error_handling_not_Inr [simp]: "error_handling stderr ex \<noteq> Inr v"
  by (simp add: error_handling_def Let_def)

lemma error_handling_timeout_raises:
  "\<exists>s. error_handling_timeout stderr ex = http_error s (remote_error_message stderr ex) \<and>
       s \<in> {400, 403, 404, 408, 500}"
  using error_handling_raises [of stderr ex]
  by (auto simp: error_handling_timeout_def Let_def)

lemma error_handling_timeout_not_Inr [simp]: "error_handling_timeout stderr ex \<noteq> Inr v"
  by (simp add: error_handling_timeout_def Let_def)

subsection \<open>The error model\<close>

datatype ApResponseErrorType = ErrError | ErrValidation

record validation_field =
  vf_location :: "string option"
  vf_name :: "string option"
  vf_message :: string

record ApiResponseError =
  err_type :: ApResponseErrorType
  err_message :: string
  err_caused_by :: "string list option"
  err_data :: "validation_field list option"
  err_user :: "string option"

text \<open>
  \<open>str(e)\<close>: an \<open>HTTPException\<close> prints as its status and its detail, the others as their
  argument.
\<close>

definition exc_str :: "exc \<Rightarrow> string" where
  "exc_str e = (case exc_cls e of HTTPException s \<Rightarrow> show_nat s @ '': '' @ exc_msg e | _ \<Rightarrow> exc_msg e)"

fun exc_chain :: "exc \<Rightarrow> exc list" where
  "exc_chain (Exc c m h None) = []"
| "exc_chain (Exc c m h (Some e)) = e # exc_chain e"

definition is_backend_error :: "exc \<Rightarrow> bool" where
  "is_backend_error e \<longleftrightarrow>
     isinstance e SchedulerError \<or> isinstance e SSHServiceError \<or> isinstance e SSHClientError"

fun build_exception_chain_loop :: "exc \<Rightarrow> string list" where
  "build_exception_chain_loop (Exc c m h None) = []"
| "build_exception_chain_loop (Exc c m h (Some cause)) =
     (if is_backend_error cause then exc_str cause # build_exception_chain_loop cause
      else build_exception_chain_loop cause)"

definition build_exception_chain :: "exc \<Rightarrow> string list option" where
  "build_exception_chain e =
     (let cause_chain = build_exception_chain_loop e in
      if cause_chain \<noteq> [] then Some cause_chain else None)"

text \<open>\<open>str.capitalize\<close>: the first character in upper case, the rest in lower case.\<close>

definition upper_char :: "char \<Rightarrow> char" where
  "upper_char c = (if 97 \<le> code c \<and> code c \<le> 122 then char_of (code c - 32) else c)"

definition capitalize :: "string \<Rightarrow> string" where
  "capitalize s = (case s of [] \<Rightarrow> [] | c # cs \<Rightarrow> upper_char c # lower cs)"

record validation_error =
  ve_loc :: "string list"
  ve_msg :: string

definition validation_field_of :: "validation_error \<Rightarrow> validation_field" where
  "validation_field_of v =
     \<lparr>vf_location = (case ve_loc v of [] \<Rightarrow> None | l # _ \<Rightarrow> Some l),
      vf_name = (case ve_loc v of _ # n # _ \<Rightarrow> Some n | _ \<Rightarrow> None),
      vf_message = ve_msg v\<rparr>"

definition error_status :: "exc \<Rightarrow> nat" where
  "error_status e =
     (let s0 = 500;
          s1 = (case exc_cls e of HTTPException s \<Rightarrow> s | _ \<Rightarrow> s0);
          s2 = (if isinstance e SchedulerError then
                  (if isinstance e SlurmQuotaError then 403
                   else if isinstance e SlurmAuthTokenError then 400 else 500)
                else s1);
          s3 = (if isinstance e OutputLimitExceeded then 413 else s2);
          s4 = (if isinstance e TimeoutLimitExceeded then 408 else s3)
      in if isinstance e SSHConnectionError then 424
         else if isinstance e RequestValidationError then 400 else s4)"

definition error_message :: "(exc \<Rightarrow> string) \<Rightarrow> exc \<Rightarrow> string" where
  "error_message args_repr e =
     (if isinstance e RequestValidationError then capitalize (exc_str e)
      else if isinstance e SSHConnectionError \<or> isinstance e TimeoutLimitExceeded \<or>
              isinstance e OutputLimitExceeded then exc_str e
      else if isinstance e SchedulerError then exc_msg e
      else (case exc_cls e of HTTPException s \<Rightarrow> exc_msg e | _ \<Rightarrow> args_repr e))"

definition build_http_error_from_exception ::
  "(exc \<Rightarrow> string) \<Rightarrow> (exc \<Rightarrow> validation_error list) \<Rightarrow> exc \<Rightarrow> ApiResponseError \<times> nat" where
  "build_http_error_from_exception args_repr val_errors e =
     (let is_validation = isinstance e RequestValidationError in
      (\<lparr>err_type = (if is_validation then ErrValidation else ErrError),
        err_message = error_message args_repr e,
        err_caused_by = build_exception_chain e,
        err_data = (if is_validation then Some (map validation_field_of (val_errors e)) else None),
        err_user = None\<rparr>,
       error_status e))"

subsection \<open>Responses\<close>

record http_response =
  resp_status :: nat
  resp_content :: ApiResponseError
  resp_headers :: "(string \<times> string) list"

definition response_headers_meta ::
  "string \<Rightarrow> string \<Rightarrow> string option \<Rightarrow> exc option \<Rightarrow> (string \<times> string) list" where
  "response_headers_meta timestamp app_version auth e =
     (let headers_meta = [(''F7T-Timestamp'', timestamp), (''F7T-AppVersion'', app_version)];
          headers_meta = (case auth of
              Some username \<Rightarrow> dict_set ''F7T-AuthUsername'' username headers_meta
            | None \<Rightarrow> headers_meta)
      in case e of
           Some x \<Rightarrow> (if exc_headers x \<noteq> [] then dict_update headers_meta (exc_headers x)
                      else headers_meta)
         | None \<Rightarrow> headers_meta)"

definition response_error_handler ::
  "(exc \<Rightarrow> string) \<Rightarrow> (exc \<Rightarrow> validation_error list) \<Rightarrow> string \<Rightarrow> string \<Rightarrow> string option
   \<Rightarrow> exc \<Rightarrow> http_response" where
  "response_error_handler args_repr val_errors timestamp app_version auth e =
     (case build_http_error_from_exception args_repr val_errors e of (error_model, status) \<Rightarrow>
        \<lparr>resp_status = status,
         resp_content = error_model\<lparr>err_user := auth\<rparr>,
         resp_headers = response_headers_meta timestamp app_version auth (Some e)\<rparr>)"

datatype log_level = LogWarning | LogError

record log_record =
  log_level :: log_level
  log_message :: string
  log_cause :: "(exc_class \<times> string) list"

fun cause_chain :: "exc \<Rightarrow> (exc_class \<times> string) list" where
  "cause_chain (Exc c m h None) = []"
| "cause_chain (Exc c m h (Some cause)) = (exc_cls cause, exc_str cause) # cause_chain cause"

definition http_exception_handler ::
  "(exc \<Rightarrow> string) \<Rightarrow> (exc \<Rightarrow> validation_error list) \<Rightarrow> string \<Rightarrow> string \<Rightarrow> string option
   \<Rightarrow> exc \<Rightarrow> http_response \<times> log_record" where
  "http_exception_handler args_repr val_errors timestamp app_version auth e =
     (let chain = cause_chain e;
          response = response_error_handler args_repr val_errors timestamp app_version auth e
      in (response,
          \<lparr>log_level = (if resp_status response \<noteq> 0 \<and> resp_status response < 500
                       then LogWarning else LogError),
           log_message = strip (exc_str e @ '' '' @ join '', caused by: '' (map snd chain)),
           log_cause = chain\<rparr>))"

subsection \<open>Middleware\<close>

definition lower_case_path :: "string \<Rightarrow> string" where
  "lower_case_path path = lower path"

record access_log =
  al_args :: "(string \<times> string \<times> string \<times> string \<times> nat) option"
  al_text :: string
  al_method :: "string option"
  al_status :: "nat option"

definition endpoint_filter :: "access_log \<Rightarrow> bool \<times> access_log" where
  "endpoint_filter r =
     (case al_args r of
        Some (client_addr, method, path, http_version, status_code) \<Rightarrow>
          (if contains ''/status/liveness'' path then (False, r)
           else (True, r\<lparr>al_method := Some method, al_status := Some status_code\<rparr>))
      | None \<Rightarrow> (\<not> contains ''/status/liveness'' (al_text r), r))"

subsection \<open>Lemmas\<close>

lemma build_exception_chain_loop_filter:
  "build_exception_chain_loop e = map exc_str (filter is_backend_error (exc_chain e))"
  by (induction e rule: build_exception_chain_loop.induct) simp_all

lemma cause_chain_map: "cause_chain e = map (\<lambda>x. (exc_cls x, exc_str x)) (exc_chain e)"
  by (induction e rule: cause_chain.induct) simp_all

lemma isinstance_simps [simp]: "isinstance (Exc c m h p) d \<longleftrightarrow> exc_le c d"
  by (simp add: isinstance_def)

lemma error_status_http [simp]:
  "error_status (Exc (HTTPException s) m h p) = s"
  by (simp add: error_status_def exc_le_def Let_def)

lemma handler_status [simp]:
  "resp_status (fst (http_exception_handler r v t a u e)) = error_status e"
  by (simp add: http_exception_handler_def response_error_handler_def
      build_http_error_from_exception_def Let_def)

subsection \<open>Properties\<close>

text \<open>
  C26: the response to a failed remote command.  A command that \<open>timeout\<close> stopped answers
  408 whatever it wrote; otherwise the first of the known messages in stderr decides between
  404, 403 and 400, and any other failure is a 500.  The body is an error that names the exit
  status and the stripped stderr, without causes, for the request's user.
\<close>

theorem remote_failure_response:
  "\<exists>e s. (error_handling_timeout stderr ex :: 'a res) = Inl e \<and>
     resp_status (fst (http_exception_handler r v t a u e)) = s \<and>
     (s = 408 \<longleftrightarrow> ex = 124) \<and>
     (s = 404 \<longleftrightarrow> ex \<noteq> 124 \<and> contains ''No such file or directory'' stderr) \<and>
     (s \<in> {403, 404} \<longleftrightarrow> ex \<noteq> 124 \<and> list_ex (\<lambda>m. contains m stderr)
        [''No such file or directory'', ''Permission denied'', ''Operation not permitted'']) \<and>
     (s = 500 \<longleftrightarrow> ex \<noteq> 124 \<and> \<not> list_ex (\<lambda>m. contains m stderr)
        [''No such file or directory'', ''Permission denied'', ''Operation not permitted'',
         ''File exists'', ''invalid user'']) \<and>
     s \<in> {400, 403, 404, 408, 500} \<and>
     resp_content (fst (http_exception_handler r v t a u e)) =
       \<lparr>err_type = ErrError, err_message = remote_error_message stderr ex, err_caused_by = None,
        err_data = None, err_user = u\<rparr>"
proof -
  define s :: nat where "s =
    (if ex = 124 then 408
     else if contains ''No such file or directory'' stderr then 404
     else if contains ''Permission denied'' stderr then 403
     else if contains ''Operation not permitted'' stderr then 403
     else if contains ''File exists'' stderr then 400
     else if contains ''invalid user'' stderr then 400 else 500)"
  have e: "(error_handling_timeout stderr ex :: 'a res) = http_error s (remote_error_message stderr ex)"
    by (simp add: error_handling_timeout_def error_handling_def Let_def s_def)
  have c: "resp_content (fst (http_exception_handler r v t a u
      (new_exc (HTTPException s) (remote_error_message stderr ex)))) =
       \<lparr>err_type = ErrError, err_message = remote_error_message stderr ex, err_caused_by = None,
        err_data = None, err_user = u\<rparr>"
    by (simp add: http_exception_handler_def response_error_handler_def exc_le_def
        build_http_error_from_exception_def error_message_def build_exception_chain_def Let_def)
  show ?thesis
    by (intro exI conjI, rule e, rule handler_status)
       (simp_all only: c error_status_http, simp_all add: s_def)
qed

text \<open>
  What a response tells of the causes of an exception.  \<open>caused_by\<close> lists, in order, the
  messages of exactly those causes that a scheduler, the SSH service or the SSH client raised;
  the log keeps the whole chain, and is a warning exactly when the status is below 500 (and
  not 0).
\<close>

theorem response_causes:
  "let chain = exc_chain e; shown = filter is_backend_error chain;
       (resp, logged) = http_exception_handler r v t a u e
   in err_caused_by (resp_content resp) = (if shown = [] then None else Some (map exc_str shown)) \<and>
      log_cause logged = map (\<lambda>c. (exc_cls c, exc_str c)) chain \<and>
      (log_level logged = LogWarning \<longleftrightarrow> error_status e \<noteq> 0 \<and> error_status e < 500)"
  by (simp add: http_exception_handler_def response_error_handler_def
      build_http_error_from_exception_def build_exception_chain_def
      build_exception_chain_loop_filter cause_chain_map Let_def)

text \<open>
  An exception of the code's own hierarchies always answers with an error status,
  determined by its class and not by its message, its headers or its causes: 424 for a lost
  connection, 408 for a timeout, 413 for too much output, 403 for an exceeded quota, 400 for a
  rejected Slurm token and 500 for every other one.
\<close>

theorem backend_error_status:
  assumes "is_backend_error e"
  shows "error_status e =
    (case exc_cls e of SSHConnectionError \<Rightarrow> 424 | TimeoutLimitExceeded \<Rightarrow> 408
     | OutputLimitExceeded \<Rightarrow> 413 | SlurmQuotaError \<Rightarrow> 403 | SlurmAuthTokenError \<Rightarrow> 400 | _ \<Rightarrow> 500)"
  using assms
  by (cases "exc_cls e")
     (simp_all add: is_backend_error_def isinstance_def exc_le_def error_status_def)

lemma backend_error_status_witness:
  "error_status (new_exc SlurmQuotaError ''AssocMaxSubmitJobLimit'') = 403"
  using backend_error_status [of "new_exc SlurmQuotaError ''AssocMaxSubmitJobLimit''"]
  by (simp add: is_backend_error_def exc_le_def)

end
