(* ===== verification/Auth.thy ===== *)
theory Auth
  imports Prelude PyString Json Errors
begin

section \<open>Authentication and authorisation\<close>

text \<open>
  The request's identity: the bearer token taken from the \<open>Authorization\<close> header
  (\<open>lib/helpers/oauth2_client_credentials.py\<close>), its verification
  (\<open>lib/auth/authN/OIDC_token_auth.py\<close>), the model built from its claims
  (\<open>lib/models/apis/api_auth_model.py\<close>), the authorisation request to OpenFGA
  (\<open>lib/auth/authZ/open_fga_client.py\<close>), the dependency that runs them in this order
  (\<open>lib/dependencies.py\<close>) and the per-request variables that keep the outcome
  (\<open>lib/helpers/api_auth_helper.py\<close>).

  The jose library is a parameter: \<open>unverified_header\<close> is \<open>jwt.get_unverified_header\<close>,
  \<open>jwt_decode token key\<close> is \<open>jwt.decode\<close> with signature and expiry checks, both of which may
  raise a \<open>JWTError\<close> or one of its subclasses.  So are the HTTP requests and the clock.
\<close>

subsection \<open>The authentication model\<close>

datatype ApiAuthType = AuthUserType | AuthServiceAccountType

record ApiAuthModel =
  auth_type :: ApiAuthType
  auth_active :: bool
  auth_username :: string
  auth_email :: "string option"
  auth_first_name :: "string option"

text \<open>
  The model validates its fields: a field declared \<open>str\<close> accepts a text only.  Its default
  \<open>None\<close> is not validated, but a \<open>None\<close> that is passed is, so a claim read with
  \<open>decoded_token.get\<close> has to be there.  pydantic's \<open>ValidationError\<close> is a \<open>ValueError\<close>.
\<close>

definition str_field :: "json \<Rightarrow> string res" where
  "str_field v = (case jtext v of Some s \<Rightarrow> Inr s | None \<Rightarrow> raise ValueError [])"

definition build_from_oidc_decoded_token ::
  "(string \<times> json) list \<Rightarrow> string \<Rightarrow> ApiAuthModel res" where
  "build_from_oidc_decoded_token decoded_token username_claim =
     (if \<not> jhas decoded_token username_claim
      then http_error 400 (''Authentication token '' @ [CHR 0x27] @ username_claim @
             [CHR 0x27] @ '' claim is missing'')
      else let username = jget decoded_token username_claim in
        if \<not> jhas decoded_token ''email''
        then bind_res (str_field username) (\<lambda>u.
               Inr \<lparr>auth_type = AuthServiceAccountType, auth_active = True,
                    auth_username = u, auth_email = None, auth_first_name = None\<rparr>)
        else bind_res (str_field username) (\<lambda>u.
             bind_res (str_field (jget decoded_token ''email'')) (\<lambda>email.
             bind_res (str_field (jget decoded_token ''given_name'')) (\<lambda>first_name.
               Inr \<lparr>auth_type = AuthUserType, auth_active = True, auth_username = u,
                    auth_email = Some email, auth_first_name = Some first_name\<rparr>))))"

subsection \<open>The public keys of the identity providers\<close>

text \<open>
  A key of a JWKS document is a dictionary of texts.  The algorithm is the key's own \<open>alg\<close>,
  else the configured one, else the one its key type and curve determine; an unknown pair
  stops the start-up with a \<open>ValueError\<close>.
\<close>

datatype algo_entry = AlgName string | AlgCurves "(string \<times> string) list"

definition algo_map :: "(string \<times> algo_entry) list" where
  "algo_map =
     [(''RSA'', AlgName ''RS256''),
      (''oct'', AlgName ''HS256''),
      (''EC'', AlgCurves [(''None'', ''ES256''), (''P-256'', ''ES256''), (''P-384'', ''ES384''),
                          (''P-521'', ''ES512''), (''secp256k1'', ''ES256K'')]),
      (''OKP'', AlgCurves [(''Ed25519'', ''EdDSA'')])]"

definition get_or :: "(string \<times> string) list \<Rightarrow> string \<Rightarrow> string \<Rightarrow> string" where
  "get_or d k v = (case map_of d k of None \<Rightarrow> v | Some x \<Rightarrow> x)"

definition detect_algorithm :: "string \<Rightarrow> string \<Rightarrow> string res" where
  "detect_algorithm kty crv =
     (case map_of algo_map kty of
        Some (AlgName a) \<Rightarrow> Inr a
      | Some (AlgCurves cs) \<Rightarrow>
          (case map_of cs crv of
             Some a \<Rightarrow> Inr a
           | None \<Rightarrow> raise ValueError ''Unsupported kty or crv values. Configure jwk_algorithm to skip auto-detection.'')
      | None \<Rightarrow> raise ValueError ''Unsupported kty or crv values. Configure jwk_algorithm to skip auto-detection.'')"

definition key_algorithm :: "string option \<Rightarrow> (string \<times> string) list \<Rightarrow> string res" where
  "key_algorithm jwk_algorithm key =
     (if truthy (map_of key ''alg'') then Inr (the (map_of key ''alg''))
      else if truthy jwk_algorithm then Inr (the jwk_algorithm)
      else detect_algorithm (get_or key ''kty'' ''None'') (get_or key ''crv'' ''None''))"

definition key_identifier :: "(string \<times> string) list \<Rightarrow> string option" where
  "key_identifier key =
     (if truthy (map_of key ''kid'') then map_of key ''kid'' else map_of key ''x5t'')"

record 'k oidc_config =
  username_claim :: string
  min_token_ttl :: int
  public_keys :: "(string \<times> 'k) list"

text \<open>
  The constructor's second loop; \<open>jwk_construct\<close> is \<open>jwk.construct\<close>, which may reject a key.
  The algorithm of a key without an identifier is still computed, so such a key can stop the
  start-up.
\<close>

fun load_keys ::
  "((string \<times> string) list \<Rightarrow> string \<Rightarrow> 'k res) \<Rightarrow> string option
   \<Rightarrow> (string \<times> string) list list \<Rightarrow> (string \<times> 'k) list \<Rightarrow> (string \<times> 'k) list res" where
  "load_keys jwk_construct jwk_algorithm [] acc = Inr acc"
| "load_keys jwk_construct jwk_algorithm (key # keys) acc =
     bind_res (key_algorithm jwk_algorithm key) (\<lambda>algorithm.
       if truthy (key_identifier key)
       then bind_res (jwk_construct key algorithm) (\<lambda>k.
              load_keys jwk_construct jwk_algorithm keys (dict_set (the (key_identifier key)) k acc))
       else load_keys jwk_construct jwk_algorithm keys acc)"

text \<open>The first loop: a certificate that cannot be fetched is skipped.  \<open>known\<close> below is what the
  class-level dictionary \<open>public_keys\<close> holds already, as it is shared by all instances.\<close>

fun fetch_keys :: "(string \<Rightarrow> 'key list res) \<Rightarrow> string list \<Rightarrow> 'key list" where
  "fetch_keys get [] = []"
| "fetch_keys get (url # urls) =
     (case get url of Inl e \<Rightarrow> fetch_keys get urls | Inr ks \<Rightarrow> ks @ fetch_keys get urls)"

definition oidc_init ::
  "(string \<Rightarrow> (string \<times> string) list list res)
   \<Rightarrow> ((string \<times> string) list \<Rightarrow> string \<Rightarrow> 'k res)
   \<Rightarrow> (string \<times> 'k) list \<Rightarrow> string list \<Rightarrow> string \<Rightarrow> string option \<Rightarrow> int
   \<Rightarrow> 'k oidc_config res" where
  "oidc_init get jwk_construct known public_certs claim jwk_algorithm ttl =
     bind_res (load_keys jwk_construct jwk_algorithm (fetch_keys get public_certs) known) (\<lambda>ks.
       Inr \<lparr>username_claim = claim, min_token_ttl = ttl, public_keys = ks\<rparr>)"

subsection \<open>Authentication\<close>

text \<open>
  \<open>exp - time()\<close> is arithmetic on numbers; a claim \<open>exp\<close> of another type raises a
  \<open>TypeError\<close>.
\<close>

definition token_header_id :: "(string \<times> string) list \<Rightarrow> string option" where
  "token_header_id h = (if truthy (map_of h ''kid'') then map_of h ''kid'' else map_of h ''x5t'')"

definition auth_from_token ::
  "(string \<Rightarrow> (string \<times> string) list res) \<Rightarrow> (string \<Rightarrow> 'k \<Rightarrow> (string \<times> json) list res)
   \<Rightarrow> rat \<Rightarrow> 'k oidc_config \<Rightarrow> string \<Rightarrow> ApiAuthModel res" where
  "auth_from_token unverified_header jwt_decode now cfg access_token =
     bind_res (unverified_header access_token) (\<lambda>token_header.
     bind_res (case token_header_id token_header of
                 None \<Rightarrow> raise KeyError []
               | Some i \<Rightarrow> (case map_of (public_keys cfg) i of
                             None \<Rightarrow> raise KeyError [] | Some k \<Rightarrow> Inr k)) (\<lambda>public_key.
     bind_res (jwt_decode access_token public_key) (\<lambda>decoded_token.
     let exp = jget decoded_token ''exp'' in
     bind_res (if exp = JNull then Inr False
               else case jnum exp of
                      None \<Rightarrow> raise TypeError []
                    | Some t \<Rightarrow> Inr (t - now < of_int (min_token_ttl cfg))) (\<lambda>too_soon.
     if too_soon
     then Inl (Exc (HTTPException 401)
            (''Access token expires too soon (less than '' @ show_int (min_token_ttl cfg) @
             ''s remaining).'')
            [(''auth-token'', access_token)] None)
     else build_from_oidc_decoded_token decoded_token (username_claim cfg)))))"

definition authenticate ::
  "(string \<Rightarrow> (string \<times> string) list res) \<Rightarrow> (string \<Rightarrow> 'k \<Rightarrow> (string \<times> json) list res)
   \<Rightarrow> rat \<Rightarrow> 'k oidc_config \<Rightarrow> string \<Rightarrow> ApiAuthModel res" where
  "authenticate unverified_header jwt_decode now cfg access_token =
     catch_res
       (bind_res (auth_from_token unverified_header jwt_decode now cfg access_token) (\<lambda>auth.
          if \<not> auth_active auth
          then Inl (Exc (HTTPException 401) ''Inactive authentication''
                      [(''auth-token'', access_token)] None)
          else Inr auth))
       (\<lambda>e. if isinstance e ExpiredSignatureError
            then Inl (Exc (HTTPException 401) ''Access token expired''
                        [(''auth-token'', access_token)] (Some e))
            else if isinstance e JWTError
            then Inl (Exc (HTTPException 401) ''Access token is invalid.''
                        [(''auth-token'', access_token)] (Some e))
            else if isinstance e KeyError
            then Inl (Exc (HTTPException 401)
                        (''Token'' @ [CHR 0x27] @ ''s public key not found.'')
                        [(''auth-token'', access_token)] (Some e))
            else Inl e)"

subsection \<open>Authorisation\<close>

record fga_request =
  fga_url :: string
  fga_token :: string
  fga_user :: string
  fga_relation :: string
  fga_object :: string

text \<open>
  \<open>post\<close> is the HTTP client: it returns the status of the response or raises.  The check of
  the status stands inside the \<open>try\<close>, so its own 403 is caught by \<open>except Exception\<close>.
\<close>

definition authorize ::
  "(fga_request \<Rightarrow> ('w, nat) io) \<Rightarrow> string option \<Rightarrow> string \<Rightarrow> string \<Rightarrow> string \<Rightarrow> ('w, unit) io" where
  "authorize post url username resource_name access_token =
     (case url of
        None \<Rightarrow> io_return ()
      | Some u \<Rightarrow>
          io_catch
            (io_bind (post \<lparr>fga_url = u, fga_token = ''Bearer '' @ access_token,
                            fga_user = ''user:'' @ username, fga_relation = ''member'',
                            fga_object = ''vcluster:'' @ resource_name\<rparr>) (\<lambda>status.
               if status \<noteq> 200
               then io_raise (HTTPException 403) ''Not authorized to access system''
               else io_return ()))
            (\<lambda>e. io_lift (Inl (Exc (HTTPException 401)
               ''Unable to verify system access authorization'' [] (Some e)))))"

subsection \<open>The dependency\<close>

text \<open>FastAPI's \<open>get_authorization_scheme_param\<close>: the header split at its first space.\<close>

definition scheme_param :: "string option \<Rightarrow> string \<times> string" where
  "scheme_param h =
     (case h of None \<Rightarrow> ([], [])
      | Some a \<Rightarrow> (if a = [] then ([], [])
                   else (takeWhile (\<lambda>c. c \<noteq> CHR '' '') a, drop 1 (dropWhile (\<lambda>c. c \<noteq> CHR '' '') a))))"

definition bearer_token :: "bool \<Rightarrow> string option \<Rightarrow> string option res" where
  "bearer_token auto_error authorization =
     (case scheme_param authorization of (scheme, param) \<Rightarrow>
        if \<not> truthy authorization \<or> lower scheme \<noteq> ''bearer''
        then (if auto_error
              then Inl (Exc (HTTPException 401) ''Not authenticated''
                          [(''WWW-Authenticate'', ''Bearer'')] None)
              else Inr None)
        else Inr (Some param))"

text \<open>
  \<open>AuthDependency.__call__\<close>: token, authentication, then authorisation when a service is
  configured.  \<open>auto_error\<close> keeps its default, so a token is always there.
\<close>

definition auth_dependency ::
  "(string \<Rightarrow> ApiAuthModel res) \<Rightarrow> (string \<Rightarrow> string \<Rightarrow> string \<Rightarrow> ('w, unit) io) option
   \<Rightarrow> string \<Rightarrow> string option \<Rightarrow> ('w, ApiAuthModel \<times> string) io" where
  "auth_dependency authN authZ system_name authorization =
     io_bind (io_lift (bearer_token True authorization)) (\<lambda>tok.
       let token = (case tok of Some t \<Rightarrow> t | None \<Rightarrow> []) in
       io_bind (io_lift (authN token)) (\<lambda>auth.
       io_bind (case authZ of
                  None \<Rightarrow> io_return ()
                | Some authz \<Rightarrow> authz (auth_username auth) system_name token) (\<lambda>_.
       io_return (auth, token))))"

subsection \<open>The per-request variables\<close>

record request_vars =
  g_auth :: "ApiAuthModel option option"
  g_access_token :: "string option"

text \<open>\<open>g_auth = None\<close>: the namespace has no attribute \<open>auth\<close> yet.\<close>

definition fresh_request_vars :: request_vars where
  "fresh_request_vars = \<lparr>g_auth = None, g_access_token = None\<rparr>"

definition is_authenticated :: "request_vars \<Rightarrow> bool" where
  "is_authenticated g = (case g_auth g of None \<Rightarrow> False | Some a \<Rightarrow> a \<noteq> None)"

definition get_access_token :: "request_vars \<Rightarrow> string option res" where
  "get_access_token g =
     (if is_authenticated g
      then (case g_access_token g of None \<Rightarrow> raise AttributeError [] | Some t \<Rightarrow> Inr (Some t))
      else Inr None)"

definition set_access_token :: "string \<Rightarrow> request_vars \<Rightarrow> request_vars" where
  "set_access_token t g = g\<lparr>g_access_token := Some t\<rparr>"

definition get_auth :: "request_vars \<Rightarrow> ApiAuthModel option" where
  "get_auth g = (if is_authenticated g then the (g_auth g) else None)"

definition set_auth :: "ApiAuthModel option \<Rightarrow> request_vars \<Rightarrow> request_vars" where
  "set_auth a g = g\<lparr>g_auth := Some a\<rparr>"

definition get_auth_username :: "request_vars \<Rightarrow> string option" where
  "get_auth_username g = map_option auth_username (get_auth g)"

subsection \<open>Lemmas\<close>

lemma str_field_iff [res_iff]: "str_field v = Inr s \<longleftrightarrow> v = JStr s"
  by (cases v) (auto simp: str_field_def)

lemma build_token_active:
  "build_from_oidc_decoded_token d c = Inr a \<Longrightarrow>
     auth_active a \<and> map_of d c = Some (JStr (auth_username a))"
  by (auto simp: build_from_oidc_decoded_token_def Let_def res_iff jhas_def jget_def_def
      split: if_splits)

lemma auth_from_token_cases:
  assumes "auth_from_token uh jd now cfg tok = Inr a"
  shows "\<exists>h i k d. uh tok = Inr h \<and> token_header_id h = Some i \<and>
    map_of (public_keys cfg) i = Some k \<and> jd tok k = Inr d \<and>
    build_from_oidc_decoded_token d (username_claim cfg) = Inr a \<and>
    (jget d ''exp'' = JNull \<or>
     (\<exists>t. jnum (jget d ''exp'') = Some t \<and> now + of_int (min_token_ttl cfg) \<le> t))"
  using assms
  by (auto simp: auth_from_token_def Let_def res_iff not_less le_diff_eq algebra_simps
      split: if_splits option.splits)

lemma authenticate_Inr:
  "authenticate uh jd now cfg tok = Inr a \<longleftrightarrow>
     auth_from_token uh jd now cfg tok = Inr a \<and> auth_active a"
  by (cases "auth_from_token uh jd now cfg tok")
     (auto simp: authenticate_def catch_res_def split: if_splits)

subsection \<open>The services as interfaces\<close>

text \<open>
  \<open>AuthenticationService\<close> and \<open>AuthorizationService\<close> are abstract classes; the dependency
  uses them through their one method.  \<open>accepts tok auth\<close> is what the authentication promises
  of a token it accepts; \<open>permits w user system tok w'\<close> what the authorisation promises of a
  world in which it let the user pass.
\<close>

locale authentication_service =
  fixes authN :: "string \<Rightarrow> ApiAuthModel res"
    and accepts :: "string \<Rightarrow> ApiAuthModel \<Rightarrow> bool"
  assumes authN_sound: "authN tok = Inr auth \<Longrightarrow> accepts tok auth"

locale authorization_service = authentication_service authN accepts
  for authN :: "string \<Rightarrow> ApiAuthModel res" and accepts :: "string \<Rightarrow> ApiAuthModel \<Rightarrow> bool" +
  fixes authZ :: "string \<Rightarrow> string \<Rightarrow> string \<Rightarrow> ('w, unit) io"
    and permits :: "'w \<Rightarrow> string \<Rightarrow> string \<Rightarrow> string \<Rightarrow> 'w \<Rightarrow> bool"
  assumes authZ_sound: "authZ usr system tok w = (Inr (), w') \<Longrightarrow> permits w usr system tok w'"

context authentication_service
begin

lemma dependency_accepts:
  assumes "auth_dependency authN az system h w = (Inr (auth, tok), w')"
  shows "bearer_token True h = Inr (Some tok) \<and> accepts tok auth"
  using assms
  by (auto simp: auth_dependency_def io_simps bearer_token_def Let_def
      split: sum.splits prod.splits option.splits if_splits dest!: authN_sound)

end

context authorization_service
begin

lemma dependency_permits:
  assumes "auth_dependency authN (Some authZ) system h w = (Inr (auth, tok), w')"
  shows "accepts tok auth \<and> permits w (auth_username auth) system tok w'"
  using assms dependency_accepts [OF assms]
  by (auto simp: auth_dependency_def io_simps bearer_token_def Let_def
      split: sum.splits prod.splits option.splits if_splits dest!: authZ_sound)

end

text \<open>What OIDC authentication promises of an accepted token.\<close>

definition oidc_accepts ::
  "(string \<Rightarrow> (string \<times> string) list res) \<Rightarrow> (string \<Rightarrow> 'k \<Rightarrow> (string \<times> json) list res)
   \<Rightarrow> rat \<Rightarrow> 'k oidc_config \<Rightarrow> string \<Rightarrow> ApiAuthModel \<Rightarrow> bool" where
  "oidc_accepts uh jd now cfg tok auth \<longleftrightarrow>
     auth_active auth \<and>
     (\<exists>h i k d. uh tok = Inr h \<and> token_header_id h = Some i \<and>
        map_of (public_keys cfg) i = Some k \<and> jd tok k = Inr d \<and>
        map_of d (username_claim cfg) = Some (JStr (auth_username auth)) \<and>
        (jget d ''exp'' = JNull \<or>
         (\<exists>t. jnum (jget d ''exp'') = Some t \<and> now + of_int (min_token_ttl cfg) \<le> t)))"

lemma authenticate_accepts:
  assumes "authenticate uh jd now cfg tok = Inr a"
  shows "oidc_accepts uh jd now cfg tok a"
proof -
  from assms have a: "auth_from_token uh jd now cfg tok = Inr a" "auth_active a"
    by (simp_all add: authenticate_Inr)
  from auth_from_token_cases [OF a(1)] a(2) show ?thesis
    unfolding oidc_accepts_def using build_token_active by blast
qed

text \<open>What OpenFGA promises: a request about this user and system was answered with 200.\<close>

definition fga_permits ::
  "(fga_request \<Rightarrow> ('w, nat) io) \<Rightarrow> string option \<Rightarrow> 'w \<Rightarrow> string \<Rightarrow> string \<Rightarrow> string \<Rightarrow> 'w \<Rightarrow> bool" where
  "fga_permits post url w usr system tok w' \<longleftrightarrow>
     (case url of None \<Rightarrow> w' = w
      | Some u \<Rightarrow> post \<lparr>fga_url = u, fga_token = ''Bearer '' @ tok, fga_user = ''user:'' @ usr,
                       fga_relation = ''member'', fga_object = ''vcluster:'' @ system\<rparr> w = (Inr 200, w'))"

interpretation oidc: authentication_service
  "authenticate uh jd now cfg" "oidc_accepts uh jd now cfg"
  for uh :: "string \<Rightarrow> (string \<times> string) list res"
    and jd :: "string \<Rightarrow> 'k \<Rightarrow> (string \<times> json) list res" and now cfg
  by unfold_locales (rule authenticate_accepts)

interpretation oidc_fga: authorization_service
  "authenticate uh jd now cfg" "oidc_accepts uh jd now cfg" "authorize post url" "fga_permits post url"
  for uh :: "string \<Rightarrow> (string \<times> string) list res"
    and jd :: "string \<Rightarrow> 'k \<Rightarrow> (string \<times> json) list res" and now cfg
    and post :: "fga_request \<Rightarrow> ('w, nat) io" and url
  by unfold_locales
     (auto simp: authorize_def fga_permits_def io_simps split: option.splits sum.splits prod.splits if_splits)

subsection \<open>Properties\<close>

text \<open>
  C2: a request passes the authentication dependency only with a bearer token whose
  header names a known key, that this key verifies, that stays valid for the configured
  minimum, whose username claim is the returned user, and, where OpenFGA is configured, after
  OpenFGA answered 200 for this user and this system.
\<close>

theorem auth_dependency_sound:
  assumes "auth_dependency (authenticate uh jd now cfg) (Some (authorize post (Some url))) system h w =
     (Inr (auth, tok), w')"
  shows "bearer_token True h = Inr (Some tok) \<and>
    oidc_accepts uh jd now cfg tok auth \<and>
    post \<lparr>fga_url = url, fga_token = ''Bearer '' @ tok, fga_user = ''user:'' @ auth_username auth,
          fga_relation = ''member'', fga_object = ''vcluster:'' @ system\<rparr> w = (Inr 200, w')"
  using oidc.dependency_accepts [OF assms] oidc_fga.dependency_permits [OF assms]
  by (simp add: fga_permits_def)

lemma auth_dependency_sound_witness:
  "oidc_accepts (\<lambda>_. Inr [(''kid'', ''k1'')]) (\<lambda>_ _. Inr [(''sub'', JStr ''ana''), (''exp'', JInt 200)])
     100 \<lparr>username_claim = ''sub'', min_token_ttl = 30, public_keys = [(''k1'', ())]\<rparr> ''abc''
     \<lparr>auth_type = AuthServiceAccountType, auth_active = True, auth_username = ''ana'',
      auth_email = None, auth_first_name = None\<rparr>"
  using auth_dependency_sound [where uh = "\<lambda>_. Inr [(''kid'', ''k1'')]"
    and jd = "\<lambda>_ (_::unit). Inr [(''sub'', JStr ''ana''), (''exp'', JInt 200)]" and now = 100
    and cfg = "\<lparr>username_claim = ''sub'', min_token_ttl = 30, public_keys = [(''k1'', ())]\<rparr>"
    and post = "\<lambda>_. io_return 200" and url = "''u''" and system = "''daint''"
    and h = "Some ''Bearer abc''" and w = "()" and w' = "()" and tok = "''abc''"
    and auth = "\<lparr>auth_type = AuthServiceAccountType, auth_active = True, auth_username = ''ana'',
      auth_email = None, auth_first_name = None\<rparr>"]
  by (simp add: auth_dependency_def io_simps bearer_token_def scheme_param_def
      authenticate_def auth_from_token_def token_header_id_def build_from_oidc_decoded_token_def
      str_field_def authorize_def Let_def)

text \<open>
  The errors of \<open>authenticate\<close>.  What jose raises for a bad token and what an unknown key
  raises become a 401 that keeps the original as its cause; so is a token that expires too
  soon.  Only an \<open>HTTPException\<close> of the code itself (401 or, for a missing username claim, 400)
  and exceptions that are neither a \<open>JWTError\<close> nor a \<open>KeyError\<close> leave it otherwise.
\<close>

theorem authenticate_errors:
  "case auth_from_token uh jd now cfg tok of
     Inr a \<Rightarrow> authenticate uh jd now cfg tok = Inr a
   | Inl e \<Rightarrow> (\<exists>e'. authenticate uh jd now cfg tok = Inl e' \<and>
        (if exc_le (exc_cls e) JWTError \<or> exc_le (exc_cls e) KeyError
         then error_status e' = 401 \<and> exc_cause e' = Some e \<and>
              exc_headers e' = [(''auth-token'', tok)]
         else e' = e))"
proof (cases "auth_from_token uh jd now cfg tok")
  case (Inl e)
  have "exc_le ExpiredSignatureError JWTError" by (simp add: exc_le_def)
  then have "exc_le (exc_cls e) ExpiredSignatureError \<Longrightarrow> exc_le (exc_cls e) JWTError"
    using exc_le_trans by blast
  with Inl show ?thesis by (auto simp: authenticate_def isinstance_def)
next
  case (Inr a)
  then have "auth_active a" using auth_from_token_cases [OF Inr] build_token_active by blast
  with Inr show ?thesis by (simp add: authenticate_def)
qed

text \<open>
  A verified user token that has an email and no \<open>given_name\<close> claim is not accepted:
  the claim is read with \<open>get\<close>, so \<open>None\<close> reaches the model's field \<open>first_name\<close>, which is
  declared \<open>str\<close>, and the validation error passes every handler of \<open>authenticate\<close>; the
  response is a 500.
\<close>

theorem missing_given_name_is_500:
  assumes "unverified_header tok = Inr hdr" and "token_header_id hdr = Some i"
    and "map_of (public_keys cfg) i = Some k"
    and "jwt_decode tok k = Inr claims"
    and "map_of claims (username_claim cfg) = Some (JStr name)"
    and "map_of claims ''email'' = Some (JStr email)"
    and "map_of claims ''given_name'' = None" and "map_of claims ''exp'' = None"
  shows "\<exists>e. authenticate unverified_header jwt_decode now cfg tok = Inl e \<and>
             exc_cls e = ValueError \<and> error_status e = 500"
  using assms
  by (simp add: authenticate_def auth_from_token_def build_from_oidc_decoded_token_def jhas_def
      jget_def_def str_field_def error_status_def exc_le_def Let_def)

lemma missing_given_name_is_500_witness:
  "\<exists>e. authenticate (\<lambda>_. Inr [(''x5t'', ''k1'')])
     (\<lambda>_ _. Inr [(''sub'', JStr ''ana''), (''email'', JStr ''a@b'')]) 0
     \<lparr>username_claim = ''sub'', min_token_ttl = 30, public_keys = [(''k1'', ())]\<rparr> ''t'' = Inl e \<and>
     exc_cls e = ValueError \<and> error_status e = 500"
  by (rule missing_given_name_is_500 [where hdr = "[(''x5t'', ''k1'')]" and i = "''k1''" and k = "()"
        and claims = "[(''sub'', JStr ''ana''), (''email'', JStr ''a@b'')]"
        and name = "''ana''" and email = "''a@b''"])
     (simp_all add: token_header_id_def)

text \<open>
  A user whom OpenFGA refuses is not told so.  The refusal is raised inside the \<open>try\<close>
  whose handler catches every exception: \<open>authorize\<close> only ever fails with a 401, and a refusal
  keeps its 403 as the hidden cause.
\<close>

theorem authorize_never_403:
  "fst (authorize post url user system tok w) = Inl e \<Longrightarrow>
     error_status e = 401 \<and>
     (\<forall>u n w'. url = Some u \<longrightarrow>
        post \<lparr>fga_url = u, fga_token = ''Bearer '' @ tok, fga_user = ''user:'' @ user,
              fga_relation = ''member'', fga_object = ''vcluster:'' @ system\<rparr> w = (Inr n, w') \<longrightarrow>
        (\<exists>c. exc_cause e = Some c \<and> error_status c = 403))"
  by (auto simp: authorize_def io_simps split: option.splits sum.splits prod.splits if_splits)

lemma authorize_never_403_witness:
  "error_status (Exc (HTTPException 401) ''Unable to verify system access authorization'' []
     (Some (new_exc (HTTPException 403) ''Not authorized to access system''))) = 401"
  using authorize_never_403 [of "\<lambda>_. io_return 204" "Some ''u''" "''ana''" "''daint''" "''t''" "()"
    "Exc (HTTPException 401) ''Unable to verify system access authorization'' []
     (Some (new_exc (HTTPException 403) ''Not authorized to access system''))"]
  by (simp add: authorize_def io_simps)

end
