(* ===== verification/LsCommand.thy ===== *)
theory LsCommand
  imports Prelude PyString Numerals Regex Shell Errors
begin

section \<open>Remote commands and the directory listing\<close>

text \<open>
  The interface \<open>BaseCommand\<close> of \<open>lib/ssh_clients/ssh_client.py\<close> as a locale, and the
  command \<open>ls\<close> (\<open>firecrest/filesystem/ops/commands/ls_base_command.py\<close>, \<open>ls_command.py\<close>),
  whose parser most of the other file system commands reuse.

  A command class is a record of its attributes with a \<open>get_command\<close> and a \<open>parse_output\<close>.
\<close>

subsection \<open>The interface of a remote command\<close>

text \<open>
  What the SSH client relies on (\<open>BaseCommandWithTimeout\<close>): the command line of \<open>get_command\<close>
  runs under \<open>timeout\<close>, and \<open>parse_output\<close> turns the output into a value; a process that
  failed never yields a value but an \<open>HTTPException\<close>, whatever it wrote before it failed.
\<close>

locale remote_command =
  fixes get_command :: "'c \<Rightarrow> string"
    and parse_output :: "'c \<Rightarrow> string \<Rightarrow> string \<Rightarrow> int \<Rightarrow> 'r res"
  assumes runs_under_timeout: "starts_with ''timeout '' (get_command c)"
    and failure_raises:
    "exit_status \<noteq> 0 \<Longrightarrow> \<exists>s. parse_output c out err exit_status =
       http_error s (remote_error_message err exit_status) \<and> s \<in> {400, 403, 404, 408, 500}"

context remote_command
begin

lemma value_means_success: "parse_output c out err exit_status = Inr v \<Longrightarrow> exit_status = 0"
  using failure_raises [of exit_status c out err] by fastforce

lemma first_word: "\<exists>s. get_command c = ''timeout '' @ s"
  using runs_under_timeout [of c] by (simp only: starts_with_iff)

lemma failure_status:
  assumes "exit_status \<noteq> 0"
  shows "\<exists>e. parse_output c out err exit_status = Inl e \<and>
     error_status e \<in> {400, 403, 404, 408, 500} \<and> is_backend_error e = False"
proof -
  obtain s where s: "parse_output c out err exit_status =
      http_error s (remote_error_message err exit_status)" "s \<in> {400, 403, 404, 408, 500}"
    using failure_raises [OF assms] by blast
  then show ?thesis by (auto simp: is_backend_error_def exc_le_def)
qed

end

text \<open>A command stopped by \<open>timeout\<close> or failed otherwise.\<close>

definition timeout_prefix :: "int \<Rightarrow> string" where
  "timeout_prefix command_timeout = ''timeout '' @ show_int command_timeout"

definition quoted :: "string \<Rightarrow> string" where
  "quoted s = squote # s @ [squote]"

subsection \<open>\<open>ls\<close>\<close>

record File =
  file_name :: string
  file_type :: string
  file_link_target :: "string option"
  file_user :: string
  file_group :: string
  file_permissions :: string
  file_last_modified :: string
  file_size :: string

record ls_command =
  ls_timeout :: int
  ls_target_path :: string
  ls_no_recursion :: bool
  ls_show_hidden :: bool
  ls_numeric_uid :: bool
  ls_recursion :: bool
  ls_dereference :: bool

definition ls_base_init ::
  "string \<Rightarrow> bool \<Rightarrow> bool \<Rightarrow> bool \<Rightarrow> bool \<Rightarrow> bool \<Rightarrow> int \<Rightarrow> ls_command res" where
  "ls_base_init target_path show_hidden numeric_uid recursion dereference no_recursion command_timeout =
     (if no_recursion \<and> recursion
      then http_error 400 ''Either the recursion or the no-recursion option can be set''
      else Inr \<lparr>ls_timeout = command_timeout, ls_target_path = target_path,
                ls_no_recursion = no_recursion, ls_show_hidden = show_hidden,
                ls_numeric_uid = numeric_uid, ls_recursion = recursion,
                ls_dereference = dereference\<rparr>)"

definition ls_init ::
  "string \<Rightarrow> bool \<Rightarrow> bool \<Rightarrow> bool \<Rightarrow> bool \<Rightarrow> bool \<Rightarrow> int \<Rightarrow> ls_command res" where
  "ls_init target_path show_hidden numeric_uid recursive dereference no_recursion command_timeout =
     ls_base_init target_path show_hidden numeric_uid recursive dereference no_recursion command_timeout"

text \<open>\<open>LsBaseCommand(path, no_recursion=True, command_timeout=t)\<close>, as the other commands use it.\<close>

definition ls_single :: "string \<Rightarrow> int \<Rightarrow> ls_command" where
  "ls_single target_path command_timeout =
     \<lparr>ls_timeout = command_timeout, ls_target_path = target_path, ls_no_recursion = True,
      ls_show_hidden = False, ls_numeric_uid = False, ls_recursion = False,
      ls_dereference = False\<rparr>"

definition ls_get_command :: "ls_command \<Rightarrow> string" where
  "ls_get_command c =
     timeout_prefix (ls_timeout c) @ '' ls '' @
     ''-l --quoting-style=c --time-style='' @ quoted ''+%Y-%m-%dT%H:%M:%S'' @ '' '' @
     (if ls_show_hidden c then ''-A '' else []) @
     (if ls_numeric_uid c then ''--numeric-uid-gid '' else []) @
     (if ls_no_recursion c then ''-d '' else []) @
     (if ls_recursion c then ''-R '' else []) @
     (if ls_dereference c then ''-L '' else []) @
     ''-- '' @ quoted (ls_target_path c)"

text \<open>
  The pattern of a line.  Group 1 is the type, 2 the permissions, 3 the user, 4 the group,
  5 the size, 6 the time and 7 the quoted name; the source's group \<open>(\d|-|T|:)\<close> inside the
  time is never read and is the character class here.
\<close>

definition is_time_char :: "char \<Rightarrow> bool" where
  "is_time_char c \<longleftrightarrow> is_digit c \<or> c = CHR ''-'' \<or> c = CHR ''T'' \<or> c = CHR '':''"

definition file_pattern :: rx where
  "file_pattern =
     rseqs [RBegin, RGroup 1 r_nonws, RGroup 2 (rplus r_nonws), rplus r_ws, rplus r_digit, rplus r_ws,
            RGroup 3 (rplus r_nonws), rplus r_ws, RGroup 4 (rplus r_nonws), rplus r_ws,
            RGroup 5 (rplus r_digit), rplus r_ws, RGroup 6 (rplus (RChar is_time_char)), rplus r_ws,
            RGroup 7 (rplus r_dot), REnd]"

definition group_text :: "(nat \<rightharpoonup> string) \<Rightarrow> nat \<Rightarrow> string" where
  "group_text g i = (case g i of None \<Rightarrow> [] | Some t \<Rightarrow> t)"

definition ls_file :: "string \<Rightarrow> (nat \<rightharpoonup> string) \<Rightarrow> File list res" where
  "ls_file path g =
     map_res (\<lambda>tokens.
       let file = (\<lambda>name link_target.
         \<lparr>file_name = path @ name, file_type = group_text g 1, file_link_target = link_target,
          file_user = group_text g 3, file_group = group_text g 4,
          file_permissions = group_text g 2, file_last_modified = group_text g 6,
          file_size = group_text g 5\<rparr>)
       in case tokens of
            [name] \<Rightarrow> [file name None]
          | [name, arrow, link_target] \<Rightarrow> [file name (Some link_target)]
          | _ \<Rightarrow> [])
       (shlex_split (group_text g 7))"

definition ls_parse_folder :: "string \<Rightarrow> string \<Rightarrow> File list res" where
  "ls_parse_folder folder_content path =
     map_res (concat \<circ> concat)
       (traverse (\<lambda>entry. traverse (\<lambda>(i, j, g). ls_file path g) (re_finditer file_pattern entry))
          (splitlines folder_content))"

definition folder_pattern :: rx where
  "folder_pattern = rseqs [RChar (\<lambda>c. c = dquote), RGroup 1 (rplus r_dot), rlit (dquote # '':'' @ [newline])]"

definition remove_prefix :: "string \<Rightarrow> string \<Rightarrow> string" where
  "remove_prefix text prefix = (if starts_with prefix text then drop (length prefix) text else text)"

text \<open>
  The loop over the folders of a recursive listing; \<open>root_folder\<close> is set by its first round.
  \<open>re.split\<close> alternates texts and folder names, so a name is always followed by its content.
\<close>

fun ls_folders :: "string option \<Rightarrow> string list \<Rightarrow> File list res" where
  "ls_folders root (name # content # rest) =
     (let folder = rstrip_chars ''/'' name;
          root_folder = (case root of None \<Rightarrow> folder @ ''/'' | Some r \<Rightarrow> r);
          folder_name = remove_prefix (folder @ ''/'') root_folder
      in bind_res (ls_parse_folder content folder_name) (\<lambda>fs.
         bind_res (ls_folders (Some root_folder) rest) (\<lambda>fs'. Inr (fs @ fs'))))"
| "ls_folders root _ = Inr []"

datatype ls_output = LsList "File list" | LsOne "File option"

definition ls_parse_output :: "ls_command \<Rightarrow> string \<Rightarrow> string \<Rightarrow> int \<Rightarrow> ls_output res" where
  "ls_parse_output c stdout stderr exit_status =
     (if exit_status \<noteq> 0 then error_handling_timeout stderr exit_status
      else map_res (\<lambda>file_list.
             if ls_no_recursion c then LsOne (first_of file_list) else LsList file_list)
        (if re_match folder_pattern stdout \<noteq> None
         then ls_folders None (drop 1 (re_split [1] folder_pattern stdout))
         else ls_parse_folder stdout []))"

lemma ls_single_init:
  "ls_base_init p False False False False True t = Inr (ls_single p t)"
  by (simp add: ls_base_init_def ls_single_def)

lemma ls_failure_raises:
  "ex \<noteq> 0 \<Longrightarrow> ls_parse_output c out err ex = error_handling_timeout err ex"
  by (simp add: ls_parse_output_def)

interpretation ls_cmd: remote_command ls_get_command ls_parse_output
proof
  show "starts_with ''timeout '' (ls_get_command c)" for c
    by (simp add: ls_get_command_def timeout_prefix_def)
qed (subst ls_failure_raises, assumption, rule error_handling_timeout_raises)

subsection \<open>The words of the command line\<close>

lemma sh_safe_literal [simp]:
  "is_ascii_word c \<Longrightarrow> sh_safe c"
  by (simp add: sh_safe_def)

lemma show_int_safe: "list_all sh_safe (show_int i)"
proof -
  have "list_all sh_safe (show_nat n)" for n
    using show_nat_digits [of n] by (auto simp: list_all_iff is_ascii_word_def)
  then show ?thesis by (simp add: show_int_def sh_safe_def)
qed

lemma show_int_not_Nil [simp]: "show_int i \<noteq> []"
  by (simp add: show_int_def)

text \<open>
  How the scanner runs over the parts of a command line: an integer, a quoted text without a
  quote in it.  Literal text it reads by its own equations.
\<close>

lemma sh_scan_int [sh_intro]:
  "sh_scan ShPlain acc inw (show_int i @ s) = sh_scan ShPlain (rev (show_int i) @ acc) True s"
  using sh_scan_safe show_int_safe show_int_not_Nil by blast

lemma sh_scan_quoted [sh_intro]:
  "squote \<notin> set w \<Longrightarrow>
     sh_scan ShPlain acc inw (quoted w @ s) = sh_scan ShPlain (rev w @ acc) True s"
  by (simp add: quoted_def sh_scan_single sh_safe_def is_ascii_word_def is_ascii_letter_def is_digit_def)

lemma sh_scan_quoted_end [sh_intro]:
  "squote \<notin> set w \<Longrightarrow> sh_scan ShPlain acc inw (quoted w) = Some [ShWord (rev acc @ w)]"
  using sh_scan_quoted [where s = "[]"] by (simp add: sh_emit_def)

definition ls_option_words :: "ls_command \<Rightarrow> string list" where
  "ls_option_words c =
     (if ls_show_hidden c then [''-A''] else []) @
     (if ls_numeric_uid c then [''--numeric-uid-gid''] else []) @
     (if ls_no_recursion c then [''-d''] else []) @
     (if ls_recursion c then [''-R''] else []) @
     (if ls_dereference c then [''-L''] else [])"

definition ls_words :: "ls_command \<Rightarrow> string list" where
  "ls_words c =
     [''timeout'', show_int (ls_timeout c), ''ls'', ''-l'', ''--quoting-style=c'',
      ''--time-style=+%Y-%m-%dT%H:%M:%S''] @ ls_option_words c @ [''--'', ls_target_path c]"

lemma sh_scan_ls:
  assumes "squote \<notin> set (ls_target_path c)"
  shows "sh_scan ShPlain [] False (ls_get_command c) = Some (map ShWord (ls_words c))"
proof -
  have opt: "sh_scan ShPlain [] False (w @ '' '' @ s) =
      map_option ((#) (ShWord w)) (sh_scan ShPlain [] False s)"
    if "list_all sh_safe w" "w \<noteq> []" for w s
    using sh_scan_piece_space [OF sh_piece_safe [OF that]] by simp
  have opts: "sh_scan ShPlain [] False (concat (map (\<lambda>w. w @ '' '') ws) @ s) =
      map_option (\<lambda>ts. map ShWord ws @ ts) (sh_scan ShPlain [] False s)"
    if "list_all (\<lambda>w. list_all sh_safe w \<and> w \<noteq> []) ws" for ws s
    using that
    by (induction ws; cases "sh_scan ShPlain [] False s") (simp_all add: opt [simplified])
  have ow: "list_all (\<lambda>w. list_all sh_safe w \<and> w \<noteq> []) (ls_option_words c)"
    by (simp add: ls_option_words_def sh_eval)
  have "ls_get_command c =
      ''timeout '' @ show_int (ls_timeout c) @ '' ls -l --quoting-style=c --time-style='' @
      quoted ''+%Y-%m-%dT%H:%M:%S'' @ '' '' @
      concat (map (\<lambda>w. w @ '' '') (ls_option_words c)) @ ''-- '' @ quoted (ls_target_path c)"
    by (simp add: ls_get_command_def timeout_prefix_def ls_option_words_def)
  then show ?thesis using assms
    by (simp add: sh_intro sh_eval opts [OF ow, simplified] ls_words_def)
qed

subsection \<open>What the parser reads\<close>

text \<open>
  A line of \<open>ls -l --quoting-style=c\<close>: the fields, padded with spaces, and the name in double
  quotes in which the quote and the backslash are escaped.  Control characters and bytes outside
  ASCII would be escaped as well; the names considered here have none.
\<close>

definition c_quote :: "string \<Rightarrow> string" where
  "c_quote s =
     dquote # concat (map (\<lambda>c. if c = dquote \<or> c = CHR 0x5C then [CHR 0x5C, c] else [c]) s) @ [dquote]"

definition spaces :: "nat \<Rightarrow> string" where
  "spaces n = replicate (Suc n) CHR '' ''"

definition ls_line :: "(nat \<Rightarrow> nat) \<Rightarrow> string \<Rightarrow> File \<Rightarrow> string" where
  "ls_line pad nlink f =
     file_type f @ file_permissions f @ spaces (pad 0) @ nlink @ spaces (pad 1) @
     file_user f @ spaces (pad 2) @ file_group f @ spaces (pad 3) @ file_size f @ spaces (pad 4) @
     file_last_modified f @ spaces (pad 5) @ c_quote (file_name f) @
     (case file_link_target f of None \<Rightarrow> [] | Some t \<Rightarrow> '' -> '' @ c_quote t)"

definition printable :: "char \<Rightarrow> bool" where
  "printable c \<longleftrightarrow> 32 \<le> code c \<and> code c \<le> 126"

definition word_text :: "string \<Rightarrow> bool" where
  "word_text s \<longleftrightarrow> s \<noteq> [] \<and> list_all (\<lambda>c. \<not> is_ws c \<and> printable c) s"

definition wf_file :: "File \<Rightarrow> bool" where
  "wf_file f \<longleftrightarrow>
     length (file_type f) = 1 \<and> word_text (file_type f) \<and> word_text (file_permissions f) \<and>
     word_text (file_user f) \<and> word_text (file_group f) \<and>
     file_size f \<noteq> [] \<and> list_all is_digit (file_size f) \<and>
     file_last_modified f \<noteq> [] \<and> list_all is_time_char (file_last_modified f) \<and>
     list_all printable (file_name f) \<and>
     (case file_link_target f of None \<Rightarrow> True | Some t \<Rightarrow> list_all printable t)"

lemma shlex_go_c_quote:
  "shlex_go (LxQuote dquote) acc q
     (concat (map (\<lambda>c. if c = dquote \<or> c = CHR 0x5C then [CHR 0x5C, c] else [c]) s) @ dquote # t) =
   shlex_go LxWord (rev s @ acc) True t"
  by (induction s arbitrary: acc q) auto

lemma shlex_split_c_quote: "shlex_split (c_quote s) = Inr [s]"
  by (simp add: shlex_split_def c_quote_def shlex_go_c_quote shlex_ws_def)

lemma shlex_split_c_quote_link: "shlex_split (c_quote s @ '' -> '' @ c_quote t) = Inr [s, ''->'', t]"
  using shlex_go_c_quote [of "[]" False t "[]"]
  by (simp add: shlex_split_def c_quote_def shlex_go_c_quote shlex_ws_def)

text \<open>A line whose second word does not start with a number is no entry.\<close>

lemma file_pattern_words:
  assumes "rmatch file_pattern Some ([], l, Map.empty) = Some m"
  shows "\<exists>w sp d t. l = w @ sp @ d @ t \<and> w \<noteq> [] \<and> list_all (\<lambda>c. \<not> is_ws c) w \<and>
    sp \<noteq> [] \<and> list_all is_ws sp \<and> d \<noteq> [] \<and> list_all is_digit d \<and> t \<noteq> [] \<and> is_ws (hd t)"
proof -
  from re_match_lang [OF assms] obtain u where
    u: "u \<in> rx_lang file_pattern" "l = u @ fst (snd m)" by blast
  from u(1) obtain c w sp d sp2 v where c: "\<not> is_ws c" "w \<in> rx_lang (rplus r_nonws)"
    "sp \<in> rx_lang (rplus r_ws)" "d \<in> rx_lang (rplus r_digit)" "sp2 \<in> rx_lang (rplus r_ws)"
    and v: "u = [c] @ w @ sp @ d @ sp2 @ v"
    unfolding file_pattern_def
    by (auto simp del: rx_lang.simps(5) rx_lang_derived(1))
  note cl = c(2-5) [THEN rx_lang_plus_class]
  show ?thesis
    by (rule exI [of _ "c # w"], rule exI [of _ sp], rule exI [of _ d],
        rule exI [of _ "sp2 @ v @ fst (snd m)"])
       (use c(1) cl u(2) v in \<open>auto simp: hd_append hd_in_set list_all_iff\<close>)
qed

lemma re_iter_file_pattern: "b \<noteq> [] \<Longrightarrow> re_iter n file_pattern b s = []"
  by (induction n arbitrary: b s) (auto simp: file_pattern_def rx_simps split: list.splits)

definition no_entry :: "string \<Rightarrow> bool" where
  "no_entry l \<longleftrightarrow> list_all (\<lambda>c. \<not> is_line_end c) l \<and>
     (let r = lstrip (dropWhile (\<lambda>c. \<not> is_ws c) l);
          t = dropWhile is_digit r
      in r = [] \<or> \<not> is_digit (hd r) \<or> t = [] \<or> \<not> is_ws (hd t))"

lemma no_entry_ignored:
  assumes "no_entry l"
  shows "re_finditer file_pattern l = []"
proof -
  have "rmatch file_pattern Some ([], l, Map.empty) = None"
  proof (rule ccontr)
    assume "rmatch file_pattern Some ([], l, Map.empty) \<noteq> None"
    then obtain m where "rmatch file_pattern Some ([], l, Map.empty) = Some m" by blast
    from file_pattern_words [OF this] obtain w sp d t where l: "l = w @ sp @ d @ t"
      and w: "w \<noteq> []" "list_all (\<lambda>c. \<not> is_ws c) w" and sp: "sp \<noteq> []" "list_all is_ws sp"
      and d: "d \<noteq> []" "list_all is_digit d" and t: "t \<noteq> []" "is_ws (hd t)" by blast
    have 1: "dropWhile (\<lambda>c. \<not> is_ws c) l = sp @ d @ t"
      using w sp by (cases sp) (simp_all add: l list_all_iff)
    have nd: "is_digit c \<Longrightarrow> \<not> is_ws c" for c using is_digit_not_ws by blast
    have 2: "lstrip (sp @ d @ t) = d @ t"
      using sp d nd by (cases d) (simp_all add: lstrip_def list_all_iff)
    have 3: "dropWhile is_digit (d @ t) = t"
      using d t nd by (cases t) (auto simp: list_all_iff)
    show False using assms d t unfolding no_entry_def Let_def 1 2 3
      by (cases d) auto
  qed
  then show ?thesis
    by (simp only: re_finditer_def re_iter.simps, cases l)
       (simp_all add: re_iter_file_pattern del: re_iter.simps)
qed

text \<open>An entry's line yields the entry.\<close>

lemma is_ws_spaces: "list_all is_ws (spaces n)" "spaces n \<noteq> []"
  by (simp_all add: spaces_def list_all_iff)

lemma word_textD: "word_text s \<Longrightarrow> list_all (\<lambda>c. \<not> is_ws c) s \<and> s \<noteq> []"
  by (auto simp: word_text_def list_all_iff)

lemma time_char_not_ws: "is_time_char c \<Longrightarrow> \<not> is_ws c"
  unfolding is_time_char_def
  by (elim disjE; (rule is_digit_not_ws, assumption | simp add: is_ws_def))

lemma hd_field:
  "list_all (\<lambda>c. \<not> is_ws c) xs \<Longrightarrow> xs \<noteq> [] \<Longrightarrow> \<not> is_ws (hd xs)"
  by (cases xs) simp_all

lemma ls_line_match:
  assumes f: "wf_file f" and n: "list_all is_digit nlink" "nlink \<noteq> []"
    and rest: "rest = c_quote (file_name f) @
      (case file_link_target f of None \<Rightarrow> [] | Some t \<Rightarrow> '' -> '' @ c_quote t)"
    and q: "list_all (\<lambda>c. c \<noteq> newline) rest"
  shows "\<exists>b. b \<noteq> [] \<and> rmatch file_pattern Some ([], ls_line pad nlink f, Map.empty) =
    Some (b, [], [1 \<mapsto> file_type f, 2 \<mapsto> file_permissions f, 3 \<mapsto> file_user f,
      4 \<mapsto> file_group f, 5 \<mapsto> file_size f, 6 \<mapsto> file_last_modified f, 7 \<mapsto> rest])"
proof -
  obtain c where c: "file_type f = [c]" "\<not> is_ws c"
    using f by (cases "file_type f") (auto simp: wf_file_def word_text_def)
  have hd_sp: "hd (spaces n @ s) = CHR '' ''" for n s by (simp add: spaces_def)
  have line: "ls_line pad nlink f =
     c # file_permissions f @ spaces (pad 0) @ nlink @ spaces (pad 1) @
     file_user f @ spaces (pad 2) @ file_group f @ spaces (pad 3) @ file_size f @ spaces (pad 4) @
     file_last_modified f @ spaces (pad 5) @ rest"
    by (simp add: ls_line_def c rest)
  have line': "ls_line pad nlink f =
     c # file_permissions f @ spaces (pad 0) @ nlink @ spaces (pad 1) @
     file_user f @ spaces (pad 2) @ file_group f @ spaces (pad 3) @ file_size f @ spaces (pad 4) @
     file_last_modified f @ spaces (pad 5) @ rest @ []"
    by (simp add: line)
  have dig: "list_all is_digit s \<Longrightarrow> list_all (\<lambda>c. \<not> is_ws c) s" for s
    by (auto simp: list_all_iff is_digit_not_ws)
  have tim: "list_all is_time_char s \<Longrightarrow> list_all (\<lambda>c. \<not> is_ws c) s" for s
    by (auto simp: list_all_iff time_char_not_ws)
  from f have w: "list_all (\<lambda>c. \<not> is_ws c) (file_permissions f)" "file_permissions f \<noteq> []"
    "list_all (\<lambda>c. \<not> is_ws c) (file_user f)" "file_user f \<noteq> []"
    "list_all (\<lambda>c. \<not> is_ws c) (file_group f)" "file_group f \<noteq> []"
    "list_all is_digit (file_size f)" "file_size f \<noteq> []"
    "list_all is_time_char (file_last_modified f)" "file_last_modified f \<noteq> []"
    by (auto simp: wf_file_def dest: word_textD)
  note h = hd_field [OF w(1,2)] hd_field [OF w(3,4)] hd_field [OF w(5,6)]
    hd_field [OF dig [OF w(7)] w(8)] hd_field [OF tim [OF w(9)] w(10)] hd_field [OF dig [OF n(1)] n(2)]
  have rq: "rest \<noteq> []" "\<not> is_ws (hd rest)" by (simp_all add: rest c_quote_def is_ws_def)
  have sp: "\<not> is_digit CHR '' ''" "\<not> is_time_char CHR '' ''"
    by (simp_all add: is_digit_def is_time_char_def)
  show ?thesis
    apply (rule exI [of _ "rev (ls_line pad nlink f)"], rule conjI)
     apply (simp add: line)
    unfolding file_pattern_def line'
    by (intro rx_run) (simp_all add: h w n c q rq sp hd_sp is_ws_spaces hd_field)
qed

lemma c_quote_printable: "list_all printable s \<Longrightarrow> list_all printable (c_quote s)"
  by (auto simp: c_quote_def printable_def list_all_iff)

lemma printable_not_line_end: "printable c \<Longrightarrow> \<not> is_line_end c"
  by (auto simp: printable_def is_line_end_def)

lemma ls_line_entry:
  assumes f: "wf_file f" and n: "list_all is_digit nlink" "nlink \<noteq> []"
  shows "list_all (\<lambda>c. \<not> is_line_end c) (ls_line pad nlink f)"
    and "traverse (\<lambda>(i, j, g). ls_file path g) (re_finditer file_pattern (ls_line pad nlink f)) =
      Inr [[f\<lparr>file_name := path @ file_name f\<rparr>]]"
proof -
  define rest where "rest = c_quote (file_name f) @
      (case file_link_target f of None \<Rightarrow> [] | Some t \<Rightarrow> '' -> '' @ c_quote t)"
  have pr: "list_all printable rest"
    using f by (simp add: rest_def wf_file_def c_quote_printable printable_def split: option.splits)
  have pd: "list_all is_digit s \<Longrightarrow> list_all printable s" for s
    by (auto simp: list_all_iff is_digit_def printable_def)
  have pt: "list_all is_time_char s \<Longrightarrow> list_all printable s" for s
    by (auto simp: list_all_iff is_time_char_def is_digit_def printable_def)
  have pw: "word_text s \<Longrightarrow> list_all printable s" for s
    by (auto simp: list_all_iff word_text_def)
  have ps: "list_all printable (spaces k)" for k
    by (simp add: spaces_def list_all_iff printable_def)
  have "list_all printable (ls_line pad nlink f)"
    using f n pr unfolding rest_def ls_line_def
    by (simp add: wf_file_def pd pt pw ps)
  then show "list_all (\<lambda>c. \<not> is_line_end c) (ls_line pad nlink f)"
    by (auto simp: list_all_iff printable_not_line_end)
  have "list_all (\<lambda>c. c \<noteq> newline) rest"
    using pr by (auto simp: list_all_iff printable_def)
  from ls_line_match [OF f n rest_def this] obtain b where b: "b \<noteq> []"
    "rmatch file_pattern Some ([], ls_line pad nlink f, Map.empty) =
    Some (b, [], [1 \<mapsto> file_type f, 2 \<mapsto> file_permissions f, 3 \<mapsto> file_user f,
      4 \<mapsto> file_group f, 5 \<mapsto> file_size f, 6 \<mapsto> file_last_modified f, 7 \<mapsto> rest])" by blast
  have "re_finditer file_pattern (ls_line pad nlink f) =
    [(0, length b, [1 \<mapsto> file_type f, 2 \<mapsto> file_permissions f, 3 \<mapsto> file_user f,
      4 \<mapsto> file_group f, 5 \<mapsto> file_size f, 6 \<mapsto> file_last_modified f, 7 \<mapsto> rest])]"
    using b by (simp add: re_finditer_def re_iter_file_pattern)
  moreover have "shlex_split rest = Inr (case file_link_target f of None \<Rightarrow> [file_name f]
      | Some t \<Rightarrow> [file_name f, ''->'', t])"
    using shlex_split_c_quote_link
    by (simp add: rest_def shlex_split_c_quote split: option.splits)
  ultimately show "traverse (\<lambda>(i, j, g). ls_file path g)
      (re_finditer file_pattern (ls_line pad nlink f)) = Inr [[f\<lparr>file_name := path @ file_name f\<rparr>]]"
    by (simp add: ls_file_def group_text_def split: option.splits)
qed

text \<open>A folder's listing: lines that are no entries, such as \<open>total 8\<close>, then the entries.\<close>

definition listing :: "string list \<Rightarrow> ((nat \<Rightarrow> nat) \<times> string \<times> File) list \<Rightarrow> string" where
  "listing headers entries =
     concat (map (\<lambda>l. l @ [newline]) (headers @ map (\<lambda>(pad, nlink, f). ls_line pad nlink f) entries))"

definition wf_entry :: "(nat \<Rightarrow> nat) \<times> string \<times> File \<Rightarrow> bool" where
  "wf_entry e = (case e of (pad, nlink, f) \<Rightarrow> wf_file f \<and> list_all is_digit nlink \<and> nlink \<noteq> [])"

lemma ls_parse_folder_listing:
  assumes "list_all no_entry headers" and "list_all wf_entry entries"
  shows "ls_parse_folder (listing headers entries) path =
    Inr (map (\<lambda>(pad, nlink, f). f\<lparr>file_name := path @ file_name f\<rparr>) entries)"
proof -
  let ?ls = "headers @ map (\<lambda>(pad, nlink, f). ls_line pad nlink f) entries"
  have "list_all (list_all (\<lambda>c. \<not> is_line_end c)) ?ls"
    using assms ls_line_entry(1)
    by (auto simp: list.pred_set no_entry_def wf_entry_def list.pred_map)
  then have "splitlines (listing headers entries) = ?ls"
    unfolding listing_def by (rule splitlines_lines)
  moreover have "traverse (\<lambda>entry. traverse (\<lambda>(i, j, g). ls_file path g) (re_finditer file_pattern entry)) ?ls
     = Inr (map (\<lambda>_. []) headers @
            map (\<lambda>(pad, nlink, f). [[f\<lparr>file_name := path @ file_name f\<rparr>]]) entries)"
  proof -
    have 1: "traverse (\<lambda>entry. traverse (\<lambda>(i, j, g). ls_file path g) (re_finditer file_pattern entry))
        headers = Inr (map (\<lambda>_. []) headers)"
      using assms(1) by (intro traverse_total) (simp add: list_all_iff no_entry_ignored)
    have 2: "traverse (\<lambda>e. traverse (\<lambda>(i, j, g). ls_file path g)
        (re_finditer file_pattern (case e of (pad, nlink, f) \<Rightarrow> ls_line pad nlink f))) entries =
        Inr (map (\<lambda>(pad, nlink, f). [[f\<lparr>file_name := path @ file_name f\<rparr>]]) entries)"
      using assms(2)
      by (intro traverse_total) (auto simp: list.pred_set wf_entry_def ls_line_entry(2) split: prod.splits)
    show ?thesis by (simp add: traverse_append traverse_map 1 2)
  qed
  moreover have "concat (concat (map (\<lambda>_. []) headers)) = []" by (induction headers) simp_all
  moreover have "concat (concat (map (\<lambda>(pad, nlink, f). [[f\<lparr>file_name := path @ file_name f\<rparr>]]) entries))
      = map (\<lambda>(pad, nlink, f). f\<lparr>file_name := path @ file_name f\<rparr>) entries"
    by (induction entries) auto
  ultimately show ?thesis by (simp add: ls_parse_folder_def)
qed

lemma folder_pattern_quote:
  "re_match folder_pattern s \<noteq> None \<Longrightarrow> starts_with [dquote] s"
  by (cases s) (auto simp: re_match_def folder_pattern_def rx_simps split: if_splits)

subsection \<open>Properties\<close>

text \<open>
  C12: the parser of \<open>ls\<close> reads back what \<open>ls -l --quoting-style=c\<close> prints: after any lines
  that are no entries (\<open>total 8\<close>, the message of \<open>chmod -v\<close>), every entry line gives the
  entry, whatever the padding, with names and link targets that may contain spaces, quotes,
  backslashes or arrows; in order, and only the first one for a command that asked about a
  single file.
\<close>

theorem ls_parse_listing:
  assumes "list_all no_entry headers" and "list_all wf_entry entries"
    and "\<not> starts_with [dquote] (listing headers entries)"
  shows "ls_parse_output c (listing headers entries) err 0 =
    (let files = map (\<lambda>(pad, nlink, f). f) entries in
     Inr (if ls_no_recursion c then LsOne (first_of files) else LsList files))"
proof -
  have "(\<lambda>(pad, nlink, f). f\<lparr>file_name := file_name f\<rparr>) = (\<lambda>(pad :: nat \<Rightarrow> nat, nlink :: string, f). f)"
    by (simp add: fun_eq_iff)
  moreover have "re_match folder_pattern (listing headers entries) = None"
    using assms(3) folder_pattern_quote by blast
  ultimately show ?thesis
    by (simp add: ls_parse_output_def ls_parse_folder_listing [OF assms(1,2), of "[]"] Let_def)
qed

lemma ls_parse_listing_witness:
  "ls_parse_output (ls_single ''/a b'' 5)
     (listing [''mode of \"/a b\" changed from 0644 (rw-r--r--) to 0600 (rw-------)'']
       [(\<lambda>_. 0, ''1'', \<lparr>file_name = ''/a \"b'', file_type = ''l'', file_link_target = Some ''c -> d'',
          file_user = ''ana'', file_group = ''users'', file_permissions = ''rw-------'',
          file_last_modified = ''2023-07-25T14:18:00'', file_size = ''46''\<rparr>)]) [] 0 =
   Inr (LsOne (Some \<lparr>file_name = ''/a \"b'', file_type = ''l'', file_link_target = Some ''c -> d'',
          file_user = ''ana'', file_group = ''users'', file_permissions = ''rw-------'',
          file_last_modified = ''2023-07-25T14:18:00'', file_size = ''46''\<rparr>))"
proof -
  have "no_entry ''mode of \"/a b\" changed from 0644 (rw-r--r--) to 0600 (rw-------)''"
    by (simp add: no_entry_def is_line_end_def is_ws_def is_digit_def lstrip_def)
  then show ?thesis
    by (subst ls_parse_listing)
       (simp_all add: wf_entry_def wf_file_def word_text_def is_ws_def printable_def is_digit_def
          is_time_char_def listing_def ls_single_def)
qed

end
