(* ===== verification/FsCommands.thy ===== *)
theory FsCommands
  imports LsCommand PosixPath
begin

section \<open>The file system commands\<close>

text \<open>
  The classes of \<open>firecrest/filesystem/ops/commands\<close> other than \<open>ls\<close>, \<open>id\<close> of
  \<open>firecrest/status/commands\<close> and \<open>true\<close> of \<open>firecrest/status/health_check/checks\<close>: the
  command line each builds from its attributes and the value it parses from the output.  Each
  class is an interpretation of the interface \<open>remote_command\<close>.
\<close>

subsection \<open>base64, checksum, file, rm, true\<close>

record base64_command =
  b64_timeout :: int
  b64_path :: string
  b64_decode :: bool

definition base64_get_command :: "base64_command \<Rightarrow> string" where
  "base64_get_command c =
     (if b64_decode c
      then timeout_prefix (b64_timeout c) @ '' base64 -d > '' @ quoted (b64_path c)
      else timeout_prefix (b64_timeout c) @ '' base64 --wrap=0 -- '' @ quoted (b64_path c))"

definition base64_parse_output :: "base64_command \<Rightarrow> string \<Rightarrow> string \<Rightarrow> int \<Rightarrow> string res" where
  "base64_parse_output c stdout stderr exit_status =
     (if exit_status \<noteq> 0 then error_handling_timeout stderr exit_status else Inr stdout)"

definition available_algorithms :: "(string \<times> string) list" where
  "available_algorithms =
     [(''SHA256'', ''sha256sum''), (''SHA224'', ''sha224sum''), (''SHA384'', ''sha384sum''),
      (''SHA512'', ''sha512sum'')]"

record checksum_command =
  cks_timeout :: int
  cks_algorithm :: string
  cks_target_path :: string

record FileChecksum =
  fc_algorithm :: string
  fc_checksum :: string

definition checksum_get_command :: "checksum_command \<Rightarrow> string res" where
  "checksum_get_command c =
     (case map_of available_algorithms (cks_algorithm c) of
        None \<Rightarrow> raise KeyError []
      | Some a \<Rightarrow> Inr (timeout_prefix (cks_timeout c) @ '' '' @ a @ '' -- '' @ quoted (cks_target_path c)))"

definition checksum_parse_output ::
  "checksum_command \<Rightarrow> string \<Rightarrow> string \<Rightarrow> int \<Rightarrow> FileChecksum res" where
  "checksum_parse_output c stdout stderr exit_status =
     (if exit_status \<noteq> 0 then error_handling_timeout stderr exit_status
      else case split_ws stdout of
        [digest, name] \<Rightarrow> Inr \<lparr>fc_algorithm = cks_algorithm c, fc_checksum = digest\<rparr>
      | _ \<Rightarrow> http_error 500 (''Invalid output: '' @ stdout @ '' '' @ stderr))"

record path_command =
  pc_timeout :: int
  pc_target_path :: string

definition file_get_command :: "path_command \<Rightarrow> string" where
  "file_get_command c = timeout_prefix (pc_timeout c) @ '' file -b -- '' @ quoted (pc_target_path c)"

definition file_parse_output :: "path_command \<Rightarrow> string \<Rightarrow> string \<Rightarrow> int \<Rightarrow> string res" where
  "file_parse_output c stdout stderr exit_status =
     (if exit_status \<noteq> 0 then error_handling_timeout stderr exit_status else Inr (strip stdout))"

definition rm_get_command :: "path_command \<Rightarrow> string" where
  "rm_get_command c =
     timeout_prefix (pc_timeout c) @ '' rm -r --interactive=never -- '' @ quoted (pc_target_path c)"

definition rm_parse_output :: "path_command \<Rightarrow> string \<Rightarrow> string \<Rightarrow> int \<Rightarrow> unit res" where
  "rm_parse_output c stdout stderr exit_status =
     (if exit_status \<noteq> 0 then error_handling_timeout stderr exit_status else Inr ())"

definition true_get_command :: "unit \<Rightarrow> string" where
  "true_get_command c = ''true''"

definition true_parse_output :: "unit \<Rightarrow> string \<Rightarrow> string \<Rightarrow> int \<Rightarrow> string res" where
  "true_parse_output c stdout stderr exit_status =
     (if exit_status \<noteq> 0 then error_handling stderr exit_status else Inr (strip stdout))"

subsection \<open>Commands that answer with the entry of \<open>ls\<close>\<close>

record chmod_command =
  chmod_timeout :: int
  chmod_target_path :: string
  chmod_mode :: string
  chmod_ls :: ls_command

definition chmod_init :: "string \<Rightarrow> string \<Rightarrow> int \<Rightarrow> chmod_command" where
  "chmod_init target_path mode command_timeout =
     \<lparr>chmod_timeout = command_timeout, chmod_target_path = target_path, chmod_mode = mode,
      chmod_ls = ls_single target_path command_timeout\<rparr>"

definition chmod_get_command :: "chmod_command \<Rightarrow> string" where
  "chmod_get_command c =
     timeout_prefix (chmod_timeout c) @ '' chmod -v '' @ quoted (chmod_mode c) @ '' -- '' @
     quoted (chmod_target_path c) @ '' && '' @ ls_get_command (chmod_ls c)"

definition chmod_parse_output :: "chmod_command \<Rightarrow> string \<Rightarrow> string \<Rightarrow> int \<Rightarrow> ls_output res" where
  "chmod_parse_output c stdout stderr exit_status =
     (if exit_status \<noteq> 0 then error_handling_timeout stderr exit_status
      else ls_parse_output (chmod_ls c) stdout stderr exit_status)"

record chown_command =
  chown_timeout :: int
  chown_target_path :: string
  chown_owner :: string
  chown_group :: string
  chown_ls :: ls_command

definition chown_init :: "string \<Rightarrow> string \<Rightarrow> string \<Rightarrow> int \<Rightarrow> chown_command" where
  "chown_init target_path owner grp command_timeout =
     \<lparr>chown_timeout = command_timeout, chown_target_path = target_path, chown_owner = owner,
      chown_group = grp, chown_ls = ls_single target_path command_timeout\<rparr>"

definition chown_get_command :: "chown_command \<Rightarrow> string" where
  "chown_get_command c =
     timeout_prefix (chown_timeout c) @ '' chown -v '' @ quoted (chown_owner c) @ '':'' @
     quoted (chown_group c) @ '' -- '' @ quoted (chown_target_path c) @ '' && '' @
     ls_get_command (chown_ls c)"

definition chown_parse_output :: "chown_command \<Rightarrow> string \<Rightarrow> string \<Rightarrow> int \<Rightarrow> ls_output res" where
  "chown_parse_output c stdout stderr exit_status =
     (if exit_status \<noteq> 0 then error_handling_timeout stderr exit_status
      else ls_parse_output (chown_ls c) stdout stderr exit_status)"

record mkdir_command =
  mkdir_timeout :: int
  mkdir_target_path :: string
  mkdir_parent :: bool
  mkdir_ls :: ls_command

definition mkdir_init :: "string \<Rightarrow> bool \<Rightarrow> int \<Rightarrow> mkdir_command" where
  "mkdir_init target_path parent command_timeout =
     \<lparr>mkdir_timeout = command_timeout, mkdir_target_path = target_path, mkdir_parent = parent,
      mkdir_ls = ls_single target_path command_timeout\<rparr>"

definition mkdir_get_command :: "mkdir_command \<Rightarrow> string" where
  "mkdir_get_command c =
     (let options = (if mkdir_parent c then ''-p '' else [])
      in timeout_prefix (mkdir_timeout c) @ '' mkdir '' @ options @ '' -- '' @
         quoted (mkdir_target_path c) @ '' && '' @ ls_get_command (mkdir_ls c))"

definition mkdir_parse_output :: "mkdir_command \<Rightarrow> string \<Rightarrow> string \<Rightarrow> int \<Rightarrow> ls_output res" where
  "mkdir_parse_output c stdout stderr exit_status =
     (if exit_status \<noteq> 0 then error_handling_timeout stderr exit_status
      else ls_parse_output (mkdir_ls c) stdout stderr exit_status)"

record symlink_command =
  symlink_timeout :: int
  symlink_target_path :: string
  symlink_link_path :: string
  symlink_ls :: ls_command

definition symlink_init :: "string \<Rightarrow> string \<Rightarrow> int \<Rightarrow> symlink_command" where
  "symlink_init target_path link_path command_timeout =
     \<lparr>symlink_timeout = command_timeout, symlink_target_path = target_path,
      symlink_link_path = link_path, symlink_ls = ls_single link_path command_timeout\<rparr>"

definition symlink_get_command :: "symlink_command \<Rightarrow> string" where
  "symlink_get_command c =
     timeout_prefix (symlink_timeout c) @ '' ln -s -- '' @ quoted (symlink_target_path c) @ '' '' @
     quoted (symlink_link_path c) @ '' && '' @ ls_get_command (symlink_ls c)"

definition symlink_parse_output :: "symlink_command \<Rightarrow> string \<Rightarrow> string \<Rightarrow> int \<Rightarrow> ls_output res" where
  "symlink_parse_output c stdout stderr exit_status =
     (if exit_status \<noteq> 0 then error_handling_timeout stderr exit_status
      else ls_parse_output (symlink_ls c) stdout stderr exit_status)"

subsection \<open>head and tail\<close>

text \<open>The two classes have the same attributes; \<open>ht_skip\<close> is \<open>skip_trailing\<close> or \<open>skip_heading\<close>.\<close>

record headtail_command =
  ht_timeout :: int
  ht_target_path :: string
  ht_file_bytes :: "int option"
  ht_lines :: "int option"
  ht_skip :: bool

text \<open>An option that is \<open>None\<close> or zero is not set: \<open>if self.lines\<close> tests the truth value.\<close>

definition set_count :: "int option \<Rightarrow> bool" where
  "set_count n \<longleftrightarrow> n \<noteq> None \<and> n \<noteq> Some 0"

definition count_option :: "string \<Rightarrow> string \<Rightarrow> bool \<Rightarrow> int option \<Rightarrow> string" where
  "count_option name sign skip n =
     (if set_count n
      then ''--'' @ name @ ''='' @ quoted ((if skip then sign else []) @ show_int (the n)) @ '' ''
      else [])"

definition head_get_command :: "headtail_command \<Rightarrow> string" where
  "head_get_command c =
     timeout_prefix (ht_timeout c) @ '' head '' @
     count_option ''bytes'' ''-'' (ht_skip c) (ht_file_bytes c) @
     count_option ''lines'' ''-'' (ht_skip c) (ht_lines c) @ ''-- '' @ quoted (ht_target_path c)"

definition head_parse_output :: "headtail_command \<Rightarrow> string \<Rightarrow> string \<Rightarrow> int \<Rightarrow> string res" where
  "head_parse_output c stdout stderr exit_status =
     (if exit_status \<noteq> 0 then error_handling_timeout stderr exit_status else Inr stdout)"

definition tail_get_command :: "headtail_command \<Rightarrow> string" where
  "tail_get_command c =
     timeout_prefix (ht_timeout c) @ '' tail '' @
     count_option ''bytes'' ''+'' (ht_skip c) (ht_file_bytes c) @
     count_option ''lines'' ''+'' (ht_skip c) (ht_lines c) @ ''-- '' @ quoted (ht_target_path c)"

definition tail_parse_output :: "headtail_command \<Rightarrow> string \<Rightarrow> string \<Rightarrow> int \<Rightarrow> string res" where
  "tail_parse_output c stdout stderr exit_status =
     (if exit_status \<noteq> 0 then error_handling_timeout stderr exit_status else Inr stdout)"

subsection \<open>dd\<close>

record dd_command =
  dd_timeout :: int
  dd_target_path :: string
  dd_size :: int
  dd_offset :: int
  dd_skip :: int

text \<open>
  \<open>//\<close> and \<open>%\<close> round towards minus infinity, as \<open>div\<close> and \<open>mod\<close> on \<open>int\<close> do; a zero
  divisor raises.
\<close>

definition dd_init :: "string \<Rightarrow> int option \<Rightarrow> int option \<Rightarrow> int \<Rightarrow> int \<Rightarrow> dd_command res" where
  "dd_init target_path sz offset size_limit command_timeout =
     (let self_size = (case sz of None \<Rightarrow> size_limit | Some s \<Rightarrow> if s > size_limit then size_limit else s)
      in case offset of
           None \<Rightarrow> Inr \<lparr>dd_timeout = command_timeout, dd_target_path = target_path, dd_size = self_size,
                       dd_offset = 0, dd_skip = 0\<rparr>
         | Some off \<Rightarrow>
             (if self_size = 0 then raise ZeroDivisionError []
              else Inr \<lparr>dd_timeout = command_timeout, dd_target_path = target_path,
                        dd_size = self_size, dd_offset = off, dd_skip = off div self_size\<rparr>))"

definition dd_get_command :: "dd_command \<Rightarrow> string" where
  "dd_get_command c =
     timeout_prefix (dd_timeout c) @ '' dd if='' @ quoted (dd_target_path c) @ '' bs='' @
     show_int (dd_size c) @ '' skip='' @ show_int (dd_skip c) @ '' count=2''"

definition dd_parse_output :: "dd_command \<Rightarrow> string \<Rightarrow> string \<Rightarrow> int \<Rightarrow> string res" where
  "dd_parse_output c stdout stderr exit_status =
     (if exit_status \<noteq> 0 then error_handling_timeout stderr exit_status
      else if dd_size c = 0 then raise ZeroDivisionError []
      else let i = dd_offset c mod dd_size c in Inr (slice stdout i (i + dd_size c)))"

subsection \<open>stat\<close>

record stat_command =
  stat_timeout :: int
  stat_target_path :: string
  stat_dereference :: bool

definition stat_get_command :: "stat_command \<Rightarrow> string" where
  "stat_get_command c =
     timeout_prefix (stat_timeout c) @ '' stat '' @
     (if stat_dereference c then ''--dereference'' else []) @ '' -c '' @
     quoted ''%f %i %d %h %u %g %s %X %Y %Z'' @ '' -- '' @ quoted (stat_target_path c)"

definition stat_fields :: "string list" where
  "stat_fields = [''mode'', ''ino'', ''dev'', ''nlink'', ''uid'', ''gid'', ''size'', ''atime'',
                  ''mtime'', ''ctime'']"

text \<open>\<open>zip(..., strict=True)\<close> raises when the numbers of fields differ.\<close>

definition stat_parse_output ::
  "stat_command \<Rightarrow> string \<Rightarrow> string \<Rightarrow> int \<Rightarrow> (string \<times> int) list res" where
  "stat_parse_output c stdout stderr exit_status =
     (if exit_status \<noteq> 0 then error_handling_timeout stderr exit_status
      else let values = split_ws stdout in
        if length values \<noteq> length stat_fields then raise ValueError []
        else bind_res (py_int16 (hd values)) (\<lambda>mode.
             bind_res (traverse py_int (tl values)) (\<lambda>rest.
             Inr (zip stat_fields (mode # rest)))))"

subsection \<open>tar\<close>

datatype TarOperation = TarCompress | TarExtract

datatype CompressionType = CNone | CBzip2 | CGzip | CXz

record tar_command =
  tar_timeout :: int
  tar_source_path :: string
  tar_target_path :: string
  tar_match_pattern :: "string option"
  tar_dereference :: bool
  tar_operation :: TarOperation
  tar_compression_flag :: string

fun compression_flag :: "CompressionType \<Rightarrow> string" where
  "compression_flag CNone = []"
| "compression_flag CGzip = ''z''"
| "compression_flag CBzip2 = ''j''"
| "compression_flag CXz = ''J''"

definition tar_init ::
  "string \<Rightarrow> string \<Rightarrow> string option \<Rightarrow> bool \<Rightarrow> CompressionType \<Rightarrow> TarOperation \<Rightarrow> int \<Rightarrow> tar_command" where
  "tar_init source_path target_path match_pattern dereference compression operation command_timeout =
     \<lparr>tar_timeout = command_timeout, tar_source_path = source_path, tar_target_path = target_path,
      tar_match_pattern = match_pattern, tar_dereference = dereference, tar_operation = operation,
      tar_compression_flag = compression_flag compression\<rparr>"

definition get_compress_command :: "tar_command \<Rightarrow> string" where
  "get_compress_command c =
     (let options = (if tar_dereference c then ''--dereference'' else []);
          source_dir = dirname (tar_source_path c);
          source_file = basename (tar_source_path c)
      in if truthy (tar_match_pattern c)
         then timeout_prefix (tar_timeout c) @ '' bash -c '' @ [dquote] @ ''cd '' @ source_dir @ ''; '' @
              timeout_prefix (tar_timeout c) @ '' find . -type f -regex '' @
              quoted (the (tar_match_pattern c)) @ '' -print0 | tar '' @ options @ '' -czvf '' @
              quoted (tar_target_path c) @ '' --null --files-from - '' @ [dquote]
         else timeout_prefix (tar_timeout c) @ '' tar '' @ options @ '' -c'' @ tar_compression_flag c @
              ''vf '' @ quoted (tar_target_path c) @ '' -C '' @ quoted source_dir @ '' '' @
              quoted source_file)"

definition get_extract_command :: "tar_command \<Rightarrow> string" where
  "get_extract_command c =
     timeout_prefix (tar_timeout c) @ '' tar -x'' @ tar_compression_flag c @ ''f '' @
     quoted (tar_source_path c) @ '' -C '' @ quoted (tar_target_path c)"

definition tar_get_command :: "tar_command \<Rightarrow> string" where
  "tar_get_command c =
     (case tar_operation c of TarCompress \<Rightarrow> get_compress_command c
      | TarExtract \<Rightarrow> get_extract_command c)"

definition tar_parse_output :: "tar_command \<Rightarrow> string \<Rightarrow> string \<Rightarrow> int \<Rightarrow> string res" where
  "tar_parse_output c stdout stderr exit_status =
     (if exit_status \<noteq> 0 then error_handling_timeout stderr exit_status else Inr stdout)"

subsection \<open>id\<close>

record unix_id =
  id_name :: string
  id_id :: string

record UserInfo =
  ui_user :: unix_id
  ui_group :: unix_id
  ui_groups :: "unix_id list"

definition id_get_command :: "int \<Rightarrow> string" where
  "id_get_command command_timeout = timeout_prefix command_timeout @ '' id''"

definition id_group :: "string \<Rightarrow> unix_id" where
  "id_group g =
     (let gname_i = str_find g ''('' 0; gname_j = str_find g '')'' 0
      in \<lparr>id_name = slice g (gname_i + 1) gname_j, id_id = slice_to g gname_i\<rparr>)"

definition id_parse_output :: "int \<Rightarrow> string \<Rightarrow> string \<Rightarrow> int \<Rightarrow> UserInfo res" where
  "id_parse_output c stdout stderr exit_status =
     (if exit_status \<noteq> 0 then error_handling_timeout stderr exit_status
      else let uid_i = str_find stdout ''='' 0;
        uname_i = str_find stdout ''('' (str_find stdout ''uid='' 0);
        uname_j = str_find stdout '')'' (str_find stdout ''uid='' 0);
        user_json = \<lparr>id_name = slice stdout (uname_i + 1) uname_j,
                     id_id = slice stdout (uid_i + 1) uname_i\<rparr>;
        gid_i = str_find stdout ''='' uname_j;
        gname_i = str_find stdout ''('' (str_find stdout ''gid='' 0);
        gname_j = str_find stdout '')'' (str_find stdout ''gid='' 0);
        group_json = \<lparr>id_name = slice stdout (gname_i + 1) gname_j,
                      id_id = slice stdout (gid_i + 1) gname_i\<rparr>;
        group_list = split_on (CHR '','') (slice_from stdout (str_find stdout ''='' gname_j + 1))
      in Inr \<lparr>ui_user = user_json, ui_group = group_json, ui_groups = map id_group group_list\<rparr>)"

subsection \<open>Every class is a remote command\<close>

lemmas command_failures =
  base64_parse_output_def checksum_parse_output_def file_parse_output_def rm_parse_output_def
  chmod_parse_output_def chown_parse_output_def mkdir_parse_output_def symlink_parse_output_def
  head_parse_output_def tail_parse_output_def dd_parse_output_def stat_parse_output_def
  tar_parse_output_def id_parse_output_def

lemmas command_lines =
  base64_get_command_def file_get_command_def rm_get_command_def chmod_get_command_def
  chown_get_command_def mkdir_get_command_def symlink_get_command_def head_get_command_def
  tail_get_command_def dd_get_command_def stat_get_command_def tar_get_command_def
  get_compress_command_def get_extract_command_def id_get_command_def timeout_prefix_def Let_def

lemma remote_command_intro:
  assumes "\<And>c. starts_with ''timeout '' (g c)"
    and "\<And>c out err ex. ex \<noteq> 0 \<Longrightarrow> p c out err ex = error_handling_timeout err ex"
  shows "remote_command g p"
proof
  fix ex :: int and c out err
  assume "ex \<noteq> 0"
  then show "\<exists>s. p c out err ex = http_error s (remote_error_message err ex) \<and>
      s \<in> {400, 403, 404, 408, 500}"
    using assms(2) [of ex c out err] error_handling_timeout_raises [of err ex] by metis
qed (rule assms(1))

interpretation base64_cmd: remote_command base64_get_command base64_parse_output
  by (rule remote_command_intro) (simp_all add: command_lines command_failures split: TarOperation.splits)

interpretation file_cmd: remote_command file_get_command file_parse_output
  by (rule remote_command_intro) (simp_all add: command_lines command_failures split: TarOperation.splits)

interpretation rm_cmd: remote_command rm_get_command rm_parse_output
  by (rule remote_command_intro) (simp_all add: command_lines command_failures split: TarOperation.splits)

interpretation chmod_cmd: remote_command chmod_get_command chmod_parse_output
  by (rule remote_command_intro) (simp_all add: command_lines command_failures split: TarOperation.splits)

interpretation chown_cmd: remote_command chown_get_command chown_parse_output
  by (rule remote_command_intro) (simp_all add: command_lines command_failures split: TarOperation.splits)

interpretation mkdir_cmd: remote_command mkdir_get_command mkdir_parse_output
  by (rule remote_command_intro) (simp_all add: command_lines command_failures split: TarOperation.splits)

interpretation symlink_cmd: remote_command symlink_get_command symlink_parse_output
  by (rule remote_command_intro) (simp_all add: command_lines command_failures split: TarOperation.splits)

interpretation head_cmd: remote_command head_get_command head_parse_output
  by (rule remote_command_intro) (simp_all add: command_lines command_failures split: TarOperation.splits)

interpretation tail_cmd: remote_command tail_get_command tail_parse_output
  by (rule remote_command_intro) (simp_all add: command_lines command_failures split: TarOperation.splits)

interpretation dd_cmd: remote_command dd_get_command dd_parse_output
  by (rule remote_command_intro) (simp_all add: command_lines command_failures split: TarOperation.splits)

interpretation stat_cmd: remote_command stat_get_command stat_parse_output
  by (rule remote_command_intro) (simp_all add: command_lines command_failures split: TarOperation.splits)

interpretation tar_cmd: remote_command tar_get_command tar_parse_output
  by (rule remote_command_intro) (simp_all add: command_lines command_failures split: TarOperation.splits)

interpretation unix_id_cmd: remote_command id_get_command id_parse_output
  by (rule remote_command_intro) (simp_all add: command_lines command_failures split: TarOperation.splits)

subsection \<open>The words of the command lines\<close>

lemma sh_scan_quoted_space [sh_intro]:
  "squote \<notin> set w \<Longrightarrow> sh_scan ShPlain acc inw (quoted w @ CHR '' '' # s) =
     map_option ((#) (ShWord (rev acc @ w))) (sh_scan ShPlain [] False s)"
  by (simp add: sh_scan_quoted sh_scan_space sh_emit_True del: sh_scan.simps)

lemma sh_scan_ls_single [sh_intro]:
  "squote \<notin> set p \<Longrightarrow>
     sh_scan ShPlain [] False (ls_get_command (ls_single p t)) = Some (map ShWord (ls_words (ls_single p t)))"
  by (rule sh_scan_ls) (simp add: ls_single_def)

lemma rm_words:
  "squote \<notin> set p \<Longrightarrow> sh_tokens (rm_get_command \<lparr>pc_timeout = t, pc_target_path = p\<rparr>) =
     Some (map ShWord [''timeout'', show_int t, ''rm'', ''-r'', ''--interactive=never'', ''--'', p])"
  by (simp add: sh_tokens_def rm_get_command_def timeout_prefix_def sh_intro sh_eval)

lemma file_words:
  "squote \<notin> set p \<Longrightarrow> sh_tokens (file_get_command \<lparr>pc_timeout = t, pc_target_path = p\<rparr>) =
     Some (map ShWord [''timeout'', show_int t, ''file'', ''-b'', ''--'', p])"
  by (simp add: sh_tokens_def file_get_command_def timeout_prefix_def sh_intro sh_eval)

lemma base64_words:
  "squote \<notin> set p \<Longrightarrow> sh_tokens (base64_get_command \<lparr>b64_timeout = t, b64_path = p, b64_decode = False\<rparr>) =
     Some (map ShWord [''timeout'', show_int t, ''base64'', ''--wrap=0'', ''--'', p])"
  "squote \<notin> set p \<Longrightarrow> sh_tokens (base64_get_command \<lparr>b64_timeout = t, b64_path = p, b64_decode = True\<rparr>) =
     Some (map ShWord [''timeout'', show_int t, ''base64'', ''-d''] @ [ShOp ''>'', ShWord p])"
  by (simp_all add: sh_tokens_def base64_get_command_def timeout_prefix_def sh_intro sh_eval)

lemma chmod_words:
  "squote \<notin> set p \<Longrightarrow> squote \<notin> set m \<Longrightarrow> sh_tokens (chmod_get_command (chmod_init p m t)) =
     Some (map ShWord [''timeout'', show_int t, ''chmod'', ''-v'', m, ''--'', p] @ ShOp ''&&'' #
           map ShWord (ls_words (ls_single p t)))"
  by (simp add: sh_tokens_def chmod_get_command_def chmod_init_def timeout_prefix_def sh_intro sh_eval)

lemma chown_words:
  "squote \<notin> set p \<Longrightarrow> squote \<notin> set u \<Longrightarrow> squote \<notin> set g \<Longrightarrow>
     sh_tokens (chown_get_command (chown_init p u g t)) =
     Some (map ShWord [''timeout'', show_int t, ''chown'', ''-v'', u @ '':'' @ g, ''--'', p] @ ShOp ''&&'' #
           map ShWord (ls_words (ls_single p t)))"
  by (simp add: sh_tokens_def chown_get_command_def chown_init_def timeout_prefix_def sh_intro sh_eval)

lemma mkdir_words:
  "squote \<notin> set p \<Longrightarrow> sh_tokens (mkdir_get_command (mkdir_init p parent t)) =
     Some (map ShWord ([''timeout'', show_int t, ''mkdir''] @ (if parent then [''-p''] else []) @ [''--'', p])
           @ ShOp ''&&'' # map ShWord (ls_words (ls_single p t)))"
  by (simp add: sh_tokens_def mkdir_get_command_def mkdir_init_def timeout_prefix_def sh_intro sh_eval)

lemma symlink_words:
  "squote \<notin> set p \<Longrightarrow> squote \<notin> set q \<Longrightarrow> sh_tokens (symlink_get_command (symlink_init p q t)) =
     Some (map ShWord [''timeout'', show_int t, ''ln'', ''-s'', ''--'', p, q]
           @ ShOp ''&&'' # map ShWord (ls_words (ls_single q t)))"
  by (simp add: sh_tokens_def symlink_get_command_def symlink_init_def timeout_prefix_def sh_intro sh_eval)

lemma show_int_no_quote: "squote \<notin> set (show_int i)"
  using show_int_safe [of i] by (auto simp: list_all_iff sh_eval)

definition count_words :: "string \<Rightarrow> string \<Rightarrow> bool \<Rightarrow> int option \<Rightarrow> string list" where
  "count_words name sign skip n =
     (if set_count n then [''--'' @ name @ ''='' @ (if skip then sign else []) @ show_int (the n)] else [])"

lemma head_words:
  "squote \<notin> set p \<Longrightarrow> sh_tokens (head_get_command \<lparr>ht_timeout = t, ht_target_path = p,
       ht_file_bytes = b, ht_lines = l, ht_skip = k\<rparr>) =
     Some (map ShWord ([''timeout'', show_int t, ''head''] @ count_words ''bytes'' ''-'' k b @
           count_words ''lines'' ''-'' k l @ [''--'', p]))"
  by (simp add: sh_tokens_def head_get_command_def timeout_prefix_def count_option_def count_words_def
      show_int_no_quote sh_intro sh_eval)

lemma tail_words:
  "squote \<notin> set p \<Longrightarrow> sh_tokens (tail_get_command \<lparr>ht_timeout = t, ht_target_path = p,
       ht_file_bytes = b, ht_lines = l, ht_skip = k\<rparr>) =
     Some (map ShWord ([''timeout'', show_int t, ''tail''] @ count_words ''bytes'' ''+'' k b @
           count_words ''lines'' ''+'' k l @ [''--'', p]))"
  by (simp add: sh_tokens_def tail_get_command_def timeout_prefix_def count_option_def count_words_def
      show_int_no_quote sh_intro sh_eval)

lemma dd_words:
  "squote \<notin> set p \<Longrightarrow> sh_tokens (dd_get_command \<lparr>dd_timeout = t, dd_target_path = p, dd_size = n,
       dd_offset = j, dd_skip = k\<rparr>) =
     Some (map ShWord [''timeout'', show_int t, ''dd'', ''if='' @ p, ''bs='' @ show_int n,
           ''skip='' @ show_int k, ''count=2''])"
  by (simp add: sh_tokens_def dd_get_command_def timeout_prefix_def sh_intro sh_eval)

lemma stat_words:
  "squote \<notin> set p \<Longrightarrow> sh_tokens (stat_get_command \<lparr>stat_timeout = t, stat_target_path = p,
       stat_dereference = d\<rparr>) =
     Some (map ShWord ([''timeout'', show_int t, ''stat''] @ (if d then [''--dereference''] else []) @
           [''-c'', ''%f %i %d %h %u %g %s %X %Y %Z'', ''--'', p]))"
  by (simp add: sh_tokens_def stat_get_command_def timeout_prefix_def sh_intro sh_eval)

lemma split_on_subset: "w \<in> set (split_on sep s) \<Longrightarrow> set w \<subseteq> set s"
  by (induction sep s arbitrary: w rule: split_on.induct) (fastforce split: list.splits if_splits)+

lemma rstrip_chars_subset: "set (rstrip_chars cs s) \<subseteq> set s"
  by (auto simp: rstrip_chars_def dest: set_dropWhileD)

lemma basename_no_quote: "squote \<notin> set p \<Longrightarrow> squote \<notin> set (basename p) \<and> squote \<notin> set (dirname p)"
  using split_on_subset [OF last_in_set [OF split_on_nonempty], of slash p]
    rstrip_chars_subset [of "''/''" "take (length p - length (basename p)) p"]
  by (auto simp: basename_def dirname_def Let_def dest: in_set_takeD)

lemma tar_words:
  "squote \<notin> set p \<Longrightarrow> squote \<notin> set q \<Longrightarrow> sh_tokens (tar_get_command (tar_init p q None d z TarCompress t)) =
     Some (map ShWord ([''timeout'', show_int t, ''tar''] @ (if d then [''--dereference''] else []) @
           [''-c'' @ compression_flag z @ ''vf'', q, ''-C'', dirname p, basename p]))"
  "squote \<notin> set p \<Longrightarrow> squote \<notin> set q \<Longrightarrow> sh_tokens (tar_get_command (tar_init p q pat d z TarExtract t)) =
     Some (map ShWord [''timeout'', show_int t, ''tar'', ''-x'' @ compression_flag z @ ''f'', p, ''-C'', q])"
  by (cases z; simp add: sh_tokens_def tar_get_command_def tar_init_def get_compress_command_def
      get_extract_command_def timeout_prefix_def basename_no_quote Let_def sh_intro sh_eval)+

subsection \<open>Reading the outputs\<close>

lemma split_ws_spaces: "split_ws (replicate n CHR '' '' @ s) = split_ws s"
  by (induction n) (simp_all add: split_ws_lead)

lemma py_int_no_ws: "list_all (\<lambda>c. \<not> is_ws c) (show_int i)"
  using show_nat_no_ws by (simp add: show_int_def is_ws_def)

text \<open>
  What \<open>dd\<close> copies to its standard output: \<open>count\<close> blocks of \<open>bs\<close> bytes from block \<open>skip\<close>
  on.  A byte is a character here.
\<close>

definition dd_copies :: "string \<Rightarrow> int \<Rightarrow> int \<Rightarrow> nat \<Rightarrow> string" where
  "dd_copies content bs skip count = take (count * nat bs) (drop (nat skip * nat bs) content)"

lemma dd_slice:
  assumes "0 < n" and "0 \<le> off"
  shows "slice (dd_copies content n (off div n) 2) (off mod n) (off mod n + n) =
    take (nat n) (drop (nat off) content)"
proof -
  define k m where "k = nat n" and "m = nat off"
  have n: "n = int k" "off = int m" "0 < k" using assms by (simp_all add: k_def m_def)
  have dm: "nat (int m div int k) = m div k" "nat (int m mod int k) = m mod k"
    by (simp_all add: nat_div_distrib nat_mod_distrib)
  have le: "m mod k \<le> k" using n(3) by (simp add: less_imp_le)
  have "slice (dd_copies content n (off div n) 2) (off mod n) (off mod n + n) =
      take k (drop (m mod k) (take (2 * k) (drop (m div k * k) content)))"
    using n le by (simp add: slice_nonneg dd_copies_def dm nat_add_distrib)
  also have "\<dots> = take (min k (2 * k - m mod k)) (drop (m mod k + m div k * k) content)"
    by (simp add: drop_take min_def)
  also have "\<dots> = take k (drop m content)" using le by simp
  finally show ?thesis by (simp add: n)
qed

lemma slice_from_append: "slice_from (a @ s) (int (length a)) = s"
  by (simp add: slice_from_def clamp_index_def)

text \<open>The output of \<open>id\<close>.\<close>

definition id_entry :: "unix_id \<Rightarrow> string" where
  "id_entry u = id_id u @ ''('' @ id_name u @ '')''"

definition id_output :: "UserInfo \<Rightarrow> string" where
  "id_output u = ''uid='' @ id_entry (ui_user u) @ '' gid='' @ id_entry (ui_group u) @ '' groups='' @
     join '','' (map id_entry (ui_groups u)) @ [newline]"

definition id_plain :: "string \<Rightarrow> bool" where
  "id_plain s \<longleftrightarrow> list_all (\<lambda>c. c \<notin> set ''=(),'') s"

definition wf_id :: "unix_id \<Rightarrow> bool" where
  "wf_id u \<longleftrightarrow> id_plain (id_name u) \<and> id_plain (id_id u)"

lemma id_plainD: "id_plain s \<Longrightarrow> CHR ''='' \<notin> set s \<and> CHR ''('' \<notin> set s \<and> CHR '')'' \<notin> set s \<and> CHR '','' \<notin> set s"
  by (auto simp: id_plain_def list_all_iff)

lemma wf_idD: "wf_id u \<Longrightarrow> id_plain (id_name u) \<and> id_plain (id_id u)"
  by (simp add: wf_id_def)

lemma id_group_entry: "wf_id u \<Longrightarrow> id_group (id_entry u @ t) = u"
proof -
  assume "wf_id u"
  then have p: "CHR ''('' \<notin> set (id_id u)" "CHR '')'' \<notin> set (id_id u @ ''('' @ id_name u)"
    using wf_idD [of u] id_plainD [of "id_id u"] id_plainD [of "id_name u"] by simp_all
  have "str_find (id_entry u @ t) ''('' 0 = int (length (id_id u))"
    using p by (simp add: str_find_0 id_entry_def find_at_char)
  moreover have "str_find (id_entry u @ t) '')'' 0 = int (length (id_id u @ ''('' @ id_name u))"
    using p find_at_char [of "CHR '')''" "id_id u @ ''('' @ id_name u" t]
    by (simp add: str_find_0 id_entry_def)
  moreover have "slice (id_entry u @ t) (int (length (id_id u)) + 1) (int (length (id_id u @ ''('' @ id_name u)))
      = id_name u"
    using slice_mid [of "id_id u @ ''(''" "id_name u" "'')'' @ t"] by (simp add: id_entry_def algebra_simps)
  moreover have "slice_to (id_entry u @ t) (int (length (id_id u))) = id_id u"
    by (simp add: slice_to_def clamp_index_def id_entry_def)
  ultimately show ?thesis by (simp add: id_group_def)
qed

lemma id_groups:
  "us \<noteq> [] \<Longrightarrow> list_all wf_id us \<Longrightarrow>
     map id_group (split_on (CHR '','') (join '','' (map id_entry us) @ [newline])) = us"
proof (induction us)
  case (Cons u us)
  have nc: "CHR '','' \<notin> set (id_entry u)"
    using Cons.prems wf_idD [of u] id_plainD [of "id_id u"] id_plainD [of "id_name u"]
    by (simp add: id_entry_def)
  show ?case
  proof (cases us)
    case Nil
    then show ?thesis using Cons.prems nc
      by (simp add: split_on_no_sep id_group_entry)
  next
    case (Cons v vs)
    then have "split_on (CHR '','') (join '','' (map id_entry (u # us)) @ [newline]) =
        id_entry u # split_on (CHR '','') (join '','' (map id_entry us) @ [newline])"
      using nc by (simp add: split_on_append)
    then show ?thesis using Cons.prems Cons Cons.IH id_group_entry [of u "[]"] by simp
  qed
qed simp

lemma id_parse_at:
  assumes "wf_id u" "wf_id g"
    and out: "out = ''uid='' @ id_id u @ ''('' @ id_name u @ '') gid='' @ id_id g @ ''('' @ id_name g @ '') groups='' @ rest"
  shows "id_parse_output t out [] 0 = Inr \<lparr>ui_user = u, ui_group = g,
    ui_groups = map id_group (split_on (CHR '','') rest)\<rparr>"
proof -
  have p: "c \<notin> set (id_id u)" "c \<notin> set (id_name u)" "c \<notin> set (id_id g)" "c \<notin> set (id_name g)"
    if "c \<in> {CHR ''='', CHR ''('', CHR '')''}" for c
    using that wf_idD [OF assms(1)] wf_idD [OF assms(2)] id_plainD [of "id_id u"]
      id_plainD [of "id_name u"] id_plainD [of "id_id g"] id_plainD [of "id_name g"] by auto
  let ?A = "''uid='' @ id_id u" and ?B = "''uid='' @ id_id u @ ''('' @ id_name u"
  let ?C = "''uid='' @ id_id u @ ''('' @ id_name u @ '') gid='' @ id_id g"
  let ?D = "?C @ ''('' @ id_name g"
  have f0: "str_find out ''uid='' 0 = 0" by (simp add: out str_find_0)
  have f1: "str_find out ''='' 0 = 3"
    using find_at_char [of "CHR ''=''" "''uid''"] by (simp add: out str_find_0)
  have f2: "str_find out ''('' 0 = int (length ?A)"
    using find_at_char [of "CHR ''(''" ?A] p by (simp add: out str_find_0)
  have f3: "str_find out '')'' 0 = int (length ?B)"
    using find_at_char [of "CHR '')''" ?B] p by (simp add: out str_find_0)
  have f4: "str_find out ''='' (int (length ?B)) = int (length ?B + 5)"
    using str_find_char [of "CHR ''=''" "'') gid''" ?B] by (simp add: out)
  have f5: "str_find out ''gid='' 0 = int (length ?B + 2)"
    using find_at_upto [of "CHR ''=''" "''gid''" "id_id u @ ''('' @ id_name u @ '') ''"] p
    by (simp add: out str_find_0)
  have f6: "str_find out ''('' (int (length ?B + 2)) = int (length ?C)"
    using str_find_char [of "CHR ''(''" "''gid='' @ id_id g" "?B @ '') ''"] p by (simp add: out)
  have f7: "str_find out '')'' (int (length ?B + 2)) = int (length ?D)"
    using str_find_char [of "CHR '')''" "''gid='' @ id_id g @ ''('' @ id_name g" "?B @ '') ''"] p
    by (simp add: out)
  have f8: "str_find out ''='' (int (length ?D)) = int (length ?D + 8)"
    using str_find_char [of "CHR ''=''" "'') groups''" ?D] by (simp add: out)
  have s1: "slice out (int (length ?A) + 1) (int (length ?B)) = id_name u"
    using slice_mid [of "?A @ ''(''" "id_name u"] by (simp add: out algebra_simps)
  have s2: "slice out (3 + 1) (int (length ?A)) = id_id u"
    using slice_mid [of "''uid=''" "id_id u"] by (simp add: out algebra_simps)
  have s3: "slice out (int (length ?C) + 1) (int (length ?D)) = id_name g"
    using slice_mid [of "?C @ ''(''" "id_name g"] by (simp add: out algebra_simps)
  have s4: "slice out (int (length ?B + 5) + 1) (int (length ?C)) = id_id g"
    using slice_mid [of "?B @ '') gid=''" "id_id g"] by (simp add: out algebra_simps)
  have s5: "slice_from out (int (length ?D + 8) + 1) = rest"
    using slice_from_append [of "?D @ '') groups=''" rest] by (simp add: out algebra_simps)
  show ?thesis
    unfolding id_parse_output_def Let_def f0 f1 f2 f3 f4 f5 f6 f7 f8 s1 s2 s3 s4 s5 by simp
qed

subsection \<open>Properties\<close>



text \<open>
  A single quote in a path ends the quoting.  Whatever command line \<open>cmd\<close> stands after
  \<open>'; \<close> in the path of \<open>rm\<close> runs as a second command of the shell.
\<close>

theorem rm_path_injection:
  assumes "sh_tokens (cmd @ '' '' @ [squote, squote]) = Some ts" and "squote \<notin> set p"
  shows "sh_tokens (rm_get_command
       \<lparr>pc_timeout = t, pc_target_path = p @ squote # ''; '' @ cmd @ '' '' @ [squote]\<rparr>) =
     Some (map ShWord [''timeout'', show_int t, ''rm'', ''-r'', ''--interactive=never'', ''--'', p] @
           ShOp '';'' # ts)"
  using assms sh_scan_single [of p "[]" True "''; '' @ cmd @ '' '' @ [squote, squote]"]
  by (simp add: sh_tokens_def rm_get_command_def timeout_prefix_def sh_intro sh_eval quoted_def)

lemma rm_path_injection_witness:
  "sh_tokens (rm_get_command
       \<lparr>pc_timeout = 5, pc_target_path = ''/x'' @ squote # ''; '' @ ''reboot'' @ '' '' @ [squote]\<rparr>) =
     Some (map ShWord [''timeout'', show_int 5, ''rm'', ''-r'', ''--interactive=never'', ''--'', ''/x''] @
           ShOp '';'' # [ShWord ''reboot'', ShWord []])"
  by (rule rm_path_injection) (simp_all add: sh_tokens_def sh_eval)



text \<open>
  The checksum of a file is parsed exactly when its path contains no white space; for
  any other path the operation fails with a 500, as the output is split into more than two
  words.
\<close>

theorem checksum_needs_plain_path:
  assumes "digest \<noteq> []" and "list_all (\<lambda>c. \<not> is_ws c) digest"
  shows "checksum_parse_output c (digest @ ''  '' @ path @ [newline]) err 0 =
    (if length (split_ws path) = 1
     then Inr \<lparr>fc_algorithm = cks_algorithm c, fc_checksum = digest\<rparr>
     else http_error 500 (''Invalid output: '' @ digest @ ''  '' @ path @ [newline] @ '' '' @ err))"
proof -
  have "split_ws (digest @ ''  '' @ path @ [newline]) = digest # split_ws path"
    using assms by (simp add: split_ws_word split_ws_lead split_ws_snoc)
  then show ?thesis
    by (cases "split_ws path" rule: remdups_adj.cases) (simp_all add: checksum_parse_output_def)
qed

lemma checksum_needs_plain_path_witness:
  "checksum_parse_output \<lparr>cks_timeout = 5, cks_algorithm = ''SHA256'', cks_target_path = ''a b''\<rparr>
     (''e5b0'' @ ''  '' @ ''a b'' @ [newline]) [] 0 =
   http_error 500 (''Invalid output: '' @ ''e5b0'' @ ''  '' @ ''a b'' @ [newline] @ '' '' @ [])"
  using checksum_needs_plain_path [of "''e5b0''"
    "\<lparr>cks_timeout = 5, cks_algorithm = ''SHA256'', cks_target_path = ''a b''\<rparr>" "''a b''" "[]"]
  by (simp add: is_ws_def split_ws_def)

text \<open>The parser of \<open>id\<close> reads back the user, the group and all groups \<open>id\<close> prints.\<close>

theorem id_roundtrip:
  assumes "wf_id (ui_user u)" and "wf_id (ui_group u)" and "list_all wf_id (ui_groups u)"
    and "ui_groups u \<noteq> []"
  shows "id_parse_output t (id_output u) [] 0 = Inr u"
  using id_parse_at [OF assms(1,2), of "id_output u" "join '','' (map id_entry (ui_groups u)) @ [newline]" t]
    id_groups [OF assms(4,3)]
  by (simp add: id_output_def id_entry_def [of "ui_user u"] id_entry_def [of "ui_group u"])

lemma id_roundtrip_witness:
  "id_parse_output 5 (id_output \<lparr>ui_user = \<lparr>id_name = ''ana'', id_id = ''1000''\<rparr>,
     ui_group = \<lparr>id_name = ''users'', id_id = ''100''\<rparr>,
     ui_groups = [\<lparr>id_name = ''users'', id_id = ''100''\<rparr>, \<lparr>id_name = ''a b'', id_id = ''7''\<rparr>]\<rparr>) [] 0 =
   Inr \<lparr>ui_user = \<lparr>id_name = ''ana'', id_id = ''1000''\<rparr>,
     ui_group = \<lparr>id_name = ''users'', id_id = ''100''\<rparr>,
     ui_groups = [\<lparr>id_name = ''users'', id_id = ''100''\<rparr>, \<lparr>id_name = ''a b'', id_id = ''7''\<rparr>]\<rparr>"
  by (rule id_roundtrip) (simp_all add: wf_id_def id_plain_def)

text \<open>
  A group without a name, which \<open>id\<close> prints as its bare number, loses its last digit:
  both its name and its id become the number without it.
\<close>

theorem id_unnamed_group:
  assumes "list_all is_digit n" and "n \<noteq> []"
  shows "id_group n = \<lparr>id_name = butlast n, id_id = butlast n\<rparr>"
proof -
  have "c \<notin> set n \<Longrightarrow> find_at [c] n = None" for c
    by (induction n) auto
  moreover have "CHR ''('' \<notin> set n" "CHR '')'' \<notin> set n"
    using assms by (auto simp: list_all_iff is_digit_def)
  ultimately have "str_find n ''('' 0 = -1" "str_find n '')'' 0 = -1"
    by (simp_all add: str_find_0)
  moreover have "nat (int (length n) - 1) = length n - 1" using assms by (cases n) auto
  ultimately show ?thesis using assms
    by (simp add: id_group_def slice_def slice_to_def clamp_index_def butlast_conv_take)
qed

lemma id_unnamed_group_witness: "id_group ''70001'' = \<lparr>id_name = ''7000'', id_id = ''7000''\<rparr>"
  using id_unnamed_group [of "''70001''"] by (simp add: is_digit_def)

text \<open>The parser of \<open>stat\<close> reads back the mode, printed in base 16, and the other fields.\<close>

theorem stat_roundtrip:
  assumes "length values = 9"
  shows "stat_parse_output c (join '' '' (show_base 16 mode # map show_int values) @ [newline]) err 0 =
    Inr (zip stat_fields (int mode # values))"
proof -
  have "list_all (\<lambda>c. \<not> is_ws c) (show_base 16 mode)"
    using show_base_digits [of 16 mode] by (auto simp: list_all_iff digit_not_ws)
  then have "split_ws (join '' '' (show_base 16 mode # map show_int values)) =
      show_base 16 mode # map show_int values"
    by (intro split_ws_join) (auto simp: py_int_no_ws)
  then have "split_ws (join '' '' (show_base 16 mode # map show_int values) @ [newline]) =
      show_base 16 mode # map show_int values" by (simp add: split_ws_snoc del: join.simps)
  moreover have "traverse py_int (map show_int values) = Inr values"
    by (simp add: traverse_Inr_iff list_all2_map1 list.rel_refl)
  ultimately show ?thesis using assms
    by (simp add: stat_parse_output_def py_int16_show stat_fields_def del: join.simps)
qed

lemma stat_roundtrip_witness:
  "stat_parse_output \<lparr>stat_timeout = 5, stat_target_path = ''f'', stat_dereference = True\<rparr>
     (join '' '' (show_base 16 33188 # map show_int [1, 2, 3, 4, 5, 6, 7, 8, 9]) @ [newline]) [] 0 =
   Inr (zip stat_fields [33188, 1, 2, 3, 4, 5, 6, 7, 8, 9])"
  using stat_roundtrip [of "[1, 2, 3, 4, 5, 6, 7, 8, 9]"
    "\<lparr>stat_timeout = 5, stat_target_path = ''f'', stat_dereference = True\<rparr>" 33188 "[]"] by simp

text \<open>
  With a match pattern the compression the client asked for is ignored: the command line
  is the same for every compression, and it always makes a gzip archive (\<open>-czvf\<close>).
\<close>

theorem compress_pattern_ignores_compression:
  assumes "pat \<noteq> []"
  shows "tar_get_command (tar_init p q (Some pat) d z1 TarCompress t) =
         tar_get_command (tar_init p q (Some pat) d z2 TarCompress t) \<and>
    contains '' -czvf '' (tar_get_command (tar_init p q (Some pat) d z1 TarCompress t))"
proof -
  have "tar_get_command (tar_init p q (Some pat) d z1 TarCompress t) =
      (timeout_prefix t @ '' bash -c '' @ [dquote] @ ''cd '' @ dirname p @ ''; '' @
       timeout_prefix t @ '' find . -type f -regex '' @ quoted pat @ '' -print0 | tar '' @
       (if d then ''--dereference'' else [])) @ '' -czvf '' @
      (quoted q @ '' --null --files-from - '' @ [dquote])"
    using assms by (simp add: tar_get_command_def tar_init_def get_compress_command_def Let_def)
  then have "contains '' -czvf '' (tar_get_command (tar_init p q (Some pat) d z1 TarCompress t))"
    unfolding contains_iff by blast
  then show ?thesis using assms
    by (simp add: tar_get_command_def tar_init_def get_compress_command_def)
qed

lemma compress_pattern_ignores_compression_witness:
  "tar_get_command (tar_init ''/s'' ''/t'' (Some ''.*c'') False CXz TarCompress 5) =
     tar_get_command (tar_init ''/s'' ''/t'' (Some ''.*c'') False CNone TarCompress 5)"
  using compress_pattern_ignores_compression [of "''.*c''"] by blast

end
