(* ===== verification/JsonText.thy ===== *)
theory JsonText
  imports Json
begin

section \<open>Reading JSON text\<close>

text \<open>
  \<open>json.loads\<close>.  A malformed text raises \<open>JSONDecodeError\<close>.  Numbers with a fraction or an
  exponent are floats; the names \<open>NaN\<close> and \<open>Infinity\<close>, which Python also accepts, are not
  modelled.  An escaped code point above U+00FF is outside the model's characters and is read as a
  question mark.  Of equal keys in an object the last value wins at the first key's place.

  The functions return the value and the rest of the text.  Their fuel bounds the nesting and the
  number of elements.  Twice the text's length is enough, as \<open>json_fuel_enough\<close> shows: a call
  that consumes no character is followed by one that does.
\<close>

type_synonym 'a parsed = "('a \<times> string) option"

definition is_json_ws :: "char \<Rightarrow> bool" where
  "is_json_ws c \<longleftrightarrow> c = CHR '' '' \<or> c = CHR 0x09 \<or> c = newline \<or> c = CHR 0x0D"

definition skip_ws :: "string \<Rightarrow> string" where
  "skip_ws s = dropWhile is_json_ws s"

definition hex4 :: "string \<Rightarrow> nat option" where
  "hex4 s = (if length s = 4 \<and> list_all (digit_in 16) s then Some (read_base 16 0 s) else None)"

definition code_point :: "nat \<Rightarrow> char" where
  "code_point n = (if n < 256 then char_of n else CHR ''?'')"

fun json_escape :: "char \<Rightarrow> char option" where
  "json_escape c =
     (if c \<in> {CHR 0x22, CHR 0x5C, CHR ''/''} then Some c
      else if c = CHR ''b'' then Some (CHR 0x08) else if c = CHR ''f'' then Some (CHR 0x0C)
      else if c = CHR ''n'' then Some newline else if c = CHR ''r'' then Some (CHR 0x0D)
      else if c = CHR ''t'' then Some (CHR 0x09) else None)"

text \<open>The characters of a string up to its closing quote.\<close>

fun json_string :: "nat \<Rightarrow> string \<Rightarrow> string \<Rightarrow> string parsed" where
  "json_string 0 acc s = None"
| "json_string (Suc n) acc [] = None"
| "json_string (Suc n) acc (c # s) =
     (if c = CHR 0x22 then Some (rev acc, s)
      else if c = CHR 0x5C then
        (case s of
           [] \<Rightarrow> None
         | e # t \<Rightarrow>
             if e = CHR ''u''
             then (case hex4 (take 4 t) of None \<Rightarrow> None
                   | Some k \<Rightarrow> json_string n (code_point k # acc) (drop 4 t))
             else (case json_escape e of None \<Rightarrow> None | Some d \<Rightarrow> json_string n (d # acc) t))
      else if code c < 32 then None
      else json_string n (c # acc) s)"

text \<open>\<open>-?(0|[1-9]\d*)(\.\d+)?([eE][-+]?\d+)?\<close>\<close>

definition json_int_part :: "string \<Rightarrow> string parsed" where
  "json_int_part s =
     (case s of
        [] \<Rightarrow> None
      | c # t \<Rightarrow>
          if c = CHR ''0'' then Some (''0'', t)
          else if is_digit c then Some (takeWhile is_digit s, dropWhile is_digit s) else None)"

definition json_frac_part :: "string \<Rightarrow> string \<times> string" where
  "json_frac_part s =
     (case s of
        c # d # t \<Rightarrow> if c = CHR ''.'' \<and> is_digit d
                     then (takeWhile is_digit (d # t), dropWhile is_digit (d # t)) else ([], s)
      | _ \<Rightarrow> ([], s))"

definition json_exp_part :: "string \<Rightarrow> (bool \<times> nat) option \<times> string" where
  "json_exp_part s =
     (case s of
        c # t \<Rightarrow>
          (if lower_char c = CHR ''e'' then
             (case split_sign t of (neg, u) \<Rightarrow>
                if u \<noteq> [] \<and> is_digit (hd u)
                then (Some (neg, read_base 10 0 (takeWhile is_digit u)), dropWhile is_digit u)
                else (None, s))
           else (None, s))
      | [] \<Rightarrow> (None, s))"

definition json_number :: "string \<Rightarrow> json parsed" where
  "json_number s0 =
     (let neg = starts_with ''-'' s0; s = (if neg then drop 1 s0 else s0) in
      case json_int_part s of
        None \<Rightarrow> None
      | Some (ip, t) \<Rightarrow>
          (case json_frac_part t of (fp, u) \<Rightarrow>
           (case json_exp_part u of (ex, v) \<Rightarrow>
              if fp = [] \<and> ex = None
              then Some (JInt (int_of_sign neg (read_base 10 0 ip)), v)
              else let m = of_nat (read_base 10 0 (ip @ fp)) / 10 ^ length fp;
                       x = (case ex of None \<Rightarrow> m | Some (True, e) \<Rightarrow> m / 10 ^ e | Some (False, e) \<Rightarrow> m * 10 ^ e)
                   in Some (JFloat (if neg then - x else x), v))))"

fun json_value :: "nat \<Rightarrow> string \<Rightarrow> json parsed"
  and json_elements :: "nat \<Rightarrow> json list \<Rightarrow> string \<Rightarrow> json list parsed"
  and json_members :: "nat \<Rightarrow> (string \<times> json) list \<Rightarrow> string \<Rightarrow> (string \<times> json) list parsed" where
  "json_value 0 s = None"
| "json_value (Suc n) s =
     (case s of
        [] \<Rightarrow> None
      | c # t \<Rightarrow>
          if c = CHR 0x22 then map_option (\<lambda>(x, r). (JStr x, r)) (json_string (Suc n) [] t)
          else if c = CHR ''['' then
            (if starts_with '']'' (skip_ws t) then Some (JList [], drop 1 (skip_ws t))
             else map_option (\<lambda>(xs, r). (JList xs, r)) (json_elements n [] (skip_ws t)))
          else if c = CHR ''{'' then
            (if starts_with ''}'' (skip_ws t) then Some (JObj [], drop 1 (skip_ws t))
             else map_option (\<lambda>(d, r). (JObj d, r)) (json_members n [] (skip_ws t)))
          else if starts_with ''null'' s then Some (JNull, drop 4 s)
          else if starts_with ''true'' s then Some (JBool True, drop 4 s)
          else if starts_with ''false'' s then Some (JBool False, drop 5 s)
          else json_number s)"
| "json_elements 0 acc s = None"
| "json_elements (Suc n) acc s =
     (case json_value n s of
        None \<Rightarrow> None
      | Some (v, r) \<Rightarrow>
          (case skip_ws r of
             c # t \<Rightarrow> if c = CHR '','' then json_elements n (acc @ [v]) (skip_ws t)
                      else if c = CHR '']'' then Some (acc @ [v], t) else None
           | [] \<Rightarrow> None))"
| "json_members 0 acc s = None"
| "json_members (Suc n) acc s =
     (case s of
        q # t \<Rightarrow>
          (if q \<noteq> CHR 0x22 then None
           else (case json_string (Suc n) [] t of
                   None \<Rightarrow> None
                 | Some (k, r) \<Rightarrow>
                     (case skip_ws r of
                        c # u \<Rightarrow>
                          (if c \<noteq> CHR '':'' then None
                           else (case json_value n (skip_ws u) of
                                   None \<Rightarrow> None
                                 | Some (v, r2) \<Rightarrow>
                                     (case skip_ws r2 of
                                        d # w \<Rightarrow>
                                          if d = CHR '','' then json_members n (dict_set k v acc) (skip_ws w)
                                          else if d = CHR ''}'' then Some (dict_set k v acc, w) else None
                                      | [] \<Rightarrow> None)))
                      | [] \<Rightarrow> None)))
      | [] \<Rightarrow> None)"

definition json_loads :: "string \<Rightarrow> json res" where
  "json_loads s =
     (case json_value (Suc (2 * length s)) (skip_ws s) of
        None \<Rightarrow> raise JSONDecodeError []
      | Some (v, r) \<Rightarrow> if skip_ws r = [] then Inr v else raise JSONDecodeError [])"

subsection \<open>What the parser produces\<close>

text \<open>In every dictionary, at every depth, a key occurs once.\<close>

fun json_wf :: "json \<Rightarrow> bool" where
  "json_wf (JList xs) = list_all json_wf xs"
| "json_wf (JObj d) = (distinct (map fst d) \<and> list_all (\<lambda>p. json_wf (snd p)) d)"
| "json_wf _ = True"

lemma list_all_dict_set:
  "list_all (\<lambda>p. Q (snd p)) d \<Longrightarrow> Q v \<Longrightarrow> list_all (\<lambda>p. Q (snd p)) (dict_set k v d)"
  by (induction d) auto

lemma json_value_cases:
  assumes "json_value (Suc n) s = Some (v, r)"
  obtains t x where "s = CHR 0x22 # t" "json_string (Suc n) [] t = Some (x, r)" "v = JStr x"
  | c t where "s = c # t" "r = drop 1 (skip_ws t)" "v \<in> {JList [], JObj []}"
  | c t xs where "s = c # t" "json_elements n [] (skip_ws t) = Some (xs, r)" "v = JList xs" "c = CHR ''[''"
      "\<not> starts_with '']'' (skip_ws t)"
  | c t d where "s = c # t" "json_members n [] (skip_ws t) = Some (d, r)" "v = JObj d" "c = CHR ''{''"
      "\<not> starts_with ''}'' (skip_ws t)"
  | k where "s \<noteq> []" "r = drop (Suc k) s" "v \<in> {JNull, JBool True, JBool False}"
  | "json_number s = Some (v, r)"
proof (cases s)
  case (Cons c t)
  consider "c = CHR 0x22" | "c = CHR ''[''" | "c = CHR ''{''" | "starts_with ''null'' s"
    | "starts_with ''true'' s" | "starts_with ''false'' s" | "c \<notin> {CHR 0x22, CHR ''['', CHR ''{''}"
      "\<not> starts_with ''null'' s" "\<not> starts_with ''true'' s" "\<not> starts_with ''false'' s" by blast
  then show ?thesis
  proof cases
    case 1
    then show ?thesis using assms that(1) by (auto simp: Cons)
  next
    case 2
    then show ?thesis using assms that(2,3) by (auto simp: Cons split: if_splits)
  next
    case 3
    then show ?thesis using assms that(2,4) by (auto simp: Cons split: if_splits)
  next
    case 7
    then have "json_number s = Some (v, r)" using assms by (simp add: Cons del: starts_with.simps)
    then show ?thesis by (rule that)
  next
    case 4
    then have "c = CHR ''n''" by (simp add: Cons)
    with 4 assms that(5) [of 3] show ?thesis by (simp add: Cons)
  next
    case 5
    then have "c = CHR ''t''" by (simp add: Cons)
    with 5 assms that(5) [of 3] show ?thesis by (simp add: Cons)
  next
    case 6
    then have "c = CHR ''f''" by (simp add: Cons)
    with 6 assms that(5) [of 4] show ?thesis by (simp add: Cons)
  qed
qed (use assms in simp)

lemma json_number_wf: "json_number s = Some (v, r) \<Longrightarrow> json_wf v"
  by (auto simp: json_number_def Let_def split: option.splits prod.splits if_split_asm)

lemma json_parsed_wf:
  "json_value n s = Some (v, r) \<Longrightarrow> json_wf v"
  "json_elements n acc s = Some (xs, r) \<Longrightarrow> list_all json_wf acc \<Longrightarrow> list_all json_wf xs"
  "json_members n d s = Some (e, r) \<Longrightarrow> json_wf (JObj d) \<Longrightarrow> json_wf (JObj e)"
proof (induction n s and n acc s and n d s arbitrary: v r and xs r and e r
       rule: json_value_json_elements_json_members.induct)
  case (2 n s)
  from "2.prems" show ?case
  proof (cases rule: json_value_cases)
    case (3 c t xs)
    then show ?thesis using "2.IH"(1) [OF 3(1)] by simp
  next
    case (4 c t d)
    then show ?thesis using "2.IH"(2) [OF 4(1)] by simp
  qed (auto dest: json_number_wf)
next
  case (4 n acc s)
  from "4.prems"(1) obtain v u c t where
    v: "json_value n s = Some (v, u)" "skip_ws u = c # t" by (auto split: option.splits list.splits)
  then have "json_wf v" using "4.IH"(1) by blast
  with v "4.prems" "4.IH"(2) [OF v(1) refl v(2)] show ?case by (auto split: if_splits)
next
  case (6 n acc s)
  from "6.prems"(1) obtain q t k r1 u v r2 c w where
    m: "s = q # t" "q = CHR 0x22" "json_string (Suc n) [] t = Some (k, r1)"
      "skip_ws r1 = CHR '':'' # u" "json_value n (skip_ws u) = Some (v, r2)" "skip_ws r2 = c # w"
    by (auto split: option.splits list.splits if_splits)
  have q: "\<not> q \<noteq> CHR 0x22" and colon: "\<not> CHR '':'' \<noteq> CHR '':''" using m by simp_all
  have "json_wf v" using "6.IH"(1) [OF m(1) q m(3) refl m(4) colon m(5)] by simp
  then have "json_wf (JObj (dict_set k v acc))"
    using "6.prems"(2) by (simp add: distinct_dict_set list_all_dict_set)
  with "6.IH"(2) [OF m(1) q m(3) refl m(4) colon m(5) refl m(6)] "6.prems"(1) m
  show ?case by (auto split: if_splits)
qed simp_all

lemma json_loads_wf: "json_loads s = Inr v \<Longrightarrow> json_wf v"
  by (auto simp: json_loads_def simp del: json_value.simps dest: json_parsed_wf(1)
      split: option.splits if_splits)

lemma json_loads_fails: "json_loads s = Inl e \<Longrightarrow> exc_cls e = JSONDecodeError"
  by (auto simp: json_loads_def simp del: json_value.simps split: option.splits if_splits)

subsection \<open>The fuel is enough\<close>

lemma skip_ws_le: "length (skip_ws s) \<le> length s"
  by (simp add: skip_ws_def length_dropWhile_le)

lemma json_string_rest: "json_string n acc s = Some (v, r) \<Longrightarrow> length r < length s"
  by (induction n acc s arbitrary: v r rule: json_string.induct)
     (fastforce split: list.splits if_splits option.splits)+

lemma json_number_parts_rest:
  "json_int_part s = Some (ip, t) \<Longrightarrow> length t < length s"
  "json_frac_part s = (fp, t) \<Longrightarrow> length t \<le> length s"
  "json_exp_part s = (ex, t) \<Longrightarrow> length t \<le> length s"
proof -
  have le: "length (dropWhile is_digit u) \<le> length u" for u by (simp add: length_dropWhile_le)
  show "json_int_part s = Some (ip, t) \<Longrightarrow> length t < length s"
    using le by (auto simp: json_int_part_def less_Suc_eq_le split: list.splits if_splits)
  show "json_frac_part s = (fp, t) \<Longrightarrow> length t \<le> length s"
    using le by (auto simp: json_frac_part_def le_SucI split: list.splits if_splits)
  have sign: "split_sign u = (neg, w) \<Longrightarrow> length w \<le> length u" for u neg w
    by (auto simp: split_sign_def split: list.splits if_splits)
  show "json_exp_part s = (ex, t) \<Longrightarrow> length t \<le> length s"
  proof (cases s)
    case (Cons c u)
    have step: "length (dropWhile is_digit w) \<le> Suc (length u)" if "split_sign u = (neg, w)" for neg w
      using le [of w] sign [OF that] by simp
    assume "json_exp_part s = (ex, t)"
    with Cons step show ?thesis
      by (auto simp: json_exp_part_def split: if_splits prod.splits)
  qed (simp add: json_exp_part_def)
qed

lemma json_number_rest:
  assumes "json_number s = Some (v, r)"
  shows "length r < length s"
proof -
  let ?s = "if starts_with ''-'' s then drop 1 s else s"
  obtain ip t fp u ex where
    "json_int_part ?s = Some (ip, t)" "json_frac_part t = (fp, u)" "json_exp_part u = (ex, r)"
    using assms
    by (auto simp: json_number_def Let_def split: option.splits prod.splits if_splits)
  from json_number_parts_rest(1) [OF this(1)] json_number_parts_rest(2) [OF this(2)]
    json_number_parts_rest(3) [OF this(3)]
  show ?thesis by (auto split: if_splits)
qed

lemma json_rest:
  "json_value n s = Some (v, r) \<Longrightarrow> length r < length s"
  "json_elements n acc s = Some (xs, r) \<Longrightarrow> length r < length s"
  "json_members n d s = Some (e, r) \<Longrightarrow> length r < length s"
proof (induction n s and n acc s and n d s arbitrary: v r and xs r and e r
       rule: json_value_json_elements_json_members.induct)
  case (2 n s)
  from "2.prems" show ?case
  proof (cases rule: json_value_cases)
    case (1 t x)
    then show ?thesis using json_string_rest [of "Suc n" "[]" t x r] by simp
  next
    case (2 c t)
    then show ?thesis using skip_ws_le [of t] by simp
  next
    case (3 c t xs)
    then show ?thesis using "2.IH"(1) [OF 3(1)] skip_ws_le [of t] by fastforce
  next
    case (4 c t d)
    then show ?thesis using "2.IH"(2) [OF 4(1)] skip_ws_le [of t] by fastforce
  qed (simp_all add: json_number_rest)
next
  case (4 n acc s)
  from "4.prems" obtain v u c t where
    v: "json_value n s = Some (v, u)" "skip_ws u = c # t" by (auto split: option.splits list.splits)
  with "4.IH"(1) have "length (c # t) < length s" using skip_ws_le [of u] by fastforce
  then show ?case using v "4.prems" "4.IH"(2) [OF v(1) refl v(2)] skip_ws_le [of t]
    by (fastforce split: if_splits)
next
  case (6 n acc s)
  from "6.prems" obtain q t k r1 u v r2 c w where
    m: "s = q # t" "q = CHR 0x22" "json_string (Suc n) [] t = Some (k, r1)"
      "skip_ws r1 = CHR '':'' # u" "json_value n (skip_ws u) = Some (v, r2)" "skip_ws r2 = c # w"
    by (auto split: option.splits list.splits if_splits)
  have q: "\<not> q \<noteq> CHR 0x22" and colon: "\<not> CHR '':'' \<noteq> CHR '':''" using m by simp_all
  have "length (c # w) < length s"
    using "6.IH"(1) [OF m(1) q m(3) refl m(4) colon m(5)] json_string_rest [OF m(3)]
      skip_ws_le [of r1] skip_ws_le [of u] skip_ws_le [of r2] m by simp
  with "6.IH"(2) [OF m(1) q m(3) refl m(4) colon m(5) refl m(6)] "6.prems" m skip_ws_le [of w]
  show ?case by (fastforce split: if_splits)
qed simp_all

lemma json_string_fuel: "length s < n \<Longrightarrow> json_string (n + k) acc s = json_string n acc s"
proof (induction n acc s rule: json_string.induct)
  case (3 n acc c s)
  note IH = "3.IH"
  have plain: "json_string (n + k) a s = json_string n a s"
    if "c \<noteq> CHR 0x22" "c \<noteq> CHR 0x5C" "\<not> code c < 32" "a = c # acc" for a
    using IH(3) "3.prems" that by simp
  have esc: "(case s of [] \<Rightarrow> None | e # t \<Rightarrow>
       if e = CHR ''u'' then (case hex4 (take 4 t) of None \<Rightarrow> None
         | Some h \<Rightarrow> json_string (n + k) (code_point h # acc) (drop 4 t))
       else (case json_escape e of None \<Rightarrow> None | Some d \<Rightarrow> json_string (n + k) (d # acc) t)) =
    (case s of [] \<Rightarrow> None | e # t \<Rightarrow>
       if e = CHR ''u'' then (case hex4 (take 4 t) of None \<Rightarrow> None
         | Some h \<Rightarrow> json_string n (code_point h # acc) (drop 4 t))
       else (case json_escape e of None \<Rightarrow> None | Some d \<Rightarrow> json_string n (d # acc) t))"
    if "c = CHR 0x5C"
    using IH(1,2) [OF _ that] "3.prems" that
    by (cases s) (simp_all del: json_escape.simps split: option.split)
  show ?case using plain esc by (simp del: json_escape.simps)
qed simp_all

lemma json_fuel:
  "2 * length s < n \<Longrightarrow> json_value (n + k) s = json_value n s"
  "2 * length s + 1 < n \<Longrightarrow> json_elements (n + k) acc s = json_elements n acc s"
  "2 * length s + 1 < n \<Longrightarrow> json_members (n + k) d s = json_members n d s"
proof (induction n s and n acc s and n d s
       rule: json_value_json_elements_json_members.induct)
  case (2 n s)
  show ?case
  proof (cases s)
    case (Cons c t)
    have str: "json_string (Suc n + k) [] t = json_string (Suc n) [] t"
      by (rule json_string_fuel) (use "2.prems" Cons in simp)
    have "2 * length (skip_ws t) + 1 < n" using "2.prems" Cons skip_ws_le [of t] by simp
    note IH = "2.IH"(1) [OF Cons _ _ _ this] "2.IH"(2) [OF Cons _ _ _ _ this]
    consider "c = CHR 0x22" | "c = CHR ''[''" "starts_with '']'' (skip_ws t)"
      | "c = CHR ''[''" "\<not> starts_with '']'' (skip_ws t)"
      | "c = CHR ''{''" "starts_with ''}'' (skip_ws t)"
      | "c = CHR ''{''" "\<not> starts_with ''}'' (skip_ws t)"
      | "c \<notin> {CHR 0x22, CHR ''['', CHR ''{''}" by blast
    then show ?thesis
    proof cases
      case 3
      with IH(1) show ?thesis by (simp add: Cons del: starts_with.simps)
    next
      case 5
      with IH(2) show ?thesis by (simp add: Cons del: starts_with.simps)
    qed (use str in \<open>simp_all add: Cons del: starts_with.simps\<close>)
  qed simp
next
  case (4 n acc s)
  have IH1: "json_value (n + k) s = json_value n s" by (rule "4.IH"(1)) (use "4.prems" in simp)
  show ?case
  proof (cases "json_value n s")
    case (Some p)
    obtain v r where p: "p = (v, r)" by (cases p)
    show ?thesis
    proof (cases "skip_ws r")
      case (Cons c t)
      have "2 * length (skip_ws t) + 1 < n"
        using json_rest(1) [of n s v r] Some p Cons skip_ws_le [of r] skip_ws_le [of t] "4.prems" by simp
      then show ?thesis using "4.IH"(2) [OF Some p [symmetric] Cons] IH1 Some p Cons by simp
    qed (use IH1 Some p in simp)
  qed (use IH1 in simp)
next
  case (6 n d s)
  show ?case
  proof (cases "\<exists>t k r u. s = CHR 0x22 # t \<and> json_string (Suc n) [] t = Some (k, r) \<and> skip_ws r = CHR '':'' # u")
    case False
    then show ?thesis
      using json_string_fuel [of "tl s" "Suc n" k "[]"] "6.prems"
      by (auto split: list.split option.split)
  next
    case True
    then obtain t key r u where s: "s = CHR 0x22 # t" and key: "json_string (Suc n) [] t = Some (key, r)"
      and u: "skip_ws r = CHR '':'' # u" by blast
    have str: "json_string (Suc n + k) [] t = Some (key, r)"
      using json_string_fuel [of t "Suc n" k "[]"] "6.prems" s key by simp
    have short: "length u + 2 < length s"
      using json_string_rest [OF key] u skip_ws_le [of r] s by simp
    note IH = "6.IH"(1) [OF s _ key refl u _] "6.IH"(2) [OF s _ key refl u _ _ refl]
    have IH1: "json_value (n + k) (skip_ws u) = json_value n (skip_ws u)"
      by (rule IH(1)) (use short skip_ws_le [of u] "6.prems" in simp_all)
    show ?thesis
    proof (cases "json_value n (skip_ws u)")
      case (Some p)
      obtain v r2 where p: "p = (v, r2)" by (cases p)
      show ?thesis
      proof (cases "skip_ws r2")
        case (Cons c w)
        have "2 * length (skip_ws w) + 1 < n"
          using json_rest(1) [of n "skip_ws u" v r2] Some p Cons skip_ws_le [of r2] skip_ws_le [of w]
            skip_ws_le [of u] short "6.prems" by simp
        then show ?thesis using IH(2) [OF _ _ Some [unfolded p] Cons] IH1 Some p Cons str s key u by simp
      qed (use IH1 Some p str s key u in simp)
    qed (use IH1 str s key u in simp)
  qed
qed simp_all

text \<open>
  Decoding the JSON output of a PBS tool always ends.  The decoder's result, a value or a
  malformed text, is the one any larger bound on its recursion gives, so the bound never shows.
\<close>

theorem json_fuel_enough:
  "json_value (Suc (2 * length s) + extra) (skip_ws s) = json_value (Suc (2 * length s)) (skip_ws s)"
  by (rule json_fuel(1)) (use skip_ws_le [of s] in simp)

end
