(* ===== verification/JsonDump.thy ===== *)
theory JsonDump
  imports JsonText
begin

section \<open>Writing JSON text\<close>

text \<open>
  \<open>json.dumps\<close> with its defaults: items are separated by a comma and a space, keys by a colon and a
  space, and whatever is not a printable ASCII character is escaped.  How a float prints is an
  argument (\<open>repr\<close> of a double).  \<open>json_loads\<close> gives back every value without floats.
\<close>

subsection \<open>Printing\<close>

definition dump_char :: "char \<Rightarrow> string" where
  "dump_char c =
     (if c = CHR 0x22 \<or> c = CHR 0x5C then [CHR 0x5C, c]
      else if c = newline then [CHR 0x5C, CHR ''n'']
      else if c = CHR 0x0D then [CHR 0x5C, CHR ''r'']
      else if c = CHR 0x09 then [CHR 0x5C, CHR ''t'']
      else if c = CHR 0x0C then [CHR 0x5C, CHR ''f'']
      else if c = CHR 0x08 then [CHR 0x5C, CHR ''b'']
      else if code c < 32 \<or> 126 < code c
      then [CHR 0x5C, CHR ''u'', CHR ''0'', CHR ''0'', digit_char (code c div 16), digit_char (code c mod 16)]
      else [c])"

definition dump_string :: "string \<Rightarrow> string" where
  "dump_string s = CHR 0x22 # concat (map dump_char s) @ [CHR 0x22]"

fun json_dumps :: "(rat \<Rightarrow> string) \<Rightarrow> json \<Rightarrow> string" where
  "json_dumps fr JNull = ''null''"
| "json_dumps fr (JBool b) = (if b then ''true'' else ''false'')"
| "json_dumps fr (JInt i) = show_int i"
| "json_dumps fr (JFloat q) = fr q"
| "json_dumps fr (JStr s) = dump_string s"
| "json_dumps fr (JList xs) = ''['' @ join '', '' (map (json_dumps fr) xs) @ '']''"
| "json_dumps fr (JObj d) = ''{'' @ join '', '' (map (\<lambda>(k, v). dump_string k @ '': '' @ json_dumps fr v) d) @ ''}''"

fun no_float :: "json \<Rightarrow> bool" where
  "no_float (JFloat q) = False"
| "no_float (JList xs) = list_all no_float xs"
| "no_float (JObj d) = list_all (\<lambda>p. no_float (snd p)) d"
| "no_float _ = True"

subsection \<open>Strings\<close>

lemma hex4_of_char: "hex4 [CHR ''0'', CHR ''0'', digit_char (code c div 16), digit_char (code c mod 16)] = Some (code c)"
proof -
  have d: "code c div 16 < 16" by (rule less_mult_imp_div_less) simp
  then have "digit_in 16 (digit_char (code c div 16))" "digit_in 16 (digit_char (code c mod 16))"
    "digit_in 16 CHR ''0''"
    by (simp_all add: digit_in_digit_char del: of_char_eq_iff) (simp add: digit_in_def digit_val_def is_digit_def)
  moreover have "digit_val CHR ''0'' = Some 0" by (simp add: digit_val_def is_digit_def)
  ultimately show ?thesis using d by (simp add: hex4_def digit_val_digit_char)
qed

lemma code_point_code: "code_point (code c) = c"
  using nat_of_char_less_256 [of c] by (simp add: code_point_def del: nat_of_char_less_256)

lemma json_string_dump_char:
  "json_string (Suc n) acc (dump_char c @ r) = json_string n (c # acc) r"
proof -
  consider "c \<in> {CHR 0x22, CHR 0x5C, newline, CHR 0x0D, CHR 0x09, CHR 0x0C, CHR 0x08}"
    | "c \<notin> {CHR 0x22, CHR 0x5C, newline, CHR 0x0D, CHR 0x09, CHR 0x0C, CHR 0x08}" "code c < 32 \<or> 126 < code c"
    | "c \<notin> {CHR 0x22, CHR 0x5C, newline, CHR 0x0D, CHR 0x09, CHR 0x0C, CHR 0x08}" "\<not> (code c < 32 \<or> 126 < code c)"
    by blast
  then show ?thesis
  proof cases
    case 1
    then show ?thesis by (auto simp: dump_char_def)
  next
    case 2
    then show ?thesis by (simp add: dump_char_def hex4_of_char code_point_code)
  next
    case 3
    then show ?thesis by (simp add: dump_char_def)
  qed
qed

lemma json_string_dumped:
  "length s < n \<Longrightarrow> json_string n acc (concat (map dump_char s) @ CHR 0x22 # r) = Some (rev acc @ s, r)"
proof (induction s arbitrary: n acc)
  case Nil
  then show ?case by (cases n) simp_all
next
  case (Cons c s)
  then show ?case by (cases n) (simp_all add: json_string_dump_char)
qed

subsection \<open>Numbers\<close>

lemma show_base_lead: "2 \<le> b \<Longrightarrow> b \<le> 16 \<Longrightarrow> 0 < n \<Longrightarrow> hd (show_base b n) \<noteq> CHR ''0''"
proof (induction b n rule: show_base.induct)
  case (1 b n)
  have nz: "digit_char d \<noteq> CHR ''0''" if "0 < d" "d < 16" for d
    using that digit_val_digit_char [of d] by (auto simp: digit_val_def is_digit_def)
  show ?case
  proof (cases "n < b")
    case True
    then show ?thesis using 1 nz [of n] by (subst show_base.simps) simp
  next
    case False
    then have "0 < n div b" using 1 by (simp add: div_greater_zero_iff)
    then show ?thesis using False 1 by (subst show_base.simps) simp
  qed
qed

text \<open>\<open>ends r\<close>: the rest of the text after a value does not go on with a number.\<close>

definition ends :: "string \<Rightarrow> bool" where
  "ends r \<longleftrightarrow> r = [] \<or> hd r \<in> set '',]}''"

lemma ends_simps [simp]: "ends []" "ends (c # r) \<longleftrightarrow> c \<in> set '',]}''"
  by (simp_all add: ends_def)

lemma takeWhile_show_nat:
  "ends r \<Longrightarrow> takeWhile is_digit (show_nat n @ r) = show_nat n \<and> dropWhile is_digit (show_nat n @ r) = r"
  using show_nat_digits [of n] by (cases r) (auto simp: list_all_iff is_digit_def)

lemma json_int_part_show: "ends r \<Longrightarrow> json_int_part (show_nat n @ r) = Some (show_nat n, r)"
proof (cases "n = 0")
  case True
  then show ?thesis by (simp add: json_int_part_def show_nat_small digit_char_def)
next
  case False
  assume r: "ends r"
  obtain c t where ct: "show_nat n = c # t" by (cases "show_nat n") simp_all
  then have "c \<noteq> CHR ''0''" "is_digit c"
    using False show_base_lead [of 10 n] show_nat_hd_digit [of n] by (simp_all add: show_nat_def)
  then show ?thesis using takeWhile_show_nat [OF r, of n] ct by (simp add: json_int_part_def)
qed

lemma json_number_show: "ends r \<Longrightarrow> json_number (show_int i @ r) = Some (JInt i, r)"
proof -
  assume r: "ends r"
  have tail: "json_frac_part r = ([], r)" "json_exp_part r = (None, r)"
    using r by (cases r; auto simp: json_frac_part_def json_exp_part_def lower_char_def split: list.split)+
  have pos: "\<not> starts_with ''-'' (show_nat n @ r)" for n
    using show_nat_hd_digit [of n] by (cases "show_nat n") (auto simp: is_digit_def)
  show ?thesis
    by (simp add: json_number_def show_int_def json_int_part_show [OF r] tail pos Let_def int_of_sign_def)
qed

subsection \<open>Values\<close>

definition reads :: "string \<Rightarrow> json \<Rightarrow> bool" where
  "reads t v \<longleftrightarrow> (\<forall>r. ends r \<longrightarrow> (\<exists>N. \<forall>n \<ge> N. json_value n (t @ r) = Some (v, r)))"

definition starts :: "string \<Rightarrow> bool" where
  "starts t \<longleftrightarrow> t \<noteq> [] \<and> \<not> is_json_ws (hd t) \<and> hd t \<notin> set '']}''"

lemma starts_dumps: "no_float v \<Longrightarrow> starts (json_dumps fr v)"
proof (cases v)
  case (JInt i)
  have "is_digit c \<Longrightarrow> c \<notin> set '']}'' \<and> \<not> is_json_ws c" for c
    by (auto simp: is_json_ws_def is_digit_def)
  then have "hd (show_nat n) \<notin> set '']}'' \<and> \<not> is_json_ws (hd (show_nat n))" for n
    using show_nat_hd_digit by blast
  then show ?thesis by (simp add: JInt starts_def show_int_def is_json_ws_def)
qed (auto simp: starts_def dump_string_def is_json_ws_def)

lemma skip_ws_starts: "starts t \<Longrightarrow> skip_ws (t @ r) = t @ r"
  by (cases t) (simp_all add: starts_def skip_ws_def)

lemma readsD: "reads t v \<Longrightarrow> ends r \<Longrightarrow> \<exists>N. \<forall>n \<ge> N. json_value n (t @ r) = Some (v, r)"
  by (simp add: reads_def)

lemma enough_Suc: "(\<And>n. N \<le> n \<Longrightarrow> P (Suc n)) \<Longrightarrow> \<exists>N. \<forall>n \<ge> N. P n"
  by (rule exI [of _ "Suc N"]) (auto dest: Suc_le_D)

lemma reads_elements:
  assumes "xs \<noteq> []" and "list_all (\<lambda>v. reads (json_dumps fr v) v \<and> starts (json_dumps fr v)) xs"
  shows "\<exists>N. \<forall>n \<ge> N. json_elements n acc (join '', '' (map (json_dumps fr) xs) @ '']'' @ r) = Some (acc @ xs, r)"
  using assms
proof (induction xs arbitrary: acc)
  case (Cons v xs)
  show ?case
  proof (cases xs)
    case Nil
    obtain N where N: "\<And>n. N \<le> n \<Longrightarrow> json_value n (json_dumps fr v @ '']'' @ r) = Some (v, '']'' @ r)"
      using readsD [of "json_dumps fr v" v "'']'' @ r"] Cons.prems by auto
    show ?thesis by (rule enough_Suc [of N]) (simp add: Nil N [simplified] skip_ws_def is_json_ws_def del: json_value.simps)
  next
    case (Cons u us)
    let ?rest = "join '', '' (map (json_dumps fr) xs) @ '']'' @ r"
    obtain N where N: "\<And>n. N \<le> n \<Longrightarrow> json_value n (json_dumps fr v @ '', '' @ ?rest) = Some (v, '', '' @ ?rest)"
      using readsD [of "json_dumps fr v" v "'', '' @ ?rest"] Cons.prems by auto
    obtain M where M: "\<And>n. M \<le> n \<Longrightarrow> json_elements n (acc @ [v]) ?rest = Some ((acc @ [v]) @ xs, r)"
      using Cons.IH [of "acc @ [v]"] Cons.prems \<open>xs = u # us\<close> by auto
    have "starts (join '', '' (map (json_dumps fr) xs))"
      using Cons.prems \<open>xs = u # us\<close> by (cases us) (auto simp: starts_def hd_append)
    then have "skip_ws (CHR '' '' # ?rest) = ?rest"
      using skip_ws_starts [of "join '', '' (map (json_dumps fr) xs)" "'']'' @ r"]
      by (simp add: skip_ws_def is_json_ws_def)
    then show ?thesis using N M \<open>xs = u # us\<close>
      by (intro enough_Suc [of "N + M"]) (simp add: skip_ws_def [of "CHR '','' # _"] is_json_ws_def del: json_value.simps)
  qed
qed simp

definition dump_member :: "(rat \<Rightarrow> string) \<Rightarrow> string \<times> json \<Rightarrow> string" where
  "dump_member fr p = dump_string (fst p) @ '': '' @ json_dumps fr (snd p)"

lemma json_dumps_obj: "json_dumps fr (JObj d) = ''{'' @ join '', '' (map (dump_member fr) d) @ ''}''"
proof -
  have "dump_member fr = (\<lambda>(k, v). dump_string k @ '': '' @ json_dumps fr v)"
    by (rule ext) (simp add: dump_member_def case_prod_unfold)
  then show ?thesis by simp
qed

lemma dict_set_fresh: "k \<notin> set (map fst d) \<Longrightarrow> dict_set k v d = d @ [(k, v)]"
  by (induction d) auto

lemma reads_members:
  assumes "d \<noteq> []" and "list_all (\<lambda>p. reads (json_dumps fr (snd p)) (snd p) \<and> starts (json_dumps fr (snd p))) d"
    and "distinct (map fst (acc @ d))"
  shows "\<exists>N. \<forall>n \<ge> N. json_members n acc (join '', '' (map (dump_member fr) d) @ ''}'' @ r) = Some (acc @ d, r)"
  using assms
proof (induction d arbitrary: acc)
  case (Cons p d)
  obtain k v where p: "p = (k, v)" by (cases p)
  have fresh: "dict_set k v acc = acc @ [(k, v)]"
    using Cons.prems(3) p by (intro dict_set_fresh) auto
  have str: "json_string (Suc n) [] (concat (map dump_char k) @ CHR 0x22 # t) = Some (k, t)" if "length k \<le> n" for n t
    using json_string_dumped [of k "Suc n" "[]" t] that by simp
  have skip: "skip_ws (CHR '' '' # json_dumps fr v @ t) = json_dumps fr v @ t" for t
    using skip_ws_starts [of "json_dumps fr v" t] Cons.prems p by (simp add: skip_ws_def is_json_ws_def)
  have colon: "skip_ws (CHR '':'' # t) = CHR '':'' # t" "skip_ws (CHR '','' # t) = CHR '','' # t"
    "skip_ws (CHR ''}'' # t) = CHR ''}'' # t" for t
    by (simp_all add: skip_ws_def is_json_ws_def)
  show ?case
  proof (cases d)
    case Nil
    obtain N where N: "\<And>n. N \<le> n \<Longrightarrow> json_value n (json_dumps fr v @ CHR ''}'' # r) = Some (v, CHR ''}'' # r)"
      using readsD [of "json_dumps fr v" v "CHR ''}'' # r"] Cons.prems p by auto
    show ?thesis
      by (rule enough_Suc [of "N + length k"])
         (simp add: Nil p dump_member_def dump_string_def str skip colon N fresh del: json_value.simps json_string.simps)
  next
    case (Cons q d')
    define rest where "rest = join '', '' (map (dump_member fr) d) @ ''}'' @ r"
    obtain N where N: "\<And>n. N \<le> n \<Longrightarrow>
        json_value n (json_dumps fr v @ CHR '','' # CHR '' '' # rest) = Some (v, CHR '','' # CHR '' '' # rest)"
      using readsD [of "json_dumps fr v" v "CHR '','' # CHR '' '' # rest"] Cons.prems p by auto
    obtain M where M: "\<And>n. M \<le> n \<Longrightarrow> json_members n (acc @ [(k, v)]) rest = Some ((acc @ [(k, v)]) @ d, r)"
      using Cons.IH [of "acc @ [(k, v)]"] Cons.prems p \<open>d = q # d'\<close> by (auto simp: rest_def)
    have "starts (join '', '' (map (dump_member fr) d))"
      using \<open>d = q # d'\<close> by (cases d') (auto simp: starts_def dump_member_def dump_string_def is_json_ws_def)
    then have sp: "skip_ws (CHR '' '' # rest) = rest"
      using skip_ws_starts [of "join '', '' (map (dump_member fr) d)" "''}'' @ r"]
      by (simp add: rest_def skip_ws_def is_json_ws_def)
    have all: "join '', '' (map (dump_member fr) (p # d)) @ ''}'' @ r =
        CHR 0x22 # concat (map dump_char k) @ CHR 0x22 # CHR '':'' # CHR '' '' # json_dumps fr v @ CHR '','' # CHR '' '' # rest"
      using p \<open>d = q # d'\<close> by (simp add: rest_def dump_member_def dump_string_def)
    show ?thesis unfolding all
      by (rule enough_Suc [of "N + M + length k"])
         (simp add: p str skip colon N M fresh sp del: json_value.simps json_string.simps join.simps)
  qed
qed simp

theorem reads_dumps: "no_float v \<Longrightarrow> json_wf v \<Longrightarrow> reads (json_dumps fr v) v"
proof (induction v)
  case (JInt i)
  have "json_value (Suc n) (show_int i @ r) = json_number (show_int i @ r)" for n r
  proof -
    obtain c t where c: "show_int i = c # t" by (cases "show_int i") (auto simp: show_int_def split: if_splits)
    then have "c = CHR ''-'' \<or> is_digit c"
      using show_nat_hd_digit [of "nat i"] by (auto simp: show_int_def split: if_splits)
    then have "c \<noteq> CHR 0x22 \<and> c \<noteq> CHR ''['' \<and> c \<noteq> CHR ''{'' \<and> CHR ''n'' \<noteq> c \<and> CHR ''t'' \<noteq> c \<and> CHR ''f'' \<noteq> c"
      by (auto simp: is_digit_def)
    then show ?thesis by (simp add: c)
  qed
  then show ?case unfolding reads_def
    by (auto simp: json_number_show intro!: enough_Suc [of 0] simp del: json_value.simps)
next
  case (JStr s)
  show ?case unfolding reads_def
    by (auto simp: dump_string_def json_string_dumped intro!: enough_Suc [of "length s"] simp del: json_string.simps)
next
  case (JList xs)
  show ?case
  proof (cases "xs = []")
    case True
    then show ?thesis unfolding reads_def
      by (auto simp: skip_ws_def is_json_ws_def intro!: enough_Suc [of 0])
  next
    case False
    let ?t = "join '', '' (map (json_dumps fr) xs)"
    have ok: "list_all (\<lambda>v. reads (json_dumps fr v) v \<and> starts (json_dumps fr v)) xs"
      using JList by (auto simp: list_all_iff starts_dumps)
    have s: "starts ?t" using ok False
      by (cases xs rule: list.exhaust; cases "tl xs") (auto simp: starts_def hd_append)
    have st: "skip_ws (?t @ '']'' @ r) = ?t @ '']'' @ r" "\<not> starts_with '']'' (?t @ '']'' @ r)" for r
      using skip_ws_starts [OF s, of "'']'' @ r"] s by (simp, cases ?t) (auto simp: starts_def)
    have step: "json_value (Suc n) (''['' @ ?t @ '']'' @ r) =
        map_option (\<lambda>(xs, r). (JList xs, r)) (json_elements n [] (?t @ '']'' @ r))" for n r
      using st [of r] by simp
    show ?thesis unfolding reads_def
    proof (intro allI impI)
      fix r
      obtain N where "\<And>n. N \<le> n \<Longrightarrow> json_elements n [] (?t @ '']'' @ r) = Some (xs, r)"
        using reads_elements [OF False ok, of "[]" r] by auto
      then show "\<exists>N. \<forall>n \<ge> N. json_value n (json_dumps fr (JList xs) @ r) = Some (JList xs, r)"
        by (intro enough_Suc [of N]) (use step in simp)
    qed
  qed
next
  case (JObj d)
  show ?case
  proof (cases "d = []")
    case True
    then show ?thesis unfolding reads_def
      by (auto simp: skip_ws_def is_json_ws_def intro!: enough_Suc [of 0])
  next
    case False
    let ?t = "join '', '' (map (dump_member fr) d)"
    have ok: "list_all (\<lambda>p. reads (json_dumps fr (snd p)) (snd p) \<and> starts (json_dumps fr (snd p))) d"
      using JObj by (fastforce simp: list_all_iff starts_dumps)
    have s: "starts ?t" using False
      by (cases d rule: list.exhaust; cases "tl d") (auto simp: starts_def dump_member_def dump_string_def is_json_ws_def)
    have st: "skip_ws (?t @ ''}'' @ r) = ?t @ ''}'' @ r" "\<not> starts_with ''}'' (?t @ ''}'' @ r)" for r
      using skip_ws_starts [OF s, of "''}'' @ r"] s by (simp, cases ?t) (auto simp: starts_def)
    have step: "json_value (Suc n) (''{'' @ ?t @ ''}'' @ r) =
        map_option (\<lambda>(d, r). (JObj d, r)) (json_members n [] (?t @ ''}'' @ r))" for n r
      using st [of r] by simp
    show ?thesis unfolding reads_def
    proof (intro allI impI)
      fix r
      obtain N where "\<And>n. N \<le> n \<Longrightarrow> json_members n [] (?t @ ''}'' @ r) = Some (d, r)"
        using reads_members [OF False ok, of "[]" r] JObj.prems by auto
      then show "\<exists>N. \<forall>n \<ge> N. json_value n (json_dumps fr (JObj d) @ r) = Some (JObj d, r)"
        by (intro enough_Suc [of N]) (use step in \<open>simp add: json_dumps_obj del: json_dumps.simps\<close>)
    qed
  qed
qed (auto simp: reads_def intro!: enough_Suc [of 0])

theorem json_roundtrip: "no_float v \<Longrightarrow> json_wf v \<Longrightarrow> json_loads (json_dumps fr v) = Inr v"
proof -
  assume v: "no_float v" "json_wf v"
  let ?t = "json_dumps fr v"
  have skip: "skip_ws ?t = ?t" using skip_ws_starts [OF starts_dumps [OF v(1)], of fr "[]"] by simp
  obtain N where N: "\<And>n. N \<le> n \<Longrightarrow> json_value n ?t = Some (v, [])"
    using readsD [OF reads_dumps [OF v], of "[]" fr] by auto
  have "json_value (Suc (2 * length ?t)) ?t = json_value (Suc (2 * length ?t) + N) ?t"
    by (rule json_fuel(1) [symmetric]) simp
  moreover have "skip_ws [] = []" by (simp add: skip_ws_def)
  ultimately show ?thesis using N by (simp add: json_loads_def skip del: json_value.simps)
qed

subsection \<open>The text is ASCII\<close>

abbreviation ascii :: "string \<Rightarrow> bool" where
  "ascii \<equiv> list_all (\<lambda>c. code c < 128)"

lemma digit_char_ascii: "d < 16 \<Longrightarrow> code (digit_char d) < 128"
  using digit_val_digit_char [of d] by (auto simp: digit_val_def is_digit_def split: if_splits)

lemma dump_string_ascii: "ascii (dump_string s)"
proof -
  have "ascii (dump_char c)" for c
  proof -
    have "code c div 16 < 16" by (rule less_mult_imp_div_less) simp
    then show ?thesis by (auto simp: dump_char_def digit_char_ascii)
  qed
  then show ?thesis by (induction s) (simp_all add: dump_string_def)
qed

lemma list_all_join: "list_all P sep \<Longrightarrow> list_all (list_all P) ws \<Longrightarrow> list_all P (join sep ws)"
  by (induction sep ws rule: join.induct) simp_all

lemma show_int_ascii: "ascii (show_int i)"
proof -
  have "ascii (show_nat n)" for n
    using show_nat_digits [of n] by (auto simp: list_all_iff is_digit_def)
  then show ?thesis by (simp add: show_int_def)
qed

theorem json_dumps_ascii: "no_float v \<Longrightarrow> ascii (json_dumps fr v)"
proof (induction v)
  case (JList xs)
  then have "list_all ascii (map (json_dumps fr) xs)" by (auto simp: list_all_iff)
  then show ?case by (simp add: list_all_join)
next
  case (JObj d)
  then have "list_all ascii (map (dump_member fr) d)"
    using dump_string_ascii by (fastforce simp: list_all_iff dump_member_def)
  then show ?case unfolding json_dumps_obj by (simp add: list_all_join)
qed (simp_all add: show_int_ascii dump_string_ascii)

end
