(* ===== verification/Tracing.thy ===== *)
theory Tracing
  imports JsonDump Regex Errors
begin

section \<open>The tracing log\<close>

text \<open>
  \<open>lib/loggers/tracing_log.py\<close>: the data a request collects in the \<open>starlette_context\<close>, the
  description of the remote command or of the scheduler's HTTP call it made, and the record that
  is written for a request and for its response.
\<close>

subsection \<open>The data of a request\<close>

text \<open>
  The context of a request is a dictionary of texts, \<open>None\<close> outside of every request: there
  \<open>context.exists()\<close> is false and \<open>key in context\<close> raises.
\<close>

type_synonym tracing_data = "(string \<times> string) list option"

definition set_tracing_data :: "string \<Rightarrow> string \<Rightarrow> tracing_data \<Rightarrow> tracing_data" where
  "set_tracing_data key value ctx = map_option (dict_set key value) ctx"

definition in_context :: "string \<Rightarrow> tracing_data \<Rightarrow> bool res" where
  "in_context key ctx =
     (case ctx of
        None \<Rightarrow> raise ContextDoesNotExistError []
      | Some d \<Rightarrow> Inr (key \<in> set (map fst d)))"

definition get_tracing_data :: "string \<Rightarrow> tracing_data \<Rightarrow> string res" where
  "get_tracing_data key ctx =
     (case ctx of
        None \<Rightarrow> raise ContextDoesNotExistError []
      | Some d \<Rightarrow> Inr (case map_of d key of Some value \<Rightarrow> value | None \<Rightarrow> []))"

definition get_tracing_backend_log :: "tracing_data \<Rightarrow> json option res" where
  "get_tracing_backend_log ctx =
     bind_res (in_context ''backend'' ctx) (\<lambda>found.
       if found then bind_res (get_tracing_data ''backend'' ctx) (\<lambda>t. map_res Some (json_loads t))
       else Inr None)"

text \<open>The texts and integers that are dumped here hold no float, so none is printed.\<close>

definition log_backend_command :: "string \<Rightarrow> int \<Rightarrow> tracing_data \<Rightarrow> tracing_data" where
  "log_backend_command command exit_status =
     set_tracing_data ''backend'' (json_dumps (\<lambda>_. [])
       (JObj [(''command'', JStr command), (''exit_status'', JStr (show_int exit_status))]))"

definition log_backend_http_scheduler :: "string \<Rightarrow> int \<Rightarrow> tracing_data \<Rightarrow> tracing_data" where
  "log_backend_http_scheduler url response_status =
     set_tracing_data ''backend'' (json_dumps (\<lambda>_. [])
       (JObj [(''url'', JStr url), (''response_status'', JStr (show_int response_status))]))"

subsection \<open>The record\<close>

datatype Log_operation = LogRequest | LogResponse

definition operation_value :: "Log_operation \<Rightarrow> string" where
  "operation_value op = (case op of LogRequest \<Rightarrow> ''Requesting'' | LogResponse \<Rightarrow> ''Responding'')"

text \<open>
  What the log reads of a request: its path and root path, the method and the headers, whose names
  are in lower case as the ASGI server delivers them.
\<close>

record http_request =
  rq_path :: string
  rq_root_path :: string
  rq_method :: string
  rq_headers :: "(string \<times> string) list"

definition removeprefix :: "string \<Rightarrow> string \<Rightarrow> string" where
  "removeprefix p s = (if starts_with p s then drop (length p) s else s)"

definition trace_endpoint :: "http_request \<Rightarrow> string" where
  "trace_endpoint r =
     (if rq_root_path r \<noteq> [] then removeprefix (rq_root_path r) (rq_path r) else rq_path r)"

definition is_segment_char :: "char \<Rightarrow> bool" where
  "is_segment_char c \<longleftrightarrow> c \<noteq> CHR ''/'' \<and> \<not> is_ws c"

text \<open>
  \<open>^/([^/\s]+)/([^/\s]+)/(.*)$\<close> and \<open>^/([^/\s]+)/(.*)$\<close>; no letter of either depends on the
  \<open>IGNORECASE\<close> flag.
\<close>

definition system_endpoint_pattern :: rx where
  "system_endpoint_pattern = rseqs [RBegin, rlit ''/'', RGroup 1 (rplus (RChar is_segment_char)), rlit ''/'',
     RGroup 2 (rplus (RChar is_segment_char)), rlit ''/'', RGroup 3 (RStar r_dot), REnd]"

definition resource_endpoint_pattern :: rx where
  "resource_endpoint_pattern = rseqs [RBegin, rlit ''/'', RGroup 1 (rplus (RChar is_segment_char)), rlit ''/'',
     RGroup 2 (RStar r_dot), REnd]"

definition endpoint_parts :: "string \<Rightarrow> string \<times> string" where
  "endpoint_parts endpoint =
     (case re_search system_endpoint_pattern endpoint of
        Some m \<Rightarrow> (opt_str (m_group m 1), opt_str (m_group m 2))
      | None \<Rightarrow>
          (case re_search resource_endpoint_pattern endpoint of
             Some m \<Rightarrow> (opt_str (m_group m 1), [])
           | None \<Rightarrow> ([], [])))"

text \<open>
  The configured headers are dictionaries of texts, \<open>None\<close> when the configuration says
  \<open>null\<close>: iterating over it is a \<open>TypeError\<close>.
\<close>

type_synonym header_rule = "(string \<times> string) list"

definition rule_item :: "header_rule \<Rightarrow> string \<Rightarrow> string res" where
  "rule_item h k = (case map_of h k of None \<Rightarrow> raise KeyError [] | Some v \<Rightarrow> Inr v)"

fun trace_headers :: "http_request \<Rightarrow> header_rule list \<Rightarrow> (string \<times> json) list \<Rightarrow> (string \<times> json) list res" where
  "trace_headers r [] log_data = Inr log_data"
| "trace_headers r (h # hs) log_data =
     bind_res (rule_item h ''input'') (\<lambda>input.
       case map_of (rq_headers r) (lower input) of
         None \<Rightarrow> trace_headers r hs log_data
       | Some v \<Rightarrow>
           bind_res (rule_item h ''output'') (\<lambda>output.
             trace_headers r hs (dict_set output (JStr v) log_data)))"

definition json_opt :: "('a \<Rightarrow> json) \<Rightarrow> 'a option \<Rightarrow> json" where
  "json_opt f v = (case v of None \<Rightarrow> JNull | Some x \<Rightarrow> f x)"

definition trace_fields ::
  "Log_operation \<Rightarrow> http_request \<Rightarrow> string option \<Rightarrow> nat option \<Rightarrow> string \<Rightarrow> string \<Rightarrow> (string \<times> json) list" where
  "trace_fields operation request username status_code correlation_id request_id =
     (let endpoint = trace_endpoint request in
      case endpoint_parts endpoint of (resource, system_name) \<Rightarrow>
        [(''username'', json_opt JStr username)] @
        (if system_name \<noteq> [] then [(''system_name'', JStr system_name)] else []) @
        [(''message'', JStr (operation_value operation @ '': '' @ endpoint)),
         (''endpoint'', JStr endpoint),
         (''resource'', JStr resource),
         (''http_request_method'', JStr (rq_method request)),
         (''http_response_status_code'', json_opt (\<lambda>n. JInt (int n)) status_code),
         (''correlation_id'', JStr correlation_id),
         (''request_id'', JStr request_id)])"

text \<open>The result is the record that is written, \<open>None\<close> for the liveness endpoint.\<close>

definition tracing_log_middleware ::
  "Log_operation \<Rightarrow> http_request \<Rightarrow> string option \<Rightarrow> nat option \<Rightarrow> header_rule list option \<Rightarrow> tracing_data
   \<Rightarrow> (string \<times> json) list option res" where
  "tracing_log_middleware operation request username status_code headers_to_trace ctx =
     (if contains ''/status/liveness'' (rq_path request) then Inr None
      else
        bind_res (get_tracing_data ''X-Correlation-ID'' ctx) (\<lambda>correlation_id.
        bind_res (get_tracing_data ''X-Request-ID'' ctx) (\<lambda>request_id.
        bind_res (case headers_to_trace of
                    None \<Rightarrow> raise TypeError []
                  | Some hs \<Rightarrow> trace_headers request hs
                      (trace_fields operation request username status_code correlation_id request_id)) (\<lambda>log_data.
        bind_res (get_tracing_backend_log ctx) (\<lambda>backend.
          Inr (Some (case backend of None \<Rightarrow> log_data | Some b \<Rightarrow> dict_set ''backend'' b log_data)))))))"

subsection \<open>Lemmas\<close>

lemma context_simps [simp]:
  "in_context k (Some d) = Inr (k \<in> set (map fst d))"
  "set_tracing_data k v (Some d) = Some (dict_set k v d)"
  "set_tracing_data k v None = None"
  by (simp_all add: in_context_def set_tracing_data_def)

lemma get_tracing_data_simp [simp]:
  "get_tracing_data k (Some d) = Inr (case map_of d k of Some v \<Rightarrow> v | None \<Rightarrow> [])"
  by (simp add: get_tracing_data_def)

text \<open>The description of the last remote call is text that \<open>json.loads\<close> reads back.\<close>

lemma backend_log_absent [simp]:
  "''backend'' \<notin> fst ` set d \<Longrightarrow> get_tracing_backend_log (Some d) = Inr None"
  by (simp add: get_tracing_backend_log_def)

lemma backend_log_dumped:
  assumes "no_float v" and "json_wf v"
  shows "get_tracing_backend_log (set_tracing_data ''backend'' (json_dumps fr v) (Some d)) = Inr (Some v)"
proof -
  have "''backend'' \<in> fst ` set (dict_set ''backend'' (json_dumps fr v) d)"
    by (metis fun_upd_same image_eqI fst_conv map_of_SomeD map_of_dict_set)
  then show ?thesis
    using json_roundtrip [OF assms, of fr] by (simp add: get_tracing_backend_log_def map_res_def)
qed

lemma backend_log_command:
  "get_tracing_backend_log (log_backend_command command exit_status (Some d)) =
     Inr (Some (JObj [(''command'', JStr command), (''exit_status'', JStr (show_int exit_status))]))"
  unfolding log_backend_command_def by (rule backend_log_dumped) simp_all

lemma backend_log_http:
  "get_tracing_backend_log (log_backend_http_scheduler url response_status (Some d)) =
     Inr (Some (JObj [(''url'', JStr url), (''response_status'', JStr (show_int response_status))]))"
  unfolding log_backend_http_scheduler_def by (rule backend_log_dumped) simp_all

lemma get_tracing_data_command [simp]:
  "k \<noteq> ''backend'' \<Longrightarrow> get_tracing_data k (log_backend_command c e (Some d)) = get_tracing_data k (Some d)"
  by (simp add: log_backend_command_def)

text \<open>The endpoints of the routers: \<open>/resource/system/rest\<close>.\<close>

definition is_segment :: "string \<Rightarrow> bool" where
  "is_segment s \<longleftrightarrow> s \<noteq> [] \<and> list_all is_segment_char s"

lemma slash_no_segment_char [simp]: "\<not> is_segment_char CHR ''/''"
  by (simp add: is_segment_char_def)

lemma system_endpoint_parts:
  assumes "is_segment resource" and "is_segment sys" and "newline \<notin> set rest"
  shows "endpoint_parts (''/'' @ resource @ ''/'' @ sys @ ''/'' @ rest) = (resource, sys)"
proof -
  have dot: "list_all (\<lambda>c. c \<noteq> newline) rest"
    using assms(3) by (auto simp: list_all_iff)
  have r: "rmatch (rseqs [RGroup 3 (RStar r_dot), REnd]) Some (b, rest, g) = Some (rev rest @ b, [], g(3 \<mapsto> rest))" for b g
    using rmatch_group_star_class [OF dot, of "[]" "rmatch (rseqs [REnd]) Some" b g 3 "(rev rest @ b, [], g(3 \<mapsto> rest))"]
    by (simp add: rmatch_rseqs)
  have "re_search system_endpoint_pattern (''/'' @ resource @ ''/'' @ sys @ ''/'' @ rest) =
      Some (rev (''/'' @ resource @ ''/'' @ sys @ ''/'' @ rest), [], Map.empty(1 \<mapsto> resource, 2 \<mapsto> sys, 3 \<mapsto> rest))"
    unfolding re_search_def system_endpoint_pattern_def
    by (rule re_search_from_here, intro rx_run, use assms in \<open>simp_all add: is_segment_def r\<close>)
  then show ?thesis by (simp add: endpoint_parts_def m_group_def)
qed

text \<open>A rule that names both its headers never fails, and neither does the log of a request.\<close>

definition rules_ok :: "header_rule list option \<Rightarrow> bool" where
  "rules_ok headers =
     (case headers of None \<Rightarrow> False
      | Some hs \<Rightarrow> list_all (\<lambda>h. {''input'', ''output''} \<subseteq> fst ` set h) hs)"

definition context_ok :: "tracing_data \<Rightarrow> bool" where
  "context_ok ctx =
     (case ctx of None \<Rightarrow> False
      | Some d \<Rightarrow> (case get_tracing_backend_log (Some d) of Inl e \<Rightarrow> False | Inr b \<Rightarrow> True))"

lemma context_ok_command [simp]: "context_ok (log_backend_command c e (Some d))"
  and context_ok_http [simp]: "context_ok (log_backend_http_scheduler url n (Some d))"
  using backend_log_command [of c e d] backend_log_http [of url n d]
  by (simp_all add: context_ok_def log_backend_command_def log_backend_http_scheduler_def)

lemma rule_item_found: "k \<in> fst ` set h \<Longrightarrow> \<exists>v. rule_item h k = Inr v"
  by (cases "map_of h k") (auto simp: rule_item_def map_of_eq_None_iff)

lemma trace_headers_ok:
  assumes "list_all (\<lambda>h. {''input'', ''output''} \<subseteq> fst ` set h) hs"
  shows "\<exists>d'. trace_headers r hs d = Inr d'"
  using assms
proof (induction hs arbitrary: d)
  case Nil
  then show ?case by simp
next
  case (Cons h hs)
  then obtain i out where "rule_item h ''input'' = Inr i" "rule_item h ''output'' = Inr out"
    using rule_item_found by (metis insert_subset list.pred_inject(2))
  with Cons show ?case by (auto split: option.split)
qed

lemma tracing_ok:
  assumes "rules_ok headers" and "context_ok ctx"
  shows "\<exists>rec. tracing_log_middleware op r u n headers ctx = Inr rec"
proof -
  obtain d b where ctx: "ctx = Some d" "get_tracing_backend_log (Some d) = Inr b"
    using assms(2) by (auto simp: context_ok_def split: option.splits sum.splits)
  obtain hs where hs: "headers = Some hs" "list_all (\<lambda>h. {''input'', ''output''} \<subseteq> fst ` set h) hs"
    using assms(1) by (auto simp: rules_ok_def split: option.splits)
  show ?thesis
  proof (cases "contains ''/status/liveness'' (rq_path r)")
    case True
    then show ?thesis by (simp add: tracing_log_middleware_def)
  next
    case False
    obtain f where th: "trace_headers r hs d = Inr (f d)" for d
      using trace_headers_ok [OF hs(2), of r] by metis
    show ?thesis
      using False by (simp add: tracing_log_middleware_def ctx hs(1) th)
  qed
qed

text \<open>
  The shape of a record: no key twice, the fixed fields are texts and the user is a text or null,
  whatever headers are traced.
\<close>

definition is_text :: "json option \<Rightarrow> bool" where
  "is_text v = (case v of Some (JStr t) \<Rightarrow> True | _ \<Rightarrow> False)"

definition is_text_or_null :: "json option \<Rightarrow> bool" where
  "is_text_or_null v = (case v of Some JNull \<Rightarrow> True | _ \<Rightarrow> is_text v)"

definition typed_record :: "(string \<times> json) list \<Rightarrow> bool" where
  "typed_record rec \<longleftrightarrow> distinct (map fst rec) \<and>
     list_all (\<lambda>k. is_text (map_of rec k))
       [''message'', ''endpoint'', ''resource'', ''http_request_method'', ''correlation_id'', ''request_id''] \<and>
     is_text_or_null (map_of rec ''username'')"

lemma is_text_simps [simp]:
  "is_text (Some (JStr t))" "is_text_or_null (Some (JStr t))" "is_text_or_null (Some JNull)"
  by (simp_all add: is_text_def is_text_or_null_def)

lemma typed_record_text: "typed_record rec \<Longrightarrow> typed_record (dict_set k (JStr t) rec)"
  by (simp add: typed_record_def distinct_dict_set)

lemma typed_record_backend: "typed_record rec \<Longrightarrow> typed_record (dict_set ''backend'' b rec)"
  by (simp add: typed_record_def distinct_dict_set)

lemma typed_record_headers: "trace_headers r hs d = Inr d' \<Longrightarrow> typed_record d \<Longrightarrow> typed_record d'"
proof (induction hs arbitrary: d)
  case Nil
  then show ?case by simp
next
  case (Cons h hs)
  then obtain i where i: "rule_item h ''input'' = Inr i" by (auto simp: res_iff)
  show ?case
  proof (cases "map_of (rq_headers r) (lower i)")
    case None
    with Cons i show ?thesis by simp
  next
    case (Some v)
    with Cons.prems i obtain out where "trace_headers r hs (dict_set out (JStr v) d) = Inr d'"
      by (auto simp: res_iff)
    with Cons show ?thesis using typed_record_text by blast
  qed
qed

lemma typed_record_fields: "typed_record (trace_fields op r u n c i)"
  by (cases u) (simp_all add: trace_fields_def typed_record_def json_opt_def Let_def split: prod.split)

lemma tracing_typed:
  assumes "tracing_log_middleware op r u n headers ctx = Inr (Some rec)"
  shows "typed_record rec"
proof -
  obtain hs c i d b where d: "trace_headers r hs (trace_fields op r u n c i) = Inr d"
    and rec: "(case b of None \<Rightarrow> d | Some b \<Rightarrow> dict_set ''backend'' b d) = rec"
    using assms by (cases headers) (auto simp: tracing_log_middleware_def res_iff split: if_split_asm)
  have "typed_record d" using d typed_record_headers typed_record_fields by blast
  then show ?thesis by (simp add: rec [symmetric] typed_record_backend split: option.split)
qed

end
