(* ===== verification/SshPool.thy ===== *)
theory SshPool
  imports Prelude PyString Errors LsCommand Tracing
begin

section \<open>The SSH client and its connection pool\<close>

text \<open>
  \<open>lib/ssh_clients/ssh_client.py\<close>: how a client runs one command (\<open>execute\<close>) and how the pool
  hands out one client per user (\<open>get_client\<close>, \<open>prune_connection_pool\<close>).

  Tasks interleave only where the code awaits.  Between two awaits the code of \<open>get_client\<close> is
  atomic; its atomic blocks are the functions \<open>acquire\<close> (from getting the user's lock to the
  first await, or to the use of the client) and \<open>finish_connect\<close> (after the connection was
  opened or failed).  The step relation \<open>pool_step\<close> runs these blocks, the pruning of idle
  connections, the passing of time and the loss of a connection in any order.

  asyncssh and the credentials provider are not modelled: what they deliver is an outcome
  that a step chooses.  Decoding UTF-8 with replacement is an argument, as an Isabelle
  character holds code points up to 255 only.
\<close>

subsection \<open>Running a command\<close>

record ssh_client =
  sc_idle_timeout :: int
  sc_execute_timeout :: int
  sc_buffer_limit :: nat

text \<open>
  What happens to the remote process: it could not be created, reading from it failed, or it
  wrote \<open>out\<close> and \<open>err\<close> and ended.  An expired \<open>asyncio.timeout\<close> is a \<open>TimeoutError\<close>.
\<close>

datatype exec_outcome =
    CreateFailed exc
  | ReadFailed exc
  | Finished string string int

datatype process_state = NoProcess | StillOpen | Closed | Terminated

text \<open>The remote process as the client leaves it, and what was written to its input, each piece closed by an end of file.\<close>

record process =
  ps_state :: process_state
  ps_stdin :: "string list"

text \<open>\<open>readexactly\<close> returns \<open>limit\<close> bytes or, at the end of the stream, the ones there were.\<close>

definition read_limit :: "string \<Rightarrow> nat \<Rightarrow> string" where
  "read_limit stream limit = take limit stream"

definition execute_error :: "exc \<Rightarrow> exc" where
  "execute_error e =
     (if isinstance e TimeoutError
      then Exc TimeoutLimitExceeded ''Command execution timeout limit exceeded.'' [] (Some e)
      else if isinstance e ConnectionLost
      then Exc SSHConnectionError ''Unable to establish SSH connection.'' [] (Some e)
      else if isinstance e ChannelOpenError
      then Exc SSHConnectionError ''Unable to open a new SSH channel.'' [] (Some e)
      else e)"

text \<open>
  The except clauses: an expired timeout terminates the process, when there is one, and writes
  a Ctrl-C to its input.
\<close>

definition execute_failed :: "exc \<Rightarrow> process \<Rightarrow> 'r res \<times> process" where
  "execute_failed e process =
     (Inl (execute_error e),
      if isinstance e TimeoutError \<and> ps_state process \<noteq> NoProcess
      then process\<lparr>ps_state := Terminated, ps_stdin := ps_stdin process @ [[char_of (3::nat)]]\<rparr>
      else process)"

definition execute ::
  "ssh_client \<Rightarrow> (string \<Rightarrow> string) \<Rightarrow> string \<Rightarrow> (string \<Rightarrow> string \<Rightarrow> int \<Rightarrow> 'r res) \<Rightarrow> string option
   \<Rightarrow> exec_outcome \<Rightarrow> tracing_data \<Rightarrow> ('r res \<times> process) \<times> tracing_data" where
  "execute cl decode command_line parse_output stdin outcome ctx =
     (let process = \<lparr>ps_state = StillOpen,
            ps_stdin = (case stdin of None \<Rightarrow> [] | Some s \<Rightarrow> if s = [] then [] else [s])\<rparr>
      in case outcome of
        CreateFailed e \<Rightarrow> (execute_failed e \<lparr>ps_state = NoProcess, ps_stdin = []\<rparr>, ctx)
      | ReadFailed e \<Rightarrow> (execute_failed e process, ctx)
      | Finished out err exit_status \<Rightarrow>
          (let stdout_data = read_limit out (sc_buffer_limit cl);
               stdout_error = read_limit err (sc_buffer_limit cl)
           in if length stdout_data \<ge> sc_buffer_limit cl \<or> length stdout_error \<ge> sc_buffer_limit cl
              then ((raise OutputLimitExceeded ''Command output exceeded buffer limit.'', process), ctx)
              else (let process = process\<lparr>ps_state := Closed\<rparr>;
                        ctx = log_backend_command command_line exit_status ctx
                    in case parse_output (decode stdout_data) (decode stdout_error) exit_status of
                         Inl e \<Rightarrow> (execute_failed e process, ctx)
                       | Inr v \<Rightarrow> ((Inr v, process), ctx))))"

subsection \<open>The pool\<close>

record conn =
  conn_user :: string
  conn_closed :: bool
  conn_last_used :: int

datatype task =
    Waiting string
  | Connecting string
  | Using string nat int
  | Returned
  | Failed exc

record pool =
  clients :: "(string \<times> nat) list"
  user_locks :: "(string \<times> nat option) list"
  max_clients :: nat
  idle_timeout :: int
  execute_timeout :: int
  has_proxy :: bool
  conns :: "nat \<Rightarrow> conn"
  next_conn :: nat
  proxies :: nat
  tasks :: "task list"
  now :: int

text \<open>
  \<open>clients\<close> maps a user to a connection (its number), \<open>user_locks\<close> to the task that holds the
  user's lock.  \<open>conns\<close>, \<open>next_conn\<close> and \<open>proxies\<close> are asyncssh's side: all connections ever
  opened, the number of the next one and how many connections to the proxy were opened.
  \<open>tasks\<close> are the requests in flight and \<open>now\<close> is the clock.
\<close>

definition pool_init :: "nat \<Rightarrow> int \<Rightarrow> int \<Rightarrow> bool \<Rightarrow> int \<Rightarrow> pool res" where
  "pool_init mx idle ex proxy t0 =
     (if idle \<le> ex then raise ValueError ''idle_timeout must be greater than execute_timeout''
      else Inr \<lparr>clients = [], user_locks = [], max_clients = mx, idle_timeout = idle,
                execute_timeout = ex, has_proxy = proxy, conns = (\<lambda>_. \<lparr>conn_user = [], conn_closed = True, conn_last_used = 0\<rparr>),
                next_conn = 0, proxies = 0, tasks = [], now = t0\<rparr>)"

definition is_closed :: "pool \<Rightarrow> nat \<Rightarrow> bool" where
  "is_closed p c \<longleftrightarrow> conn_closed (conns p c)"

definition is_idle :: "pool \<Rightarrow> nat \<Rightarrow> bool" where
  "is_idle p c \<longleftrightarrow> now p - conn_last_used (conns p c) > idle_timeout p"

definition close :: "nat \<Rightarrow> pool \<Rightarrow> pool" where
  "close c p = p\<lparr>conns := (conns p)(c := (conns p c)\<lparr>conn_closed := True\<rparr>)\<rparr>"

definition reset_idle :: "nat \<Rightarrow> pool \<Rightarrow> pool" where
  "reset_idle c p = p\<lparr>conns := (conns p)(c := (conns p c)\<lparr>conn_last_used := now p\<rparr>)\<rparr>"

definition close_idle :: "nat list \<Rightarrow> pool \<Rightarrow> pool" where
  "close_idle cs p = foldl (\<lambda>q c. if is_idle q c then close c q else q) p cs"

definition prune_connection_pool :: "pool \<Rightarrow> pool" where
  "prune_connection_pool p =
     (let q = close_idle (map snd (clients p)) p
      in q\<lparr>clients := filter (\<lambda>(k, c). \<not> is_closed q c) (clients q)\<rparr>)"

definition get_user_lock :: "string \<Rightarrow> pool \<Rightarrow> pool" where
  "get_user_lock u p =
     (if u \<in> set (map fst (user_locks p)) then p else p\<lparr>user_locks := user_locks p @ [(u, None)]\<rparr>)"

definition lock_holder :: "pool \<Rightarrow> string \<Rightarrow> nat option" where
  "lock_holder p u = (case map_of (user_locks p) u of None \<Rightarrow> None | Some h \<Rightarrow> h)"

definition lock :: "string \<Rightarrow> nat option \<Rightarrow> pool \<Rightarrow> pool" where
  "lock u h p = p\<lparr>user_locks := dict_set u h (user_locks p)\<rparr>"

definition set_task :: "nat \<Rightarrow> task \<Rightarrow> pool \<Rightarrow> pool" where
  "set_task t k p = p\<lparr>tasks := (tasks p)[t := k]\<rparr>"

definition del_client :: "string \<Rightarrow> pool \<Rightarrow> pool" where
  "del_client u p = p\<lparr>clients := filter (\<lambda>(k, c). k \<noteq> u) (clients p)\<rparr>"

text \<open>A request arrives: it gets (or creates) its user's lock and waits for it.\<close>

definition arrive :: "string \<Rightarrow> pool \<Rightarrow> pool" where
  "arrive u p = get_user_lock u (p\<lparr>tasks := tasks p @ [Waiting u]\<rparr>)"

text \<open>
  The block from the acquisition of the lock to the first await.  The lock is released when
  the block leaves the \<open>async with\<close>: because there is a live client, or because the pool is
  full.  Leaving the lock and \<open>reset_idle\<close> follow each other without an await.
\<close>

definition acquire :: "nat \<Rightarrow> string \<Rightarrow> pool \<Rightarrow> pool" where
  "acquire t u p =
     (let client = map_of (clients p) u;
          (client, p) = (case client of
              None \<Rightarrow> (None, p)
            | Some c \<Rightarrow> if is_closed p c then (None, del_client u p) else (Some c, p))
      in case client of
           Some c \<Rightarrow> reset_idle c (set_task t (Using u c (now p)) p)
         | None \<Rightarrow>
             (if length (clients p) \<ge> max_clients p
              then set_task t (Failed (new_exc SSHConnectionError ''SSH connection pool capacity exceeded'')) p
              else lock u (Some t) (set_task t (Connecting u) p)))"

text \<open>
  What the awaits of the critical section deliver: credentials that could not be had, a proxy
  or a host that could not be reached, or a connection.
\<close>

datatype connect_outcome =
    CredentialsFailed exc | ProxyFailed exc | ConnectFailed exc | Connected

definition credentials_error :: "exc \<Rightarrow> exc" where
  "credentials_error e =
     (if isinstance e TimeoutError
      then Exc TimeoutLimitExceeded ''SSH keys generation timeout limit exceeded.'' [] (Some e)
      else e)"

definition connect_error :: "exc \<Rightarrow> exc" where
  "connect_error e =
     (if isinstance e TimeoutError
      then Exc TimeoutLimitExceeded ''SSH connection timeout limit exceeded.'' [] (Some e)
      else if isinstance e ConnectionLost \<or> isinstance e ConnectionResetError
      then Exc SSHConnectionError ''Unable to establish SSH connection.'' [] (Some e)
      else if isinstance e PermissionDenied
      then Exc SSHConnectionError ''Unable to establish SSH connection.'' [] (Some e)
      else if isinstance e ProtocolError
      then Exc SSHConnectionError ''SSH Protocol Error.'' [] (Some e)
      else e)"

definition use_error :: "exc \<Rightarrow> exc" where
  "use_error e =
     (if isinstance e ConnectionResetError
      then Exc SSHConnectionError ''SSH connection Reset.'' [] (Some e)
      else if isinstance e ProtocolError
      then Exc SSHConnectionError ''SSH Protocol Error.'' [] (Some e)
      else e)"

definition open_proxy :: "pool \<Rightarrow> pool" where
  "open_proxy p = (if has_proxy p then p\<lparr>proxies := Suc (proxies p)\<rparr> else p)"

definition new_client :: "string \<Rightarrow> pool \<Rightarrow> pool" where
  "new_client u p =
     p\<lparr>conns := (conns p)(next_conn p := \<lparr>conn_user = u, conn_closed = False, conn_last_used = now p\<rparr>),
       next_conn := Suc (next_conn p), clients := dict_set u (next_conn p) (clients p)\<rparr>"

definition finish_connect :: "nat \<Rightarrow> string \<Rightarrow> connect_outcome \<Rightarrow> pool \<Rightarrow> pool" where
  "finish_connect t u outcome p =
     lock u None
       (case outcome of
          CredentialsFailed e \<Rightarrow> set_task t (Failed (connect_error (credentials_error e))) p
        | ProxyFailed e \<Rightarrow> set_task t (Failed (connect_error e)) p
        | ConnectFailed e \<Rightarrow> set_task t (Failed (connect_error e)) (open_proxy p)
        | Connected \<Rightarrow> set_task t (Using u (next_conn p) (now p)) (new_client u (open_proxy p)))"

text \<open>The body of \<open>async with pool.get_client(...)\<close> ends, with an exception or without.\<close>

definition leave :: "nat \<Rightarrow> exc option \<Rightarrow> pool \<Rightarrow> pool" where
  "leave t r p = set_task t (case r of None \<Rightarrow> Returned | Some e \<Rightarrow> Failed (use_error e)) p"

subsection \<open>Interleavings\<close>

definition task_is :: "pool \<Rightarrow> nat \<Rightarrow> task \<Rightarrow> bool" where
  "task_is p t k \<longleftrightarrow> t < length (tasks p) \<and> tasks p ! t = k"

inductive pool_step :: "pool \<Rightarrow> pool \<Rightarrow> bool" where
  Arrive: "pool_step p (arrive u p)"
| Acquire: "task_is p t (Waiting u) \<Longrightarrow> lock_holder p u = None \<Longrightarrow> pool_step p (acquire t u p)"
| Connect: "task_is p t (Connecting u) \<Longrightarrow> pool_step p (finish_connect t u outcome p)"
| Leave: "task_is p t (Using u c s) \<Longrightarrow> pool_step p (leave t r p)"
| Prune: "pool_step p (prune_connection_pool p)"
| Tick: "0 \<le> d \<Longrightarrow> pool_step p (p\<lparr>now := now p + d\<rparr>)"
| Lost: "pool_step p (close c p)"

inductive_cases pool_stepE: "pool_step p q"

inductive pool_reach :: "pool \<Rightarrow> pool \<Rightarrow> bool" for p0 where
  Start: "pool_reach p0 p0"
| Step: "pool_reach p0 p \<Longrightarrow> pool_step p q \<Longrightarrow> pool_reach p0 q"

subsection \<open>The invariant\<close>

definition is_connecting :: "task \<Rightarrow> bool" where
  "is_connecting k \<longleftrightarrow> (case k of Connecting u \<Rightarrow> True | _ \<Rightarrow> False)"

definition connecting :: "pool \<Rightarrow> nat" where
  "connecting p = length (filter is_connecting (tasks p))"

text \<open>
  \<open>pool_inv\<close>: one entry per user; an entry's connection was opened for its user, and every
  open connection has an entry; the lock of a user is held by exactly the task that connects
  for this user, who then has no entry; and a task uses a connection of its own user that
  was last used not before the task got it.
\<close>

definition clients_inv :: "pool \<Rightarrow> bool" where
  "clients_inv p \<longleftrightarrow> distinct (map fst (clients p)) \<and>
     (\<forall>u c. map_of (clients p) u = Some c \<longrightarrow> c < next_conn p \<and> conn_user (conns p c) = u)"

definition leak_inv :: "pool \<Rightarrow> bool" where
  "leak_inv p \<longleftrightarrow> (\<forall>c < next_conn p. is_closed p c \<or> map_of (clients p) (conn_user (conns p c)) = Some c)"

definition lock_inv :: "pool \<Rightarrow> bool" where
  "lock_inv p \<longleftrightarrow> (\<forall>t u. task_is p t (Connecting u) \<longrightarrow>
     lock_holder p u = Some t \<and> map_of (clients p) u = None)"

definition use_inv :: "pool \<Rightarrow> bool" where
  "use_inv p \<longleftrightarrow> (\<forall>t u c s. task_is p t (Using u c s) \<longrightarrow>
     c < next_conn p \<and> conn_user (conns p c) = u \<and> s \<le> conn_last_used (conns p c) \<and> s \<le> now p)"

definition pool_inv :: "pool \<Rightarrow> bool" where
  "pool_inv p \<longleftrightarrow> clients_inv p \<and> leak_inv p \<and> lock_inv p \<and> use_inv p"

subsection \<open>Preservation\<close>

lemmas pool_ops = lock_def set_task_def del_client_def close_def reset_idle_def open_proxy_def new_client_def

lemma lock_holder_simps [simp]:
  "lock_holder (lock u h p) v = (if v = u then h else lock_holder p v)"
  "lock_holder (get_user_lock u p) v = lock_holder p v"
  by (auto simp: lock_holder_def lock_def get_user_lock_def map_add_def split: option.splits
      dest: map_of_SomeD intro: rev_image_eqI)

lemma get_user_lock_simps [simp]:
  "clients (get_user_lock u p) = clients p" "tasks (get_user_lock u p) = tasks p"
  "conns (get_user_lock u p) = conns p" "next_conn (get_user_lock u p) = next_conn p"
  "now (get_user_lock u p) = now p" "max_clients (get_user_lock u p) = max_clients p"
  "idle_timeout (get_user_lock u p) = idle_timeout p"
  by (simp_all add: get_user_lock_def)

lemma task_is_set [simp]:
  "task_is (set_task t k p) t' k' \<longleftrightarrow>
     (if t' = t then t < length (tasks p) \<and> k = k' else task_is p t' k')"
  by (auto simp: task_is_def set_task_def)

declare map_of_eq_Some_iff [simp del] Some_eq_map_of_iff [simp del]

lemma map_of_remove: "map_of (filter (\<lambda>(k, c). k \<noteq> u) xs) v = (if v = u then None else map_of xs v)"
  by (induction xs) auto

lemma map_of_keep:
  "distinct (map fst xs) \<Longrightarrow> map_of (filter (\<lambda>(k, c). P c) xs) u =
     (case map_of xs u of None \<Rightarrow> None | Some c \<Rightarrow> if P c then Some c else None)"
proof (induction xs)
  case (Cons x xs)
  obtain k c where x: "x = (k, c)" by (cases x)
  have "map_of xs k = None" using Cons.prems by (simp add: x map_of_eq_None_iff)
  moreover have "map_of (filter (\<lambda>(k, c). P c) xs) u =
     (case map_of xs u of None \<Rightarrow> None | Some c \<Rightarrow> if P c then Some c else None)"
    using Cons by (simp add: x)
  ultimately show ?case by (auto simp: x)
qed simp

lemma distinct_filter_keys: "distinct (map fst xs) \<Longrightarrow> distinct (map fst (filter P xs))"
  by (induction xs) auto

lemma close_idle_simps [simp]:
  "clients (close_idle cs p) = clients p" "tasks (close_idle cs p) = tasks p"
  "user_locks (close_idle cs p) = user_locks p" "next_conn (close_idle cs p) = next_conn p"
  "now (close_idle cs p) = now p" "idle_timeout (close_idle cs p) = idle_timeout p"
  "max_clients (close_idle cs p) = max_clients p"
  "conn_user (conns (close_idle cs p) c) = conn_user (conns p c)"
  "conn_last_used (conns (close_idle cs p) c) = conn_last_used (conns p c)"
  by (induction cs arbitrary: p) (simp_all add: close_idle_def close_def)

lemma is_closed_close_idle:
  "is_closed (close_idle cs p) c \<longleftrightarrow> is_closed p c \<or> (c \<in> set cs \<and> is_idle p c)"
proof (induction cs arbitrary: p)
  case (Cons d cs)
  have idle: "is_idle (close d p) x = is_idle p x" for x by (simp add: is_idle_def close_def)
  have cl: "is_closed (close d p) c \<longleftrightarrow> is_closed p c \<or> c = d" by (simp add: is_closed_def close_def)
  have "close_idle (d # cs) p = close_idle cs (if is_idle p d then close d p else p)"
    by (simp add: close_idle_def)
  then show ?case using Cons.IH by (auto simp: idle cl)
qed (simp add: close_idle_def)

lemma prune_simps [simp]:
  "tasks (prune_connection_pool p) = tasks p" "user_locks (prune_connection_pool p) = user_locks p"
  "next_conn (prune_connection_pool p) = next_conn p" "now (prune_connection_pool p) = now p"
  "max_clients (prune_connection_pool p) = max_clients p"
  "conn_user (conns (prune_connection_pool p) c) = conn_user (conns p c)"
  "conn_last_used (conns (prune_connection_pool p) c) = conn_last_used (conns p c)"
  by (simp_all add: prune_connection_pool_def Let_def)

lemma is_closed_prune:
  "is_closed (prune_connection_pool p) c \<longleftrightarrow>
     is_closed p c \<or> (c \<in> set (map snd (clients p)) \<and> is_idle p c)"
  using is_closed_close_idle [of "map snd (clients p)" p c]
  by (simp add: prune_connection_pool_def Let_def is_closed_def)

lemma clients_prune:
  assumes "distinct (map fst (clients p))"
  shows "map_of (clients (prune_connection_pool p)) u =
    (case map_of (clients p) u of None \<Rightarrow> None
     | Some c \<Rightarrow> if is_closed (prune_connection_pool p) c then None else Some c)"
proof -
  have "clients (prune_connection_pool p) =
      filter (\<lambda>(k, c). \<not> is_closed (prune_connection_pool p) c) (clients p)"
    by (simp add: prune_connection_pool_def Let_def is_closed_def)
  then show ?thesis using map_of_keep [OF assms, of "\<lambda>c. \<not> is_closed (prune_connection_pool p) c" u]
    by (simp split: option.splits)
qed

lemma task_is_unique: "task_is p t k \<Longrightarrow> task_is p t k' \<longleftrightarrow> k = k'"
  by (auto simp: task_is_def)

lemma task_is_length: "task_is p t k \<Longrightarrow> t < length (tasks p)"
  by (simp add: task_is_def)

text \<open>The invariant depends on the tasks, the lock holders and the maps only.\<close>

lemma pool_invI:
  assumes "pool_inv p"
    and "distinct (map fst (clients q))"
    and "\<And>u c. map_of (clients q) u = Some c \<longleftrightarrow> map_of (clients p) u = Some c \<and> \<not> gone c"
    and "\<And>c. gone c \<Longrightarrow> is_closed q c" and "\<And>c. is_closed p c \<Longrightarrow> is_closed q c"
    and "next_conn q = next_conn p" and "now p \<le> now q"
    and "\<And>c. conn_user (conns q c) = conn_user (conns p c)"
    and "\<And>c. conn_last_used (conns p c) \<le> conn_last_used (conns q c)"
    and "\<And>t u. task_is q t (Connecting u) \<Longrightarrow> task_is p t (Connecting u)"
    and "\<And>t u c s. task_is q t (Using u c s) \<Longrightarrow> task_is p t (Using u c s)"
    and "\<And>u. lock_holder q u = lock_holder p u"
  shows "pool_inv q"
proof -
  have none: "map_of (clients q) u = None" if "map_of (clients p) u = None" for u
    using that assms(3) [of u] by (cases "map_of (clients q) u") auto
  have "clients_inv q" using assms(1,2) unfolding pool_inv_def clients_inv_def assms(3,6,8) by blast
  moreover have "leak_inv q"
    unfolding leak_inv_def assms(6,8) assms(3)
    using assms(1,4,5) by (auto simp: pool_inv_def leak_inv_def)
  moreover have "lock_inv q"
    using assms(1,10) none unfolding pool_inv_def lock_inv_def assms(12) by blast
  moreover have "use_inv q"
    unfolding use_inv_def assms(6,8)
    using assms(1) assms(11) assms(7) order_trans [OF _ assms(9)] order_trans [OF _ assms(7)]
    unfolding pool_inv_def use_inv_def by blast
  ultimately show ?thesis by (simp add: pool_inv_def)
qed

lemma pool_inv_prune: "pool_inv p \<Longrightarrow> pool_inv (prune_connection_pool p)"
proof -
  assume i: "pool_inv p"
  then have d: "distinct (map fst (clients p))" by (simp add: pool_inv_def clients_inv_def)
  then have d': "distinct (map fst (clients (prune_connection_pool p)))"
    by (simp add: prune_connection_pool_def Let_def distinct_filter_keys)
  show ?thesis
    by (rule pool_invI [OF i d', of "is_closed (prune_connection_pool p)"])
       (auto simp: clients_prune [OF d] is_closed_prune task_is_def lock_holder_def split: option.splits)
qed

lemma pool_inv_arrive: "pool_inv p \<Longrightarrow> pool_inv (arrive u p)"
proof -
  assume i: "pool_inv p"
  have t: "task_is (arrive u p) t k \<longleftrightarrow> task_is p t k \<or> (t = length (tasks p) \<and> k = Waiting u)" for t k
    by (auto simp: task_is_def arrive_def nth_append)
  have [simp]: "lock_holder (arrive u p) v = lock_holder p v" "clients (arrive u p) = clients p"
    "conns (arrive u p) = conns p" "next_conn (arrive u p) = next_conn p" "now (arrive u p) = now p" for v
    by (simp_all add: arrive_def) (simp add: lock_holder_def)
  show ?thesis using i
    by (simp add: pool_inv_def clients_inv_def leak_inv_def lock_inv_def use_inv_def t is_closed_def)
qed

lemma set_task_simps [simp]:
  "clients (set_task t k p) = clients p" "conns (set_task t k p) = conns p"
  "next_conn (set_task t k p) = next_conn p" "now (set_task t k p) = now p"
  "max_clients (set_task t k p) = max_clients p"
  "is_closed (set_task t k p) = is_closed p" "lock_holder (set_task t k p) = lock_holder p"
  by (simp_all add: set_task_def is_closed_def lock_holder_def fun_eq_iff)

lemma pool_inv_done:
  assumes "pool_inv p" and "k = Returned \<or> (\<exists>e. k = Failed e)"
  shows "pool_inv (set_task t k p)"
  by (rule pool_invI [OF assms(1), of _ "\<lambda>_. False"])
     (use assms in \<open>auto simp: pool_inv_def clients_inv_def split: if_splits\<close>)

lemma pool_inv_leave: "pool_inv p \<Longrightarrow> pool_inv (leave t r p)"
  unfolding leave_def by (rule pool_inv_done) (auto split: option.splits)

lemma pool_inv_tick: "pool_inv p \<Longrightarrow> 0 \<le> d \<Longrightarrow> pool_inv (p\<lparr>now := now p + d\<rparr>)"
  by (rule pool_invI [of p _ "\<lambda>_. False"])
     (simp_all add: pool_inv_def clients_inv_def is_closed_def task_is_def lock_holder_def)

lemma pool_inv_close: "pool_inv p \<Longrightarrow> pool_inv (close c p)"
  by (rule pool_invI [of p _ "\<lambda>_. False"])
     (auto simp: pool_inv_def clients_inv_def is_closed_def task_is_def lock_holder_def close_def)

lemma pool_inv_lock_taken:
  assumes "pool_inv p" and "task_is p t (Waiting u)" and "lock_holder p u = None"
    and "map_of (clients p) u = None"
  shows "pool_inv (lock u (Some t) (set_task t (Connecting u) p))"
proof -
  let ?q = "lock u (Some t) (set_task t (Connecting u) p)"
  have q: "task_is ?q = task_is (set_task t (Connecting u) p)" "clients ?q = clients p"
    "conns ?q = conns p" "next_conn ?q = next_conn p" "now ?q = now p" "is_closed ?q = is_closed p"
    "lock_holder ?q v = (if v = u then Some t else lock_holder p v)" for v
    by (auto simp: fun_eq_iff task_is_def lock_def set_task_def is_closed_def)
       (simp_all add: lock_holder_def)
  have "lock_inv ?q" unfolding lock_inv_def q
    using assms task_is_length [OF assms(2)] by (auto simp: pool_inv_def lock_inv_def split: if_splits)
  moreover have "use_inv ?q" unfolding use_inv_def q
    using assms(1) by (auto simp: pool_inv_def use_inv_def split: if_splits)
  moreover have "clients_inv ?q \<and> leak_inv ?q"
    unfolding clients_inv_def leak_inv_def q
    using assms(1) by (simp add: pool_inv_def clients_inv_def leak_inv_def)
  ultimately show ?thesis by (simp add: pool_inv_def)
qed

lemma pool_inv_del_client:
  assumes "pool_inv p" and "map_of (clients p) u = Some c" and "is_closed p c"
  shows "pool_inv (del_client u p)"
proof -
  have d: "distinct (map fst (clients (del_client u p)))"
    using assms by (simp add: del_client_def pool_inv_def clients_inv_def distinct_filter_keys)
  have u: "map_of (clients p) v = Some c \<longleftrightarrow> v = u" for v
    using assms unfolding pool_inv_def clients_inv_def by metis
  have m: "map_of (clients (del_client u p)) v = Some x \<longleftrightarrow> map_of (clients p) v = Some x \<and> x \<noteq> c" for v x
    using u [of v] assms(2) by (auto simp: del_client_def map_of_remove)
  have s: "conns (del_client u p) = conns p" "next_conn (del_client u p) = next_conn p"
    "now (del_client u p) = now p" "tasks (del_client u p) = tasks p"
    "user_locks (del_client u p) = user_locks p"
    by (simp_all add: del_client_def)
  show ?thesis
    by (rule pool_invI [OF assms(1) d, of "\<lambda>x. x = c"])
       (use assms(3) in \<open>simp_all add: m is_closed_def task_is_def lock_holder_def s\<close>)
qed

lemma open_proxy_simps [simp]:
  "clients (open_proxy p) = clients p" "conns (open_proxy p) = conns p"
  "next_conn (open_proxy p) = next_conn p" "now (open_proxy p) = now p"
  "tasks (open_proxy p) = tasks p" "user_locks (open_proxy p) = user_locks p"
  by (simp_all add: open_proxy_def)

lemma pool_inv_use:
  assumes "pool_inv p" and "task_is p t (Waiting u)" and "map_of (clients p) u = Some c"
  shows "pool_inv (reset_idle c (set_task t (Using u c (now p)) p))"
proof -
  let ?q = "reset_idle c (set_task t (Using u c (now p)) p)"
  have [simp]: "task_is ?q = task_is (set_task t (Using u c (now p)) p)" "clients ?q = clients p"
    "next_conn ?q = next_conn p" "now ?q = now p" "lock_holder ?q = lock_holder p"
    "conn_user (conns ?q d) = conn_user (conns p d)" "is_closed ?q = is_closed p"
    "conn_last_used (conns ?q d) = (if d = c then now p else conn_last_used (conns p d))" for d
    by (simp_all add: fun_eq_iff task_is_def reset_idle_def set_task_def lock_holder_def is_closed_def)
  have cn: "task_is ?q t' (Connecting v) \<Longrightarrow> task_is p t' (Connecting v)" for t' v
    by (simp split: if_splits)
  have "clients_inv ?q \<and> leak_inv ?q" using assms(1)
    unfolding pool_inv_def clients_inv_def leak_inv_def by simp
  moreover have "lock_inv ?q" using assms(1) cn unfolding pool_inv_def lock_inv_def by simp
  moreover have "use_inv ?q" unfolding use_inv_def
  proof (intro allI impI)
    fix t' v d s
    assume a: "task_is ?q t' (Using v d s)"
    show "d < next_conn ?q \<and> conn_user (conns ?q d) = v \<and> s \<le> conn_last_used (conns ?q d) \<and> s \<le> now ?q"
    proof (cases "t' = t")
      case True
      with a have "v = u" "d = c" "s = now p" by auto
      then show ?thesis using assms(1,3) by (simp add: pool_inv_def clients_inv_def)
    next
      case False
      with a have "task_is p t' (Using v d s)" by simp
      then have "d < next_conn p \<and> conn_user (conns p d) = v \<and> s \<le> conn_last_used (conns p d) \<and> s \<le> now p"
        using assms(1) unfolding pool_inv_def use_inv_def by blast
      then show ?thesis by auto
    qed
  qed
  ultimately show ?thesis by (simp add: pool_inv_def)
qed

lemma acquire_cases:
  assumes "pool_inv p" and "task_is p t (Waiting u)"
  obtains (reuse) c where "map_of (clients p) u = Some c" "\<not> is_closed p c"
      "acquire t u p = reset_idle c (set_task t (Using u c (now p)) p)"
  | (full) q where "pool_inv q" "task_is q t (Waiting u)" "map_of (clients q) u = None"
      "q = p \<or> q = del_client u p" "max_clients p \<le> length (clients q)"
      "acquire t u p = set_task t (Failed (new_exc SSHConnectionError ''SSH connection pool capacity exceeded'')) q"
  | (connect) q where "pool_inv q" "task_is q t (Waiting u)" "map_of (clients q) u = None"
      "q = p \<or> q = del_client u p" "length (clients q) < max_clients p"
      "acquire t u p = lock u (Some t) (set_task t (Connecting u) q)"
proof (cases "\<exists>c. map_of (clients p) u = Some c \<and> \<not> is_closed p c")
  case True
  then show ?thesis using reuse by (auto simp: acquire_def Let_def)
next
  case False
  define q where "q = (if map_of (clients p) u = None then p else del_client u p)"
  have q: "pool_inv q" "task_is q t (Waiting u)" "map_of (clients q) u = None" "q = p \<or> q = del_client u p"
    "max_clients q = max_clients p"
    using assms False pool_inv_del_client
    by (auto simp: q_def map_of_remove) (auto simp: del_client_def task_is_def map_of_remove)
  have "acquire t u p = (if length (clients q) \<ge> max_clients q
     then set_task t (Failed (new_exc SSHConnectionError ''SSH connection pool capacity exceeded'')) q
     else lock u (Some t) (set_task t (Connecting u) q))"
    using False by (auto simp: acquire_def q_def Let_def split: option.splits)
  then show ?thesis using q full [of q] connect [of q] by (cases "length (clients q) \<ge> max_clients p") auto
qed

lemma pool_inv_acquire:
  assumes "pool_inv p" and "task_is p t (Waiting u)" and "lock_holder p u = None"
  shows "pool_inv (acquire t u p)"
  using assms(1,2)
proof (cases rule: acquire_cases)
  case (reuse c)
  then show ?thesis using assms pool_inv_use by simp
next
  case (full q)
  then show ?thesis using pool_inv_done by auto
next
  case (connect q)
  moreover have "lock_holder q u = None" using connect(4) assms(3)
    by (auto simp: del_client_def lock_holder_def)
  ultimately show ?thesis using pool_inv_lock_taken by simp
qed

lemma pool_inv_finish_connect:
  assumes i: "pool_inv p" and t: "task_is p t (Connecting u)"
  shows "pool_inv (finish_connect t u outcome p)"
proof -
  have own: "task_is p t' (Connecting u) \<Longrightarrow> t' = t" for t'
    using i t unfolding pool_inv_def lock_inv_def by (metis option.inject)
  have none: "map_of (clients p) u = None" using i t unfolding pool_inv_def lock_inv_def by blast
  show ?thesis
  proof (cases "outcome = Connected")
    case True
    let ?q = "finish_connect t u Connected p"
    have tk: "task_is ?q t' k \<longleftrightarrow> (if t' = t then Using u (next_conn p) (now p) = k else task_is p t' k)" for t' k
      using t by (auto simp: task_is_def finish_connect_def lock_def set_task_def new_client_def open_proxy_def)
    have [simp]: "map_of (clients ?q) = (map_of (clients p))(u \<mapsto> next_conn p)"
      "next_conn ?q = Suc (next_conn p)" "now ?q = now p"
      "conns ?q c = (if c = next_conn p then \<lparr>conn_user = u, conn_closed = False, conn_last_used = now p\<rparr>
         else conns p c)" for c
      by (simp_all add: finish_connect_def lock_def set_task_def new_client_def open_proxy_def)
    have h: "lock_holder ?q v = (if v = u then None else lock_holder p v)" for v
      by (simp add: finish_connect_def)
         (simp add: lock_holder_def set_task_def new_client_def open_proxy_def)
    have "distinct (map fst (clients ?q))"
      using i by (simp add: pool_inv_def clients_inv_def finish_connect_def lock_def set_task_def
          new_client_def open_proxy_def distinct_dict_set)
    then have "clients_inv ?q"
      using i by (auto simp: pool_inv_def clients_inv_def less_SucI split: if_splits)
    moreover have "leak_inv ?q"
      using i none by (auto simp: pool_inv_def leak_inv_def less_Suc_eq is_closed_def)
    moreover have "lock_inv ?q"
      using i own by (auto simp: pool_inv_def lock_inv_def tk h split: if_splits)
    moreover have "use_inv ?q"
      using i by (auto simp: pool_inv_def use_inv_def tk less_SucI split: if_splits)
    ultimately show ?thesis using True by (simp add: pool_inv_def)
  next
    case False
    then obtain e where "\<exists>p'. finish_connect t u outcome p = lock u None (set_task t (Failed e) p') \<and> (p' = p \<or> p' = open_proxy p)"
      by (cases outcome) (auto simp: finish_connect_def)
    then obtain p' where q: "finish_connect t u outcome p = lock u None (set_task t (Failed e) p')"
      "p' = p \<or> p' = open_proxy p" by blast
    let ?q = "lock u None (set_task t (Failed e) p')"
    have tk: "task_is ?q t' k \<longleftrightarrow> (if t' = t then Failed e = k else task_is p t' k)" for t' k
      using t q(2) by (auto simp: task_is_def lock_def set_task_def)
    have [simp]: "clients ?q = clients p" "next_conn ?q = next_conn p" "now ?q = now p" "conns ?q = conns p"
      using q(2) by (auto simp: lock_def set_task_def)
    have h: "lock_holder ?q v = (if v = u then None else lock_holder p v)" for v
      using q(2) by (simp, auto simp: lock_holder_def)
    have lp: "lock_holder p' = lock_holder p" using q(2) by (auto simp: lock_holder_def fun_eq_iff)
    have "clients_inv ?q \<and> leak_inv ?q"
      using i by (simp add: pool_inv_def clients_inv_def leak_inv_def is_closed_def)
    moreover have "lock_inv ?q"
      using i own by (auto simp: pool_inv_def lock_inv_def tk h lp split: if_splits)
    moreover have "use_inv ?q"
      using i by (auto simp: pool_inv_def use_inv_def tk split: if_splits)
    ultimately show ?thesis using q(1) by (simp add: pool_inv_def)
  qed
qed

theorem pool_inv_step: "pool_step p q \<Longrightarrow> pool_inv p \<Longrightarrow> pool_inv q"
  by (induction rule: pool_step.induct)
     (simp_all add: pool_inv_arrive pool_inv_acquire pool_inv_finish_connect pool_inv_leave
        pool_inv_prune pool_inv_tick pool_inv_close)

lemma pool_inv_init: "pool_init mx idle ex proxy t0 = Inr p \<Longrightarrow> pool_inv p"
  by (auto simp: pool_init_def pool_inv_def clients_inv_def leak_inv_def lock_inv_def use_inv_def
      task_is_def split: if_splits)

lemma pool_inv_reach: "pool_reach p q \<Longrightarrow> pool_inv p \<Longrightarrow> pool_inv q"
  by (induction rule: pool_reach.induct) (auto intro: pool_inv_step)

subsection \<open>The size of the pool\<close>

text \<open>
  \<open>size_inv T\<close>: the entries and the connections under way together are at most
  \<open>max_clients - 1 + T\<close>, as long as at most \<open>T\<close> tasks connect at the same time.
\<close>

definition size_inv :: "nat \<Rightarrow> pool \<Rightarrow> bool" where
  "size_inv n p \<longleftrightarrow> length (clients p) + connecting p < max_clients p + n"

lemma connecting_set:
  "t < length (tasks p) \<Longrightarrow> connecting (set_task t k p) + (if is_connecting (tasks p ! t) then 1 else 0) =
     connecting p + (if is_connecting k then 1 else 0)"
proof -
  assume t: "t < length (tasks p)"
  let ?P = is_connecting
  have "length (filter ?P ((tasks p)[t := k])) + (if ?P (tasks p ! t) then 1 else 0) =
      length (filter ?P (tasks p)) + (if ?P k then 1 else 0)"
    using t
  proof (induction "tasks p" arbitrary: p t)
    case (Cons x xs)
    obtain q where q: "tasks (q :: pool) = xs" by (metis pool.select_convs(10))
    show ?case
    proof (cases t)
      case 0
      then show ?thesis by (simp flip: Cons(2))
    next
      case (Suc m)
      then have "length (filter ?P (xs[m := k])) + (if ?P (xs ! m) then 1 else 0) =
          length (filter ?P xs) + (if ?P k then 1 else 0)"
        using Cons.hyps(1) [of q m] Cons.prems q by (simp flip: Cons(2))
      then show ?thesis using Suc by (simp flip: Cons(2))
    qed
  qed simp
  then show ?thesis by (simp add: connecting_def set_task_def)
qed

lemma connecting_simps [simp]:
  "connecting (lock u h p) = connecting p" "connecting (reset_idle c p) = connecting p"
  "connecting (new_client u p) = connecting p" "connecting (open_proxy p) = connecting p"
  "connecting (close c p) = connecting p" "connecting (del_client u p) = connecting p"
  "connecting (prune_connection_pool p) = connecting p"
  by (simp_all add: connecting_def pool_ops)

lemma is_connecting_simps [simp]:
  "is_connecting (Connecting u)" "\<not> is_connecting (Waiting u)" "\<not> is_connecting (Using u c s)"
  "\<not> is_connecting Returned" "\<not> is_connecting (Failed e)"
  by (simp_all add: is_connecting_def)

lemma max_clients_step: "pool_step p q \<Longrightarrow> max_clients q = max_clients p"
  by (induction rule: pool_step.induct)
     (auto simp: acquire_def finish_connect_def leave_def arrive_def pool_ops Let_def
        split: option.splits connect_outcome.splits if_splits)

lemma length_dict_set: "length (dict_set k v d) \<le> Suc (length d)"
  by (induction d) auto

lemma size_inv_step:
  assumes s: "pool_step p q" and i: "pool_inv p" and sz: "size_inv n p" and c: "connecting q \<le> n"
  shows "size_inv n q"
  using s
proof cases
  case (Arrive u)
  then have "clients q = clients p" "connecting q = connecting p"
    by (simp_all add: arrive_def connecting_def)
  then show ?thesis using sz max_clients_step [OF s] by (simp add: size_inv_def)
next
  case (Acquire t u)
  from i Acquire(2) show ?thesis
  proof (cases rule: acquire_cases)
    case (reuse c)
    then have "connecting q = connecting p"
      using Acquire connecting_set [of t p "Using u c (now p)"] by (auto simp: task_is_def)
    moreover have "clients q = clients p" using reuse(3) Acquire by (simp add: reset_idle_def)
    moreover note sz max_clients_step [OF s]
    ultimately have ?thesis by (simp add: size_inv_def)
    then show ?thesis .
  next
    case (full r)
    then have "connecting q = connecting r"
      using Acquire connecting_set [of t r "Failed (new_exc SSHConnectionError ''SSH connection pool capacity exceeded'')"]
      by (auto simp: task_is_def)
    moreover have "connecting r = connecting p" "length (clients r) \<le> length (clients p)"
      using full(4) by (auto simp: del_client_def connecting_def)
    ultimately show ?thesis using sz max_clients_step [OF s] full Acquire
      by (simp add: size_inv_def)
  next
    case (connect r)
    then have "clients q = clients r" using Acquire by (simp add: lock_def)
    then show ?thesis using c connect(5) max_clients_step [OF s] by (simp add: size_inv_def)
  qed
next
  case (Connect t u outcome)
  have a: "Suc (connecting (set_task t k p)) = connecting p" if "\<not> is_connecting k" for k
    using connecting_set [of t p k] Connect(2) that by (auto simp: task_is_def)
  have b: "connecting (set_task t k (open_proxy p)) = connecting (set_task t k p)"
    "connecting (set_task t k (new_client u (open_proxy p))) = connecting (set_task t k p)" for k
    by (simp_all add: connecting_def set_task_def new_client_def)
  have "Suc (connecting q) = connecting p"
    using Connect(1) a by (cases outcome) (simp_all add: finish_connect_def b)
  moreover have "length (clients q) \<le> Suc (length (clients p))"
    using Connect(1) length_dict_set [of u "next_conn p" "clients p"]
    by (cases outcome) (simp_all add: finish_connect_def lock_def new_client_def)
  ultimately show ?thesis using sz max_clients_step [OF s] by (simp add: size_inv_def)
next
  case (Leave t u c s' r)
  then have "connecting q = connecting p"
    using connecting_set [of t p "case r of None \<Rightarrow> Returned | Some e \<Rightarrow> Failed (use_error e)"]
    by (auto simp: leave_def task_is_def split: option.splits)
  then show ?thesis using Leave sz max_clients_step [OF s] by (simp add: size_inv_def leave_def)
next
  case Prune
  have "length (clients q) \<le> length (clients p)"
    using Prune by (simp add: prune_connection_pool_def Let_def)
  then show ?thesis using sz max_clients_step [OF s] Prune by (simp add: size_inv_def)
next
  case (Tick d)
  then show ?thesis using sz by (simp add: size_inv_def connecting_def)
next
  case (Lost c')
  then show ?thesis using sz by (simp add: size_inv_def close_def connecting_def)
qed

text \<open>Reachability with at most \<open>n\<close> tasks connecting at any time.\<close>

inductive pool_reach_upto :: "nat \<Rightarrow> pool \<Rightarrow> pool \<Rightarrow> bool" for n p0 where
  StartUpto: "pool_reach_upto n p0 p0"
| StepUpto: "pool_reach_upto n p0 p \<Longrightarrow> pool_step p q \<Longrightarrow> connecting q \<le> n \<Longrightarrow> pool_reach_upto n p0 q"

lemma pool_reach_upto_inv:
  "pool_reach_upto n p q \<Longrightarrow> pool_inv p \<Longrightarrow> size_inv n p \<Longrightarrow> pool_inv q \<and> size_inv n q \<and> max_clients q = max_clients p"
  by (induction rule: pool_reach_upto.induct) (auto intro: pool_inv_step size_inv_step dest: max_clients_step)

subsection \<open>Properties\<close>

lemma timeouts_step: "pool_step p q \<Longrightarrow> idle_timeout q = idle_timeout p \<and> execute_timeout q = execute_timeout p"
proof (induction rule: pool_step.induct)
  case (Prune p)
  have "execute_timeout (close_idle cs p) = execute_timeout p" for cs p
    by (induction cs arbitrary: p) (simp_all add: close_idle_def close_def)
  then show ?case by (simp add: prune_connection_pool_def Let_def)
qed (auto simp: acquire_def finish_connect_def leave_def arrive_def get_user_lock_def pool_ops Let_def
        split: option.splits connect_outcome.splits if_splits)

lemma timeouts_reach:
  "pool_reach p q \<Longrightarrow> idle_timeout q = idle_timeout p \<and> execute_timeout q = execute_timeout p"
  by (induction rule: pool_reach.induct) (auto dest: timeouts_step)

text \<open>A short run of the pool: ana arrives, connects and uses her connection.\<close>

definition demo_pool :: pool where
  "demo_pool = \<lparr>clients = [], user_locks = [], max_clients = 1, idle_timeout = 60, execute_timeout = 5,
     has_proxy = False, conns = (\<lambda>_. \<lparr>conn_user = [], conn_closed = True, conn_last_used = 0\<rparr>),
     next_conn = 0, proxies = 0, tasks = [], now = 0\<rparr>"

definition demo_pool_used :: pool where
  "demo_pool_used = finish_connect 0 ''ana'' Connected (acquire 0 ''ana'' (arrive ''ana'' demo_pool))"

lemma demo_pool_init: "pool_init 1 60 5 False 0 = Inr demo_pool"
  by (simp add: pool_init_def demo_pool_def)

lemmas demo_eval = demo_pool_used_def demo_pool_def arrive_def get_user_lock_def acquire_def
  finish_connect_def pool_ops task_is_def is_closed_def

lemma demo_pool_reach: "pool_reach demo_pool demo_pool_used"
proof -
  have a: "pool_reach demo_pool (arrive ''ana'' demo_pool)" by (rule Step [OF Start Arrive])
  have b: "pool_reach demo_pool (acquire 0 ''ana'' (arrive ''ana'' demo_pool))"
    by (rule Step [OF a], rule Acquire) (simp_all add: demo_eval lock_holder_def)
  show ?thesis unfolding demo_pool_used_def
    by (rule Step [OF b], rule Connect) (simp add: demo_eval)
qed

lemma demo_pool_task: "task_is demo_pool_used 0 (Using ''ana'' 0 0)"
  by (simp add: demo_eval)

text \<open>
  C1: users are isolated.  Whatever the interleaving of requests, prunings and lost
  connections, a request only ever uses a connection that was opened with the credentials of
  its own user.
\<close>

theorem pool_user_isolation:
  assumes "pool_init mx idle ex proxy t0 = Inr p0" and "pool_reach p0 p"
    and "task_is p t (Using u c s)"
  shows "c < next_conn p \<and> conn_user (conns p c) = u"
  using pool_inv_reach [OF assms(2) pool_inv_init [OF assms(1)]] assms(3)
  unfolding pool_inv_def use_inv_def by blast

lemma pool_user_isolation_witness: "conn_user (conns demo_pool_used 0) = ''ana''"
  using pool_user_isolation [OF demo_pool_init demo_pool_reach demo_pool_task] by blast



text \<open>
  C23: \<open>max_clients\<close> is a soft limit, exceeded by at most the number of tasks that connect at
  the same time less one.
\<close>

theorem pool_size_bound:
  assumes "pool_init mx idle ex proxy t0 = Inr p0" and "pool_reach_upto n p0 p" and "0 < mx + n"
  shows "length (clients p) + connecting p < mx + n"
proof -
  have "pool_inv p0" "size_inv n p0" "max_clients p0 = mx"
    using assms(1,3) pool_inv_init [OF assms(1)]
    by (auto simp: pool_init_def size_inv_def connecting_def split: if_splits)
  then have "size_inv n p" "max_clients p = mx" using pool_reach_upto_inv [OF assms(2)] by auto
  then show ?thesis by (simp add: size_inv_def)
qed

lemma pool_size_bound_witness: "length (clients demo_pool_used) + connecting demo_pool_used < 1 + 1"
proof -
  have a: "pool_reach_upto 1 demo_pool (arrive ''ana'' demo_pool)"
    by (rule StepUpto [OF StartUpto Arrive]) (simp add: demo_eval connecting_def)
  have b: "pool_reach_upto 1 demo_pool (acquire 0 ''ana'' (arrive ''ana'' demo_pool))"
    by (rule StepUpto [OF a], rule Acquire) (simp_all add: demo_eval lock_holder_def connecting_def)
  have c: "pool_reach_upto 1 demo_pool demo_pool_used" unfolding demo_pool_used_def
    by (rule StepUpto [OF b], rule Connect) (simp_all add: demo_eval connecting_def)
  show ?thesis by (rule pool_size_bound [OF demo_pool_init c]) simp
qed

text \<open>
  The limit is really exceeded: with \<open>max_clients = 1\<close> two users whose requests overlap
  both get a connection.
\<close>

theorem pool_limit_exceeded:
  "\<exists>p. pool_reach demo_pool p \<and> length (clients p) = 2 \<and> max_clients p = 1"
proof -
  define p2 where "p2 = acquire 1 ''bob'' (arrive ''bob'' (acquire 0 ''ana'' (arrive ''ana'' demo_pool)))"
  define p4 where "p4 = finish_connect 1 ''bob'' Connected (finish_connect 0 ''ana'' Connected p2)"
  have a: "pool_reach demo_pool (acquire 0 ''ana'' (arrive ''ana'' demo_pool))"
    by (rule Step [OF Step [OF Start Arrive]], rule Acquire) (simp_all add: demo_eval lock_holder_def)
  have b: "pool_reach demo_pool p2" unfolding p2_def
    by (rule Step [OF Step [OF a Arrive]], rule Acquire) (simp_all add: demo_eval lock_holder_def)
  have c: "pool_reach demo_pool (finish_connect 0 ''ana'' Connected p2)"
    by (rule Step [OF b], rule Connect) (simp add: demo_eval p2_def)
  have d: "pool_reach demo_pool p4" unfolding p4_def
    by (rule Step [OF c], rule Connect) (simp add: demo_eval p2_def)
  moreover have "length (clients p4) = 2 \<and> max_clients p4 = 1"
    by (simp add: demo_eval p2_def p4_def)
  ultimately show ?thesis by blast
qed



text \<open>
  The pruning is a plain function that the background scheduler runs in a worker thread,
  so a request can connect between the moment it computes the new dictionary and the moment
  it stores it.  Then the connection just opened is in no dictionary any more: it stays open
  and is never reused or pruned.
\<close>

theorem torn_prune_leaks:
  assumes "pool_inv p" and "task_is p t (Connecting u)"
  defines "q \<equiv> (finish_connect t u Connected p)\<lparr>clients := clients (prune_connection_pool p)\<rparr>"
  shows "\<not> is_closed q (next_conn p) \<and> next_conn p \<notin> set (map snd (clients q)) \<and> \<not> leak_inv q"
proof -
  have d: "distinct (map fst (clients p))" using assms(1) by (simp add: pool_inv_def clients_inv_def)
  have "c < next_conn p" if mem: "c \<in> set (map snd (clients p))" for c
  proof -
    obtain u' where "(u', c) \<in> set (clients p)" using mem by auto
    then have "map_of (clients p) u' = Some c" using d by (rule map_of_is_SomeI [rotated])
    then show ?thesis using assms(1) unfolding pool_inv_def clients_inv_def by blast
  qed
  moreover have "set (clients (prune_connection_pool p)) \<subseteq> set (clients p)"
    by (auto simp: prune_connection_pool_def Let_def)
  ultimately have n: "next_conn p \<notin> set (map snd (clients q))"
    by (fastforce simp: q_def)
  moreover have o: "\<not> is_closed q (next_conn p)" "next_conn p < next_conn q"
    by (simp_all add: q_def is_closed_def finish_connect_def pool_ops)
  moreover have "\<not> leak_inv q"
  proof
    assume "leak_inv q"
    then have "map_of (clients q) (conn_user (conns q (next_conn p))) = Some (next_conn p)"
      using o unfolding leak_inv_def by blast
    then have "(conn_user (conns q (next_conn p)), next_conn p) \<in> set (clients q)" by (rule map_of_SomeD)
    with n show False by force
  qed
  ultimately show ?thesis by blast
qed

lemma torn_prune_leaks_witness:
  "\<not> leak_inv ((finish_connect 0 ''ana'' Connected (acquire 0 ''ana'' (arrive ''ana'' demo_pool)))
     \<lparr>clients := clients (prune_connection_pool (acquire 0 ''ana'' (arrive ''ana'' demo_pool)))\<rparr>)"
proof -
  have "pool_reach demo_pool (acquire 0 ''ana'' (arrive ''ana'' demo_pool))"
    by (rule Step [OF Step [OF Start Arrive]], rule Acquire) (simp_all add: demo_eval lock_holder_def)
  then have "pool_inv (acquire 0 ''ana'' (arrive ''ana'' demo_pool))"
    by (rule pool_inv_reach) (rule pool_inv_init [OF demo_pool_init])
  then show ?thesis using torn_prune_leaks [of "acquire 0 ''ana'' (arrive ''ana'' demo_pool)" 0 "''ana''"]
    by (simp add: demo_eval)
qed

text \<open>
  C25: a command's output is parsed only when it is complete: a value means that the process
  ended, that both streams are below the limit and that the parser got all of them, and that the
  command line and the exit status are the backend entry of the request's log.  Every other outcome
  is an error; a timeout, a lost connection or a channel that cannot be opened become errors of the
  SSH client.  The log has an entry exactly for the commands that ended below the limit, whether
  or not their output could be parsed.
\<close>

theorem execute_complete:
  "case execute cl decode command_line parse stdin outcome ctx of
     ((r, process), ctx') \<Rightarrow>
       (case r of
          Inr v \<Rightarrow> (\<exists>out err ex. outcome = Finished out err ex \<and> length out < sc_buffer_limit cl \<and>
            length err < sc_buffer_limit cl \<and> parse (decode out) (decode err) ex = Inr v \<and>
            ps_state process = Closed \<and> ctx' = log_backend_command command_line ex ctx)
        | Inl e \<Rightarrow> \<not> isinstance e TimeoutError \<and> \<not> isinstance e ConnectionLost \<and>
            \<not> isinstance e ChannelOpenError) \<and>
       ctx' = (case outcome of
                 Finished out err ex \<Rightarrow>
                   if max (length out) (length err) < sc_buffer_limit cl
                   then log_backend_command command_line ex ctx else ctx
               | _ \<Rightarrow> ctx)"
proof -
  have err: "\<not> isinstance (execute_error e) TimeoutError \<and> \<not> isinstance (execute_error e) ConnectionLost \<and>
        \<not> isinstance (execute_error e) ChannelOpenError" for e
    by (simp add: execute_error_def exc_le_def)
  have failed: "fst (execute_failed e process) = Inl (execute_error e)" for e :: exc and process
    by (simp add: execute_failed_def)
  show ?thesis
  proof (cases outcome)
    case (Finished out er ex)
    show ?thesis
    proof (cases "sc_buffer_limit cl \<le> length out \<or> sc_buffer_limit cl \<le> length er")
      case True
      then show ?thesis using Finished by (auto simp: execute_def Let_def read_limit_def exc_le_def)
    next
      case False
      then show ?thesis using Finished
        by (simp add: execute_def Let_def read_limit_def execute_failed_def err split: sum.split)
    qed
  qed (simp_all add: execute_def Let_def execute_failed_def err)
qed

text \<open>
  When a stream reaches the limit, the client raises without closing or terminating the
  process, which stays open on the connection that the pool keeps for the user.
\<close>

theorem output_limit_leaves_process:
  "(\<exists>out err ex. outcome = Finished out err ex \<and> sc_buffer_limit cl \<le> max (length out) (length err)) \<Longrightarrow>
     fst (fst (execute cl decode command_line parse stdin outcome ctx)) =
       raise OutputLimitExceeded ''Command output exceeded buffer limit.'' \<and>
     ps_state (snd (fst (execute cl decode command_line parse stdin outcome ctx))) = StillOpen \<and>
     error_status (new_exc OutputLimitExceeded ''Command output exceeded buffer limit.'') = 413"
  by (auto simp: execute_def Let_def read_limit_def error_status_def exc_le_def)

lemma output_limit_leaves_process_witness:
  "ps_state (snd (fst (execute \<lparr>sc_idle_timeout = 60, sc_execute_timeout = 5, sc_buffer_limit = 3\<rparr> id
     ''squeue'' (\<lambda>out err ex. Inr out) None (Finished ''abcd'' [] 0) None))) = StillOpen"
  using output_limit_leaves_process [of "Finished ''abcd'' [] 0"
    "\<lparr>sc_idle_timeout = 60, sc_execute_timeout = 5, sc_buffer_limit = 3\<rparr>" id "''squeue''"
    "\<lambda>out err ex. Inr out" None None] by simp

text \<open>A timeout that expires while the process runs terminates it and interrupts it on its input.\<close>

lemma timeout_terminates:
  "execute cl decode command_line parse stdin (ReadFailed (new_exc TimeoutError m)) ctx =
     ((Inl p, q), ctx') \<Longrightarrow>
   ps_state q = Terminated \<and> List.last (ps_stdin q) = [char_of (3::nat)] \<and> ctx' = ctx \<and>
   isinstance p TimeoutLimitExceeded"
  by (auto simp: execute_def Let_def execute_failed_def execute_error_def exc_le_def)

end
