(* ===== verification/Config.thy ===== *)
theory Config
  imports Prelude PyString PosixPath
begin

section \<open>The configuration\<close>

text \<open>
  The settings of \<open>firecrest/config.py\<close> and \<open>lib/models/config_model.py\<close>: their records with
  the defaults of their fields, and the validators.  pydantic builds the models from YAML; the
  checks written in the repository (the connection mode of a scheduler, the normalisation of
  a mount path, the case of a cluster's name, the loading of a directory of clusters) are
  functions here.  Secrets are plain texts.
\<close>

subsection \<open>Enumerations\<close>

datatype SchedulerType = SchedSlurm | SchedPbs

datatype FileSystemDataType = FsUsers | FsStore | FsArchive | FsApps | FsScratch | FsProject

datatype SchedulerConnectionMode = ModeHybrid | ModeRest | ModeSsh

datatype BackendServiceType = SvcExternalStorage | SvcFilesystem | SvcSsh | SvcScheduler | SvcException

datatype SSHKeysServiceType = SSHServiceKeys | SSHCAKeys | SSHStaticKeysType

text \<open>\<open>BackendServiceType(value)\<close>; \<open>_missing_\<close> knows two former names.\<close>

definition backend_service_type :: "string \<Rightarrow> BackendServiceType res" where
  "backend_service_type v =
     (if v = ''s3'' then Inr SvcExternalStorage
      else if v = ''filesystem'' then Inr SvcFilesystem
      else if v = ''ssh'' then Inr SvcSsh
      else if v = ''scheduler'' then Inr SvcScheduler
      else if v = ''exception'' then Inr SvcException
      else if v = ''filesystems'' then Inr SvcFilesystem
      else if v = ''storage'' then Inr SvcExternalStorage
      else raise ValueError [])"

subsection \<open>Data transfer\<close>

record MultipartUpload =
  use_split :: bool
  max_part_size :: int
  parallel_runs :: int
  tmp_folder :: string

definition default_multipart :: MultipartUpload where
  "default_multipart = \<lparr>use_split = False, max_part_size = 2 * 1024 * 1024 * 1024, parallel_runs = 3,
     tmp_folder = ''tmp''\<rparr>"

record S3DataTransfer =
  s3_name :: string
  s3_private_url :: string
  s3_public_url :: string
  s3_access_key_id :: string
  s3_secret_access_key :: string
  s3_region :: string
  s3_ttl :: int
  s3_tenant :: "string option"
  s3_multipart :: MultipartUpload
  s3_lifecycle_days :: int

record StreamerDataTransfer =
  st_pypi_index_url :: "string option"
  st_host :: "string option"
  st_port_range :: "int \<times> int"
  st_public_ips :: "string list option"
  st_wait_timeout :: int
  st_inbound_transfer_limit :: int

definition default_streamer :: StreamerDataTransfer where
  "default_streamer = \<lparr>st_pypi_index_url = None, st_host = None, st_port_range = (5665, 5675),
     st_public_ips = None, st_wait_timeout = 60 * 60 * 24,
     st_inbound_transfer_limit = 5 * 1024 * 1024 * 1024\<rparr>"

datatype DataTransferConfig =
    S3Config S3DataTransfer
  | WormholeConfig "string option"
  | StreamerConfig StreamerDataTransfer

record DataOperation =
  datatransfer_jobs_directives :: "string list"
  max_ops_file_size :: nat
  data_transfer :: "DataTransferConfig option"

definition default_data_operation :: DataOperation where
  "default_data_operation = \<lparr>datatransfer_jobs_directives = [], max_ops_file_size = 5 * 1024 * 1024,
     data_transfer = None\<rparr>"

subsection \<open>Clusters\<close>

record Scheduler =
  sched_type :: SchedulerType
  sched_connection_mode :: "SchedulerConnectionMode option"
  sched_version :: string
  sched_api_url :: "string option"
  sched_api_version :: "string option"
  sched_timeout :: int

definition sched_type_text :: "SchedulerType \<Rightarrow> string" where
  "sched_type_text t = (case t of SchedSlurm \<Rightarrow> ''slurm'' | SchedPbs \<Rightarrow> ''pbs'')"

definition check_scheduler_mode :: "Scheduler \<Rightarrow> Scheduler res" where
  "check_scheduler_mode s =
     (if (sched_connection_mode s = Some ModeHybrid \<or> sched_connection_mode s = Some ModeRest) \<and>
         \<not> truthy (sched_api_url s)
      then raise ValueError (''Error configuring scheduler '' @ [CHR 0x27] @ sched_type_text (sched_type s) @
             [CHR 0x27] @ '': `api_url` must be set when using `connection_mode` set to `hybrid` or `rest`'')
      else if sched_type s = SchedPbs \<and> sched_connection_mode s \<noteq> Some ModeSsh
      then raise ValueError ''Error configuring scheduler: PBS scheduler only accepts `connection_mode: ssh`''
      else Inr s)"

record ServiceHealth =
  sh_service_type :: BackendServiceType
  sh_healthy :: bool
  sh_message :: "string option"
  sh_path :: "string option"

record ProbingServices =
  probing_services :: "(BackendServiceType \<times> int) list option"
  probing_interval :: int

record FileSystem =
  fs_path :: string
  fs_data_type :: FileSystemDataType
  fs_default_work_dir :: bool

definition normalize_path :: "string \<Rightarrow> string" where
  "normalize_path value = normpath value"

definition file_system :: "string \<Rightarrow> FileSystemDataType \<Rightarrow> bool \<Rightarrow> FileSystem" where
  "file_system path data_type default_work_dir =
     \<lparr>fs_path = normalize_path path, fs_data_type = data_type, fs_default_work_dir = default_work_dir\<rparr>"

record SSHTimeouts =
  to_connection :: int
  to_login :: int
  to_command_execution :: int
  to_idle_timeout :: int
  to_keep_alive :: int

definition default_ssh_timeouts :: SSHTimeouts where
  "default_ssh_timeouts = \<lparr>to_connection = 5, to_login = 5, to_command_execution = 5,
     to_idle_timeout = 60, to_keep_alive = 5\<rparr>"

record SSHPoolConfig =
  ssh_host :: string
  ssh_port :: int
  ssh_proxy_host :: "string option"
  ssh_proxy_port :: "int option"
  ssh_max_clients :: nat
  ssh_timeout :: SSHTimeouts

record HPCCluster =
  cl_name :: string
  cl_ssh :: SSHPoolConfig
  cl_scheduler :: Scheduler
  cl_servicesHealth :: "ServiceHealth list option"
  cl_probing :: ProbingServices
  cl_file_systems :: "FileSystem list"
  cl_data_operation :: DataOperation

definition to_lowercase :: "string \<Rightarrow> string" where
  "to_lowercase value = lower value"

subsection \<open>Credentials, authentication, settings\<close>

record SSHUserKeys =
  key_private :: string
  key_public_cert :: "string option"
  key_passphrase :: "string option"

datatype SSHKeysService =
    SSHServiceConf string int
  | SSHCAConf string int
  | SSHStaticConf "(string \<times> SSHUserKeys) list"

record OpenFGA =
  fga_config_url :: string
  fga_config_timeout :: int
  fga_config_max_connections :: int

record Oidc =
  oidc_scopes :: "(string \<times> string) list"
  oidc_token_url :: string
  oidc_public_certs :: "string list"
  oidc_username_claim :: string
  oidc_jwk_algorithm :: "string option"
  oidc_min_token_ttl :: int

definition default_oidc :: "string \<Rightarrow> Oidc" where
  "default_oidc token_url = \<lparr>oidc_scopes = [], oidc_token_url = token_url, oidc_public_certs = [],
     oidc_username_claim = ''preferred_username'', oidc_jwk_algorithm = None, oidc_min_token_ttl = 30\<rparr>"

record Settings =
  set_apis_root_path :: string
  set_authentication :: Oidc
  set_authorization :: "OpenFGA option"
  set_ssh_credentials :: SSHKeysService
  set_clusters :: "HPCCluster list"

text \<open>
  \<open>LoadFileSecretStr\<close>: a secret may name the file to read it from.  \<open>read\<close> reads a file,
  when it exists.
\<close>

definition load_file_secret :: "(string \<Rightarrow> string option) \<Rightarrow> string \<Rightarrow> string res" where
  "load_file_secret read secret_value =
     (if starts_with ''secret_file:'' secret_value
      then (let secrets_path = drop 12 secret_value in
            case read secrets_path of
              None \<Rightarrow> raise FileNotFoundError (''Secret file: '' @ secrets_path @ '' not found!'')
            | Some text \<Rightarrow> Inr (strip text))
      else Inr secret_value)"

text \<open>
  The field \<open>clusters\<close> may name a directory: \<open>path:/etc/clusters\<close>.  \<open>exists\<close> tests a path,
  \<open>glob\<close> lists and parses the cluster files in it.  The second test of the source,
  \<open>if not path.is_dir\<close>, looks at the method instead of calling it and is never true.
\<close>

datatype 'c clusters_value = ClusterText string | ClusterList "'c list"

definition ensure_list ::
  "(string \<Rightarrow> bool) \<Rightarrow> (string \<Rightarrow> 'c list res) \<Rightarrow> 'c clusters_value \<Rightarrow> 'c clusters_value res" where
  "ensure_list exists glob value =
     (case value of
        ClusterText t \<Rightarrow>
          (if starts_with ''path:'' t
           then (let path = drop 5 t in
                 if \<not> exists path
                 then raise FileNotFoundError (''Clusters config path: '' @ path @ '' not found!'')
                 else map_res ClusterList (glob path))
           else Inr value)
      | ClusterList cs \<Rightarrow> Inr value)"

text \<open>Which YAML file the settings come from.\<close>

definition yaml_file :: "(string \<Rightarrow> string option) \<Rightarrow> string res" where
  "yaml_file getenv =
     (let f = (case getenv ''YAML_CONFIG_FILE'' of Some x \<Rightarrow> Some x | None \<Rightarrow> getenv ''INPUT_YAML_CONFIG_FILE'')
      in if truthy f then Inr (the f)
         else raise OSError ''Missing YAML_CONFIG_FILE environment variable'')"

subsection \<open>Lemmas\<close>

lemma check_scheduler_mode_Inr:
  "check_scheduler_mode s = Inr s' \<Longrightarrow>
     s' = s \<and> (sched_type s = SchedPbs \<longrightarrow> sched_connection_mode s = Some ModeSsh) \<and>
     (sched_connection_mode s \<in> {Some ModeHybrid, Some ModeRest} \<longrightarrow> truthy (sched_api_url s))"
  by (auto simp: check_scheduler_mode_def split: if_splits)

lemma file_system_normal:
  "isabs path \<Longrightarrow> \<exists>n cs. norm_abs (fs_path (file_system path ty d)) n cs"
  using normpath_abs by (fastforce simp: file_system_def normalize_path_def)

lemma to_lowercase_idem: "to_lowercase (to_lowercase n) = to_lowercase n"
  by (simp add: to_lowercase_def)

end
