(* ===== verification/Dependencies.thy ===== *)
theory Dependencies
  imports Prelude PyString PosixPath Json Errors Config SshPool
begin

section \<open>The dependencies of a request\<close>

text \<open>
  \<open>firecrest/dependencies.py\<close>: what stands between a request and its handler.
  \<open>ServiceAvailabilityDependency\<close> looks up the system, checks the health of the service the
  request needs and, for file system requests, that the path lies in one of the system's
  file systems; the other dependencies build the clients for the system.
\<close>

subsection \<open>The path of a file system request\<close>

text \<open>
  \<open>FilesystemRequestBase(**json).path\<close> (\<open>firecrest/filesystem/models.py\<close>): the field is read
  from the aliases \<open>sourcePath\<close> and \<open>source_path\<close>, then from its own name; it is required
  and may be null.
\<close>

definition request_path_field :: "(string \<times> json) list \<Rightarrow> json option" where
  "request_path_field d =
     (case map_of d ''sourcePath'' of Some v \<Rightarrow> Some v
      | None \<Rightarrow> (case map_of d ''source_path'' of Some v \<Rightarrow> Some v | None \<Rightarrow> map_of d ''path''))"

definition FilesystemRequestBase_path :: "json \<Rightarrow> string option res" where
  "FilesystemRequestBase_path body =
     (case body of
        JObj d \<Rightarrow> (case request_path_field d of
            None \<Rightarrow> raise ValueError []
          | Some JNull \<Rightarrow> Inr None
          | Some (JStr p) \<Rightarrow> Inr (Some p)
          | Some _ \<Rightarrow> raise ValueError [])
      | _ \<Rightarrow> raise TypeError [])"

record request =
  req_query_path :: "string option"
  req_body :: "json res"

definition request_path :: "request \<Rightarrow> string option res" where
  "request_path r =
     (case req_query_path r of
        Some p \<Rightarrow> Inr (Some p)
      | None \<Rightarrow>
          catch_res (bind_res (req_body r) FilesystemRequestBase_path)
            (\<lambda>e. Inl (Exc (HTTPException 400)
               ''Unable to decode request and retreive the required path or source_path parameter.''
               [] (Some e))))"

subsection \<open>Service availability\<close>

definition find_service :: "(ServiceHealth \<Rightarrow> bool) \<Rightarrow> ServiceHealth list option \<Rightarrow> ServiceHealth option" where
  "find_service q health =
     (case health of None \<Rightarrow> None | Some hs \<Rightarrow> List.find q hs)"

text \<open>\<open>p == root or p.startswith(root.rstrip("/") + "/")\<close> is \<open>under_test root p\<close>.\<close>

definition file_system_health :: "BackendServiceType \<Rightarrow> HPCCluster \<Rightarrow> request \<Rightarrow> unit res" where
  "file_system_health service_type system r =
     bind_res (request_path r) (\<lambda>path.
       case path of
         None \<Rightarrow> http_error 400 ''All filesystem requests require a path or source_path parameter.''
       | Some p \<Rightarrow>
         if \<not> isabs p
         then http_error 400 (''The provided path ('' @ p @ '') is not an absolute path.'')
         else let norm_path = normpath p;
                  valid_path = List.find (\<lambda>fs. under_test (fs_path fs) norm_path) (cl_file_systems system)
         in if valid_path = None
            then http_error 400 (''The provided path ('' @ norm_path @ '') does not match any of the defined filesystem paths for the requested system ('' @ cl_name system @ '').'')
            else case find_service (\<lambda>s. sh_service_type s = service_type \<and>
                        under_test (case sh_path s of None \<Rightarrow> [] | Some q \<Rightarrow> q) norm_path)
                      (cl_servicesHealth system) of
                 Some s \<Rightarrow>
                   (if \<not> sh_healthy s
                    then http_error 503 (''The requested filesystem ('' @
                           (case sh_path s of None \<Rightarrow> ''None'' | Some q \<Rightarrow> q) @ '' on '' @
                           cl_name system @ '') is unhealthy.'')
                    else Inr ())
               | None \<Rightarrow> Inr ())"

definition scheduler_health :: "BackendServiceType \<Rightarrow> HPCCluster \<Rightarrow> unit res" where
  "scheduler_health service_type system =
     (case find_service (\<lambda>s. sh_service_type s = service_type) (cl_servicesHealth system) of
        Some s \<Rightarrow> (if \<not> sh_healthy s
          then http_error 503 (''The scheduler service for the requested system ('' @ cl_name system @ '') is unhealthy.'')
          else Inr ())
      | None \<Rightarrow> Inr ())"

definition ssh_health :: "BackendServiceType \<Rightarrow> HPCCluster \<Rightarrow> unit res" where
  "ssh_health service_type system =
     (case find_service (\<lambda>s. sh_service_type s = service_type) (cl_servicesHealth system) of
        Some s \<Rightarrow> (if \<not> sh_healthy s
          then http_error 503 (''The ssh service for the requested system ('' @ cl_name system @ '') is unhealthy.'')
          else Inr ())
      | None \<Rightarrow> Inr ())"

text \<open>\<open>system.probing.services\<close> is false when it is \<open>None\<close> or empty.\<close>

definition probes :: "HPCCluster \<Rightarrow> bool" where
  "probes system \<longleftrightarrow> (case probing_services (cl_probing system) of None \<Rightarrow> False | Some s \<Rightarrow> s \<noteq> [])"

definition service_availability ::
  "HPCCluster list \<Rightarrow> BackendServiceType \<Rightarrow> bool \<Rightarrow> string \<Rightarrow> request \<Rightarrow> HPCCluster res" where
  "service_availability clusters service_type ignore_health system_name r =
     catch_res
       (bind_res (case List.find (\<lambda>c. cl_name c = system_name) clusters of
                    None \<Rightarrow> raise StopIteration [] | Some c \<Rightarrow> Inr c) (\<lambda>system.
        bind_res (if \<not> ignore_health \<and> probes system
                  then bind_res (if service_type = SvcFilesystem then file_system_health service_type system r else Inr ()) (\<lambda>_.
                       bind_res (if service_type = SvcScheduler then scheduler_health service_type system else Inr ()) (\<lambda>_.
                       if service_type = SvcSsh then ssh_health service_type system else Inr ()))
                  else Inr ()) (\<lambda>_.
        Inr system)))
       (\<lambda>e. if isinstance e StopIteration
            then Inl (Exc (HTTPException 404) ''System not found'' [] (Some e))
            else Inl e)"

text \<open>A request without a query or a body, as the other dependencies call it.\<close>

definition no_request :: request where
  "no_request = \<lparr>req_query_path = None, req_body = raise AttributeError []\<rparr>"

subsection \<open>Clients\<close>

text \<open>
  \<open>SSHClientDependency\<close> keeps one pool per system; its lock makes the lookup and the insertion
  one step.
\<close>

definition ssh_client_dependency ::
  "HPCCluster list \<Rightarrow> bool \<Rightarrow> int \<Rightarrow> string \<Rightarrow> (string \<times> pool) list \<Rightarrow> pool res \<times> (string \<times> pool) list" where
  "ssh_client_dependency clusters ignore_health t0 system_name client_pools =
     (case service_availability clusters SvcSsh ignore_health system_name no_request of
        Inl e \<Rightarrow> (Inl e, client_pools)
      | Inr system \<Rightarrow>
          (case map_of client_pools system_name of
             Some p \<Rightarrow> (Inr p, client_pools)
           | None \<Rightarrow>
               (let ssh = cl_ssh system in
                case pool_init (ssh_max_clients ssh) (to_idle_timeout (ssh_timeout ssh))
                       (to_command_execution (ssh_timeout ssh)) (truthy (ssh_proxy_host ssh)) t0 of
                  Inl e \<Rightarrow> (Inl e, client_pools)
                | Inr p \<Rightarrow> (Inr p, dict_set system_name p client_pools))))"

definition prune_client_pools :: "(string \<times> pool) list \<Rightarrow> (string \<times> pool) list" where
  "prune_client_pools client_pools = map (\<lambda>(n, p). (n, prune_connection_pool p)) client_pools"

text \<open>What \<open>SchedulerClientDependency\<close> constructs.\<close>

datatype scheduler_client =
    SlurmClientFor "pool option" string "string option" "string option" int string "SchedulerConnectionMode option"
  | PbsClientFor pool string int

definition scheduler_client_dependency ::
  "HPCCluster list \<Rightarrow> string \<Rightarrow> bool \<Rightarrow> int \<Rightarrow> string \<Rightarrow> (string \<times> pool) list
   \<Rightarrow> scheduler_client res \<times> (string \<times> pool) list" where
  "scheduler_client_dependency clusters username_claim ignore_health t0 system_name client_pools =
     (case service_availability clusters SvcScheduler ignore_health system_name no_request of
        Inl e \<Rightarrow> (Inl e, client_pools)
      | Inr system \<Rightarrow>
          (let s = cl_scheduler system in
           case sched_type s of
             SchedSlurm \<Rightarrow>
               (if sched_connection_mode s = Some ModeRest
                then (Inr (SlurmClientFor None (sched_version s) (sched_api_version s) (sched_api_url s)
                             (sched_timeout s) username_claim (sched_connection_mode s)), client_pools)
                else case ssh_client_dependency clusters ignore_health t0 system_name client_pools of
                       (Inl e, ps) \<Rightarrow> (Inl e, ps)
                     | (Inr p, ps) \<Rightarrow>
                         (Inr (SlurmClientFor (Some p) (sched_version s) (sched_api_version s)
                            (sched_api_url s) (sched_timeout s) username_claim (sched_connection_mode s)), ps))
           | SchedPbs \<Rightarrow>
               (case ssh_client_dependency clusters ignore_health t0 system_name client_pools of
                  (Inl e, ps) \<Rightarrow> (Inl e, ps)
                | (Inr p, ps) \<Rightarrow> (Inr (PbsClientFor p (sched_version s) (sched_timeout s)), ps))))"

definition default_work_dir :: "HPCCluster \<Rightarrow> string option" where
  "default_work_dir system = first_of (map fs_path (filter fs_default_work_dir (cl_file_systems system)))"

text \<open>The data transfer a request gets: its clients, its working directory and its settings.\<close>

definition data_transfer_dependency ::
  "HPCCluster list \<Rightarrow> string \<Rightarrow> int \<Rightarrow> string \<Rightarrow> (string \<times> pool) list
   \<Rightarrow> (scheduler_client \<times> pool \<times> string \<times> string list \<times> DataTransferConfig) res \<times> (string \<times> pool) list" where
  "data_transfer_dependency clusters username_claim t0 system_name client_pools =
     (case scheduler_client_dependency clusters username_claim False t0 system_name client_pools of
        (Inl e, ps) \<Rightarrow> (Inl e, ps)
      | (Inr sched, ps) \<Rightarrow>
          (case ssh_client_dependency clusters False t0 system_name ps of
             (Inl e, ps') \<Rightarrow> (Inl e, ps')
           | (Inr ssh, ps') \<Rightarrow>
               (case service_availability clusters SvcScheduler False system_name no_request of
                  Inl e \<Rightarrow> (Inl e, ps')
                | Inr system \<Rightarrow>
                    (case default_work_dir system of
                       None \<Rightarrow> (raise ValueError (''The system '' @ system_name @ '' has no filesystem defined as default_work_dir''), ps')
                     | Some work_dir \<Rightarrow>
                         (if work_dir = []
                          then (raise ValueError (''The system '' @ system_name @ '' has no filesystem defined as default_work_dir''), ps')
                          else case data_transfer (cl_data_operation system) of
                            None \<Rightarrow> (raise AttributeError [], ps')
                          | Some dt \<Rightarrow> (Inr (sched, ssh, work_dir,
                               datatransfer_jobs_directives (cl_data_operation system), dt), ps'))))))"

subsection \<open>Lemmas\<close>

lemma find_Some: "List.find P xs = Some x \<Longrightarrow> x \<in> set xs \<and> P x"
  by (induction xs) (auto split: if_splits)

lemma find_service_None:
  "find_service q h = None \<Longrightarrow> s \<in> set hs \<Longrightarrow> h = Some hs \<Longrightarrow> \<not> q s"
  by (auto simp: find_service_def find_None_iff)

lemma availability_Inr:
  "service_availability clusters ty ign n r = Inr system \<Longrightarrow>
     system \<in> set clusters \<and> cl_name system = n \<and>
     (ign \<or> \<not> probes system \<or>
      (ty = SvcFilesystem \<longrightarrow> file_system_health ty system r = Inr ()) \<and>
      (ty = SvcScheduler \<longrightarrow> scheduler_health ty system = Inr ()) \<and>
      (ty = SvcSsh \<longrightarrow> ssh_health ty system = Inr ()))"
  by (auto simp: service_availability_def catch_res_def res_iff
      split: sum.splits option.splits if_splits dest!: find_Some)

lemma file_system_health_Inr:
  assumes "file_system_health ty system r = Inr ()"
  shows "\<exists>p fs. request_path r = Inr (Some p) \<and> isabs p \<and> fs \<in> set (cl_file_systems system) \<and>
    under_test (fs_path fs) (normpath p)"
proof -
  obtain path where path: "request_path r = Inr path"
    using assms by (auto simp: file_system_health_def res_iff)
  then obtain p where p: "path = Some p" "isabs p"
    using assms by (auto simp: file_system_health_def split: option.splits if_splits)
  then have "List.find (\<lambda>fs. under_test (fs_path fs) (normpath p)) (cl_file_systems system) \<noteq> None"
    using assms path by (auto simp: file_system_health_def Let_def split: if_splits)
  then obtain fs where "List.find (\<lambda>fs. under_test (fs_path fs) (normpath p)) (cl_file_systems system) = Some fs"
    by blast
  with path p show ?thesis using find_Some by fastforce
qed

subsection \<open>Properties\<close>


definition demo_cluster :: "HPCCluster" where
  "demo_cluster = \<lparr>cl_name = ''daint'',
     cl_ssh = \<lparr>ssh_host = ''h'', ssh_port = 22, ssh_proxy_host = None, ssh_proxy_port = None,
               ssh_max_clients = 100, ssh_timeout = default_ssh_timeouts\<rparr>,
     cl_scheduler = \<lparr>sched_type = SchedSlurm, sched_connection_mode = Some ModeSsh, sched_version = ''24'',
               sched_api_url = None, sched_api_version = None, sched_timeout = 10\<rparr>,
     cl_servicesHealth = None,
     cl_probing = \<lparr>probing_services = Some [(SvcFilesystem, 10)], probing_interval = 120\<rparr>,
     cl_file_systems = [\<lparr>fs_path = ''/scratch'', fs_data_type = FsScratch, fs_default_work_dir = True\<rparr>],
     cl_data_operation = default_data_operation\<rparr>"

definition demo_request :: "string \<Rightarrow> request" where
  "demo_request p = \<lparr>req_query_path = Some p, req_body = raise ValueError []\<rparr>"


text \<open>
  C40: the check can be passed with another path than the one the handler uses: a query
  parameter \<open>path\<close> takes precedence over the body, so a request whose path stands in its body
  is not checked at all when its URL has an allowed \<open>path\<close>.
\<close>

theorem query_path_hides_body:
  "req_query_path r = Some p \<Longrightarrow>
     service_availability clusters ty ign name (r\<lparr>req_body := b\<rparr>) = service_availability clusters ty ign name r"
proof -
  assume "req_query_path r = Some p"
  then have "file_system_health ty system (r\<lparr>req_body := b\<rparr>) = file_system_health ty system r" for system
    by (simp add: file_system_health_def request_path_def)
  then show ?thesis by (simp add: service_availability_def cong del: if_weak_cong)
qed

lemma query_path_hides_body_witness:
  "service_availability [demo_cluster] SvcFilesystem False ''daint''
     ((demo_request ''/scratch/b'')\<lparr>req_body := Inr (JObj [(''path'', JStr ''/etc/passwd'')])\<rparr>) =
   service_availability [demo_cluster] SvcFilesystem False ''daint'' (demo_request ''/scratch/b'')"
  by (rule query_path_hides_body) (simp add: demo_request_def)

text \<open>
  C35: with probing on and health not ignored, a scheduler or SSH request of a system whose
  first reported health of that service is bad is answered 503; an unknown system is a 404.
\<close>

theorem availability_unhealthy:
  "(case List.find (\<lambda>c. cl_name c = name) clusters of
      None \<Rightarrow> \<exists>e. service_availability clusters ty False name r = Inl e \<and> error_status e = 404
    | Some system \<Rightarrow>
        (probes system \<and> ty \<in> {SvcScheduler, SvcSsh} \<and>
         (case find_service (\<lambda>s. sh_service_type s = ty) (cl_servicesHealth system) of
            None \<Rightarrow> False | Some s \<Rightarrow> \<not> sh_healthy s)) \<longleftrightarrow>
        (ty \<in> {SvcScheduler, SvcSsh} \<and>
         (\<exists>e. service_availability clusters ty False name r = Inl e \<and> error_status e = 503)))"
  by (auto simp: service_availability_def scheduler_health_def ssh_health_def exc_le_def
      split: option.splits)

end
