(* ===== verification/SlurmModels.thy ===== *)
theory SlurmModels
  imports Prelude PyString Numerals Json
begin

section \<open>Scheduler data models\<close>

text \<open>
  The models of \<open>lib/scheduler_clients/models.py\<close> and \<open>lib/scheduler_clients/slurm/models.py\<close>.
  Jobs reach the code as dictionaries: built by the parsers of the command line tools or read from
  the Slurm REST API.  A class is a record, and the validation of a dictionary against it is the
  function \<open>\<dots>_init\<close>: the preparation of the keyword arguments in the class's own \<open>__init__\<close>
  followed by the declared fields, each looked up under its aliases in their order and then under
  its name.  A value that does not fit its declared type is a \<open>ValueError\<close>, the class pydantic's
  \<open>ValidationError\<close> derives from; when several fields fail the first one met is reported.

  How pydantic converts a value to \<open>int\<close> (it accepts texts and whole floats) is the parameter
  \<open>pint\<close>; what the proofs rely on is \<open>pint_ok\<close>: an integer is itself.
\<close>

subsection \<open>Common models\<close>

datatype JobsTimeWindow = LAST_HOUR | LAST_8_HOURS | LAST_24_HOURS | LAST_3_DAYS | LAST_7_DAYS

fun TIME_WINDOW_DURATIONS :: "JobsTimeWindow \<Rightarrow> nat \<times> string" where
  "TIME_WINDOW_DURATIONS LAST_HOUR = (1, ''hours'')"
| "TIME_WINDOW_DURATIONS LAST_8_HOURS = (8, ''hours'')"
| "TIME_WINDOW_DURATIONS LAST_24_HOURS = (24, ''hours'')"
| "TIME_WINDOW_DURATIONS LAST_3_DAYS = (3, ''days'')"
| "TIME_WINDOW_DURATIONS LAST_7_DAYS = (7, ''days'')"

text \<open>The length of a window; \<open>timedelta(hours=\<dots>)\<close> and \<open>timedelta(days=\<dots>)\<close> in seconds.\<close>

definition timedelta_seconds :: "nat \<times> string \<Rightarrow> int" where
  "timedelta_seconds d =
     (case d of (amount, unit) \<Rightarrow> int amount * (if unit = ''days'' then 86400 else 3600))"

definition window_seconds :: "JobsTimeWindow \<Rightarrow> int" where
  "window_seconds w = timedelta_seconds (TIME_WINDOW_DURATIONS w)"

lemma window_seconds_simps [simp]:
  "window_seconds LAST_HOUR = 3600" "window_seconds LAST_8_HOURS = 28800"
  "window_seconds LAST_24_HOURS = 86400" "window_seconds LAST_3_DAYS = 259200"
  "window_seconds LAST_7_DAYS = 604800"
  by (simp_all add: window_seconds_def timedelta_seconds_def)

lemma window_seconds_inj: "window_seconds v = window_seconds w \<Longrightarrow> v = w"
  by (cases v; cases w) simp_all

text \<open>The windows ordered by their length.\<close>

instantiation JobsTimeWindow :: linorder
begin

definition less_eq_JobsTimeWindow :: "JobsTimeWindow \<Rightarrow> JobsTimeWindow \<Rightarrow> bool" where
  "less_eq_JobsTimeWindow v w \<longleftrightarrow> window_seconds v \<le> window_seconds w"

definition less_JobsTimeWindow :: "JobsTimeWindow \<Rightarrow> JobsTimeWindow \<Rightarrow> bool" where
  "less_JobsTimeWindow v w \<longleftrightarrow> window_seconds v < window_seconds w"

instance
  by standard
    (auto simp: less_eq_JobsTimeWindow_def less_JobsTimeWindow_def intro: window_seconds_inj)

end

datatype NodeState =
    IDLE | ALLOCATED | MIXED | DOWN | DRAIN | OFFLINE | RESERVED | COMPLETING | BUSY
  | POWERING_DOWN | POWERING_UP | UNKNOWN

record JobStatus =
  js_state :: string
  js_stateReason :: "string option"
  js_exitCode :: "int option"
  js_interruptSignal :: "int option"

record JobTime =
  jt_elapsed :: "int option"
  jt_start :: "int option"
  jt_end :: "int option"
  jt_suspended :: "int option"
  jt_limit :: "int option"

record JobTask =
  task_id :: string
  task_name :: string
  task_status :: JobStatus
  task_time :: JobTime

record Job =
  job_job_id :: string
  job_name :: string
  job_status :: JobStatus
  job_tasks :: "JobTask list option"
  job_time :: JobTime
  job_account :: "string option"
  job_allocation_nodes :: int
  job_cluster :: string
  job_group :: "string option"
  job_nodes :: string
  job_partition :: string
  job_kill_request_user :: "string option"
  job_user :: "string option"
  job_working_directory :: string
  job_priority :: "int option"

record JobMetadata =
  md_job_id :: string
  md_script :: "string option"
  md_standard_input :: "string option"
  md_standard_output :: "string option"
  md_standard_error :: "string option"

text \<open>\<open>environment\<close> is a dictionary or a list of texts.\<close>

datatype job_environment = EnvDict "(string \<times> string) list" | EnvList "string list"

record JobDescription =
  jd_name :: "string option"
  jd_account :: "string option"
  jd_reservation :: "string option"
  jd_partition :: "string option"
  jd_current_working_directory :: string
  jd_standard_input :: "string option"
  jd_standard_output :: "string option"
  jd_standard_error :: "string option"
  jd_environment :: job_environment
  jd_constraints :: "string option"
  jd_script :: "string option"
  jd_script_path :: "string option"

record Node =
  nd_sockets :: "int option"
  nd_cores :: "int option"
  nd_threads :: "int option"
  nd_cpus :: int
  nd_cpu_load :: "rat option"
  nd_free_memory :: "int option"
  nd_features :: "json option"
  nd_name :: string
  nd_address :: "string option"
  nd_hostname :: "string option"
  nd_state :: "NodeState list"
  nd_partitions :: "string list option"
  nd_weight :: "int option"
  nd_alloc_memory :: "int option"
  nd_alloc_cpus :: "int option"
  nd_idle_cpus :: "int option"

record Accounts =
  acc_name :: string
  acc_default :: bool

record Partition =
  part_name :: string
  part_cpus :: int
  part_total_nodes :: int
  part_partition :: json

record Reservation =
  res_name :: string
  res_node_list :: string
  res_end_time :: int
  res_start_time :: int
  res_features :: "string option"
  res_state :: "string option"

subsection \<open>Fields\<close>

type_synonym kwargs = "(string \<times> json) list"

definition alias_lookup :: "string list \<Rightarrow> kwargs \<Rightarrow> json option" where
  "alias_lookup ks d = first_of (List.map_filter (map_of d) ks)"

lemma alias_lookup_simps [simp]:
  "alias_lookup [] d = None"
  "alias_lookup (k # ks) d = (case map_of d k of None \<Rightarrow> alias_lookup ks d | Some v \<Rightarrow> Some v)"
  by (simp_all add: alias_lookup_def map_filter_simps split: option.splits)

definition str_field :: "string list \<Rightarrow> kwargs \<Rightarrow> string res" where
  "str_field ks d =
     (case alias_lookup ks d of Some (JStr s) \<Rightarrow> Inr s | _ \<Rightarrow> raise ValueError [])"

definition opt_str_field :: "string list \<Rightarrow> kwargs \<Rightarrow> string option res" where
  "opt_str_field ks d =
     (case alias_lookup ks d of
        None \<Rightarrow> Inr None | Some JNull \<Rightarrow> Inr None | Some (JStr s) \<Rightarrow> Inr (Some s)
      | Some _ \<Rightarrow> raise ValueError [])"

definition int_field :: "(json \<Rightarrow> int res) \<Rightarrow> string list \<Rightarrow> kwargs \<Rightarrow> int res" where
  "int_field pint ks d = (case alias_lookup ks d of None \<Rightarrow> raise ValueError [] | Some v \<Rightarrow> pint v)"

definition pint_ok :: "(json \<Rightarrow> int res) \<Rightarrow> bool" where
  "pint_ok pint \<longleftrightarrow> (\<forall>i. pint (JInt i) = Inr i)"

subsection \<open>Slurm integers\<close>

text \<open>
  \<open>int(v)\<close> of a JSON value.  A float is truncated towards zero.
\<close>

fun int_of_json :: "json \<Rightarrow> int res" where
  "int_of_json (JInt i) = Inr i"
| "int_of_json (JBool b) = Inr (if b then 1 else 0)"
| "int_of_json (JFloat r) = Inr (if r < 0 then \<lceil>r\<rceil> else \<lfloor>r\<rfloor>)"
| "int_of_json (JStr s) = py_int s"
| "int_of_json _ = raise TypeError []"

fun slurm_int_to_int :: "json \<Rightarrow> json res" where
  "slurm_int_to_int JNull = Inr JNull"
| "slurm_int_to_int (JInt i) = Inr (JInt i)"
| "slurm_int_to_int (JBool b) = Inr (JBool b)"
| "slurm_int_to_int (JFloat r) = Inr (JFloat r)"
| "slurm_int_to_int (JStr s) =
     (case py_int s of Inl _ \<Rightarrow> raise ValueError ''Invalid SlurmInt value'' | Inr i \<Rightarrow> Inr (JInt i))"
| "slurm_int_to_int (JObj d) =
     (if \<not> jtruthy (jget_def d ''set'' (JBool True)) then Inr JNull
      else map_res JInt (int_of_json (jget d ''number'')))"
| "slurm_int_to_int (JList _) = Inr JNull"

text \<open>An optional integer field whose \<open>before\<close> validator is \<open>slurm_int_to_int\<close>.\<close>

definition slurm_int_field :: "(json \<Rightarrow> int res) \<Rightarrow> string list \<Rightarrow> kwargs \<Rightarrow> int option res" where
  "slurm_int_field pint ks d =
     (case alias_lookup ks d of
        None \<Rightarrow> Inr None
      | Some v \<Rightarrow> bind_res (slurm_int_to_int v) (\<lambda>w.
                    if w = JNull then Inr None else map_res Some (pint w)))"

subsection \<open>Slurm jobs\<close>

definition job_time_init :: "(json \<Rightarrow> int res) \<Rightarrow> kwargs \<Rightarrow> JobTime res" where
  "job_time_init pint d =
     bind_res (slurm_int_field pint [''elapsed''] d) (\<lambda>el.
     bind_res (slurm_int_field pint [''start''] d) (\<lambda>st.
     bind_res (slurm_int_field pint [''end''] d) (\<lambda>en.
     bind_res (slurm_int_field pint [''suspended''] d) (\<lambda>su.
     bind_res (slurm_int_field pint [''limit''] d) (\<lambda>li.
       Inr \<lparr>jt_elapsed = el, jt_start = st, jt_end = en, jt_suspended = su, jt_limit = li\<rparr>)))))"

definition job_status_slurm_init :: "(json \<Rightarrow> int res) \<Rightarrow> kwargs \<Rightarrow> JobStatus res" where
  "job_status_slurm_init pint kwargs =
     bind_res (jindex (JObj kwargs) ''state'') (\<lambda>state.
     let kwargs = (case state of
                     JList (x # _) \<Rightarrow> dict_set ''state'' x kwargs
                   | JList [] \<Rightarrow> dict_set ''state'' JNull kwargs
                   | _ \<Rightarrow> kwargs) in
     bind_res (slurm_int_field pint [''exitCode''] kwargs) (\<lambda>ec.
     bind_res (slurm_int_field pint [''interruptSignal''] kwargs) (\<lambda>sg.
     bind_res (str_field [''state''] kwargs) (\<lambda>st.
     bind_res (opt_str_field [''stateReason''] kwargs) (\<lambda>re.
       Inr \<lparr>js_state = st, js_stateReason = re, js_exitCode = ec, js_interruptSignal = sg\<rparr>)))))"

text \<open>\<open>k in x\<close> and the two parts of an exit code.\<close>

fun jin :: "string \<Rightarrow> json \<Rightarrow> bool res" where
  "jin k (JObj d) = Inr (jhas d k)"
| "jin k (JStr s) = Inr (contains k s)"
| "jin k (JList xs) = Inr (JStr k \<in> set xs)"
| "jin k _ = raise TypeError []"

definition exit_code_parts :: "json \<Rightarrow> (json \<times> json) res" where
  "exit_code_parts exit_code =
     (if \<not> jtruthy exit_code then Inr (JNull, JNull)
      else
        bind_res (bind_res (jin ''return_code'' exit_code) (\<lambda>b.
                    if b then jindex exit_code ''return_code'' else Inr JNull)) (\<lambda>exitCode.
        bind_res (bind_res (jin ''signal'' exit_code) (\<lambda>b.
                    if b then bind_res (jindex exit_code ''signal'') (\<lambda>s. jindex s ''id'')
                    else Inr JNull)) (\<lambda>interruptSignal.
          Inr (exitCode, interruptSignal))))"

text \<open>
  The \<open>status\<close> and \<open>time\<close> fields are set to model instances by \<open>__init__\<close> or validated from
  their dictionaries: \<open>status\<close> as a plain \<open>JobStatus\<close>, whose exit code is no Slurm integer.
\<close>

definition opt_int_field :: "(json \<Rightarrow> int res) \<Rightarrow> string list \<Rightarrow> kwargs \<Rightarrow> int option res" where
  "opt_int_field pint ks d =
     (case alias_lookup ks d of
        None \<Rightarrow> Inr None | Some JNull \<Rightarrow> Inr None | Some v \<Rightarrow> map_res Some (pint v))"

definition job_status_field :: "(json \<Rightarrow> int res) \<Rightarrow> kwargs \<Rightarrow> JobStatus res" where
  "job_status_field pint d =
     (case alias_lookup [''status''] d of
        Some (JObj s) \<Rightarrow>
          bind_res (str_field [''state''] s) (\<lambda>st.
          bind_res (opt_str_field [''stateReason''] s) (\<lambda>re.
          bind_res (opt_int_field pint [''exitCode''] s) (\<lambda>ec.
          bind_res (opt_int_field pint [''interruptSignal''] s) (\<lambda>sg.
            Inr \<lparr>js_state = st, js_stateReason = re, js_exitCode = ec, js_interruptSignal = sg\<rparr>))))
      | _ \<Rightarrow> raise ValueError [])"

definition job_time_field :: "(json \<Rightarrow> int res) \<Rightarrow> kwargs \<Rightarrow> JobTime res" where
  "job_time_field pint d =
     (case alias_lookup [''time''] d of Some (JObj t) \<Rightarrow> job_time_init pint t
      | _ \<Rightarrow> raise ValueError [])"

definition job_task_init :: "(json \<Rightarrow> int res) \<Rightarrow> kwargs \<Rightarrow> JobTask res" where
  "job_task_init pint kwargs =
     bind_res (case map_of kwargs ''step'' of
                 None \<Rightarrow> Inr kwargs
               | Some step \<Rightarrow>
                   bind_res (jindex step ''id'') (\<lambda>i.
                   bind_res (jindex step ''name'') (\<lambda>n.
                     Inr (dict_set ''name'' n (dict_set ''id'' i kwargs))))) (\<lambda>kwargs.
     bind_res (case map_of kwargs ''exit_code'' of
                 None \<Rightarrow> job_status_field pint kwargs
               | Some exit_code \<Rightarrow>
                   bind_res (exit_code_parts exit_code) (\<lambda>(exitCode, interruptSignal).
                   bind_res (jindex (JObj kwargs) ''state'') (\<lambda>state.
                     job_status_slurm_init pint
                       [(''state'', state), (''stateReason'', JNull), (''exitCode'', exitCode),
                        (''interruptSignal'', interruptSignal)]))) (\<lambda>status.
     bind_res (job_time_field pint kwargs) (\<lambda>time.
     bind_res (str_field [''id''] kwargs) (\<lambda>i.
     bind_res (str_field [''name''] kwargs) (\<lambda>n.
       Inr \<lparr>task_id = i, task_name = n, task_status = status, task_time = time\<rparr>)))))"

definition job_tasks_field :: "(json \<Rightarrow> int res) \<Rightarrow> kwargs \<Rightarrow> JobTask list option res" where
  "job_tasks_field pint d =
     (case alias_lookup [''steps'', ''tasks''] d of
        None \<Rightarrow> Inr None
      | Some JNull \<Rightarrow> Inr None
      | Some (JList ts) \<Rightarrow>
          map_res Some (traverse (\<lambda>t. case t of JObj k \<Rightarrow> job_task_init pint k
                                       | _ \<Rightarrow> raise ValueError []) ts)
      | Some _ \<Rightarrow> raise ValueError [])"

text \<open>\<open>str(v)\<close> of a job identifier; the texts of floats and containers are not modelled.\<close>

fun json_str :: "json \<Rightarrow> string" where
  "json_str (JStr s) = s"
| "json_str (JInt i) = show_int i"
| "json_str JNull = ''None''"
| "json_str (JBool b) = (if b then ''True'' else ''False'')"
| "json_str _ = []"

definition job_id_field :: "kwargs \<Rightarrow> string res" where
  "job_id_field d =
     (case alias_lookup [''jobId'', ''job_id''] d of
        None \<Rightarrow> raise ValueError [] | Some v \<Rightarrow> Inr (json_str v))"

text \<open>
  \<open>SlurmJob.__init__\<close>: the three parts that prepare the arguments, then the fields.
\<close>

definition set_allocation_nodes :: "kwargs \<Rightarrow> kwargs res" where
  "set_allocation_nodes kwargs =
     (if jhas kwargs ''allocation_nodes'' \<or> \<not> jhas kwargs ''job_resources'' then Inr kwargs
      else
        let jr = jget kwargs ''job_resources'' in
        bind_res (if jtruthy jr then jin ''nodes'' jr else Inr False) (\<lambda>b.
          if b then
            bind_res (jindex jr ''nodes'') (\<lambda>nodes.
              case nodes of
                JObj n \<Rightarrow> Inr (dict_set ''allocation_nodes'' (jget_def n ''count'' (JInt 0)) kwargs)
              | _ \<Rightarrow> (case jr of
                        JObj r \<Rightarrow> Inr (dict_set ''allocation_nodes''
                                        (jget_def r ''allocated_hosts'' (JInt 0)) kwargs)
                      | _ \<Rightarrow> raise AttributeError []))
          else Inr (dict_set ''allocation_nodes'' (JInt 0) kwargs)))"

definition job_time_of :: "(json \<Rightarrow> int res) \<Rightarrow> kwargs \<Rightarrow> JobTime res" where
  "job_time_of pint kwargs =
     (if jhas kwargs ''time'' \<or> \<not> jhas kwargs ''start_time'' \<or> \<not> jhas kwargs ''end_time''
      then job_time_field pint kwargs
      else
        bind_res (slurm_int_to_int (jget kwargs ''start_time'')) (\<lambda>start.
        bind_res (slurm_int_to_int (jget kwargs ''end_time'')) (\<lambda>end_time.
        bind_res (bind_res (jindex (JObj kwargs) ''time_limit'') slurm_int_to_int) (\<lambda>limit.
        bind_res (bind_res (jindex (JObj kwargs) ''suspend_time'') slurm_int_to_int) (\<lambda>suspend_time.
          if start \<noteq> JNull \<and> end_time \<noteq> JNull
          then job_time_init pint
                 [(''elapsed'', JNull), (''start'', start), (''end'', end_time),
                  (''suspended'', suspend_time), (''limit'', limit)]
          else job_time_field pint kwargs)))))"

definition job_status_of :: "(json \<Rightarrow> int res) \<Rightarrow> kwargs \<Rightarrow> JobStatus res" where
  "job_status_of pint kwargs =
     (case map_of kwargs ''exit_code'' of
        None \<Rightarrow> job_status_field pint kwargs
      | Some exit_code \<Rightarrow>
          bind_res (exit_code_parts exit_code) (\<lambda>(exitCode, interruptSignal).
          bind_res (case map_of kwargs ''job_state'' of
                      Some s \<Rightarrow> Inr s
                    | None \<Rightarrow> bind_res (jindex (JObj kwargs) ''state'') (\<lambda>s. jindex s ''current''))
            (\<lambda>state.
          bind_res (case map_of kwargs ''state_reason'' of
                      Some s \<Rightarrow> Inr s
                    | None \<Rightarrow> bind_res (jindex (JObj kwargs) ''state'') (\<lambda>s. jindex s ''reason''))
            (\<lambda>reason.
            job_status_slurm_init pint
              [(''state'', state), (''stateReason'', reason), (''exitCode'', exitCode),
               (''interruptSignal'', interruptSignal)]))))"

definition slurm_job_init :: "(json \<Rightarrow> int res) \<Rightarrow> kwargs \<Rightarrow> Job res" where
  "slurm_job_init pint kwargs =
     bind_res (set_allocation_nodes
                 (if jhas kwargs ''tasks'' then dict_set ''tasks'' JNull kwargs else kwargs)) (\<lambda>kwargs.
     bind_res (job_time_of pint kwargs) (\<lambda>time.
     bind_res (job_status_of pint kwargs) (\<lambda>status.
     bind_res (job_id_field kwargs) (\<lambda>i.
     bind_res (str_field [''name''] kwargs) (\<lambda>n.
     bind_res (job_tasks_field pint kwargs) (\<lambda>tasks.
     bind_res (opt_str_field [''account''] kwargs) (\<lambda>acc.
     bind_res (int_field pint [''allocationNodes'', ''allocation_nodes''] kwargs) (\<lambda>an.
     bind_res (str_field [''cluster''] kwargs) (\<lambda>cl.
     bind_res (opt_str_field [''group''] kwargs) (\<lambda>gr.
     bind_res (str_field [''nodes''] kwargs) (\<lambda>no.
     bind_res (str_field [''partition''] kwargs) (\<lambda>pa.
     bind_res (opt_str_field [''killRequestUser'', ''kill_request_user''] kwargs) (\<lambda>ku.
     bind_res (opt_str_field [''user_name'', ''userName'', ''user''] kwargs) (\<lambda>us.
     bind_res (str_field [''current_working_directory'', ''workingDirectory'',
                          ''currentWorkingDirectory'', ''working_directory''] kwargs) (\<lambda>wd.
     bind_res (slurm_int_field pint [''priority''] kwargs) (\<lambda>pr.
       Inr \<lparr>job_job_id = i, job_name = n, job_status = status, job_tasks = tasks, job_time = time,
            job_account = acc, job_allocation_nodes = an, job_cluster = cl, job_group = gr,
            job_nodes = no, job_partition = pa, job_kill_request_user = ku, job_user = us,
            job_working_directory = wd, job_priority = pr\<rparr>))))))))))))))))"

subsection \<open>Nodes, partitions, reservations, accounts\<close>

definition SLURM_STATE_MAP :: "(string \<times> NodeState) list" where
  "SLURM_STATE_MAP =
     [(''idle'', IDLE), (''allocated'', ALLOCATED), (''alloc'', ALLOCATED), (''mixed'', MIXED),
      (''mix'', MIXED), (''down'', DOWN), (''fail'', DOWN), (''failing'', DOWN), (''failg'', DOWN),
      (''drain'', DRAIN), (''drained'', DRAIN), (''draining'', DRAIN), (''drng'', DRAIN),
      (''completing'', COMPLETING), (''comp'', COMPLETING), (''maint'', OFFLINE),
      (''reserved'', RESERVED), (''resv'', RESERVED), (''power_down'', POWERING_DOWN),
      (''pow_dn'', POWERING_DOWN), (''power_up'', POWERING_UP), (''pow_up'', POWERING_UP),
      (''future'', UNKNOWN), (''futr'', UNKNOWN), (''planned'', UNKNOWN), (''plnd'', UNKNOWN),
      (''blocked'', UNKNOWN), (''unknown'', UNKNOWN), (''unk'', UNKNOWN), (''perfctrs'', UNKNOWN),
      (''npc'', UNKNOWN)]"

definition slurm_state_flags :: string where
  "slurm_state_flags = ''*+~#%$@''"

definition map_slurm_state :: "string \<Rightarrow> NodeState" where
  "map_slurm_state raw =
     (case map_of SLURM_STATE_MAP (lower (rstrip_chars slurm_state_flags raw)) of
        None \<Rightarrow> UNKNOWN | Some st \<Rightarrow> st)"

text \<open>
  \<open>SlurmNode.__init__\<close> maps the states before validation.  Iterating over a text yields its
  characters.
\<close>

fun node_states :: "json \<Rightarrow> NodeState list res" where
  "node_states (JList xs) =
     traverse (\<lambda>x. case x of JStr s \<Rightarrow> Inr (map_slurm_state s) | _ \<Rightarrow> raise AttributeError []) xs"
| "node_states (JStr s) = Inr (map (\<lambda>c. map_slurm_state [c]) s)"
| "node_states (JObj d) = Inr (map (\<lambda>(k, v). map_slurm_state k) d)"
| "node_states _ = raise TypeError []"

definition str_list_or_str :: "json \<Rightarrow> bool" where
  "str_list_or_str v =
     (case v of JStr _ \<Rightarrow> True
      | JList xs \<Rightarrow> list_all (\<lambda>x. case x of JStr _ \<Rightarrow> True | _ \<Rightarrow> False) xs | _ \<Rightarrow> False)"

text \<open>
  The declared fields of \<open>NodeModel\<close>; \<open>mem\<close> is the validator that runs before the two memory
  fields, \<open>cpus_names\<close> are the names of the field \<open>cpus\<close>.  How pydantic converts a value to
  \<open>float\<close> is the parameter \<open>pfloat\<close>.
\<close>

definition opt_float_field :: "(json \<Rightarrow> rat res) \<Rightarrow> string list \<Rightarrow> kwargs \<Rightarrow> rat option res" where
  "opt_float_field pfloat ks d =
     (case alias_lookup ks d of
        None \<Rightarrow> Inr None | Some JNull \<Rightarrow> Inr None | Some v \<Rightarrow> map_res Some (pfloat v))"

definition opt_str_or_list_field :: "string list \<Rightarrow> kwargs \<Rightarrow> json option res" where
  "opt_str_or_list_field ks d =
     (case alias_lookup ks d of
        None \<Rightarrow> Inr None | Some JNull \<Rightarrow> Inr None
      | Some v \<Rightarrow> if str_list_or_str v then Inr (Some v) else raise ValueError [])"

definition opt_str_list_field :: "string list \<Rightarrow> kwargs \<Rightarrow> string list option res" where
  "opt_str_list_field ks d =
     (case alias_lookup ks d of
        None \<Rightarrow> Inr None | Some JNull \<Rightarrow> Inr None
      | Some (JList xs) \<Rightarrow>
          map_res Some (traverse (\<lambda>x. case x of JStr s \<Rightarrow> Inr s | _ \<Rightarrow> raise ValueError []) xs)
      | Some _ \<Rightarrow> raise ValueError [])"

definition before_int_field ::
  "(json \<Rightarrow> int res) \<Rightarrow> (json \<Rightarrow> json res) \<Rightarrow> string list \<Rightarrow> kwargs \<Rightarrow> int option res" where
  "before_int_field pint before ks d =
     (case alias_lookup ks d of
        None \<Rightarrow> Inr None
      | Some v \<Rightarrow> bind_res (before v) (\<lambda>w. if w = JNull then Inr None else map_res Some (pint w)))"

definition node_model_init ::
  "(json \<Rightarrow> int res) \<Rightarrow> (json \<Rightarrow> rat res) \<Rightarrow> (json \<Rightarrow> json res) \<Rightarrow> string list \<Rightarrow> NodeState list option
   \<Rightarrow> kwargs \<Rightarrow> Node res" where
  "node_model_init pint pfloat mem cpus_names states d =
     bind_res (opt_int_field pint [''sockets''] d) (\<lambda>so.
     bind_res (opt_int_field pint [''cores''] d) (\<lambda>co.
     bind_res (opt_int_field pint [''threads''] d) (\<lambda>th.
     bind_res (int_field pint cpus_names d) (\<lambda>cp.
     bind_res (opt_float_field pfloat [''cpuLoad'', ''cpu_load''] d) (\<lambda>cl.
     bind_res (before_int_field pint mem [''freeMemory'', ''free_memory''] d) (\<lambda>fm.
     bind_res (opt_str_or_list_field [''features''] d) (\<lambda>fe.
     bind_res (str_field [''name''] d) (\<lambda>n.
     bind_res (opt_str_field [''address''] d) (\<lambda>ad.
     bind_res (opt_str_field [''hostname''] d) (\<lambda>ho.
     bind_res (case states of None \<Rightarrow> raise ValueError [] | Some ss \<Rightarrow> Inr ss) (\<lambda>st.
     bind_res (opt_str_list_field [''partitions''] d) (\<lambda>pa.
     bind_res (opt_int_field pint [''weight''] d) (\<lambda>we.
     bind_res (before_int_field pint mem [''allocMemory'', ''alloc_memory''] d) (\<lambda>am.
     bind_res (opt_int_field pint [''allocCpus'', ''alloc_cpus''] d) (\<lambda>ac.
     bind_res (opt_int_field pint [''idleCpus'', ''idle_cpus''] d) (\<lambda>ic.
       Inr \<lparr>nd_sockets = so, nd_cores = co, nd_threads = th, nd_cpus = cp, nd_cpu_load = cl,
            nd_free_memory = fm, nd_features = fe, nd_name = n, nd_address = ad, nd_hostname = ho,
            nd_state = st, nd_partitions = pa, nd_weight = we, nd_alloc_memory = am,
            nd_alloc_cpus = ac, nd_idle_cpus = ic\<rparr>))))))))))))))))"

definition slurm_node_init :: "(json \<Rightarrow> int res) \<Rightarrow> (json \<Rightarrow> rat res) \<Rightarrow> kwargs \<Rightarrow> Node res" where
  "slurm_node_init pint pfloat kwargs =
     bind_res (case map_of kwargs ''state'' of
                 None \<Rightarrow> Inr None
               | Some state \<Rightarrow> map_res Some (node_states state)) (\<lambda>states.
       node_model_init pint pfloat Inr [''cpus''] states kwargs)"

text \<open>The value of \<open>key\<close> inside a nested object, when the argument \<open>k\<close> is one.\<close>

definition unnest :: "string \<Rightarrow> string \<Rightarrow> kwargs \<Rightarrow> kwargs res" where
  "unnest k key kwargs =
     (case map_of kwargs k of
        Some (JObj d) \<Rightarrow> map_res (\<lambda>v. dict_set k v kwargs) (jindex (JObj d) key)
      | _ \<Rightarrow> Inr kwargs)"

definition slurm_partition_init :: "(json \<Rightarrow> int res) \<Rightarrow> kwargs \<Rightarrow> Partition res" where
  "slurm_partition_init pint kwargs =
     bind_res (if \<not> jhas kwargs ''total_nodes'' \<and> jhas kwargs ''nodes''
               then map_res (\<lambda>v. dict_set ''total_nodes'' v kwargs)
                      (jindex (jget kwargs ''nodes'') ''total'')
               else Inr kwargs) (\<lambda>kwargs.
     bind_res (unnest ''cpus'' ''total'' kwargs) (\<lambda>kwargs.
     bind_res (unnest ''partition'' ''state'' kwargs) (\<lambda>kwargs.
     bind_res (str_field [''partitionName'', ''PartitionName'', ''name''] kwargs) (\<lambda>n.
     bind_res (int_field pint [''totalCPUs'', ''total_cpus'', ''TotalCPUs'', ''cpus''] kwargs) (\<lambda>c.
     bind_res (int_field pint [''totalNodes'', ''TotalNodes'', ''total_nodes''] kwargs) (\<lambda>t.
     bind_res (case alias_lookup [''state'', ''State'', ''partition''] kwargs of
                 Some v \<Rightarrow> if str_list_or_str v then Inr v else raise ValueError []
               | None \<Rightarrow> raise ValueError []) (\<lambda>p.
       Inr \<lparr>part_name = n, part_cpus = c, part_total_nodes = t, part_partition = p\<rparr>)))))))"

text \<open>A required Slurm integer: \<open>None\<close> is no \<open>int\<close>.\<close>

definition req_slurm_int_field :: "(json \<Rightarrow> int res) \<Rightarrow> string list \<Rightarrow> kwargs \<Rightarrow> int res" where
  "req_slurm_int_field pint ks d =
     bind_res (slurm_int_field pint ks d) (\<lambda>v. case v of None \<Rightarrow> raise ValueError [] | Some i \<Rightarrow> Inr i)"

text \<open>\<open>s.islower()\<close> and the validator \<open>set_state\<close>; \<open>now\<close> is the clock.\<close>

definition is_upper_char :: "char \<Rightarrow> bool" where
  "is_upper_char c \<longleftrightarrow> lower_char c \<noteq> c"

definition is_lower_char :: "char \<Rightarrow> bool" where
  "is_lower_char c \<longleftrightarrow> is_word c \<and> \<not> is_upper_char c \<and> \<not> is_digit c \<and>
     code c \<notin> {95, 178, 179, 185, 188, 189, 190}"

definition islower :: "string \<Rightarrow> bool" where
  "islower s \<longleftrightarrow> list_ex is_lower_char s \<and> list_all (\<lambda>c. \<not> is_upper_char c) s"

definition set_state :: "int \<Rightarrow> Reservation \<Rightarrow> Reservation" where
  "set_state now r =
     (case res_state r of
        None \<Rightarrow>
          if res_start_time r \<le> now \<and> now < res_end_time r
          then r\<lparr>res_state := Some ''active''\<rparr> else r\<lparr>res_state := Some ''inactive''\<rparr>
      | Some s \<Rightarrow> if \<not> islower s then r\<lparr>res_state := Some (lower s)\<rparr> else r)"

definition slurm_reservation_init :: "(json \<Rightarrow> int res) \<Rightarrow> int \<Rightarrow> kwargs \<Rightarrow> Reservation res" where
  "slurm_reservation_init pint now kwargs =
     bind_res (req_slurm_int_field pint [''endTime'', ''EndTime'', ''end_time''] kwargs) (\<lambda>en.
     bind_res (req_slurm_int_field pint [''startTime'', ''StartTime'', ''start_time''] kwargs) (\<lambda>st.
     bind_res (str_field [''reservationName'', ''ReservationName'', ''name''] kwargs) (\<lambda>n.
     bind_res (str_field [''nodes'', ''Nodes'', ''nodeList'', ''node_list''] kwargs) (\<lambda>nl.
     bind_res (case alias_lookup [''Features'', ''features''] kwargs of
                 None \<Rightarrow> raise ValueError [] | Some _ \<Rightarrow> opt_str_field [''Features'', ''features''] kwargs)
       (\<lambda>fe.
     bind_res (opt_str_field [''state'', ''State''] kwargs) (\<lambda>sta.
       Inr (set_state now
         \<lparr>res_name = n, res_node_list = nl, res_end_time = en, res_start_time = st,
          res_features = fe, res_state = sta\<rparr>)))))))"

definition slurm_metadata_init :: "kwargs \<Rightarrow> JobMetadata res" where
  "slurm_metadata_init d =
     bind_res (str_field [''jobId'', ''job_id''] d) (\<lambda>i.
     bind_res (opt_str_field [''script''] d) (\<lambda>sc.
     bind_res (opt_str_field [''StdIn'', ''standardInput'', ''standard_input''] d) (\<lambda>si.
     bind_res (opt_str_field [''StdOut'', ''standardOutput'', ''standard_output''] d) (\<lambda>so.
     bind_res (opt_str_field [''StdErr'', ''standardError'', ''standard_error''] d) (\<lambda>se.
       Inr \<lparr>md_job_id = i, md_script = sc, md_standard_input = si, md_standard_output = so,
            md_standard_error = se\<rparr>)))))"

subsection \<open>Facts about the models\<close>

text \<open>Node states: flags and letter case do not matter, and nothing raises.\<close>

lemma rstrip_chars_append:
  "list_all (\<lambda>c. c \<in> set cs) fs \<Longrightarrow> rstrip_chars cs (s @ fs) = rstrip_chars cs s"
  by (simp add: rstrip_chars_def list_all_iff) (metis dropWhile_append2 set_rev)

lemma slurm_state_flag_code:
  "c \<in> set slurm_state_flags \<longleftrightarrow> code c \<in> {42, 43, 126, 35, 37, 36, (64 :: nat)}"
proof -
  have c: "code c = (code d :: nat) \<longleftrightarrow> c = d" for d by simp
  show ?thesis
    using c [of "CHR ''*''"] c [of "CHR ''+''"] c [of "CHR ''~''"] c [of "CHR ''#''"]
      c [of "CHR ''%''"] c [of "CHR ''$''"] c [of "CHR ''@''"]
    by (simp add: slurm_state_flags_def)
qed

lemma lower_rstrip_flags:
  "lower (rstrip_chars slurm_state_flags s) = rstrip_chars slurm_state_flags (lower s)"
proof -
  have c: "(\<lambda>c. c \<in> set slurm_state_flags) \<circ> lower_char = (\<lambda>c. c \<in> set slurm_state_flags)"
    by (rule ext, simp only: comp_def slurm_state_flag_code) (auto simp: lower_char_def)
  show ?thesis
    unfolding rstrip_chars_def lower_def
    by (simp only: rev_map dropWhile_map c)
qed

lemma map_slurm_state_norm: "map_slurm_state (lower s) = map_slurm_state s"
  by (simp add: map_slurm_state_def flip: lower_rstrip_flags)

lemma map_slurm_state_flags:
  "list_all (\<lambda>c. c \<in> set slurm_state_flags) fs \<Longrightarrow> map_slurm_state (s @ fs) = map_slurm_state s"
  by (simp add: map_slurm_state_def rstrip_chars_append)

text \<open>Slurm integers: plain numbers are themselves; the object form is its number, if it is set.\<close>

lemma slurm_int_object:
  "slurm_int_to_int (JObj [(''set'', JBool b), (''infinite'', JBool c), (''number'', JInt i)]) =
     Inr (if b then JInt i else JNull)"
  by simp

lemma slurm_int_show [simp]: "slurm_int_to_int (JStr (show_int i)) = Inr (JInt i)"
  by simp

lemma slurm_int_field_int:
  "pint_ok pint \<Longrightarrow> alias_lookup ks d = Some (JInt i) \<Longrightarrow> slurm_int_field pint ks d = Inr (Some i)"
  by (simp add: slurm_int_field_def pint_ok_def)

lemma set_state_lower: "\<exists>s. res_state (set_state now r) = Some s \<and> (islower s \<or> s = lower s)"
proof (cases "res_state r")
  case None
  then show ?thesis by (cases "res_start_time r \<le> now \<and> now < res_end_time r")
     (auto simp: set_state_def)
next
  case (Some s)
  then show ?thesis by (cases "islower s") (auto simp: set_state_def)
qed

end
