(* ===== verification/SlurmCommands.thy ===== *)
theory SlurmCommands
  imports Prelude PyString Numerals Regex Shell PosixPath Json Errors SlurmModels
begin

section \<open>The command line tools of Slurm\<close>

text \<open>
  The classes of \<open>lib/scheduler_clients/slurm/cli_commands/\<close>: for each tool its command line
  (\<open>\<dots>_get_command\<close>) and the parser of its output (\<open>\<dots>_parse_output\<close>).  The parsers build the
  dictionaries that the models are validated from.  A class is a record of its attributes; a
  \<open>username\<close> that a command line never shows is left out.
\<close>

subsection \<open>The interface of a scheduler command\<close>

text \<open>
  What the scheduler clients rely on: the output of a tool that failed is never taken for a value.
  The tool's failure is a \<open>SchedulerError\<close>, except that some tools report an unknown job that way,
  which is the answer \<open>None\<close>.
\<close>

definition tool_failure :: "'r option res \<Rightarrow> bool" where
  "tool_failure r \<longleftrightarrow> (case r of Inl e \<Rightarrow> isinstance e SchedulerError | Inr v \<Rightarrow> v = None)"

lemma tool_failure_simps [simp]:
  "tool_failure (Inl e) = isinstance e SchedulerError"
  "tool_failure (Inr v) = (v = None)"
  by (simp_all add: tool_failure_def)

locale scheduler_command =
  fixes parse_output :: "'c \<Rightarrow> string \<Rightarrow> string \<Rightarrow> int \<Rightarrow> 'r option res"
  assumes failure: "exit_status \<noteq> 0 \<Longrightarrow> tool_failure (parse_output c out err exit_status)"

context scheduler_command
begin

lemma value_means_success: "parse_output c out err exit_status = Inr (Some v) \<Longrightarrow> exit_status = 0"
  using failure [of exit_status c out err] by fastforce

lemma failure_is_scheduler_error:
  assumes "exit_status \<noteq> 0" and "parse_output c out err exit_status = Inl e"
  shows "isinstance e SchedulerError"
  using failure [OF assms(1), of c out err] assms(2) by simp

end

definition slurm_unexpected :: "int \<Rightarrow> string \<Rightarrow> 'a res" where
  "slurm_unexpected exit_status stderr =
     raise SlurmError (''Unexpected Slurm command response. exit_status:'' @ show_int exit_status @
       '' std_err:'' @ stderr)"

lemma slurm_unexpected_cls [simp]: "exc_le SlurmError SchedulerError"
  by (simp add: exc_le_def)

text \<open>\<open>f"--name={shlex.quote(v)}"\<close> when \<open>v\<close> is given.\<close>

definition opt_arg :: "string \<Rightarrow> string option \<Rightarrow> string list" where
  "opt_arg name v =
     (case v of None \<Rightarrow> [] | Some s \<Rightarrow> if s = [] then [] else [''--'' @ name @ ''='' @ shlex_quote s])"

definition option_none_if_empty :: "'a list \<Rightarrow> 'a list option" where
  "option_none_if_empty xs = (if xs = [] then None else Some xs)"

lemma option_none_if_empty_Some [simp]: "option_none_if_empty xs = Some ys \<longleftrightarrow> xs = ys \<and> ys \<noteq> []"
  by (auto simp: option_none_if_empty_def)

subsection \<open>\<open>sacct\<close>: the command line\<close>

record sacct_command =
  sa_job_ids :: "string list option"
  sa_allusers :: bool
  sa_account :: "string option"
  sa_name :: "string option"
  sa_time_window :: JobsTimeWindow

definition slurm_time_prefix :: string where
  "slurm_time_prefix = ''SLURM_TIME_FORMAT='' @ [squote] @ ''%s'' @ [squote]"

definition sacct_selection :: "sacct_command \<Rightarrow> string list" where
  "sacct_selection c =
     (case sa_job_ids c of
        Some (i # is) \<Rightarrow> [''--jobs='' @ shlex_quote (join '','' (i # is))]
      | _ \<Rightarrow>
          (case TIME_WINDOW_DURATIONS (sa_time_window c) of (amount, unit) \<Rightarrow>
             let unit = (if amount = 1 then butlast unit else unit)
             in [''--starttime=now-'' @ show_nat amount @ unit]))"

definition sacct_base_get_command :: "sacct_command \<Rightarrow> string" where
  "sacct_base_get_command c =
     join '' ''
       ([slurm_time_prefix @ '' sacct''] @
        (if sa_allusers c then [''--allusers''] else []) @
        opt_arg ''account'' (sa_account c) @
        opt_arg ''name'' (sa_name c) @
        sacct_selection c @
        [''--parsable2''])"

definition sacct_format :: string where
  "sacct_format =
     ''JobID,AllocNodes,Cluster,ExitCode,Group,Account,JobName,NodeList,Partition,'' @
     ''Priority,State,Reason,ElapsedRaw,Submit,Start,End,Suspended,TimelimitRaw,User,WorkDir''"

definition sacct_get_command :: "sacct_command \<Rightarrow> string" where
  "sacct_get_command c =
     join '' '' [sacct_base_get_command c, ''--noheader'',
       ''--format='' @ [squote] @ sacct_format @ [squote]]"

subsection \<open>\<open>sacct\<close>: times\<close>

text \<open>\<open>int(m.group(i))\<close> of a group that matched digits only.\<close>

definition group_nat :: "rx_state \<Rightarrow> nat \<Rightarrow> nat" where
  "group_nat m i = (case m_group m i of None \<Rightarrow> 0 | Some t \<Rightarrow> read_base 10 0 t)"

definition rx_dhms :: rx where
  "rx_dhms = rseqs [RGroup 1 (rplus r_digit), rlit ''-'', RGroup 2 (rrep 2 r_digit), rlit '':'',
     RGroup 3 (rrep 2 r_digit), rlit '':'', RGroup 4 (rrep 2 r_digit)]"

definition rx_hms :: rx where
  "rx_hms = rseqs [RGroup 1 (rplus r_digit), rlit '':'', RGroup 2 (rrep 2 r_digit), rlit '':'',
     RGroup 3 (rrep 2 r_digit)]"

definition rx_ms :: rx where
  "rx_ms = rseqs [RGroup 1 (rplus r_digit), rlit '':'', RGroup 2 (rrep 2 r_digit)]"

definition dhms_to_seconds :: "string \<Rightarrow> nat res" where
  "dhms_to_seconds t =
     (case re_fullmatch rx_dhms t of
        Some m \<Rightarrow>
          let d = group_nat m 1; h = group_nat m 2; mi = group_nat m 3; s = group_nat m 4 in
          if h \<ge> 24 \<or> mi \<ge> 60 \<or> s \<ge> 60 then raise ValueError (''Invalid time values: '' @ t)
          else Inr (d * 86400 + h * 3600 + mi * 60 + s)
      | None \<Rightarrow>
     (case re_fullmatch rx_hms t of
        Some m \<Rightarrow>
          let h = group_nat m 1; mi = group_nat m 2; s = group_nat m 3 in
          if mi \<ge> 60 \<or> s \<ge> 60 then raise ValueError (''Invalid time values: '' @ t)
          else Inr (h * 3600 + mi * 60 + s)
      | None \<Rightarrow>
     (case re_fullmatch rx_ms t of
        Some m \<Rightarrow>
          let mi = group_nat m 1; s = group_nat m 2 in
          if s \<ge> 60 then raise ValueError (''Invalid time values: '' @ t)
          else Inr (mi * 60 + s)
      | None \<Rightarrow> raise ValueError (''Invalid time format: '' @ t))))"

text \<open>
  \<open>datetime.strptime(t, "%H:%M:%S")\<close> as the library reads it: hours up to 23, minutes up to 59
  and seconds up to 61 of one or two digits, the whole text, and no time of day with second 60.
\<close>

definition r_between :: "nat \<Rightarrow> nat \<Rightarrow> rx" where
  "r_between lo hi = RChar (\<lambda>c. 48 + lo \<le> code c \<and> code c \<le> 48 + hi)"

definition rx_strptime_hms :: rx where
  "rx_strptime_hms =
     rseqs [RGroup 1 (ralts (rseqs [rlit ''2'', r_between 0 3])
                       [rseqs [r_between 0 1, r_digit], r_digit]), rlit '':'',
            RGroup 2 (ralts (rseqs [r_between 0 5, r_digit]) [r_digit]), rlit '':'',
            RGroup 3 (ralts (rseqs [rlit ''6'', r_between 0 1])
                       [rseqs [r_between 0 5, r_digit], r_digit])]"

definition strptime_hms :: "string \<Rightarrow> (nat \<times> nat \<times> nat) res" where
  "strptime_hms t =
     (case re_match rx_strptime_hms t of
        None \<Rightarrow> raise ValueError []
      | Some m \<Rightarrow>
          if fst (snd m) \<noteq> [] \<or> group_nat m 3 \<ge> 60 then raise ValueError []
          else Inr (group_nat m 1, group_nat m 2, group_nat m 3))"

definition timestr_to_seconds :: "string \<Rightarrow> bool \<Rightarrow> int option" where
  "timestr_to_seconds t minutes_to_seconds =
     (case py_int t of
        Inr i \<Rightarrow> Some (if \<not> minutes_to_seconds then i else i * 60)
      | Inl _ \<Rightarrow>
     (case strptime_hms t of
        Inr (h, mi, s) \<Rightarrow> Some (int (s + mi * 60 + h * 3600))
      | Inl _ \<Rightarrow>
     (case dhms_to_seconds t of
        Inr n \<Rightarrow> Some (int n)
      | Inl _ \<Rightarrow> None)))"

definition parse_timestamp :: "string \<Rightarrow> int option" where
  "parse_timestamp t =
     (if t = ''Unknown'' then None else (case py_int t of Inr i \<Rightarrow> Some i | Inl _ \<Rightarrow> None))"

subsection \<open>\<open>sacct\<close>: the rows\<close>

definition j_int_opt :: "int option \<Rightarrow> json" where
  "j_int_opt v = (case v of None \<Rightarrow> JNull | Some i \<Rightarrow> JInt i)"

definition nth_res :: "'a list \<Rightarrow> nat \<Rightarrow> 'a res" where
  "nth_res xs i = (if i < length xs then Inr (xs ! i) else raise IndexError [])"

definition sacct_exit_code :: "string \<Rightarrow> json res" where
  "sacct_exit_code t =
     (if t = [] then Inr JNull
      else bind_res (nth_res (split_on CHR '':'' t) 0) (\<lambda>rc.
           bind_res (nth_res (split_on CHR '':'' t) 1) (\<lambda>sg.
             Inr (JObj [(''return_code'', JStr rc), (''signal'', JObj [(''id'', JStr sg)])]))))"

definition int_or_null :: "string \<Rightarrow> json res" where
  "int_or_null t = (if t = [] then Inr JNull else map_res JInt (py_int t))"

definition sacct_parse_job :: "string list \<Rightarrow> kwargs res" where
  "sacct_parse_job info =
     bind_res (sacct_exit_code (info ! 3)) (\<lambda>exit_code.
     bind_res (int_or_null (info ! 9)) (\<lambda>priority.
       Inr [(''jobId'', JStr (info ! 0)),
            (''allocationNodes'', JStr (info ! 1)),
            (''cluster'', JStr (info ! 2)),
            (''exit_code'', exit_code),
            (''group'', JStr (info ! 4)),
            (''account'', JStr (info ! 5)),
            (''name'', JStr (info ! 6)),
            (''nodes'', JStr (info ! 7)),
            (''partition'', JStr (info ! 8)),
            (''priority'', priority),
            (''state'', JObj [(''current'', JStr (info ! 10)), (''reason'', JStr (info ! 11))]),
            (''time'', JObj
              [(''elapsed'', if info ! 12 = [] then JNull
                             else j_int_opt (timestr_to_seconds (info ! 12) False)),
               (''submission'', j_int_opt (parse_timestamp (info ! 13))),
               (''start'', j_int_opt (parse_timestamp (info ! 14))),
               (''end'', j_int_opt (parse_timestamp (info ! 15))),
               (''suspended'', j_int_opt (timestr_to_seconds (info ! 16) False)),
               (''limit'', if info ! 17 = [] then JNull
                           else j_int_opt (timestr_to_seconds (info ! 17) True))]),
            (''user'', JStr (info ! 18)),
            (''workingDirectory'', JStr (info ! 19)),
            (''steps'', JList [])]))"

definition sacct_parse_step :: "string list \<Rightarrow> kwargs res" where
  "sacct_parse_step info =
     bind_res (sacct_exit_code (info ! 3)) (\<lambda>exit_code.
     bind_res (int_or_null (info ! 12)) (\<lambda>elapsed.
     bind_res (int_or_null (info ! 17)) (\<lambda>limit.
       Inr [(''step'', JObj [(''id'', JStr (info ! 0)), (''name'', JStr (info ! 6))]),
            (''state'', JStr (info ! 10)),
            (''exit_code'', exit_code),
            (''time'', JObj
              [(''elapsed'', elapsed),
               (''submission'', j_int_opt (parse_timestamp (info ! 13))),
               (''start'', j_int_opt (parse_timestamp (info ! 14))),
               (''end'', j_int_opt (parse_timestamp (info ! 15))),
               (''suspended'', j_int_opt (timestr_to_seconds (info ! 16) False)),
               (''limit'', limit)])])))"

definition append_step :: "kwargs \<Rightarrow> kwargs \<Rightarrow> kwargs" where
  "append_step step job =
     (case map_of job ''steps'' of
        Some (JList xs) \<Rightarrow> dict_set ''steps'' (JList (xs @ [JObj step])) job
      | _ \<Rightarrow> job)"

type_synonym job_table = "(string \<times> kwargs) list"

definition sacct_row :: "string \<Rightarrow> job_table \<Rightarrow> job_table res" where
  "sacct_row job_str jobs =
     (let info = split_on CHR ''|'' job_str in
      if length info \<noteq> 20 then Inr jobs
      else if contains ''.'' (info ! 0) then
        (case split_on CHR ''.'' (info ! 0) of
           [main_job_id, step_id] \<Rightarrow>
             (case map_of jobs main_job_id of
                None \<Rightarrow> raise KeyError main_job_id
              | Some job \<Rightarrow>
                  bind_res (sacct_parse_step info) (\<lambda>step.
                    Inr (dict_set main_job_id (append_step step job) jobs)))
         | _ \<Rightarrow> raise ValueError [])
      else bind_res (sacct_parse_job info) (\<lambda>job. Inr (dict_set (info ! 0) job jobs)))"

fun sacct_rows :: "string list \<Rightarrow> job_table \<Rightarrow> job_table res" where
  "sacct_rows [] jobs = Inr jobs"
| "sacct_rows (r # rs) jobs = bind_res (sacct_row r jobs) (sacct_rows rs)"

definition sacct_parse_output ::
  "'c \<Rightarrow> string \<Rightarrow> string \<Rightarrow> int \<Rightarrow> kwargs list option res" where
  "sacct_parse_output c stdout stderr exit_status =
     (if exit_status = 1 \<and> contains ''Invalid job id specified'' stderr then Inr None
      else if exit_status \<noteq> 0 then slurm_unexpected exit_status stderr
      else bind_res (sacct_rows (split_on newline stdout) []) (\<lambda>jobs.
             Inr (option_none_if_empty (map snd jobs))))"

subsection \<open>\<open>squeue\<close>\<close>

record squeue_command =
  sq_username :: string
  sq_job_ids :: "string list option"
  sq_allusers :: bool
  sq_account :: "string option"
  sq_name :: "string option"

definition squeue_format :: string where
  "squeue_format =
     ''JobID:|,NumNodes:|,Cluster:||,GroupName:|,Account:|,Name:|,NodeList:|,Partition:|,'' @
     ''PriorityLong:|,State:|,Reason:|,TimeUsed:|,SubmitTime:|,StartTime:|,EndTime:||,'' @
     ''TimeLimit:|,UserName:|,WorkDir:''"

definition squeue_get_command :: "squeue_command \<Rightarrow> string" where
  "squeue_get_command c =
     join '' ''
       ([slurm_time_prefix @ '' squeue''] @
        (if \<not> sq_allusers c then [''--user='' @ shlex_quote (sq_username c)] else []) @
        opt_arg ''account'' (sq_account c) @
        opt_arg ''name'' (sq_name c) @
        (case sq_job_ids c of
           Some (i # is) \<Rightarrow> [''--jobs='' @ shlex_quote (join '','' (i # is))] | _ \<Rightarrow> []) @
        [''--noheader'', ''--Format='' @ [squote] @ squeue_format @ [squote]])"

definition squeue_parse_output ::
  "squeue_command \<Rightarrow> string \<Rightarrow> string \<Rightarrow> int \<Rightarrow> kwargs list option res" where
  "squeue_parse_output c stdout stderr exit_status = sacct_parse_output c stdout stderr exit_status"

subsection \<open>Batch scripts and metadata from the accounting database\<close>

definition sacct_batch_script_get_command :: "sacct_command \<Rightarrow> string" where
  "sacct_batch_script_get_command c = join '' '' [sacct_base_get_command c, ''--batch-script'']"

definition batch_script_pattern :: rx where
  "batch_script_pattern =
     rseqs [RLineBegin, rlit ''Batch Script for'', rplus r_ws, RGroup 1 (rplus r_digit), rlit [newline],
            rplus (RChar (\<lambda>c. c = CHR ''-'')), rlit [newline]]"

fun batch_script_blocks :: "string list \<Rightarrow> kwargs list" where
  "batch_script_blocks (i # content # rest) =
     [(''jobId'', JStr (strip i)),
      (''script'', if strip content \<noteq> ''NONE'' then JStr (strip content) else JNull)]
     # batch_script_blocks rest"
| "batch_script_blocks _ = []"

definition sacct_batch_script_parse_output ::
  "sacct_command \<Rightarrow> string \<Rightarrow> string \<Rightarrow> int \<Rightarrow> kwargs list option res" where
  "sacct_batch_script_parse_output c stdout stderr exit_status =
     (if exit_status \<noteq> 0 then slurm_unexpected exit_status stderr
      else Inr (option_none_if_empty
                  (batch_script_blocks (drop 1 (re_split [1] batch_script_pattern stdout)))))"

definition sacct_job_metadata_get_command :: "sacct_command \<Rightarrow> string" where
  "sacct_job_metadata_get_command c =
     join '' '' [sacct_base_get_command c, ''--noheader'',
       ''--format='' @ [squote] @ ''JobID,JobName,StdIn,StdOut,StdErr,WorkDir'' @ [squote]]"

definition expand_var :: "string \<Rightarrow> string \<Rightarrow> string" where
  "expand_var job_id var = replace var ''%j'' job_id"

definition metadata_path :: "string \<Rightarrow> string \<Rightarrow> string \<Rightarrow> json" where
  "metadata_path job_id workdir path =
     (if path \<noteq> [] then JStr (path_join workdir (expand_var job_id path)) else JNull)"

definition sacct_metadata_row :: "string \<Rightarrow> kwargs list" where
  "sacct_metadata_row job_str =
     (case split_on CHR ''|'' job_str of
        [job_id, jname, std_in, std_out, std_err, work_dir] \<Rightarrow>
          [[(''jobId'', JStr job_id), (''jobName'', JStr jname),
            (''standardInput'', metadata_path job_id work_dir std_in),
            (''standardOutput'', metadata_path job_id work_dir std_out),
            (''standardError'', metadata_path job_id work_dir std_err)]]
      | _ \<Rightarrow> [])"

definition sacct_job_metadata_parse_output ::
  "sacct_command \<Rightarrow> string \<Rightarrow> string \<Rightarrow> int \<Rightarrow> kwargs list option res" where
  "sacct_job_metadata_parse_output c stdout stderr exit_status =
     (if exit_status \<noteq> 0 then slurm_unexpected exit_status stderr
      else Inr (option_none_if_empty (concat (map sacct_metadata_row (split_on newline stdout)))))"

subsection \<open>\<open>sbatch\<close>\<close>

definition quota_error_pattern :: rx where
  "quota_error_pattern =
     rseqs [RWordB, ralts (rlit_ci ''QOS'') [rlit_ci ''Assoc''], ralts (rlit_ci ''Max'') [rlit_ci ''Min''],
            RStar (RChar is_word), rlit_ci ''Limit'', RWordB]"

definition env_items :: "job_environment \<Rightarrow> (string \<times> string) list res" where
  "env_items e = (case e of EnvDict d \<Rightarrow> Inr d | EnvList _ \<Rightarrow> raise AttributeError [])"

definition sbatch_words :: "(string \<times> string) list \<Rightarrow> JobDescription \<Rightarrow> string list" where
  "sbatch_words environment jd =
     (let env = join '','' (map (\<lambda>(k, v). k @ ''='' @ v) environment) in
      [''sbatch'', ''--export='' @ shlex_quote (''ALL,'' @ env),
       ''--chdir='' @ shlex_quote (jd_current_working_directory jd)] @
      opt_arg ''partition'' (jd_partition jd) @
      opt_arg ''reservation'' (jd_reservation jd) @
      opt_arg ''account'' (jd_account jd) @
      opt_arg ''job-name'' (jd_name jd) @
      opt_arg ''error'' (jd_standard_error jd) @
      opt_arg ''output'' (jd_standard_output jd) @
      opt_arg ''input'' (jd_standard_input jd) @
      opt_arg ''constraint'' (jd_constraints jd) @
      (case jd_script_path jd of
         Some p \<Rightarrow> if p = [] then [] else [''-- '' @ shlex_quote p] | None \<Rightarrow> []))"

definition sbatch_get_command :: "JobDescription \<Rightarrow> string res" where
  "sbatch_get_command jd =
     map_res (\<lambda>environment. join '' '' (sbatch_words environment jd)) (env_items (jd_environment jd))"

definition submitted_pattern :: rx where
  "submitted_pattern = rseqs [rlit_ci ''Submitted batch job '', RGroup 1 (rplus r_digit)]"

definition sbatch_parse_output :: "'c \<Rightarrow> string \<Rightarrow> string \<Rightarrow> int \<Rightarrow> string option res" where
  "sbatch_parse_output c stdout stderr exit_status =
     (if exit_status \<noteq> 0 then
        (if re_search quota_error_pattern stderr \<noteq> None
         then raise SlurmQuotaError
                (''Job submission rejected: accounting/QOS policy limit exceeded. '' @ strip stderr)
         else slurm_unexpected exit_status stderr)
      else Inr (case re_search submitted_pattern stdout of None \<Rightarrow> None | Some m \<Rightarrow> m_group m 1))"

subsection \<open>\<open>scancel\<close> and \<open>srun\<close>\<close>

definition scancel_get_command :: "string \<Rightarrow> string" where
  "scancel_get_command job_ids = join '' '' [''scancel'', ''--verbose'', job_ids]"

definition scancel_error_pattern :: rx where
  "scancel_error_pattern = rseqs [rplus r_dot, rlit_ci ''error:'', RStar r_dot]"

definition scancel_parse_output :: "'c \<Rightarrow> string \<Rightarrow> string \<Rightarrow> int \<Rightarrow> bool option res" where
  "scancel_parse_output c stdout stderr exit_status =
     (if exit_status \<noteq> 0 then slurm_unexpected exit_status stderr
      else if re_search scancel_error_pattern stderr \<noteq> None then slurm_unexpected exit_status stderr
      else Inr (Some True))"

record srun_command =
  sr_job_id :: "string option"
  sr_overlap :: bool
  sr_command :: string

definition srun_get_command :: "srun_command \<Rightarrow> string" where
  "srun_get_command c =
     join '' ''
       ([''srun''] @
        (case sr_job_id c of
           Some i \<Rightarrow> if i = [] then [] else [''--jobid='' @ [squote] @ i @ [squote]] | None \<Rightarrow> []) @
        (if sr_overlap c then [''--overlap''] else []) @
        [sr_command c])"

definition srun_parse_output :: "'c \<Rightarrow> string \<Rightarrow> string \<Rightarrow> int \<Rightarrow> unit option res" where
  "srun_parse_output c stdout stderr exit_status =
     (if exit_status \<noteq> 0 then slurm_unexpected exit_status stderr else Inr None)"

subsection \<open>\<open>sacctmgr\<close>\<close>

definition sacctmgr_accounts_get_command :: "string \<Rightarrow> string" where
  "sacctmgr_accounts_get_command username =
     join '' '' [''sacctmgr'', ''show assoc'', ''user='' @ [squote] @ username @ [squote],
       ''format=account -n'']"

definition non_blank_lines :: "string \<Rightarrow> string list" where
  "non_blank_lines stdout = filter (\<lambda>l. l \<noteq> []) (map strip (split_on newline stdout))"

definition sacctmgr_accounts_parse_output ::
  "'c \<Rightarrow> string \<Rightarrow> string \<Rightarrow> int \<Rightarrow> string list option res" where
  "sacctmgr_accounts_parse_output c stdout stderr exit_status =
     (if exit_status \<noteq> 0 then slurm_unexpected exit_status stderr
      else Inr (option_none_if_empty (non_blank_lines stdout)))"

definition sacctmgr_default_account_get_command :: "string \<Rightarrow> string" where
  "sacctmgr_default_account_get_command username =
     join '' '' [''sacctmgr'', ''show'', ''user '' @ [squote] @ username @ [squote],
       ''format=defaultaccount -n'']"

definition sacctmgr_default_account_parse_output ::
  "'c \<Rightarrow> string \<Rightarrow> string \<Rightarrow> int \<Rightarrow> string option res" where
  "sacctmgr_default_account_parse_output c stdout stderr exit_status =
     (if exit_status \<noteq> 0 then slurm_unexpected exit_status stderr
      else Inr (first_of (non_blank_lines stdout)))"

subsection \<open>\<open>scontrol\<close>\<close>

definition scontrol_base :: string where
  "scontrol_base = slurm_time_prefix @ '' scontrol''"

definition scontrol_batch_script_get_command :: "string option \<Rightarrow> string" where
  "scontrol_batch_script_get_command job_id =
     join '' '' [scontrol_base, ''write batch_script '' @ opt_str job_id @ '' -'']"

definition j_str_opt :: "string option \<Rightarrow> json" where
  "j_str_opt v = (case v of None \<Rightarrow> JNull | Some s \<Rightarrow> JStr s)"

definition scontrol_batch_script_parse_output ::
  "string option \<Rightarrow> string \<Rightarrow> string \<Rightarrow> int \<Rightarrow> kwargs list option res" where
  "scontrol_batch_script_parse_output job_id stdout stderr exit_status =
     (if exit_status \<noteq> 0 then slurm_unexpected exit_status stderr
      else Inr (Some [[(''jobId'', j_str_opt job_id), (''script'', JStr stdout)]]))"

definition scontrol_job_get_command :: "string option \<Rightarrow> string" where
  "scontrol_job_get_command job_id =
     join '' '' [scontrol_base, ''show -o  job '' @ opt_str job_id]"

definition attr_pattern :: "string \<Rightarrow> rx" where
  "attr_pattern name = rseqs [rlit (name @ ''=''), RGroup 1 (rplus r_nonws)]"

definition attr_search :: "string \<Rightarrow> string \<Rightarrow> string option" where
  "attr_search name text =
     (case re_search (attr_pattern name) text of None \<Rightarrow> None | Some m \<Rightarrow> m_group m 1)"

definition scontrol_job_parse_output ::
  "'c \<Rightarrow> string \<Rightarrow> string \<Rightarrow> int \<Rightarrow> kwargs list option res" where
  "scontrol_job_parse_output c stdout stderr exit_status =
     (if exit_status \<noteq> 0 then
        (if str_find stderr ''Invalid job id specified'' 0 \<ge> 0 then Inr None
         else slurm_unexpected exit_status stderr)
      else Inr (option_none_if_empty
        (map (\<lambda>job_str. map (\<lambda>attr_name. (attr_name, j_str_opt (attr_search attr_name job_str)))
                [''StdIn'', ''StdOut'', ''StdErr'', ''JobId''])
          (filter (\<lambda>l. l \<noteq> []) (split_on newline stdout)))))"

definition scontrol_partitions_get_command :: "bool \<Rightarrow> string" where
  "scontrol_partitions_get_command show_hidden = join '' '' [scontrol_base, ''-a show -o partitions'']"

definition could_not_parse :: "string \<Rightarrow> string \<Rightarrow> 'a res" where
  "could_not_parse attr_name text =
     raise ValueError (''Could not parse attribute '' @ [squote] @ attr_name @ [squote] @ '' in '' @
       [squote] @ text @ [squote])"

definition partition_row :: "string \<Rightarrow> (string \<times> string) list res" where
  "partition_row partition_str =
     traverse (\<lambda>attr_name. case attr_search attr_name partition_str of
                 Some v \<Rightarrow> Inr (attr_name, v)
               | None \<Rightarrow> could_not_parse attr_name partition_str)
       [''PartitionName'', ''State'', ''TotalCPUs'', ''TotalNodes'', ''Hidden'']"

definition partition_shown :: "bool \<Rightarrow> (string \<times> string) list \<Rightarrow> bool" where
  "partition_shown show_hidden part \<longleftrightarrow>
     show_hidden \<or> map_option lower (map_of part ''Hidden'') = Some ''no''"

definition scontrol_partitions_parse_output ::
  "bool \<Rightarrow> string \<Rightarrow> string \<Rightarrow> int \<Rightarrow> kwargs list option res" where
  "scontrol_partitions_parse_output show_hidden stdout stderr exit_status =
     (if exit_status \<noteq> 0 then slurm_unexpected exit_status stderr
      else bind_res (traverse partition_row (filter (\<lambda>l. l \<noteq> []) (split_on newline stdout)))
        (\<lambda>rows. Inr (option_none_if_empty
           (map (map (\<lambda>(k, v). (k, JStr v))) (filter (partition_shown show_hidden) rows)))))"

definition scontrol_ping_get_command :: string where
  "scontrol_ping_get_command = join '' '' [scontrol_base, ''ping'']"

definition ping_pattern :: rx where
  "ping_pattern =
     rseqs [rlit ''Slurmctld('', RGroup 1 (rplus r_nonws), rlit '') at '', RGroup 2 (rplus r_nonws),
            rlit '' is '', RGroup 3 (rplus r_nonws)]"

definition ping_row :: "string \<Rightarrow> kwargs res" where
  "ping_row ping_str =
     (case re_search ping_pattern ping_str of
        None \<Rightarrow> raise ValueError ''Could not parse ping output''
      | Some m \<Rightarrow> Inr [(''mode'', j_str_opt (m_group m 1)), (''hostname'', j_str_opt (m_group m 2)),
                       (''pinged'', j_str_opt (m_group m 3))])"

definition scontrol_ping_parse_output ::
  "'c \<Rightarrow> string \<Rightarrow> string \<Rightarrow> int \<Rightarrow> kwargs list option res" where
  "scontrol_ping_parse_output c stdout stderr exit_status =
     (if exit_status \<noteq> 0 then slurm_unexpected exit_status stderr
      else map_res option_none_if_empty
             (traverse ping_row (filter (\<lambda>l. l \<noteq> []) (split_on newline stdout))))"

text \<open>
  Reservations.  The tool is asked for times in seconds since the epoch, which \<open>int\<close> reads; other
  formats are tried after it.  What the host's calendar and time zone make of them is the parameter
  \<open>cal\<close>: each function is \<open>timestamp()\<close> of the date the library returns, or \<open>None\<close> when it raises.
\<close>

record local_calendar =
  cal_fromtimestamp :: "int \<Rightarrow> rat option"
  cal_fromisoformat :: "string \<Rightarrow> rat option"
  cal_strptime :: "string \<Rightarrow> string \<Rightarrow> rat option"
  cal_year :: string
  cal_day :: string

definition null_to_none :: "string \<Rightarrow> string option" where
  "null_to_none s = (if s = ''(null)'' then None else Some s)"

definition digits_between :: "nat \<Rightarrow> nat \<Rightarrow> rx" where
  "digits_between lo hi =
     rseqs (replicate lo r_digit @ [foldr (\<lambda>_ r. RAlt (RSeq r_digit r) REps) [lo..<hi] REps])"

definition reservation_date_rx :: rx where
  "reservation_date_rx =
     (let two = rrep 2 r_digit; colon = rlit '':''; dash = rlit ''-'' in
      ralts (rseqs [digits_between 1 2, rlit '' '', rplus r_nonws, rlit '' '', two, colon, two])
        [rseqs [two, colon, two, colon, two],
         rseqs [digits_between 1 2, rlit '' '', rplus r_nonws, rlit '' '', rrep 4 r_digit],
         rseqs [digits_between 1 4, dash, two, dash, two, rlit ''T'', two, colon, two, colon, two],
         rplus r_digit])"

definition first_some :: "'a option list \<Rightarrow> 'a option" where
  "first_some xs = first_of (List.map_filter id xs)"

definition reservation_date :: "local_calendar \<Rightarrow> string \<Rightarrow> rat res" where
  "reservation_date cal t =
     (case first_some
        [case py_int t of Inr i \<Rightarrow> cal_fromtimestamp cal i | Inl _ \<Rightarrow> None,
         cal_fromisoformat cal t,
         cal_strptime cal (cal_year cal @ '' '' @ t) ''%Y %d %b %H:%M'',
         cal_strptime cal t ''%d %b %Y'',
         cal_strptime cal (cal_day cal @ '' '' @ t) ''%m/%d/%y %H:%M:%S''] of
        Some d \<Rightarrow> Inr d
      | None \<Rightarrow> raise ValueError ''Unable to parse reservation datatime'')"

definition reservation_attr :: "local_calendar \<Rightarrow> string \<Rightarrow> string \<times> bool \<Rightarrow> (string \<times> json) res" where
  "reservation_attr cal reservation_str attr =
     (case attr of (name, is_date) \<Rightarrow>
        let pattern = (if is_date then rseqs [rlit (name @ ''=''), RGroup 1 reservation_date_rx]
                       else attr_pattern name) in
        (case re_search pattern reservation_str of
           None \<Rightarrow> could_not_parse name reservation_str
         | Some m \<Rightarrow>
             let t = opt_str (m_group m 1) in
             if is_date then map_res (\<lambda>d. (name, JFloat d)) (reservation_date cal t)
             else Inr (name, j_str_opt (null_to_none t))))"

definition reservation_attributes :: "(string \<times> bool) list" where
  "reservation_attributes =
     [(''ReservationName'', False), (''State'', False), (''Nodes'', False), (''StartTime'', True),
      (''EndTime'', True), (''Features'', False)]"

definition scontrol_reservations_get_command :: string where
  "scontrol_reservations_get_command = join '' '' [scontrol_base, ''-a show -o reservations'']"

definition scontrol_reservations_parse_output ::
  "local_calendar \<Rightarrow> string \<Rightarrow> string \<Rightarrow> int \<Rightarrow> kwargs list option res" where
  "scontrol_reservations_parse_output cal stdout stderr exit_status =
     (if exit_status \<noteq> 0 then slurm_unexpected exit_status stderr
      else if starts_with ''no reservations'' (lower stdout) then Inr (Some [])
      else map_res Some
        (traverse (\<lambda>reservation_str. traverse (reservation_attr cal reservation_str) reservation_attributes)
          (filter (\<lambda>l. l \<noteq> []) (split_on newline stdout))))"

subsection \<open>\<open>sinfo\<close>\<close>

text \<open>
  \<open>float(s)\<close>: digits with an optional point and exponent.  The texts of infinities and NaN are
  not modelled and read as no number.
\<close>

definition digits_rat :: "string \<Rightarrow> rat" where
  "digits_rat s = of_nat (read_base 10 0 s)"

definition opt_text :: "string option \<Rightarrow> string" where
  "opt_text v = (case v of None \<Rightarrow> [] | Some t \<Rightarrow> t)"

definition float_pattern :: rx where
  "float_pattern =
     rseqs [RGroup 1 (RAlt (RChar (\<lambda>c. c = CHR ''-'' \<or> c = CHR ''+'')) REps),
            RGroup 2 (RStar r_digit), RAlt (RSeq (rlit ''.'') (RGroup 3 (RStar r_digit))) REps,
            RAlt (rseqs [rlit_ci ''e'', RGroup 4 (RAlt (RChar (\<lambda>c. c = CHR ''-'' \<or> c = CHR ''+'')) REps),
                         RGroup 5 (rplus r_digit)]) REps]"

definition float_or_none :: "string \<Rightarrow> rat option" where
  "float_or_none s =
     (case re_fullmatch float_pattern (strip s) of
        None \<Rightarrow> None
      | Some m \<Rightarrow>
          let whole = opt_text (m_group m 2); frac = opt_text (m_group m 3);
              e = read_base 10 0 (opt_text (m_group m 5));
              v = digits_rat (whole @ frac) / 10 ^ length frac;
              v = (if m_group m 4 = Some ''-'' then v / 10 ^ e else v * 10 ^ e)
          in if whole = [] \<and> frac = [] then None
             else Some (if m_group m 1 = Some ''-'' then - v else v))"

definition int_or_none :: "string \<Rightarrow> int option" where
  "int_or_none s = (case py_int s of Inr i \<Rightarrow> Some i | Inl _ \<Rightarrow> None)"

definition sinfo_get_command :: string where
  "sinfo_get_command =
     join '' '' [''sinfo -a -N'', ''--noheader'',
       ''--format='' @ [squote] @ ''%z|%c|%O|%e|%f|%N|%o|%n|%T|%R|%w|%v|%m|%C'' @ [squote]]"

definition sinfo_node :: "string list \<Rightarrow> kwargs res" where
  "sinfo_node info =
     (let topology = hd (split_on CHR '':'' (info ! 0)) in
      bind_res (nth_res (split_on CHR ''/'' (info ! 13)) 1) (\<lambda>idle.
        Inr [(''sockets'', j_int_opt (int_or_none topology)),
             (''cores'', j_int_opt (int_or_none topology)),
             (''threads'', j_int_opt (int_or_none topology)),
             (''cpus'', j_int_opt (int_or_none (info ! 1))),
             (''cpu_load'', case float_or_none (info ! 2) of None \<Rightarrow> JNull | Some r \<Rightarrow> JFloat r),
             (''free_memory'', j_int_opt (int_or_none (info ! 3))),
             (''features'', JStr (info ! 4)),
             (''name'', JStr (info ! 5)),
             (''address'', JStr (info ! 6)),
             (''hostname'', JStr (info ! 7)),
             (''state'', JList [JStr (info ! 8)]),
             (''partitions'', JList (map JStr (split_on CHR '','' (info ! 9)))),
             (''weight'', j_int_opt (int_or_none (info ! 10))),
             (''slurmd_version'', JStr (info ! 11)),
             (''alloc_memory'', j_int_opt (int_or_none (info ! 12))),
             (''alloc_cpus'', j_int_opt (int_or_none (hd (split_on CHR ''/'' (info ! 13))))),
             (''idle_cpus'', j_int_opt (int_or_none idle))]))"

definition extend_partitions :: "string list \<Rightarrow> kwargs \<Rightarrow> kwargs" where
  "extend_partitions ps node =
     (case map_of node ''partitions'' of
        Some (JList xs) \<Rightarrow> dict_set ''partitions'' (JList (xs @ map JStr ps)) node
      | _ \<Rightarrow> node)"

definition sinfo_row :: "string \<Rightarrow> (string \<times> kwargs) list \<Rightarrow> (string \<times> kwargs) list res" where
  "sinfo_row node_str nodes =
     (let info = split_on CHR ''|'' node_str in
      if length info \<noteq> 14 then Inr nodes
      else (case map_of nodes (info ! 5) of
              Some node \<Rightarrow>
                Inr (dict_set (info ! 5) (extend_partitions (split_on CHR '','' (info ! 9)) node) nodes)
            | None \<Rightarrow> map_res (\<lambda>n. dict_set (info ! 5) n nodes) (sinfo_node info)))"

fun sinfo_rows :: "string list \<Rightarrow> (string \<times> kwargs) list \<Rightarrow> (string \<times> kwargs) list res" where
  "sinfo_rows [] nodes = Inr nodes"
| "sinfo_rows (r # rs) nodes = bind_res (sinfo_row r nodes) (sinfo_rows rs)"

definition sinfo_parse_output :: "'c \<Rightarrow> string \<Rightarrow> string \<Rightarrow> int \<Rightarrow> kwargs list option res" where
  "sinfo_parse_output c stdout stderr exit_status =
     (if exit_status \<noteq> 0 then slurm_unexpected exit_status stderr
      else map_res (\<lambda>nodes. option_none_if_empty (map snd nodes))
             (sinfo_rows (split_on newline stdout) []))"

subsection \<open>Every tool is a scheduler command\<close>

named_theorems parse_defs \<open>the parsers of the tools' outputs\<close>

declare sacct_parse_output_def [parse_defs] squeue_parse_output_def [parse_defs]
  sacct_batch_script_parse_output_def [parse_defs] sacct_job_metadata_parse_output_def [parse_defs]
  sbatch_parse_output_def [parse_defs] scancel_parse_output_def [parse_defs]
  srun_parse_output_def [parse_defs] sacctmgr_accounts_parse_output_def [parse_defs]
  sacctmgr_default_account_parse_output_def [parse_defs] scontrol_batch_script_parse_output_def [parse_defs]
  scontrol_job_parse_output_def [parse_defs] scontrol_partitions_parse_output_def [parse_defs]
  scontrol_ping_parse_output_def [parse_defs] scontrol_reservations_parse_output_def [parse_defs]
  sinfo_parse_output_def [parse_defs]

lemma quota_is_scheduler_error [simp]: "exc_le SlurmQuotaError SchedulerError"
  by (simp add: exc_le_def)

lemma slurm_unexpected_fails [simp]: "tool_failure (slurm_unexpected ex err)"
  by (simp add: slurm_unexpected_def)

interpretation sacct: scheduler_command sacct_parse_output
  by unfold_locales (simp add: parse_defs)

interpretation squeue: scheduler_command squeue_parse_output
  by unfold_locales (simp add: parse_defs)

interpretation sacct_script: scheduler_command sacct_batch_script_parse_output
  by unfold_locales (simp add: parse_defs)

interpretation sacct_metadata: scheduler_command sacct_job_metadata_parse_output
  by unfold_locales (simp add: parse_defs)

interpretation sbatch: scheduler_command sbatch_parse_output
  by unfold_locales (simp add: parse_defs)

interpretation scancel: scheduler_command scancel_parse_output
  by unfold_locales (simp add: parse_defs)

interpretation srun: scheduler_command srun_parse_output
  by unfold_locales (simp add: parse_defs)

interpretation sacctmgr_accounts: scheduler_command sacctmgr_accounts_parse_output
  by unfold_locales (simp add: parse_defs)

interpretation sacctmgr_default: scheduler_command sacctmgr_default_account_parse_output
  by unfold_locales (simp add: parse_defs)

interpretation scontrol_script: scheduler_command scontrol_batch_script_parse_output
  by unfold_locales (simp add: parse_defs)

interpretation scontrol_job: scheduler_command scontrol_job_parse_output
  by unfold_locales (simp add: parse_defs)

interpretation scontrol_partitions: scheduler_command scontrol_partitions_parse_output
  by unfold_locales (simp add: parse_defs)

interpretation scontrol_ping: scheduler_command scontrol_ping_parse_output
  by unfold_locales (simp add: parse_defs)

interpretation scontrol_reservations: scheduler_command scontrol_reservations_parse_output
  by unfold_locales (simp add: parse_defs)

interpretation sinfo: scheduler_command sinfo_parse_output
  by unfold_locales (simp add: parse_defs)

end
