(* ===== verification/SlurmListing.thy ===== *)
theory SlurmListing
  imports SlurmCommands
begin

section \<open>What the Slurm tools are told and what is read back\<close>

text \<open>
  Facts about the command lines and parsers of \<open>SlurmCommands\<close>: the words a shell sees, the
  listing of \<open>sacct\<close> read back row by row, durations read back from every form Slurm prints
  them in, and the classification of a rejected submission.
\<close>

subsection \<open>Reading the accounting listing\<close>

lemma dict_set_new: "k \<notin> set (map fst d) \<Longrightarrow> dict_set k v d = d @ [(k, v)]"
  by (induction d) auto

lemma dict_set_snoc [simp]: "k \<notin> set (map fst d) \<Longrightarrow> dict_set k w (d @ [(k, v)]) = d @ [(k, w)]"
  by (induction d) auto

text \<open>
  A listing: for every job its row and the rows of its steps, each of the twenty fields
  separated by bars.
\<close>

type_synonym sacct_entry = "string list \<times> string list list"

definition entry_id :: "sacct_entry \<Rightarrow> string" where
  "entry_id e = fst e ! 0"

definition wf_fields :: "string list \<Rightarrow> bool" where
  "wf_fields f \<longleftrightarrow> length f = 20 \<and> list_all (\<lambda>t. CHR ''|'' \<notin> set t \<and> newline \<notin> set t) f"

definition wf_step :: "string \<Rightarrow> string list \<Rightarrow> bool" where
  "wf_step i f \<longleftrightarrow> wf_fields f \<and>
     starts_with (i @ ''.'') (f ! 0) \<and> CHR ''.'' \<notin> set (drop (Suc (length i)) (f ! 0))"

definition wf_entry :: "sacct_entry \<Rightarrow> bool" where
  "wf_entry e \<longleftrightarrow> wf_fields (fst e) \<and> CHR ''.'' \<notin> set (entry_id e) \<and>
     list_all (wf_step (entry_id e)) (snd e)"

definition sacct_line :: "string list \<Rightarrow> string" where
  "sacct_line f = join ''|'' f"

definition entry_lines :: "sacct_entry \<Rightarrow> string list" where
  "entry_lines e = map sacct_line (fst e # snd e)"

definition sacct_listing :: "sacct_entry list \<Rightarrow> string" where
  "sacct_listing es = concat (map (\<lambda>l. l @ [newline]) (concat (map entry_lines es)))"

definition with_steps :: "kwargs list \<Rightarrow> kwargs \<Rightarrow> kwargs" where
  "with_steps ss job = dict_set ''steps'' (JList (map JObj ss)) job"

definition entry_job :: "sacct_entry \<Rightarrow> kwargs res" where
  "entry_job e =
     bind_res (sacct_parse_job (fst e)) (\<lambda>job.
     map_res (\<lambda>ss. with_steps ss job) (traverse sacct_parse_step (snd e)))"

lemma split_lines:
  "list_all (\<lambda>l. c \<notin> set l) ls \<Longrightarrow> split_on c (concat (map (\<lambda>l. l @ [c]) ls)) = ls @ [[]]"
  by (induction ls) (simp_all add: split_on_append)

lemma split_sacct_line:
  assumes "wf_fields f"
  shows "split_on CHR ''|'' (sacct_line f) = f"
proof -
  from assms have "f \<noteq> []" by (auto simp: wf_fields_def)
  moreover from assms have "\<forall>w \<in> set f. CHR ''|'' \<notin> set w"
    by (auto simp: wf_fields_def list_all_iff)
  ultimately show ?thesis by (simp add: sacct_line_def split_on_join)
qed

lemma join_no_newline: "c \<noteq> sep \<Longrightarrow> list_all (\<lambda>t. c \<notin> set t) f \<Longrightarrow> c \<notin> set (join [sep] f)"
  by (induction "[sep]" f rule: join.induct) auto

lemma sacct_line_no_newline: "wf_fields f \<Longrightarrow> newline \<notin> set (sacct_line f)"
  unfolding sacct_line_def by (rule join_no_newline) (auto simp: wf_fields_def list_all_iff)

lemma sacct_row_job:
  assumes "wf_fields f" and "CHR ''.'' \<notin> set (f ! 0)"
  shows "sacct_row (sacct_line f) jobs =
     bind_res (sacct_parse_job f) (\<lambda>job. Inr (dict_set (f ! 0) job jobs))"
proof -
  have "\<not> contains ''.'' (f ! 0)" using assms(2) by (auto simp: contains_iff)
  then show ?thesis using assms(1)
    by (simp add: sacct_row_def split_sacct_line wf_fields_def)
qed

lemma sacct_row_step:
  assumes "wf_step i f" and "CHR ''.'' \<notin> set i" and "map_of jobs i = Some job"
  shows "sacct_row (sacct_line f) jobs =
     bind_res (sacct_parse_step f) (\<lambda>step. Inr (dict_set i (append_step step job) jobs))"
proof -
  from assms(1) obtain s where f0: "f ! 0 = i @ ''.'' @ s" and s: "CHR ''.'' \<notin> set s"
    by (auto simp: wf_step_def starts_with_iff)
  have "split_on CHR ''.'' (f ! 0) = [i, s]"
    using assms(2) s by (simp add: f0 split_on_append split_on_no_sep)
  moreover have "contains ''.'' (f ! 0)" unfolding contains_iff f0 by blast
  ultimately show ?thesis using assms(1,3)
    by (simp add: sacct_row_def split_sacct_line wf_step_def wf_fields_def)
qed

lemma parse_job_steps: "sacct_parse_job f = Inr job \<Longrightarrow> map_of job ''steps'' = Some (JList [])"
  by (auto simp: sacct_parse_job_def res_iff)

lemma append_with_steps:
  assumes "map_of job ''steps'' \<noteq> None"
  shows "append_step s (with_steps ss job) = with_steps (ss @ [s]) job"
proof -
  have "dict_set k v' (dict_set k v d) = dict_set k v' d" for k v v' and d :: kwargs
    by (induction d) auto
  then show ?thesis by (simp add: append_step_def with_steps_def)
qed

lemma with_steps_Nil:
  assumes "map_of job ''steps'' = Some (JList [])"
  shows "with_steps [] job = job"
proof -
  have "map_of d k = Some v \<Longrightarrow> dict_set k v d = d" for k v and d :: kwargs
    by (induction d) auto
  with assms show ?thesis by (simp add: with_steps_def)
qed

lemma sacct_rows_append:
  "sacct_rows (xs @ ys) jobs = bind_res (sacct_rows xs jobs) (sacct_rows ys)"
proof (induction xs arbitrary: jobs)
  case (Cons x xs)
  then show ?case by (cases "sacct_row x jobs") simp_all
qed simp

lemma sacct_rows_steps:
  assumes "list_all (wf_step i) fs" and "CHR ''.'' \<notin> set i" and "i \<notin> set (map fst d)"
    and "map_of job ''steps'' \<noteq> None"
  shows "sacct_rows (map sacct_line fs) (d @ [(i, with_steps ss job)]) =
     map_res (\<lambda>ts. d @ [(i, with_steps (ss @ ts) job)]) (traverse sacct_parse_step fs)"
  using assms(1)
proof (induction fs arbitrary: ss)
  case (Cons f fs)
  have "map_of (d @ [(i, v)]) i = Some v" for v :: kwargs
    using assms(3) by (simp add: map_add_def map_of_eq_None_iff split: option.splits)
      (metis map_of_eq_None_iff option.distinct(1) image_set list.set_map)
  then have row: "sacct_row (sacct_line f) (d @ [(i, with_steps ss job)]) =
      bind_res (sacct_parse_step f) (\<lambda>s. Inr (d @ [(i, with_steps (ss @ [s]) job)]))"
    using Cons.prems assms(2,3,4)
    by (subst sacct_row_step) (auto simp: append_with_steps)
  show ?case
    using Cons.IH Cons.prems
    by (cases "sacct_parse_step f"; cases "traverse sacct_parse_step fs") (simp_all add: row)
qed simp

lemma sacct_rows_entry:
  assumes "wf_entry e" and "entry_id e \<notin> set (map fst d)"
  shows "sacct_rows (entry_lines e) d = map_res (\<lambda>j. d @ [(entry_id e, j)]) (entry_job e)"
proof (cases "sacct_parse_job (fst e)")
  case (Inl x)
  then show ?thesis using assms(1)
    by (simp add: entry_lines_def sacct_row_job wf_entry_def entry_id_def entry_job_def)
next
  case (Inr job)
  note st = parse_job_steps [OF Inr]
  have "sacct_rows (entry_lines e) d =
      sacct_rows (map sacct_line (snd e)) (d @ [(entry_id e, with_steps [] job)])"
    using assms Inr st
    by (simp add: entry_lines_def sacct_row_job wf_entry_def entry_id_def dict_set_new with_steps_Nil)
  also have "\<dots> = map_res (\<lambda>ts. d @ [(entry_id e, with_steps ([] @ ts) job)])
      (traverse sacct_parse_step (snd e))"
    by (rule sacct_rows_steps) (use assms st in \<open>auto simp: wf_entry_def\<close>)
  also have "\<dots> = map_res (\<lambda>j. d @ [(entry_id e, j)]) (entry_job e)"
    by (cases "traverse sacct_parse_step (snd e)") (simp_all add: entry_job_def Inr)
  finally show ?thesis .
qed

lemma sacct_rows_entries:
  assumes "list_all wf_entry es" and "distinct (map fst d @ map entry_id es)"
  shows "sacct_rows (concat (map entry_lines es)) d =
     map_res (\<lambda>js. d @ zip (map entry_id es) js) (traverse entry_job es)"
  using assms
proof (induction es arbitrary: d)
  case (Cons e es)
  have e: "sacct_rows (entry_lines e) d = map_res (\<lambda>j. d @ [(entry_id e, j)]) (entry_job e)"
    by (rule sacct_rows_entry) (use Cons.prems in auto)
  show ?case
  proof (cases "entry_job e")
    case (Inr j)
    have "sacct_rows (concat (map entry_lines es)) (d @ [(entry_id e, j)]) =
        map_res (\<lambda>js. (d @ [(entry_id e, j)]) @ zip (map entry_id es) js) (traverse entry_job es)"
      by (rule Cons.IH) (use Cons.prems in auto)
    then show ?thesis using Inr
      by (cases "traverse entry_job es") (simp_all add: sacct_rows_append e)
  qed (simp add: sacct_rows_append e)
qed simp

lemma sacct_row_blank [simp]: "sacct_row [] jobs = Inr jobs"
  by (simp add: sacct_row_def)

lemma listing_lines:
  assumes "list_all wf_entry es"
  shows "split_on newline (sacct_listing es) = concat (map entry_lines es) @ [[]]"
  unfolding sacct_listing_def
proof (rule split_lines)
  show "list_all (\<lambda>l. newline \<notin> set l) (concat (map entry_lines es))"
    using assms
    by (auto simp: list_all_iff entry_lines_def wf_entry_def wf_step_def sacct_line_no_newline)
qed

text \<open>
  C11: the listing of \<open>sacct\<close> read back.  Each job keeps its place and is described by its own row,
  with its steps in the order of their rows; a malformed field makes the whole listing fail, with
  the first error met.
\<close>

theorem sacct_reads_listing:
  assumes "list_all wf_entry es" and "distinct (map entry_id es)" and "es \<noteq> []"
  shows "sacct_parse_output c (sacct_listing es) err 0 = map_res Some (traverse entry_job es)"
proof -
  have rows: "sacct_rows (split_on newline (sacct_listing es)) [] =
      map_res (zip (map entry_id es)) (traverse entry_job es)"
    using sacct_rows_entries [OF assms(1), of "[]"] assms(2)
    by (cases "traverse entry_job es")
      (simp_all add: listing_lines [OF assms(1)] sacct_rows_append)
  show ?thesis
  proof (cases "traverse entry_job es")
    case (Inr js)
    then have "length js = length es" by (rule traverse_length)
    then show ?thesis using rows Inr assms(3)
      by (auto simp: sacct_parse_output_def option_none_if_empty_def)
  qed (simp add: sacct_parse_output_def rows)
qed

definition demo_fields :: "string \<Rightarrow> string \<Rightarrow> string list" where
  "demo_fields i name =
     [i, ''1'', ''cluster'', ''0:0'', ''users'', ''acc'', name, ''nid001'', ''normal'', ''10'', ''COMPLETED'',
      ''None'', ''60'', ''1700000000'', ''1700000010'', ''1700000070'', ''00:00:00'', ''30'', ''alice'', ''/home/alice'']"

theorem sacct_reads_listing_witness:
  "sacct_parse_output () (sacct_listing [(demo_fields ''12'' ''job'', [demo_fields ''12.batch'' ''batch''])]) [] 0 =
     map_res Some (traverse entry_job [(demo_fields ''12'' ''job'', [demo_fields ''12.batch'' ''batch''])])"
  by (rule sacct_reads_listing)
     (simp_all add: wf_entry_def wf_step_def wf_fields_def entry_id_def demo_fields_def)

text \<open>The number of fields of a printed row.\<close>

lemma length_split_on: "length (split_on c s) = Suc (count_list s c)"
  by (induction s) (auto split: list.splits)

lemma count_list_join:
  "ws \<noteq> [] \<Longrightarrow> count_list (join [c] ws) c = length ws - 1 + sum_list (map (\<lambda>w. count_list w c) ws)"
  by (induction "[c]" ws rule: join.induct) auto

text \<open>
  A bar hides a job.  The fields are printed as they are, so a job with a bar in a field, for
  instance in the name its user gave it, has a row with more than twenty columns, which is skipped
  without a trace: the jobs read before it are all there is.
\<close>

theorem sacct_bar_hides_job:
  assumes "length f = 20" and "list_ex (\<lambda>t. CHR ''|'' \<in> set t) f"
  shows "sacct_row (sacct_line f) jobs = Inr jobs"
proof -
  have "f \<noteq> []" using assms(1) by auto
  from assms(2) obtain t where "t \<in> set f" "CHR ''|'' \<in> set t" by (auto simp: list_ex_iff)
  then have "0 < sum_list (map (\<lambda>w. count_list w CHR ''|'') f)"
    by (metis count_list_0_iff gr0I image_eqI list.set_map sum_list_eq_0_iff)
  moreover have "length (split_on CHR ''|'' (sacct_line f)) =
      20 + sum_list (map (\<lambda>w. count_list w CHR ''|'') f)"
    using \<open>f \<noteq> []\<close> assms(1) by (simp add: length_split_on count_list_join sacct_line_def)
  ultimately have "length (split_on CHR ''|'' (sacct_line f)) \<noteq> 20" by linarith
  then show ?thesis by (simp add: sacct_row_def)
qed

theorem sacct_bar_hides_job_witness:
  "sacct_row (sacct_line (demo_fields ''12'' ''a|b'')) [] = Inr []"
  by (rule sacct_bar_hides_job) (simp_all add: demo_fields_def)

subsection \<open>Durations\<close>

text \<open>How Slurm prints a duration: \<open>[days-]hours:minutes:seconds\<close> or \<open>minutes:seconds\<close>.\<close>

definition slurm_duration :: "nat \<Rightarrow> string" where
  "slurm_duration n =
     (let d = n div 86400; h = n div 3600 mod 24; m = n div 60 mod 60; s = n mod 60 in
      if d > 0 then show_nat d @ ''-'' @ show2 h @ '':'' @ show2 m @ '':'' @ show2 s
      else if h > 0 then show2 h @ '':'' @ show2 m @ '':'' @ show2 s
      else show2 m @ '':'' @ show2 s)"

lemma rmatch_rrep2:
  "is_digit a \<Longrightarrow> is_digit b \<Longrightarrow>
     rmatch (RGroup i (rrep 2 r_digit)) k (p, a # b # t, g) = k (b # a # p, t, g(i \<mapsto> [a, b]))"
  by (simp add: numeral_2_eq_2)

lemma rseqs_group_two:
  assumes "n < 100" and "rmatch (rseqs rs) k (rev (show2 n) @ b, t, g(i \<mapsto> show2 n)) = Some r"
  shows "rmatch (rseqs (RGroup i (rrep 2 r_digit) # rs)) k (b, show2 n @ t, g) = Some r"
  using assms unfolding rmatch_rseqs(2) show2_def append.simps
  by (subst rmatch_rrep2) simp_all

lemma rseqs_group_two_end:
  assumes "n < 100" and "rmatch (rseqs rs) k (rev (show2 n) @ b, [], g(i \<mapsto> show2 n)) = Some r"
  shows "rmatch (rseqs (RGroup i (rrep 2 r_digit) # rs)) k (b, show2 n, g) = Some r"
  using rseqs_group_two [of n rs k b "[]"] assms by simp

lemma read_show2 [simp]: "n < 100 \<Longrightarrow> read_base 10 0 (show2 n) = n"
  by (simp add: show2_def digit_val_small)

lemma group_nat_simps [simp]:
  "group_nat (b, t, g(i \<mapsto> s)) j = (if i = j then read_base 10 0 s else group_nat (b, t, g) j)"
  by (simp add: group_nat_def m_group_def)

lemma not_int_colon: "CHR '':'' \<in> set s \<Longrightarrow> \<exists>e. py_int s = Inl e"
proof -
  assume c: "CHR '':'' \<in> set s"
  have ib: "int_body 10 t \<Longrightarrow> CHR '':'' \<notin> set t" for t
    by (induction "10 :: nat" t rule: int_body.induct)
      (auto simp: digit_in_10 is_digit_def split: if_splits)
  have dw: "CHR '':'' \<in> set t \<Longrightarrow> CHR '':'' \<in> set (dropWhile is_ws t)" for t
    by (induction t) (auto simp: is_ws_def)
  have "CHR '':'' \<in> set (strip s)"
    using dw [OF c] dw [of "rev (lstrip s)"] by (simp add: strip_def rstrip_def lstrip_def)
  then have "CHR '':'' \<in> set (snd (split_sign (strip s)))"
    by (auto simp: split_sign_def split: list.splits)
  then show ?thesis using ib by (auto simp: py_int_def split: prod.splits)
qed

lemma rseqs_full:
  "rmatch (rseqs []) (\<lambda>st. if fst (snd st) = [] then Some st else None) (b, [], g) = Some (b, [], g)"
  by (simp add: rx_simps)

lemmas time_run = rseqs_full rseqs_group_two rseqs_group_two_end rseqs_lit rseqs_group_plus

lemma dhms_days_match:
  assumes "h < 100" "m < 100" "s < 100"
  shows "\<exists>r. re_fullmatch rx_dhms (show_nat d @ ''-'' @ show2 h @ '':'' @ show2 m @ '':'' @ show2 s) =
     Some r \<and> snd (snd r) = [1 \<mapsto> show_nat d, 2 \<mapsto> show2 h, 3 \<mapsto> show2 m, 4 \<mapsto> show2 s]"
  unfolding re_fullmatch_def rx_dhms_def
  by (rule exI, rule conjI, intro time_run show_nat_digits show_nat_nonempty)
     (simp_all add: assms is_digit_def, rule rseqs_full, simp)

lemma dhms_days:
  assumes "h < 24" "m < 60" "s < 60"
  shows "dhms_to_seconds (show_nat d @ ''-'' @ show2 h @ '':'' @ show2 m @ '':'' @ show2 s) =
     Inr (d * 86400 + h * 3600 + m * 60 + s)"
  using dhms_days_match [of h m s d] assms
  by (auto simp: dhms_to_seconds_def Let_def group_nat_def m_group_def)

text \<open>A duration without days is read as a time of day first.\<close>

lemma digit_code: "d < 10 \<Longrightarrow> code (digit_char d) = 48 + d"
  by (auto simp: digit_char_def less_Suc_eq numeral_eq_Suc)

lemma rmatch_between:
  "d < 10 \<Longrightarrow> rmatch (r_between lo hi) k (b, digit_char d # t, g) =
     (if lo \<le> d \<and> d \<le> hi then k (digit_char d # b, t, g) else None)"
  by (simp add: r_between_def digit_code)

lemma digit_eq_iff: "d < 10 \<Longrightarrow> e < 10 \<Longrightarrow> digit_char d = digit_char e \<longleftrightarrow> d = e"
  by (metis digit_code add_left_cancel)

lemma digit_lits: "CHR ''2'' = digit_char 2" "CHR ''6'' = digit_char 6"
  by (simp_all add: digit_char_def)

lemma rseqs_time_fields:
  "m < 60 \<Longrightarrow> rmatch (rseqs rs) k (rev (show2 m) @ b, t, g(i \<mapsto> show2 m)) = Some r \<Longrightarrow>
     rmatch (rseqs (RGroup i (ralts (rseqs [r_between 0 5, r_digit]) [r_digit]) # rs)) k (b, show2 m @ t, g) = Some r"
  "m < 60 \<Longrightarrow> rmatch (rseqs rs) k (rev (show2 m) @ b, t, g(i \<mapsto> show2 m)) = Some r \<Longrightarrow>
     rmatch (rseqs (RGroup i (ralts (rseqs [rlit ''6'', r_between 0 1])
       [rseqs [r_between 0 5, r_digit], r_digit]) # rs)) k (b, show2 m @ t, g) = Some r"
  "h < 24 \<Longrightarrow> rmatch (rseqs rs) k (rev (show2 h) @ b, t, g(i \<mapsto> show2 h)) = Some r \<Longrightarrow>
     rmatch (rseqs (RGroup i (ralts (rseqs [rlit ''2'', r_between 0 3])
       [rseqs [r_between 0 1, r_digit], r_digit]) # rs)) k (b, show2 h @ t, g) = Some r"
proof -
  have m5: "m div 10 \<le> 5" "m div 10 < 10" if "m < 60" using that by presburger+
  show "rmatch (rseqs (RGroup i (ralts (rseqs [r_between 0 5, r_digit]) [r_digit]) # rs)) k
      (b, show2 m @ t, g) = Some r"
    if "m < 60" "rmatch (rseqs rs) k (rev (show2 m) @ b, t, g(i \<mapsto> show2 m)) = Some r"
    using that m5 by (simp add: rx_simps ralts_def show2_def rmatch_between)
  show "rmatch (rseqs (RGroup i (ralts (rseqs [rlit ''6'', r_between 0 1])
       [rseqs [r_between 0 5, r_digit], r_digit]) # rs)) k (b, show2 m @ t, g) = Some r"
    if "m < 60" "rmatch (rseqs rs) k (rev (show2 m) @ b, t, g(i \<mapsto> show2 m)) = Some r"
    using that m5 by (simp add: rx_simps ralts_def show2_def rmatch_between rmatch_lit_iff digit_lits digit_eq_iff)
  have h3: "h div 10 \<le> 1 \<or> h div 10 = 2 \<and> h mod 10 \<le> 3" if "h < 24" using that by presburger
  show "rmatch (rseqs (RGroup i (ralts (rseqs [rlit ''2'', r_between 0 3])
       [rseqs [r_between 0 1, r_digit], r_digit]) # rs)) k (b, show2 h @ t, g) = Some r"
    if "h < 24" "rmatch (rseqs rs) k (rev (show2 h) @ b, t, g(i \<mapsto> show2 h)) = Some r"
    using h3 [OF that(1)] that
    by (elim disjE conjE)
      (simp_all add: rx_simps ralts_def show2_def rmatch_between rmatch_lit_iff digit_lits digit_eq_iff)
qed

lemma rseqs_time_last:
  assumes "m < 60" and "rmatch (rseqs rs) k (rev (show2 m) @ b, [], g(i \<mapsto> show2 m)) = Some r"
  shows "rmatch (rseqs (RGroup i (ralts (rseqs [rlit ''6'', r_between 0 1])
       [rseqs [r_between 0 5, r_digit], r_digit]) # rs)) k (b, show2 m, g) = Some r"
  using rseqs_time_fields(2) [OF assms] by simp

lemma rseqs_stop: "rmatch (rseqs []) Some (b, [], g) = Some (b, [], g)"
  by (simp add: rx_simps)

lemma strptime_two:
  assumes "h < 24" "m < 60" "s < 60"
  shows "strptime_hms (show2 h @ '':'' @ show2 m @ '':'' @ show2 s) = Inr (h, m, s)"
proof -
  have "\<exists>r. re_match rx_strptime_hms (show2 h @ '':'' @ show2 m @ '':'' @ show2 s) = Some r \<and>
      fst (snd r) = [] \<and> snd (snd r) = [1 \<mapsto> show2 h, 2 \<mapsto> show2 m, 3 \<mapsto> show2 s]"
    unfolding re_match_def rx_strptime_hms_def
    by (rule exI, rule conjI, intro rseqs_time_fields rseqs_time_last rseqs_lit assms, rule rseqs_stop)
       simp
  then show ?thesis
    using assms by (auto simp: strptime_hms_def group_nat_def m_group_def)
qed

lemma strptime_lang:
  assumes "strptime_hms t = Inr x"
  shows "count_list t CHR '':'' = 2 \<and> count_list t CHR ''-'' = 0"
proof -
  from assms obtain m where m: "rmatch rx_strptime_hms Some ([], t, Map.empty) = Some m" "fst (snd m) = []"
    by (auto simp: strptime_hms_def re_match_def split: option.splits if_splits)
  have g: "count_list u CHR '':'' = 0 \<and> count_list u CHR ''-'' = 0"
    if "u \<in> rx_lang (r_between lo hi)" "hi \<le> 9" for u lo hi
    using that by (auto simp: r_between_def)
  have d: "count_list [c] CHR '':'' = 0 \<and> count_list [c] CHR ''-'' = 0" if "is_digit c" for c
    using that by (auto simp: is_digit_def)
  have f: "count_list u CHR '':'' = 0 \<and> count_list u CHR ''-'' = 0"
    if "u \<in> rx_lang (ralts (rseqs [x, y]) [rseqs [z, r_digit], r_digit])"
      "\<And>v. v \<in> rx_lang x \<union> rx_lang y \<union> rx_lang z \<Longrightarrow> count_list v CHR '':'' = 0 \<and> count_list v CHR ''-'' = 0"
    for u x y z
    using that(1) that(2) d by (auto simp: ralts_def)
  have f2: "count_list u CHR '':'' = 0 \<and> count_list u CHR ''-'' = 0"
    if "u \<in> rx_lang (ralts (rseqs [r_between 0 5, r_digit]) [r_digit])" for u
    using that g [of _ 0 5] d by (auto simp: ralts_def)
  from re_match_lang [OF m(1)] m(2) have "t \<in> rx_lang rx_strptime_hms" by auto
  then obtain u v w where t: "t = u @ '':'' @ v @ '':'' @ w"
    and u: "u \<in> rx_lang (ralts (rseqs [rlit ''2'', r_between 0 3]) [rseqs [r_between 0 1, r_digit], r_digit])"
    and v: "v \<in> rx_lang (ralts (rseqs [r_between 0 5, r_digit]) [r_digit])"
    and w: "w \<in> rx_lang (ralts (rseqs [rlit ''6'', r_between 0 1]) [rseqs [r_between 0 5, r_digit], r_digit])"
    unfolding rx_strptime_hms_def by (simp add: rx_lang_lit) blast
  have "count_list u CHR '':'' = 0 \<and> count_list u CHR ''-'' = 0"
    by (rule f [OF u]) (use g in \<open>auto simp: rx_lang_lit\<close>)
  moreover have "count_list w CHR '':'' = 0 \<and> count_list w CHR ''-'' = 0"
    by (rule f [OF w]) (use g in \<open>auto simp: rx_lang_lit\<close>)
  ultimately show ?thesis using f2 [OF v] by (simp add: t)
qed

lemma no_full_match:
  assumes "\<And>u. u \<in> rx_lang r \<Longrightarrow> count_list u c = n" and "count_list t c \<noteq> n"
  shows "re_fullmatch r t = None"
  using assms re_fullmatch_lang [of r t] by (cases "re_fullmatch r t") auto

lemma digits_no_char:
  assumes "\<not> is_digit c"
  shows "u \<in> rx_lang (rplus r_digit) \<Longrightarrow> count_list u c = 0"
    and "u \<in> rx_lang (rrep 2 r_digit) \<Longrightarrow> count_list u c = 0"
  using assms rx_lang_plus_class [of u is_digit]
  by (auto simp: count_list_0_iff list_all_iff numeral_2_eq_2 simp del: rx_lang_derived(1))

lemma rx_dhms_lang: "u \<in> rx_lang rx_dhms \<Longrightarrow> count_list u CHR ''-'' = 1"
  and rx_hms_lang: "u \<in> rx_lang rx_hms \<Longrightarrow> count_list u CHR '':'' = 2"
proof -
  have c: "\<not> is_digit CHR '':''" "\<not> is_digit CHR ''-''" by (simp_all add: is_digit_def)
  show "u \<in> rx_lang rx_dhms \<Longrightarrow> count_list u CHR ''-'' = 1"
    unfolding rx_dhms_def using digits_no_char [OF c(2)]
    by (auto simp: rx_lang_lit simp del: rx_lang_derived(1) rrep.simps)
  show "u \<in> rx_lang rx_hms \<Longrightarrow> count_list u CHR '':'' = 2"
    unfolding rx_hms_def using digits_no_char [OF c(1)]
    by (auto simp: rx_lang_lit simp del: rx_lang_derived(1) rrep.simps)
qed

lemma count_list_show [simp]:
  "\<not> is_digit c \<Longrightarrow> count_list (show_nat n) c = 0"
  "\<not> is_digit c \<Longrightarrow> n < 100 \<Longrightarrow> count_list (show2 n) c = 0"
  using show_nat_digits [of n] show2_digits [of n] by (auto simp: count_list_0_iff list_all_iff)

lemma dhms_short:
  assumes "m < 60" "s < 60"
  shows "dhms_to_seconds (show2 m @ '':'' @ show2 s) = Inr (m * 60 + s)"
proof -
  let ?t = "show2 m @ '':'' @ show2 s"
  have c: "\<not> is_digit CHR '':''" "\<not> is_digit CHR ''-''" by (simp_all add: is_digit_def)
  have 1: "re_fullmatch rx_dhms ?t = None"
    by (rule no_full_match [OF rx_dhms_lang]) (use assms c in auto)
  have 2: "re_fullmatch rx_hms ?t = None"
    by (rule no_full_match [OF rx_hms_lang]) (use assms c in auto)
  have d: "list_all is_digit (show2 m)" "show2 m \<noteq> []" using assms by (simp_all add: show2_def)
  have "\<exists>r. re_fullmatch rx_ms ?t = Some r \<and> snd (snd r) = [1 \<mapsto> show2 m, 2 \<mapsto> show2 s]"
    unfolding re_fullmatch_def rx_ms_def
    by (rule exI, rule conjI, intro time_run d)
       (use assms in \<open>simp_all add: c\<close>, rule rseqs_full, simp)
  then show ?thesis using assms 1 2
    by (auto simp: dhms_to_seconds_def Let_def group_nat_def m_group_def)
qed


subsection \<open>The words of the command lines\<close>

definition opt_word :: "string \<Rightarrow> string option \<Rightarrow> string list" where
  "opt_word name v =
     (case v of None \<Rightarrow> [] | Some s \<Rightarrow> if s = [] then [] else [''--'' @ name @ ''='' @ s])"

definition sbatch_argv :: "(string \<times> string) list \<Rightarrow> JobDescription \<Rightarrow> string list" where
  "sbatch_argv environment jd =
     [''sbatch'', ''--export=ALL,'' @ join '','' (map (\<lambda>(k, v). k @ ''='' @ v) environment),
      ''--chdir='' @ jd_current_working_directory jd] @
     opt_word ''partition'' (jd_partition jd) @
     opt_word ''reservation'' (jd_reservation jd) @
     opt_word ''account'' (jd_account jd) @
     opt_word ''job-name'' (jd_name jd) @
     opt_word ''error'' (jd_standard_error jd) @
     opt_word ''output'' (jd_standard_output jd) @
     opt_word ''input'' (jd_standard_input jd) @
     opt_word ''constraint'' (jd_constraints jd) @
     (case jd_script_path jd of Some p \<Rightarrow> if p = [] then [] else [''--'', p] | None \<Rightarrow> [])"

lemma sh_piece_option:
  "list_all sh_safe w \<Longrightarrow> sh_piece (w @ shlex_quote v) (w @ v)"
  by (rule sh_piece_safe_append) (simp_all add: sh_piece_quote)

lemma sh_pieces_opt_arg:
  "list_all sh_safe name \<Longrightarrow> list_all2 sh_piece (opt_arg name v) (opt_word name v)"
  using sh_piece_option [of "''--'' @ name @ ''=''"]
  by (simp add: opt_arg_def opt_word_def sh_eval split: option.split)

lemma join_snoc_space:
  "xs \<noteq> [] \<Longrightarrow> join '' '' (xs @ [a @ '' '' @ b]) = join '' '' (xs @ [a, b])"
proof (induction "'' ''" xs rule: join.induct)
  case (3 w v ws)
  then show ?case by simp
qed simp_all

text \<open>
  C16: a submission is told to the shell word for word.  Whatever the job description holds, the
  shell sees the options with exactly these values and nothing else, and the path of a script
  after \<open>--\<close>; an environment given as a list, which the model admits, makes the command fail.
\<close>

theorem sbatch_exact_words:
  "case jd_environment jd of
     EnvDict env \<Rightarrow>
       map_res sh_tokens (sbatch_get_command jd) = Inr (Some (map ShWord (sbatch_argv env jd)))
   | EnvList _ \<Rightarrow> \<exists>m. sbatch_get_command jd = raise AttributeError m"
proof (cases "jd_environment jd")
  case (EnvDict env)
  define opts where "opts = [''sbatch'', ''--export='' @ shlex_quote
       (''ALL,'' @ join '','' (map (\<lambda>(k, v). k @ ''='' @ v) env)),
       ''--chdir='' @ shlex_quote (jd_current_working_directory jd)] @
      opt_arg ''partition'' (jd_partition jd) @ opt_arg ''reservation'' (jd_reservation jd) @
      opt_arg ''account'' (jd_account jd) @ opt_arg ''job-name'' (jd_name jd) @
      opt_arg ''error'' (jd_standard_error jd) @ opt_arg ''output'' (jd_standard_output jd) @
      opt_arg ''input'' (jd_standard_input jd) @ opt_arg ''constraint'' (jd_constraints jd)"
  define script where "script =
      (case jd_script_path jd of Some p \<Rightarrow> if p = [] then [] else [''--'', shlex_quote p] | None \<Rightarrow> [])"
  have "opts \<noteq> []" by (simp add: opts_def)
  then have line: "join '' '' (sbatch_words env jd) = join '' '' (opts @ script)"
    using join_snoc_space [of opts "''--''"]
    by (auto simp: sbatch_words_def opts_def script_def Let_def split: option.split)
  let ?env = "join '','' (map (\<lambda>(k, v). k @ ''='' @ v) env)"
  have "sh_piece (''--export='' @ shlex_quote (''ALL,'' @ ?env)) (''--export='' @ ''ALL,'' @ ?env)"
    "sh_piece (''--chdir='' @ shlex_quote c) (''--chdir='' @ c)" for c
    by (rule sh_piece_option, simp add: sh_eval)+
  moreover have "sh_piece ''sbatch'' ''sbatch''" by (rule sh_piece_safe) (simp_all add: sh_eval)
  ultimately have words: "list_all2 sh_piece
      [''sbatch'', ''--export='' @ shlex_quote (''ALL,'' @ ?env), ''--chdir='' @ shlex_quote c]
      [''sbatch'', ''--export=ALL,'' @ ?env, ''--chdir='' @ c]" for c by simp
  have "sh_piece ''--'' ''--''" by (rule sh_piece_safe) (simp_all add: sh_eval)
  then have script: "list_all2 sh_piece script
      (case jd_script_path jd of Some p \<Rightarrow> if p = [] then [] else [''--'', p] | None \<Rightarrow> [])"
    by (simp add: script_def sh_piece_quote split: option.split)
  have "list_all2 sh_piece (opts @ script) (sbatch_argv env jd)"
    unfolding opts_def sbatch_argv_def append_assoc
    by (intro list_all2_appendI words script sh_pieces_opt_arg) (simp_all add: sh_eval)
  then show ?thesis using EnvDict
    by (simp add: sbatch_get_command_def env_items_def line sh_tokens_join)
next
  case (EnvList es)
  then show ?thesis by (simp add: sbatch_get_command_def env_items_def)
qed

end
