(* ===== verification/SshCalls.thy ===== *)
theory SshCalls
  imports Prelude
begin

section \<open>Commands run through a user's connection\<close>

text \<open>
  What the clients of a system do with the connection pool:
  \<open>async with ssh_client.get_client(username, token) as client: await client.execute(command, stdin)\<close>.
  The pool and the connection are modelled in \<open>SshPool\<close>; here they are the parameter \<open>ssh\<close>: user
  name, token, command line and standard input give the process's output, error output and exit
  status, or an exception.  \<open>execute\<close> then has the command parse them.
\<close>

type_synonym 'w ssh = "string \<Rightarrow> string \<Rightarrow> string \<Rightarrow> string option \<Rightarrow> ('w, string \<times> string \<times> int) io"

definition executed_ssh_cmd ::
  "'w ssh \<Rightarrow> string \<Rightarrow> string \<Rightarrow> string \<Rightarrow> (string \<Rightarrow> string \<Rightarrow> int \<Rightarrow> 'r res) \<Rightarrow> string option
   \<Rightarrow> ('w, 'r) io" where
  "executed_ssh_cmd ssh username jwt_token command parse_output stdin =
     io_bind (ssh username jwt_token command stdin)
       (\<lambda>(stdout, stderr, exit_status). io_lift (parse_output stdout stderr exit_status))"

lemma executed_ssh_cmd_cases:
  "executed_ssh_cmd ssh username jwt_token command parse stdin w =
     (case ssh username jwt_token command stdin w of
        (Inl e, w') \<Rightarrow> (Inl e, w')
      | (Inr (stdout, stderr, exit_status), w') \<Rightarrow> (parse stdout stderr exit_status, w'))"
  by (simp add: executed_ssh_cmd_def io_simps split: prod.splits sum.splits)

end
