(* ===== verification/SlurmClients.thy ===== *)
theory SlurmClients
  imports SlurmCommands SshCalls Config
begin

section \<open>The Slurm clients\<close>

text \<open>
  \<open>lib/scheduler_clients/slurm/\<close>: the client over the command line tools
  (\<open>slurm_cli_client.py\<close>), the client over the REST API (\<open>slurm_rest_client.py\<close>) and the one
  that chooses between them (\<open>slurm_client.py\<close>).

  Running a command line through the user's SSH connection is the parameter \<open>ssh\<close>: user name,
  token, command line and standard input give the process's output and exit status, or an
  exception.  An HTTP request is the parameter \<open>http\<close>.  \<open>version_ge\<close> compares version texts
  (\<open>packaging.version\<close>), \<open>claims\<close> reads a token's claims (\<open>jose\<close>); either may raise.
\<close>

subsection \<open>Merging what two sources report\<close>

text \<open>
  The loop over the jobs of one source: an unknown job is added, a known one is replaced only by
  a report that it is pending.
\<close>

definition is_pending :: "Job \<Rightarrow> bool" where
  "is_pending j \<longleftrightarrow> js_state (job_status j) = ''PENDING''"

type_synonym jobs = "(string \<times> Job) list"

definition merge_job :: "Job \<Rightarrow> jobs \<Rightarrow> jobs" where
  "merge_job j jobs =
     (if job_job_id j \<notin> set (map fst jobs) \<or> is_pending j then dict_set (job_job_id j) j jobs else jobs)"

fun merge_validated :: "('a \<Rightarrow> Job res) \<Rightarrow> 'a list \<Rightarrow> jobs \<Rightarrow> jobs res" where
  "merge_validated validate [] jobs = Inr jobs"
| "merge_validated validate (x # xs) jobs =
     bind_res (validate x) (\<lambda>j. merge_validated validate xs (merge_job j jobs))"

definition slurm_command_error :: "exc \<Rightarrow> 'a res" where
  "slurm_command_error e = Inl (Exc SlurmError ''Error executing Slurm command.'' [] (Some e))"

fun merge_cli_results ::
  "(json \<Rightarrow> int res) \<Rightarrow> kwargs list option res list \<Rightarrow> jobs \<Rightarrow> jobs res" where
  "merge_cli_results pint [] jobs = Inr jobs"
| "merge_cli_results pint (r # rs) jobs =
     (case r of
        Inl e \<Rightarrow> slurm_command_error e
      | Inr None \<Rightarrow> merge_cli_results pint rs jobs
      | Inr (Some result) \<Rightarrow>
          bind_res (merge_validated (slurm_job_init pint) result jobs) (merge_cli_results pint rs))"

subsection \<open>The client over the command line\<close>

definition cli_submit_job ::
  "'w ssh \<Rightarrow> JobDescription \<Rightarrow> string \<Rightarrow> string \<Rightarrow> ('w, string option) io" where
  "cli_submit_job ssh job_description username jwt_token =
     io_bind (io_lift (sbatch_get_command job_description)) (\<lambda>command.
       executed_ssh_cmd ssh username jwt_token command (sbatch_parse_output job_description)
         (jd_script job_description))"

definition cli_attach_command ::
  "'w ssh \<Rightarrow> string \<Rightarrow> string \<Rightarrow> string \<Rightarrow> string \<Rightarrow> ('w, unit option) io" where
  "cli_attach_command ssh command job_id username jwt_token =
     (let srun = \<lparr>sr_job_id = Some job_id, sr_overlap = True, sr_command = command\<rparr> in
      executed_ssh_cmd ssh username jwt_token (srun_get_command srun) (srun_parse_output srun) None)"

definition cli_sacct :: "'w ssh \<Rightarrow> string \<Rightarrow> string \<Rightarrow> sacct_command \<Rightarrow> ('w, kwargs list option) io" where
  "cli_sacct ssh username jwt_token c =
     executed_ssh_cmd ssh username jwt_token (sacct_get_command c) (sacct_parse_output c) None"

definition cli_squeue :: "'w ssh \<Rightarrow> string \<Rightarrow> string \<Rightarrow> squeue_command \<Rightarrow> ('w, kwargs list option) io" where
  "cli_squeue ssh username jwt_token c =
     executed_ssh_cmd ssh username jwt_token (squeue_get_command c) (squeue_parse_output c) None"

definition gathered :: "('w, 'a) io list \<Rightarrow> ('a res list \<Rightarrow> 'b res) \<Rightarrow> ('w, 'b) io" where
  "gathered commands k = (\<lambda>w. case io_gather commands w of (results, w') \<Rightarrow> (k results, w'))"

definition sacct_for_job :: "string list option \<Rightarrow> bool \<Rightarrow> sacct_command" where
  "sacct_for_job job_ids allusers =
     \<lparr>sa_job_ids = job_ids, sa_allusers = allusers, sa_account = None, sa_name = None,
      sa_time_window = LAST_24_HOURS\<rparr>"

definition cli_get_job ::
  "(json \<Rightarrow> int res) \<Rightarrow> 'w ssh \<Rightarrow> string \<Rightarrow> string \<Rightarrow> string \<Rightarrow> bool \<Rightarrow> ('w, Job list option) io" where
  "cli_get_job pint ssh job_id username jwt_token allusers =
     gathered
       [cli_sacct ssh username jwt_token (sacct_for_job (Some [job_id]) allusers),
        cli_squeue ssh username jwt_token
          \<lparr>sq_username = username, sq_job_ids = Some [job_id], sq_allusers = allusers,
           sq_account = None, sq_name = None\<rparr>]
       (\<lambda>results. bind_res (merge_cli_results pint results []) (\<lambda>jobs.
          Inr (option_none_if_empty (map snd jobs))))"

definition cli_get_jobs ::
  "(json \<Rightarrow> int res) \<Rightarrow> 'w ssh \<Rightarrow> string \<Rightarrow> string \<Rightarrow> bool \<Rightarrow> string option \<Rightarrow> string option
   \<Rightarrow> JobsTimeWindow \<Rightarrow> ('w, Job list) io" where
  "cli_get_jobs pint ssh username jwt_token allusers account name time_window =
     gathered
       [cli_sacct ssh username jwt_token
          \<lparr>sa_job_ids = None, sa_allusers = allusers, sa_account = account, sa_name = name,
           sa_time_window = time_window\<rparr>,
        cli_squeue ssh username jwt_token
          \<lparr>sq_username = username, sq_job_ids = None, sq_allusers = allusers,
           sq_account = account, sq_name = name\<rparr>]
       (\<lambda>results. bind_res (merge_cli_results pint results []) (\<lambda>jobs. Inr (map snd jobs)))"

text \<open>
  \<open>get_job_metadata\<close>.  What it returns when the chosen command failed is the exception itself, as
  a value.  \<open>len\<close> of a result that is no list is a \<open>TypeError\<close>.
\<close>

datatype metadata_reply = MetadataJobs "JobMetadata list" | MetadataExc exc

definition result_list :: "'a list option res \<Rightarrow> 'a list res" where
  "result_list r = (case r of Inr (Some xs) \<Rightarrow> Inr xs | _ \<Rightarrow> raise TypeError [])"

text \<open>The loop over the indices: a job whose script is missing is skipped.\<close>

definition join_metadata :: "kwargs list \<Rightarrow> kwargs list option res \<Rightarrow> JobMetadata list res" where
  "join_metadata infos scripts =
     (if infos = [] then Inr []
      else bind_res (result_list scripts) (\<lambda>ss.
             traverse (\<lambda>(info, script). slurm_metadata_init (dict_update info script)) (zip infos ss)))"

definition metadata_of_results :: "kwargs list option res list \<Rightarrow> metadata_reply option res" where
  "metadata_of_results results =
     (let is_list = (case results ! 0 of Inr (Some _) \<Rightarrow> True | _ \<Rightarrow> False);
          cmd_result_i = (if \<not> is_list \<and> length results = 4 then 2 else 0)
      in case results ! cmd_result_i of
           Inr None \<Rightarrow> Inr None
         | Inl e \<Rightarrow> Inr (Some (MetadataExc e))
         | Inr (Some infos) \<Rightarrow>
             map_res (\<lambda>ms. Some (MetadataJobs ms)) (join_metadata infos (results ! Suc cmd_result_i)))"

definition job_id_or_none :: "string \<Rightarrow> string option" where
  "job_id_or_none job_id = (if job_id = [] then None else Some job_id)"

definition cli_get_job_metadata ::
  "(string \<Rightarrow> string \<Rightarrow> bool res) \<Rightarrow> 'w ssh \<Rightarrow> string \<Rightarrow> string \<Rightarrow> string \<Rightarrow> string
   \<Rightarrow> ('w, metadata_reply option) io" where
  "cli_get_job_metadata version_ge ssh slurm_version job_id username jwt_token =
     (let i = job_id_or_none job_id;
          sa = sacct_for_job (map_option (\<lambda>j. [j]) i) False;
          run = executed_ssh_cmd ssh username jwt_token
      in io_bind (io_lift (version_ge slurm_version ''24.05.0'')) (\<lambda>recent.
         gathered
           ([run (scontrol_job_get_command i) (scontrol_job_parse_output i) None,
             run (scontrol_batch_script_get_command i) (scontrol_batch_script_parse_output i) None] @
            (if recent then
               [run (sacct_job_metadata_get_command sa) (sacct_job_metadata_parse_output sa) None,
                run (sacct_batch_script_get_command sa) (sacct_batch_script_parse_output sa) None]
             else []))
           metadata_of_results))"

definition cli_cancel_job :: "'w ssh \<Rightarrow> string \<Rightarrow> string \<Rightarrow> string \<Rightarrow> ('w, bool option) io" where
  "cli_cancel_job ssh job_id username jwt_token =
     executed_ssh_cmd ssh username jwt_token (scancel_get_command job_id) (scancel_parse_output job_id) None"

definition cli_get_nodes :: "'w ssh \<Rightarrow> string \<Rightarrow> string \<Rightarrow> ('w, kwargs list option) io" where
  "cli_get_nodes ssh username jwt_token =
     executed_ssh_cmd ssh username jwt_token sinfo_get_command (sinfo_parse_output ()) None"

text \<open>\<open>if result: result = [Model.model_validate(r) for r in result]\<close>.\<close>

definition validate_all :: "('a \<Rightarrow> 'b res) \<Rightarrow> 'a list option \<Rightarrow> 'b list option res" where
  "validate_all validate result =
     (case result of None \<Rightarrow> Inr None | Some xs \<Rightarrow> map_res Some (traverse validate xs))"

definition cli_get_reservations ::
  "(json \<Rightarrow> int res) \<Rightarrow> local_calendar \<Rightarrow> int \<Rightarrow> 'w ssh \<Rightarrow> string \<Rightarrow> string
   \<Rightarrow> ('w, Reservation list option) io" where
  "cli_get_reservations pint cal now ssh username jwt_token =
     io_bind (executed_ssh_cmd ssh username jwt_token scontrol_reservations_get_command
                (scontrol_reservations_parse_output cal) None)
       (\<lambda>result. io_lift (validate_all (slurm_reservation_init pint now) result))"

definition cli_get_partitions ::
  "(json \<Rightarrow> int res) \<Rightarrow> 'w ssh \<Rightarrow> bool \<Rightarrow> string \<Rightarrow> string \<Rightarrow> ('w, Partition list option) io" where
  "cli_get_partitions pint ssh show_hidden username jwt_token =
     io_bind (executed_ssh_cmd ssh username jwt_token (scontrol_partitions_get_command show_hidden)
                (scontrol_partitions_parse_output show_hidden) None)
       (\<lambda>result. io_lift (validate_all (slurm_partition_init pint) result))"

text \<open>The default account only marks an account; without it no account is marked.\<close>

definition accounts_of :: "string list option \<Rightarrow> string option res \<Rightarrow> Accounts list option" where
  "accounts_of accounts_result default_account_result =
     (let default_account = (case default_account_result of Inl _ \<Rightarrow> None | Inr d \<Rightarrow> d);
          names = (case accounts_result of None \<Rightarrow> [] | Some ns \<Rightarrow> ns)
      in option_none_if_empty
           (map (\<lambda>n. \<lparr>acc_name = n, acc_default = (Some n = default_account)\<rparr>) names))"

definition cli_get_accounts :: "'w ssh \<Rightarrow> string \<Rightarrow> string \<Rightarrow> ('w, Accounts list option) io" where
  "cli_get_accounts ssh username jwt_token = (\<lambda>w.
     case executed_ssh_cmd ssh username jwt_token (sacctmgr_accounts_get_command username)
            (sacctmgr_accounts_parse_output username) None w of
       (accounts_result, w1) \<Rightarrow>
     (case executed_ssh_cmd ssh username jwt_token (sacctmgr_default_account_get_command username)
             (sacctmgr_default_account_parse_output username) None w1 of
        (default_account_result, w2) \<Rightarrow>
          (case accounts_result of
             Inl e \<Rightarrow> slurm_command_error e
           | Inr a \<Rightarrow> Inr (accounts_of a default_account_result), w2)))"

definition cli_ping :: "'w ssh \<Rightarrow> string \<Rightarrow> string \<Rightarrow> ('w, kwargs list option) io" where
  "cli_ping ssh username jwt_token =
     executed_ssh_cmd ssh username jwt_token scontrol_ping_get_command (scontrol_ping_parse_output ()) None"

subsection \<open>The client over the REST API\<close>

record rest_client =
  rc_api_url :: string
  rc_api_version :: string
  rc_timeout :: int
  rc_username_claim :: string

record http_reply =
  hr_status :: nat
  hr_text :: string
  hr_json :: "json res"

text \<open>A request: method, URL, headers, JSON body and the total timeout.\<close>

type_synonym 'w http =
  "string \<Rightarrow> string \<Rightarrow> (string \<times> string) list \<Rightarrow> json option \<Rightarrow> int \<Rightarrow> ('w, http_reply) io"

definition slurm_headers ::
  "(string \<Rightarrow> kwargs res) \<Rightarrow> string \<Rightarrow> string \<Rightarrow> string \<Rightarrow> (string \<times> string) list res" where
  "slurm_headers claims username jwt_token username_claim =
     bind_res (claims jwt_token) (\<lambda>token_claims.
       if \<not> jhas token_claims username_claim
       then raise SlurmAuthTokenError
              (''Claim '' @ [squote] @ username_claim @ [squote] @ '' is missing in auth token.'')
       else Inr [(''Content-Type'', ''application/json''), (''X-SLURM-USER-NAME'', username),
                 (''X-SLURM-USER-TOKEN'', jwt_token)])"

definition slurm_unexpected_response :: "http_reply \<Rightarrow> 'a res" where
  "slurm_unexpected_response response =
     raise SlurmError (''Unexpected Slurm API response. status:'' @ show_nat (hr_status response) @
       '' message:'' @ hr_text response)"

definition reply_json :: "http_reply \<Rightarrow> json res" where
  "reply_json response =
     (if hr_status response \<noteq> 200 then slurm_unexpected_response response else hr_json response)"

text \<open>\<open>now\<close> is the clock in seconds.\<close>

definition time_window_start_time ::
  "(string \<Rightarrow> string \<Rightarrow> bool res) \<Rightarrow> int \<Rightarrow> JobsTimeWindow \<Rightarrow> string \<Rightarrow> string res" where
  "time_window_start_time version_ge now time_window api_version =
     (case TIME_WINDOW_DURATIONS time_window of (amount, unit) \<Rightarrow>
        map_res (\<lambda>b. if b then show_int (now - timedelta_seconds (amount, unit))
                     else ''now-'' @ show_nat amount @ unit)
          (version_ge api_version ''0.0.40''))"

text \<open>\<open>urllib.parse.urlencode\<close>; texts are encoded in UTF-8.\<close>

definition utf8 :: "char \<Rightarrow> nat list" where
  "utf8 c = (if code c < 128 then [code c] else [192 + code c div 64, 128 + code c mod 64])"

definition hex_upper :: "nat \<Rightarrow> char" where
  "hex_upper d = ''0123456789ABCDEF'' ! d"

definition percent :: "nat \<Rightarrow> string" where
  "percent b = [CHR ''%'', hex_upper (b div 16), hex_upper (b mod 16)]"

definition quote_plus :: "string \<Rightarrow> string" where
  "quote_plus s = concat (map (\<lambda>c.
     if is_ascii_word c \<or> c \<in> set ''.-~'' then [c]
     else if c = CHR '' '' then ''+'' else concat (map percent (utf8 c))) s)"

definition urlencode :: "(string \<times> string) list \<Rightarrow> string" where
  "urlencode q = join ''&'' (map (\<lambda>(k, v). quote_plus k @ ''='' @ quote_plus v) q)"

text \<open>\<open>job_description.model_dump(exclude_none=True)\<close>.\<close>

definition environment_json :: "job_environment \<Rightarrow> json" where
  "environment_json e =
     (case e of EnvDict d \<Rightarrow> JObj (map (\<lambda>(k, v). (k, JStr v)) d) | EnvList l \<Rightarrow> JList (map JStr l))"

definition job_dump :: "JobDescription \<Rightarrow> kwargs" where
  "job_dump jd =
     filter (\<lambda>(k, v). v \<noteq> JNull)
       [(''name'', j_str_opt (jd_name jd)), (''account'', j_str_opt (jd_account jd)),
        (''reservation'', j_str_opt (jd_reservation jd)), (''partition'', j_str_opt (jd_partition jd)),
        (''current_working_directory'', JStr (jd_current_working_directory jd)),
        (''standard_input'', j_str_opt (jd_standard_input jd)),
        (''standard_output'', j_str_opt (jd_standard_output jd)),
        (''standard_error'', j_str_opt (jd_standard_error jd)),
        (''environment'', environment_json (jd_environment jd)),
        (''constraints'', j_str_opt (jd_constraints jd)),
        (''script'', j_str_opt (jd_script jd)), (''script_path'', j_str_opt (jd_script_path jd))]"

definition list_environment :: "job_environment \<Rightarrow> job_environment" where
  "list_environment e =
     (case e of
        EnvDict d \<Rightarrow> EnvList (map (\<lambda>(k, v). if v \<noteq> [] then k @ ''='' @ v else k) d)
      | EnvList l \<Rightarrow> EnvList l)"

definition submit_body ::
  "(string \<Rightarrow> string \<Rightarrow> bool res) \<Rightarrow> string \<Rightarrow> JobDescription \<Rightarrow> json res" where
  "submit_body version_ge api_version jd =
     bind_res (version_ge api_version ''0.0.39'') (\<lambda>list_env.
     bind_res (version_ge api_version ''0.0.41'') (\<lambda>script_inside.
       let jd = (if list_env then jd\<lparr>jd_environment := list_environment (jd_environment jd)\<rparr> else jd)
       in Inr (if script_inside then JObj [(''job'', JObj (job_dump jd))]
               else JObj [(''job'', JObj (filter (\<lambda>(k, v). k \<noteq> ''script'') (job_dump jd))),
                          (''script'', j_str_opt (jd_script jd))])))"

definition rest_request ::
  "(string \<Rightarrow> kwargs res) \<Rightarrow> 'w http \<Rightarrow> rest_client \<Rightarrow> string \<Rightarrow> string \<Rightarrow> string \<Rightarrow> string
   \<Rightarrow> json option \<Rightarrow> ('w, http_reply) io" where
  "rest_request claims http c username jwt_token meth url data =
     io_bind (io_lift (slurm_headers claims username jwt_token (rc_username_claim c))) (\<lambda>headers.
       http meth url headers data (rc_timeout c))"

definition rest_url :: "rest_client \<Rightarrow> string \<Rightarrow> string \<Rightarrow> string" where
  "rest_url c service path = rc_api_url c @ ''/'' @ service @ ''/v'' @ rc_api_version c @ path"

fun json_id :: "json \<Rightarrow> string option" where
  "json_id JNull = None"
| "json_id v = Some (json_str v)"

definition rest_submit_job ::
  "(string \<Rightarrow> kwargs res) \<Rightarrow> (string \<Rightarrow> string \<Rightarrow> bool res) \<Rightarrow> 'w http \<Rightarrow> rest_client
   \<Rightarrow> JobDescription \<Rightarrow> string \<Rightarrow> string \<Rightarrow> ('w, string option) io" where
  "rest_submit_job claims version_ge http c jd username jwt_token =
     io_bind (io_lift (slurm_headers claims username jwt_token (rc_username_claim c))) (\<lambda>headers.
     io_bind (io_lift (submit_body version_ge (rc_api_version c) jd)) (\<lambda>post_data.
     io_bind (http ''POST'' (rest_url c ''slurm'' ''/job/submit'') headers (Some post_data) (rc_timeout c))
       (\<lambda>response. io_lift
          (bind_res (reply_json response) (\<lambda>result.
           bind_res (jitems result) (\<lambda>d. Inr (json_id (jget d ''job_id''))))))))"

definition rest_attach_command :: "string \<Rightarrow> string \<Rightarrow> string \<Rightarrow> string \<Rightarrow> ('w, unit option) io" where
  "rest_attach_command command job_id username jwt_token = io_return None"

text \<open>
  The jobs of one reply.  \<open>get_job\<close> reads the condition of its filter as Python parses it: the
  \<open>or\<close> belongs to the branch for jobs that have a \<open>user\<close>.
\<close>

definition owned_by :: "bool \<Rightarrow> string \<Rightarrow> json \<Rightarrow> bool res" where
  "owned_by allusers username job =
     bind_res (jin ''user'' job) (\<lambda>b.
       if b then
         (if allusers then Inr True
          else map_res (\<lambda>u. u = JStr username) (jindex job ''user''))
       else map_res (\<lambda>u. u = JStr username) (jindex job ''user_name''))"

definition matches :: "bool \<Rightarrow> string \<Rightarrow> string option \<Rightarrow> json \<Rightarrow> bool res" where
  "matches allusers username name job =
     bind_res (jitems job) (\<lambda>d.
       let job_user = jor (jget d ''user'') (jget d ''user_name'') in
       Inr ((allusers \<or> job_user = JStr username) \<and>
            (case name of None \<Rightarrow> True | Some n \<Rightarrow> n = [] \<or> jget d ''name'' = JStr n)))"

fun filter_res :: "('a \<Rightarrow> bool res) \<Rightarrow> 'a list \<Rightarrow> 'a list res" where
  "filter_res p [] = Inr []"
| "filter_res p (x # xs) =
     bind_res (p x) (\<lambda>b. map_res (\<lambda>ys. if b then x # ys else ys) (filter_res p xs))"

text \<open>\<open>job_obj.time.limit *= 60\<close>: the API counts the limit in minutes.\<close>

definition limit_to_seconds :: "Job \<Rightarrow> Job" where
  "limit_to_seconds j = j\<lparr>job_time := (job_time j)\<lparr>jt_limit := map_option (\<lambda>l. l * 60) (jt_limit (job_time j))\<rparr>\<rparr>"

definition rest_job :: "(json \<Rightarrow> int res) \<Rightarrow> json \<Rightarrow> Job res" where
  "rest_job pint v =
     (case v of JObj d \<Rightarrow> map_res limit_to_seconds (slurm_job_init pint d) | _ \<Rightarrow> raise ValueError [])"

definition merge_reply ::
  "(json \<Rightarrow> int res) \<Rightarrow> (json \<Rightarrow> bool res) \<Rightarrow> json \<Rightarrow> jobs \<Rightarrow> jobs res" where
  "merge_reply pint keep result jobs =
     (if \<not> jtruthy result then Inr jobs
      else bind_res (jin ''jobs'' result) (\<lambda>b.
        if \<not> b then Inr jobs
        else bind_res (jindex result ''jobs'') (\<lambda>js.
             bind_res (jelems js) (\<lambda>xs.
             bind_res (filter_res keep xs) (\<lambda>filtered_jobs.
               merge_validated (rest_job pint) filtered_jobs jobs)))))"

fun merge_replies ::
  "(json \<Rightarrow> int res) \<Rightarrow> (json \<Rightarrow> bool res) \<Rightarrow> (exc \<Rightarrow> exc) \<Rightarrow> json option res list \<Rightarrow> jobs
   \<Rightarrow> jobs res" where
  "merge_replies pint keep on_error [] jobs = Inr jobs"
| "merge_replies pint keep on_error (r # rs) jobs =
     (case r of
        Inl e \<Rightarrow> Inl (on_error e)
      | Inr None \<Rightarrow> merge_replies pint keep on_error rs jobs
      | Inr (Some result) \<Rightarrow>
          bind_res (merge_reply pint keep result jobs) (merge_replies pint keep on_error rs))"

definition fetch_jobs :: "bool \<Rightarrow> http_reply \<Rightarrow> json option res" where
  "fetch_jobs may_miss response =
     (if may_miss \<and> hr_status response = 404 then Inr None else map_res Some (reply_json response))"

definition rest_get_job ::
  "(json \<Rightarrow> int res) \<Rightarrow> (string \<Rightarrow> kwargs res) \<Rightarrow> 'w http \<Rightarrow> rest_client
   \<Rightarrow> string \<Rightarrow> string \<Rightarrow> string \<Rightarrow> bool \<Rightarrow> ('w, Job list option) io" where
  "rest_get_job pint claims http c job_id username jwt_token allusers =
     io_bind (io_lift (slurm_headers claims username jwt_token (rc_username_claim c))) (\<lambda>headers.
       let fetch = (\<lambda>url. io_bind (http ''GET'' url headers None (rc_timeout c))
                      (\<lambda>response. io_lift (fetch_jobs True response)))
       in gathered [fetch (rest_url c ''slurmdb'' (''/job/'' @ job_id)),
                    fetch (rest_url c ''slurm'' (''/job/'' @ job_id))]
            (\<lambda>results.
               bind_res (merge_replies pint (owned_by allusers username) id results []) (\<lambda>jobs.
                 Inr (option_none_if_empty (map snd jobs)))))"

definition fetching_error :: "exc \<Rightarrow> exc" where
  "fetching_error e = Exc SlurmError ''Error fetching Slurm API data.'' [] (Some e)"

definition rest_get_jobs ::
  "(json \<Rightarrow> int res) \<Rightarrow> (string \<Rightarrow> kwargs res) \<Rightarrow> (string \<Rightarrow> string \<Rightarrow> bool res) \<Rightarrow> int \<Rightarrow> 'w http
   \<Rightarrow> rest_client \<Rightarrow> string \<Rightarrow> string \<Rightarrow> bool \<Rightarrow> string option \<Rightarrow> string option \<Rightarrow> JobsTimeWindow
   \<Rightarrow> ('w, Job list) io" where
  "rest_get_jobs pint claims version_ge now http c username jwt_token allusers account name time_window =
     io_bind (io_lift (slurm_headers claims username jwt_token (rc_username_claim c))) (\<lambda>headers.
     io_bind (io_lift (time_window_start_time version_ge now time_window (rc_api_version c))) (\<lambda>start.
       let query_params = (case account of None \<Rightarrow> [] | Some a \<Rightarrow> if a = [] then [] else [(''account'', a)]);
           query_string = (if query_params = [] then [] else ''?'' @ urlencode query_params);
           slurmdb_query_string = ''?'' @ urlencode (query_params @ [(''start_time'', start)]);
           fetch = (\<lambda>url. io_bind (http ''GET'' url headers None (rc_timeout c))
                     (\<lambda>response. io_lift (fetch_jobs False response)))
       in gathered [fetch (rest_url c ''slurmdb'' (''/jobs'' @ slurmdb_query_string)),
                    fetch (rest_url c ''slurm'' (''/jobs'' @ query_string))]
            (\<lambda>results.
               bind_res (merge_replies pint (matches allusers username name) fetching_error results [])
                 (\<lambda>jobs. Inr (map snd jobs)))))"

definition rest_get_job_metadata :: "string \<Rightarrow> string \<Rightarrow> string \<Rightarrow> ('w, metadata_reply option) io" where
  "rest_get_job_metadata job_id username jwt_token =
     io_raise NotImplementedError ''This method is not supported by the Slurm REST API''"

definition rest_cancel_job ::
  "(string \<Rightarrow> kwargs res) \<Rightarrow> 'w http \<Rightarrow> rest_client \<Rightarrow> string \<Rightarrow> string \<Rightarrow> string \<Rightarrow> ('w, bool option) io" where
  "rest_cancel_job claims http c job_id username jwt_token =
     io_bind (rest_request claims http c username jwt_token ''DELETE''
                (rest_url c ''slurm'' (''/job/'' @ job_id)) None)
       (\<lambda>response. io_lift (if hr_status response = 200 then Inr (Some True)
                            else slurm_unexpected_response response))"

text \<open>\<open>reply[key]\<close>, a list.\<close>

definition reply_list :: "string \<Rightarrow> http_reply \<Rightarrow> json list res" where
  "reply_list key response =
     bind_res (reply_json response) (\<lambda>result. bind_res (jindex result key) jelems)"

definition validate_json :: "(kwargs \<Rightarrow> 'a res) \<Rightarrow> json \<Rightarrow> 'a res" where
  "validate_json validate v = (case v of JObj d \<Rightarrow> validate d | _ \<Rightarrow> raise ValueError [])"

definition rest_get_nodes ::
  "(string \<Rightarrow> kwargs res) \<Rightarrow> 'w http \<Rightarrow> rest_client \<Rightarrow> string \<Rightarrow> string \<Rightarrow> ('w, json list option) io" where
  "rest_get_nodes claims http c username jwt_token =
     io_bind (rest_request claims http c username jwt_token ''GET'' (rest_url c ''slurm'' ''/nodes'') None)
       (\<lambda>response. io_lift (map_res option_none_if_empty (reply_list ''nodes'' response)))"

definition rest_get_reservations ::
  "(json \<Rightarrow> int res) \<Rightarrow> int \<Rightarrow> (string \<Rightarrow> kwargs res) \<Rightarrow> 'w http \<Rightarrow> rest_client \<Rightarrow> string \<Rightarrow> string
   \<Rightarrow> ('w, Reservation list) io" where
  "rest_get_reservations pint now claims http c username jwt_token =
     io_bind (rest_request claims http c username jwt_token ''GET'' (rest_url c ''slurm'' ''/reservations'') None)
       (\<lambda>response. io_lift (bind_res (reply_list ''reservations'' response)
          (traverse (validate_json (slurm_reservation_init pint now)))))"

definition rest_get_partitions ::
  "(json \<Rightarrow> int res) \<Rightarrow> (string \<Rightarrow> kwargs res) \<Rightarrow> 'w http \<Rightarrow> rest_client \<Rightarrow> bool \<Rightarrow> string \<Rightarrow> string
   \<Rightarrow> ('w, Partition list) io" where
  "rest_get_partitions pint claims http c show_hidden username jwt_token =
     io_bind (rest_request claims http c username jwt_token ''GET''
                (rest_url c ''slurm'' ''/partitions'' @ (if show_hidden then ''?flags=all'' else [])) None)
       (\<lambda>response. io_lift (bind_res (reply_list ''partitions'' response)
          (traverse (validate_json (slurm_partition_init pint)))))"

definition association_account :: "json \<Rightarrow> Accounts res" where
  "association_account association =
     bind_res (jindex association ''account'') (\<lambda>a.
     bind_res (jindex association ''is_default'') (\<lambda>d.
       case a of JStr n \<Rightarrow> Inr \<lparr>acc_name = n, acc_default = jtruthy d\<rparr> | _ \<Rightarrow> raise ValueError []))"

definition rest_get_accounts ::
  "(string \<Rightarrow> kwargs res) \<Rightarrow> 'w http \<Rightarrow> rest_client \<Rightarrow> string \<Rightarrow> string \<Rightarrow> ('w, Accounts list option) io" where
  "rest_get_accounts claims http c username jwt_token =
     io_bind (rest_request claims http c username jwt_token ''GET''
                (rest_url c ''slurmdb'' (''/associations?'' @ urlencode [(''user'', username)])) None)
       (\<lambda>response. io_lift
          (bind_res (reply_json response) (\<lambda>result.
           bind_res (jin ''associations'' result) (\<lambda>b.
             if b then
               map_res option_none_if_empty
                 (bind_res (bind_res (jindex result ''associations'') jelems) (traverse association_account))
             else Inr None))))"

definition rest_ping ::
  "(string \<Rightarrow> kwargs res) \<Rightarrow> 'w http \<Rightarrow> rest_client \<Rightarrow> string \<Rightarrow> string \<Rightarrow> ('w, json list) io" where
  "rest_ping claims http c username jwt_token =
     io_bind (rest_request claims http c username jwt_token ''GET'' (rest_url c ''slurm'' ''/ping'') None)
       (\<lambda>response. io_lift (reply_list ''pings'' response))"

subsection \<open>The client that chooses\<close>

text \<open>
  \<open>SlurmClient\<close>: the command line client exists when there is an SSH connection pool; the default
  is the REST client unless the connection mode is \<open>ssh\<close>.  The external functions are bundled in
  \<open>externals\<close>.  Calling a method of the missing default client is an \<open>AttributeError\<close>.
\<close>

record 'w externals =
  ext_pint :: "json \<Rightarrow> int res"
  ext_pfloat :: "json \<Rightarrow> rat res"
  ext_claims :: "string \<Rightarrow> kwargs res"
  ext_version_ge :: "string \<Rightarrow> string \<Rightarrow> bool res"
  ext_calendar :: local_calendar
  ext_now :: int
  ext_http :: "'w http"

record 'w slurm_client =
  sl_ssh :: "'w ssh option"
  sl_version :: string
  sl_rest :: rest_client
  sl_mode :: "SchedulerConnectionMode option"

definition on_default ::
  "'w slurm_client \<Rightarrow> ('w ssh \<Rightarrow> ('w, 'a) io) \<Rightarrow> (rest_client \<Rightarrow> ('w, 'a) io) \<Rightarrow> ('w, 'a) io" where
  "on_default c via_cli via_rest =
     (if sl_mode c \<noteq> Some ModeSsh then via_rest (sl_rest c)
      else (case sl_ssh c of Some ssh \<Rightarrow> via_cli ssh | None \<Rightarrow> io_raise AttributeError []))"

definition needs_ssh :: "'w slurm_client \<Rightarrow> ('w ssh \<Rightarrow> ('w, 'a) io) \<Rightarrow> ('w, 'a) io" where
  "needs_ssh c via_cli =
     (case sl_ssh c of Some ssh \<Rightarrow> via_cli ssh
      | None \<Rightarrow> io_raise (HTTPException 501)
          ''Scheduler can't handle this request when configured to use rest connection mode'')"

definition slurm_submit_job ::
  "'w externals \<Rightarrow> 'w slurm_client \<Rightarrow> JobDescription \<Rightarrow> string \<Rightarrow> string \<Rightarrow> ('w, string option) io" where
  "slurm_submit_job x c jd username jwt_token =
     (if truthy (jd_script_path jd)
      then needs_ssh c (\<lambda>ssh. cli_submit_job ssh jd username jwt_token)
      else on_default c (\<lambda>ssh. cli_submit_job ssh jd username jwt_token)
             (\<lambda>r. rest_submit_job (ext_claims x) (ext_version_ge x) (ext_http x) r jd username jwt_token))"

definition slurm_attach_command ::
  "'w slurm_client \<Rightarrow> string \<Rightarrow> string \<Rightarrow> string \<Rightarrow> string \<Rightarrow> ('w, unit option) io" where
  "slurm_attach_command c command job_id username jwt_token =
     on_default c (\<lambda>ssh. cli_attach_command ssh command job_id username jwt_token)
       (\<lambda>r. rest_attach_command command job_id username jwt_token)"

definition slurm_get_job ::
  "'w externals \<Rightarrow> 'w slurm_client \<Rightarrow> string \<Rightarrow> string \<Rightarrow> string \<Rightarrow> bool \<Rightarrow> ('w, Job list option) io" where
  "slurm_get_job x c job_id username jwt_token allusers =
     on_default c (\<lambda>ssh. cli_get_job (ext_pint x) ssh job_id username jwt_token allusers)
       (\<lambda>r. rest_get_job (ext_pint x) (ext_claims x) (ext_http x) r job_id username jwt_token allusers)"

definition slurm_get_jobs ::
  "'w externals \<Rightarrow> 'w slurm_client \<Rightarrow> string \<Rightarrow> string \<Rightarrow> bool \<Rightarrow> string option \<Rightarrow> string option
   \<Rightarrow> JobsTimeWindow \<Rightarrow> ('w, Job list) io" where
  "slurm_get_jobs x c username jwt_token allusers account name time_window =
     on_default c
       (\<lambda>ssh. cli_get_jobs (ext_pint x) ssh username jwt_token allusers account name time_window)
       (\<lambda>r. rest_get_jobs (ext_pint x) (ext_claims x) (ext_version_ge x) (ext_now x) (ext_http x) r
              username jwt_token allusers account name time_window)"

definition slurm_get_job_metadata ::
  "'w externals \<Rightarrow> 'w slurm_client \<Rightarrow> string \<Rightarrow> string \<Rightarrow> string \<Rightarrow> ('w, metadata_reply option) io" where
  "slurm_get_job_metadata x c job_id username jwt_token =
     needs_ssh c (\<lambda>ssh. cli_get_job_metadata (ext_version_ge x) ssh (sl_version c) job_id username jwt_token)"

definition slurm_get_nodes ::
  "'w externals \<Rightarrow> 'w slurm_client \<Rightarrow> string \<Rightarrow> string \<Rightarrow> ('w, Node list option) io" where
  "slurm_get_nodes x c username jwt_token =
     io_bind (on_default c
         (\<lambda>ssh. io_map (map_option (map JObj)) (cli_get_nodes ssh username jwt_token))
         (\<lambda>r. rest_get_nodes (ext_claims x) (ext_http x) r username jwt_token))
       (\<lambda>res. io_lift (validate_all (validate_json (slurm_node_init (ext_pint x) (ext_pfloat x))) res))"

definition slurm_get_reservations ::
  "'w externals \<Rightarrow> 'w slurm_client \<Rightarrow> string \<Rightarrow> string \<Rightarrow> ('w, Reservation list option) io" where
  "slurm_get_reservations x c username jwt_token =
     on_default c
       (\<lambda>ssh. cli_get_reservations (ext_pint x) (ext_calendar x) (ext_now x) ssh username jwt_token)
       (\<lambda>r. io_map Some
          (rest_get_reservations (ext_pint x) (ext_now x) (ext_claims x) (ext_http x) r username jwt_token))"

definition slurm_get_partitions ::
  "'w externals \<Rightarrow> 'w slurm_client \<Rightarrow> bool \<Rightarrow> string \<Rightarrow> string \<Rightarrow> ('w, Partition list option) io" where
  "slurm_get_partitions x c show_hidden username jwt_token =
     on_default c
       (\<lambda>ssh. cli_get_partitions (ext_pint x) ssh show_hidden username jwt_token)
       (\<lambda>r. io_map Some
          (rest_get_partitions (ext_pint x) (ext_claims x) (ext_http x) r show_hidden username jwt_token))"

definition slurm_cancel_job ::
  "'w externals \<Rightarrow> 'w slurm_client \<Rightarrow> string \<Rightarrow> string \<Rightarrow> string \<Rightarrow> ('w, bool option) io" where
  "slurm_cancel_job x c job_id username jwt_token =
     on_default c (\<lambda>ssh. cli_cancel_job ssh job_id username jwt_token)
       (\<lambda>r. rest_cancel_job (ext_claims x) (ext_http x) r job_id username jwt_token)"

definition slurm_get_accounts ::
  "'w externals \<Rightarrow> 'w slurm_client \<Rightarrow> string \<Rightarrow> string \<Rightarrow> ('w, Accounts list option) io" where
  "slurm_get_accounts x c username jwt_token =
     on_default c (\<lambda>ssh. cli_get_accounts ssh username jwt_token)
       (\<lambda>r. rest_get_accounts (ext_claims x) (ext_http x) r username jwt_token)"

definition slurm_ping ::
  "'w externals \<Rightarrow> 'w slurm_client \<Rightarrow> string \<Rightarrow> string \<Rightarrow> ('w, json list option) io" where
  "slurm_ping x c username jwt_token =
     on_default c (\<lambda>ssh. io_map (map_option (map JObj)) (cli_ping ssh username jwt_token))
       (\<lambda>r. io_map Some (rest_ping (ext_claims x) (ext_http x) r username jwt_token))"

subsection \<open>The abstract view of merging\<close>

text \<open>
  The specification: of the reports on one job the one shown is the first, unless a later one
  says that the job is pending, and then the last of these.  The jobs come in the order in which
  they were first reported.
\<close>

definition chosen :: "Job list \<Rightarrow> Job option" where
  "chosen rs =
     (case rs of [] \<Rightarrow> None
      | r # later \<Rightarrow> (let ps = filter is_pending later in Some (if ps = [] then r else last ps)))"

definition reports_on :: "string \<Rightarrow> Job list \<Rightarrow> Job list" where
  "reports_on i rs = filter (\<lambda>j. job_job_id j = i) rs"

fun first_seen :: "'a list \<Rightarrow> 'a list" where
  "first_seen [] = []"
| "first_seen (x # xs) = x # filter (\<lambda>y. y \<noteq> x) (first_seen xs)"

definition merge_all :: "Job list \<Rightarrow> jobs" where
  "merge_all rs = foldl (\<lambda>jobs j. merge_job j jobs) [] rs"

lemma merge_all_snoc: "merge_all (rs @ [j]) = merge_job j (merge_all rs)"
  by (simp add: merge_all_def)

lemma merge_validated_foldl:
  "merge_validated validate xs jobs =
     map_res (\<lambda>js. foldl (\<lambda>jobs j. merge_job j jobs) jobs js) (traverse validate xs)"
proof (induction xs arbitrary: jobs)
  case (Cons x xs)
  then show ?case by (cases "validate x"; cases "traverse validate xs") simp_all
qed simp

lemma first_seen_snoc: "first_seen (xs @ [x]) = (if x \<in> set xs then first_seen xs else first_seen xs @ [x])"
  by (induction xs) auto

lemma set_first_seen [simp]: "set (first_seen xs) = set xs"
  by (induction xs) auto

lemma keys_merge_job:
  "map fst (merge_job j d) = (if job_job_id j \<in> set (map fst d) then map fst d else map fst d @ [job_job_id j])"
  by (auto simp: merge_job_def keys_dict_set)

lemma keys_merge_all: "map fst (merge_all rs) = first_seen (map job_job_id rs)"
proof (induction rs rule: rev_induct)
  case Nil
  then show ?case by (simp add: merge_all_def)
next
  case (snoc j rs)
  then show ?case
    by (simp only: merge_all_snoc keys_merge_job snoc map_append list.map first_seen_snoc set_first_seen)
qed

lemma distinct_first_seen: "distinct (first_seen xs)"
  by (induction xs) auto

lemma chosen_single [simp]: "chosen [] = None" "chosen [j] = Some j"
  by (simp_all add: chosen_def)

lemma chosen_snoc:
  "chosen (rs @ [j]) = (if rs = [] \<or> is_pending j then Some j else chosen rs)"
  by (cases rs) (auto simp: chosen_def Let_def)

lemma reports_on_Nil: "reports_on i rs = [] \<longleftrightarrow> i \<notin> set (map job_job_id rs)"
  by (auto simp: reports_on_def filter_empty_conv)

lemma map_of_merge_all: "map_of (merge_all rs) i = chosen (reports_on i rs)"
proof (induction rs rule: rev_induct)
  case Nil
  then show ?case by (simp add: merge_all_def reports_on_def chosen_def)
next
  case (snoc j rs)
  have k: "job_job_id j \<in> set (map fst (merge_all rs)) \<longleftrightarrow> reports_on (job_job_id j) rs \<noteq> []"
    unfolding keys_merge_all reports_on_Nil by simp
  have r: "reports_on i (rs @ [j]) = reports_on i rs @ (if job_job_id j = i then [j] else [])"
    by (simp add: reports_on_def)
  show ?case
    using snoc k by (auto simp: merge_all_snoc merge_job_def r chosen_snoc)
qed

lemma chosen_id: "chosen (reports_on i rs) = Some j \<Longrightarrow> job_job_id j = i"
proof (induction rs rule: rev_induct)
  case (snoc x rs)
  then show ?case by (auto simp: reports_on_def chosen_snoc split: if_splits)
qed (simp add: reports_on_def chosen_def)

lemma merge_all_ids: "map job_job_id (map snd (merge_all rs)) = map fst (merge_all rs)"
proof -
  have d: "distinct (map fst (merge_all rs))" by (simp add: keys_merge_all distinct_first_seen)
  have "job_job_id v = k" if "(k, v) \<in> set (merge_all rs)" for k v
    using chosen_id [of k rs v] map_of_is_SomeI [OF d that] by (simp add: map_of_merge_all)
  then show ?thesis by (auto intro!: map_cong)
qed

definition merge_spec :: "Job list \<Rightarrow> Job list" where
  "merge_spec rs = List.map_filter (\<lambda>i. chosen (reports_on i rs)) (first_seen (map job_job_id rs))"

lemma merge_all_spec: "map snd (merge_all rs) = merge_spec rs"
proof -
  have d: "distinct (map fst (merge_all rs))" by (simp add: keys_merge_all distinct_first_seen)
  have "map snd d' = List.map_filter (map_of d') (map fst d')" if "distinct (map fst d')" for d' :: jobs
    using that
  proof (induction d')
    case (Cons p d')
    have "List.map_filter (map_of (p # d')) (map fst d') = List.map_filter (map_of d') (map fst d')"
      using Cons.prems by (cases p) (auto simp: List.map_filter_def intro!: map_cong filter_cong)
    with Cons show ?case by (cases p) (simp add: map_filter_simps del: fun_upd_apply map_of.simps, simp)
  qed (simp add: map_filter_simps)
  from this [OF d] show ?thesis
    by (simp add: merge_spec_def keys_merge_all map_of_merge_all [symmetric, abs_def])
qed

lemma merge_spec_distinct: "distinct (map job_job_id (merge_spec rs))"
  unfolding merge_all_spec [symmetric] merge_all_ids keys_merge_all by (rule distinct_first_seen)

text \<open>Merging source after source is merging all reports.\<close>

lemma foldl_merge_all: "foldl (\<lambda>jobs j. merge_job j jobs) (merge_all rs) js = merge_all (rs @ js)"
  by (simp add: merge_all_def)

lemma merge_validated_all:
  "merge_validated validate xs (merge_all rs) = map_res (\<lambda>js. merge_all (rs @ js)) (traverse validate xs)"
  by (simp add: merge_validated_foldl foldl_merge_all)

lemma merge_all_Nil [simp]: "merge_all [] = []"
  by (simp add: merge_all_def)

definition reported :: "'a list option \<Rightarrow> 'a list" where
  "reported x = (case x of None \<Rightarrow> [] | Some l \<Rightarrow> l)"

fun merge_cli_spec ::
  "(json \<Rightarrow> int res) \<Rightarrow> kwargs list option res list \<Rightarrow> Job list res" where
  "merge_cli_spec pint [] = Inr []"
| "merge_cli_spec pint (r # rs) =
     (case r of Inl e \<Rightarrow> slurm_command_error e
      | Inr x \<Rightarrow> bind_res (traverse (slurm_job_init pint) (reported x)) (\<lambda>js.
                  map_res (\<lambda>js'. js @ js') (merge_cli_spec pint rs)))"

lemma merge_cli_results_spec:
  "merge_cli_results pint results (merge_all rs) =
     map_res (\<lambda>js. merge_all (rs @ js)) (merge_cli_spec pint results)"
proof (induction results arbitrary: rs)
  case (Cons r results)
  show ?case
  proof (cases r)
    case (Inr x)
    show ?thesis
    proof (cases x)
      case None
      then show ?thesis using Cons Inr
        by (cases "merge_cli_spec pint results") (simp_all add: reported_def)
    next
      case (Some l)
      then show ?thesis using Cons Inr
        by (cases "traverse (slurm_job_init pint) l"; cases "merge_cli_spec pint results")
          (simp_all add: reported_def merge_validated_all)
    qed
  qed (simp add: slurm_command_error_def)
qed simp

lemma merge_cli_results_Nil:
  "merge_cli_results pint results [] = map_res merge_all (merge_cli_spec pint results)"
  using merge_cli_results_spec [of pint results "[]"] by simp

lemma io_gather_two:
  "io_gather [m1, m2] w = (case m1 w of (a, w1) \<Rightarrow> case m2 w1 of (b, w2) \<Rightarrow> ([a, b], w2))"
  by (simp split: prod.split)

subsection \<open>A client's list of jobs\<close>

text \<open>What a caller of a scheduler's job list relies on: no job is listed twice.\<close>

locale job_listing =
  fixes list_jobs :: "'q \<Rightarrow> ('w, 'j list) io"
    and ident :: "'j \<Rightarrow> string"
  assumes no_duplicates: "list_jobs q w = (Inr js, w') \<Longrightarrow> distinct (map ident js)"

context job_listing
begin

lemma at_most_one:
  assumes "list_jobs q w = (Inr js, w')"
  shows "length (filter (\<lambda>j. ident j = i) js) \<le> 1"
proof -
  have "length (filter (\<lambda>j. ident j = i) js) = count_list (map ident js) i"
    by (induction js) auto
  moreover have "distinct xs \<Longrightarrow> count_list xs i \<le> 1" for xs
    by (induction xs) (auto simp: count_list_0_iff)
  ultimately show ?thesis using no_duplicates [OF assms] by simp
qed

lemma listed_lookup:
  "list_jobs q w = (Inr js, w') \<Longrightarrow> j \<in> set js \<Longrightarrow> map_of (map (\<lambda>j. (ident j, j)) js) (ident j) = Some j"
  using no_duplicates by (auto intro!: map_of_is_SomeI simp: comp_def)

end

record jobs_query =
  jq_username :: string
  jq_token :: string
  jq_allusers :: bool
  jq_account :: "string option"
  jq_name :: "string option"
  jq_window :: JobsTimeWindow

definition cli_list :: "(json \<Rightarrow> int res) \<times> 'w ssh \<times> jobs_query \<Rightarrow> ('w, Job list) io" where
  "cli_list x = (case x of (pint, ssh, q) \<Rightarrow>
     cli_get_jobs pint ssh (jq_username q) (jq_token q) (jq_allusers q) (jq_account q) (jq_name q)
       (jq_window q))"

interpretation cli_jobs: job_listing cli_list job_job_id
proof
  fix x :: "(json \<Rightarrow> int res) \<times> 'w ssh \<times> jobs_query" and w w' :: 'w and js
  assume "cli_list x w = (Inr js, w')"
  then obtain reports where "js = merge_spec reports"
    by (auto simp: cli_list_def cli_get_jobs_def gathered_def merge_cli_results_Nil res_iff
        merge_all_spec split: prod.splits)
  then show "distinct (map job_job_id js)" by (simp add: merge_spec_distinct)
qed

lemma merge_replies_all:
  "merge_replies pint keep on_error results (merge_all rs) = Inr d \<Longrightarrow> \<exists>rs'. d = merge_all rs'"
proof (induction results arbitrary: rs)
  case (Cons r results)
  show ?case
  proof (cases r)
    case (Inr x)
    show ?thesis
    proof (cases x)
      case None
      with Cons Inr show ?thesis by simp
    next
      case (Some result)
      with Cons.prems Inr obtain d' where d': "merge_reply pint keep result (merge_all rs) = Inr d'"
        "merge_replies pint keep on_error results d' = Inr d" by (auto simp: res_iff)
      from d'(1) have "\<exists>rs'. d' = merge_all rs'"
        by (auto simp: merge_reply_def res_iff merge_validated_all split: if_splits)
      with d'(2) Cons.IH show ?thesis by blast
    qed
  qed (use Cons.prems in simp)
qed auto

definition rest_list ::
  "'w externals \<times> rest_client \<times> jobs_query \<Rightarrow> ('w, Job list) io" where
  "rest_list x = (case x of (e, c, q) \<Rightarrow>
     rest_get_jobs (ext_pint e) (ext_claims e) (ext_version_ge e) (ext_now e) (ext_http e) c
       (jq_username q) (jq_token q) (jq_allusers q) (jq_account q) (jq_name q) (jq_window q))"

interpretation rest_jobs: job_listing rest_list job_job_id
proof
  fix x :: "'w externals \<times> rest_client \<times> jobs_query" and w w' :: 'w and js
  assume "rest_list x w = (Inr js, w')"
  then obtain keep results pint d where "merge_replies pint keep fetching_error results [] = Inr d"
    and js: "js = map snd d"
    by (auto simp: rest_list_def rest_get_jobs_def gathered_def io_simps Let_def res_iff
        split: prod.splits sum.splits if_splits)
  then obtain rs where "d = merge_all rs" using merge_replies_all [of pint keep fetching_error results "[]" d] by auto
  then show "distinct (map job_job_id js)" by (simp add: js merge_all_spec merge_spec_distinct)
qed

subsection \<open>Properties\<close>

text \<open>
  C10: the list of jobs over the command line implements its specification.  Both tools run, the
  accounting database first; if either failed, or a report is malformed, that error is the answer,
  and otherwise each job appears once, in the order of the first reports, shown by its first
  report or by the last one that calls it pending.
\<close>

theorem get_jobs_refines_spec:
  "cli_get_jobs pint ssh u t allusers account name window w =
     (case cli_sacct ssh u t \<lparr>sa_job_ids = None, sa_allusers = allusers, sa_account = account,
             sa_name = name, sa_time_window = window\<rparr> w of
        (a, w1) \<Rightarrow>
      (case cli_squeue ssh u t \<lparr>sq_username = u, sq_job_ids = None, sq_allusers = allusers,
              sq_account = account, sq_name = name\<rparr> w1 of
         (b, w2) \<Rightarrow> (map_res merge_spec (merge_cli_spec pint [a, b]), w2)))"
proof -
  have "bind_res (merge_cli_results pint rs []) (\<lambda>jobs. Inr (map snd jobs)) =
      map_res merge_spec (merge_cli_spec pint rs)" for rs
    by (cases "merge_cli_spec pint rs") (simp_all add: merge_cli_results_Nil merge_all_spec)
  then show ?thesis
    by (simp only: cli_get_jobs_def gathered_def io_gather_two) (simp split: prod.split)
qed

text \<open>
  No client lists a job twice: whatever the tools or the API answer, a job identifier occurs
  at most once in the result, over the command line as over REST.
\<close>

theorem job_lists_have_no_duplicates:
  "(case fst (cli_get_jobs pint ssh u t allusers account name window w) of
      Inl _ \<Rightarrow> True | Inr js \<Rightarrow> length (filter (\<lambda>j. job_job_id j = i) js) \<le> 1) \<and>
   (case fst (rest_get_jobs pint claims ge now http c u t allusers account name window w') of
      Inl _ \<Rightarrow> True | Inr js \<Rightarrow> length (filter (\<lambda>j. job_job_id j = i) js) \<le> 1)"
proof -
  define q where "q = \<lparr>jq_username = u, jq_token = t, jq_allusers = allusers, jq_account = account,
    jq_name = name, jq_window = window\<rparr>"
  define e where "e = \<lparr>ext_pint = pint, ext_pfloat = undefined, ext_claims = claims, ext_version_ge = ge,
    ext_calendar = undefined, ext_now = now, ext_http = http\<rparr>"
  have "cli_get_jobs pint ssh u t allusers account name window = cli_list (pint, ssh, q)"
    "rest_get_jobs pint claims ge now http c u t allusers account name window = rest_list (e, c, q)"
    by (simp_all add: cli_list_def rest_list_def q_def e_def)
  then show ?thesis
    using cli_jobs.at_most_one [of "(pint, ssh, q)" w] rest_jobs.at_most_one [of "(e, c, q)" w']
    by (cases "cli_list (pint, ssh, q) w"; cases "rest_list (e, c, q) w'") (auto split: sum.split)
qed

text \<open>
  A job that only the controller knows is found by its owner alone.  Such a job names its user
  in \<open>user_name\<close>, and the filter of \<open>get_job\<close> then compares it with the caller whether or not
  \<open>allusers\<close> was asked for; the list of all jobs has the same job.
\<close>

theorem get_job_ignores_allusers:
  "map_of d ''user'' = None \<Longrightarrow> map_of d ''user_name'' = Some (JStr owner) \<Longrightarrow> owner \<noteq> [] \<Longrightarrow>
     owned_by allusers u (JObj d) = Inr (owner = u) \<and>
     matches True u None (JObj d) = Inr True"
  by (simp add: owned_by_def matches_def jhas_def)

theorem get_job_ignores_allusers_witness:
  "owned_by True ''bob'' (JObj [(''job_id'', JInt 7), (''user_name'', JStr ''alice'')]) = Inr False"
  using get_job_ignores_allusers [of "[(''job_id'', JInt 7), (''user_name'', JStr ''alice'')]" "''alice''" True "''bob''"]
  by simp

text \<open>
  Metadata without the accounting database.  When \<open>scontrol\<close> fails to show the job, the
  exception itself is returned in place of the jobs instead of being raised; when it shows the
  job but the batch script cannot be had, the request fails with a \<open>TypeError\<close>.
\<close>

theorem metadata_error_handling:
  "metadata_of_results [Inl e, script] = Inr (Some (MetadataExc e)) \<and>
   (\<exists>m. metadata_of_results [Inr (Some (info # infos)), Inl e'] = raise TypeError m)"
  by (simp add: metadata_of_results_def join_metadata_def result_list_def)

text \<open>
  What needs the command line.  Over a REST connection without an SSH pool, submitting a script
  that lies on the system and reading metadata answer 501, and nothing is sent.
\<close>

theorem rest_only_refusals:
  "truthy (jd_script_path jd) \<Longrightarrow> sl_ssh c = None \<Longrightarrow>
     (case slurm_submit_job x c jd u t w of
        (r, w') \<Rightarrow> w' = w \<and> (\<exists>e. r = Inl e \<and> error_status e = 501)) \<and>
     (case slurm_get_job_metadata x c i u t w of
        (r, w') \<Rightarrow> w' = w \<and> (\<exists>e. r = Inl e \<and> error_status e = 501))"
  by (simp add: slurm_submit_job_def slurm_get_job_metadata_def needs_ssh_def io_simps)

definition demo_rest_only :: "unit slurm_client" where
  "demo_rest_only =
     \<lparr>sl_ssh = None, sl_version = ''24.11'',
      sl_rest = \<lparr>rc_api_url = ''http://slurm'', rc_api_version = ''0.0.42'', rc_timeout = 10,
                 rc_username_claim = ''username''\<rparr>,
      sl_mode = Some ModeRest\<rparr>"

definition demo_job :: JobDescription where
  "demo_job =
     \<lparr>jd_name = None, jd_account = None, jd_reservation = None, jd_partition = None,
      jd_current_working_directory = ''/home/u'', jd_standard_input = None, jd_standard_output = None,
      jd_standard_error = None, jd_environment = EnvDict [], jd_constraints = None, jd_script = None,
      jd_script_path = Some ''/home/u/job.sh''\<rparr>"

definition demo_externals :: "unit externals" where
  "demo_externals =
     \<lparr>ext_pint = int_of_json, ext_pfloat = (\<lambda>_. raise ValueError []), ext_claims = (\<lambda>_. Inr []), ext_version_ge = (\<lambda>_ _. Inr True),
      ext_calendar = \<lparr>cal_fromtimestamp = (\<lambda>i. Some (of_int i)), cal_fromisoformat = (\<lambda>_. None),
        cal_strptime = (\<lambda>_ _. None), cal_year = ''2025'', cal_day = ''01/01/25''\<rparr>,
      ext_now = 0, ext_http = (\<lambda>_ _ _ _ _. io_return \<lparr>hr_status = 200, hr_text = [], hr_json = Inr (JObj [])\<rparr>)\<rparr>"

theorem rest_only_refusals_witness:
  "case slurm_submit_job demo_externals demo_rest_only demo_job ''u'' ''t'' () of
     (r, w') \<Rightarrow> w' = () \<and> (\<exists>e. r = Inl e \<and> error_status e = 501)"
  using rest_only_refusals [where jd = demo_job and c = demo_rest_only and x = demo_externals and
      u = "''u''" and t = "''t''" and w = "()"]
  by (simp add: demo_job_def demo_rest_only_def)

text \<open>
  Both connection modes look back equally far.  The command line asks \<open>sacct\<close> for the jobs
  since so many hours or days ago, which Slurm reads in the singular and the plural; REST computes
  the moment itself, the same number of seconds before now.
\<close>

definition slurm_unit_seconds :: "string \<Rightarrow> int option" where
  "slurm_unit_seconds u =
     (if u \<in> {''hour'', ''hours''} then Some 3600 else if u \<in> {''day'', ''days''} then Some 86400 else None)"

definition slurm_relative :: "string \<Rightarrow> int option" where
  "slurm_relative s =
     (let p = ''--starttime=now-''; n = takeWhile is_digit (drop (length p) s);
          u = dropWhile is_digit (drop (length p) s)
      in if \<not> starts_with p s \<or> n = [] then None
         else map_option (\<lambda>k. int (read_base 10 0 n) * k) (slurm_unit_seconds u))"

theorem time_windows_agree:
  "map slurm_relative (sacct_selection \<lparr>sa_job_ids = None, sa_allusers = al, sa_account = a,
      sa_name = n, sa_time_window = v\<rparr>) = [Some (window_seconds v)] \<and>
   (case time_window_start_time ge now v api of
      Inl e \<Rightarrow> ge api ''0.0.40'' = Inl e
    | Inr s \<Rightarrow> s = show_int (now - window_seconds v) \<or>
               slurm_relative (''--starttime='' @ s) = Some (window_seconds v))"
proof -
  have d: "show_nat (Suc 0) = ''1''" "show_nat 8 = ''8''" "show_nat 3 = ''3''" "show_nat 7 = ''7''"
    by (simp_all add: show_nat_small digit_char_def)
  have "show_nat 24 = show_nat 2 @ show_nat 4"
    unfolding show_nat_def by (subst show_base.simps) (simp add: show_nat_small [unfolded show_nat_def])
  then have d24: "show_nat 24 = ''24''" by (simp add: show_nat_small digit_char_def)
  note ev = sacct_selection_def slurm_relative_def slurm_unit_seconds_def Let_def d d24 is_digit_def digit_val_def
  have 1: "map slurm_relative (sacct_selection \<lparr>sa_job_ids = None, sa_allusers = al, sa_account = a,
      sa_name = n, sa_time_window = v\<rparr>) = [Some (window_seconds v)]"
    by (cases v) (simp_all add: ev)
  have 2: "slurm_relative (''--starttime=now-'' @ show_nat k @ u) = Some (window_seconds v)"
    if "TIME_WINDOW_DURATIONS v = (k, u)" for k u
    using that by (cases v) (auto simp: ev)
  show ?thesis
  proof (cases "ge api ''0.0.40''")
    case (Inr b)
    then show ?thesis using 1 2
      by (cases "TIME_WINDOW_DURATIONS v"; cases b)
        (simp_all add: time_window_start_time_def window_seconds_def)
  qed (use 1 in \<open>simp add: time_window_start_time_def split: prod.split\<close>)
qed

end
