(* ===== verification/PbsModels.thy ===== *)
theory PbsModels
  imports SlurmCommands JsonText
begin

section \<open>The models of PBS\<close>

text \<open>
  \<open>lib/scheduler_clients/pbs/models.py\<close>.  A model's \<open>\<dots>_init\<close> prepares the arguments as the class's
  \<open>__init__\<close> does and validates the fields; \<open>pint\<close> and the calendar are parameters as for Slurm.
\<close>

subsection \<open>Models\<close>

definition PBS_STATE_MAP :: "(string \<times> NodeState) list" where
  "PBS_STATE_MAP =
     [(''free'', IDLE), (''job-exclusive'', ALLOCATED), (''job-sharing'', MIXED),
      (''time-shared'', MIXED), (''down'', DOWN), (''offline'', OFFLINE), (''reserve'', RESERVED),
      (''busy'', BUSY), (''state-unknown'', UNKNOWN)]"

definition map_pbs_state :: "string \<Rightarrow> NodeState" where
  "map_pbs_state raw = (case map_of PBS_STATE_MAP (lower raw) of None \<Rightarrow> UNKNOWN | Some s \<Rightarrow> s)"

text \<open>\<open>int(x)\<close> of a rational rounds towards zero.\<close>

definition trunc_rat :: "rat \<Rightarrow> int" where
  "trunc_rat r = (if r < 0 then \<lceil>r\<rceil> else \<lfloor>r\<rfloor>)"

definition pbs_parse_timestamp :: "local_calendar \<Rightarrow> json \<Rightarrow> json res" where
  "pbs_parse_timestamp cal value =
     (case value of
        JStr s \<Rightarrow> (case cal_strptime cal s ''%a %b %d %H:%M:%S %Y'' of
                     None \<Rightarrow> raise ValueError [] | Some t \<Rightarrow> Inr (JInt (trunc_rat t)))
      | _ \<Rightarrow> Inr value)"

text \<open>\<open>re.sub(r"^[^:]+:", "", v)\<close>; a value that is no text is a \<open>TypeError\<close>.\<close>

definition drop_cluster :: "string \<Rightarrow> string" where
  "drop_cluster v =
     re_remove (rseqs [RBegin, rplus (RChar (\<lambda>c. c \<noteq> CHR '':'')), rlit '':'']) v"

definition pbs_path_field :: "string list \<Rightarrow> kwargs \<Rightarrow> string option res" where
  "pbs_path_field ks d =
     (case alias_lookup ks d of
        None \<Rightarrow> Inr None
      | Some (JStr s) \<Rightarrow> Inr (Some (drop_cluster s))
      | Some _ \<Rightarrow> raise TypeError [])"

definition pbs_metadata_init :: "kwargs \<Rightarrow> JobMetadata res" where
  "pbs_metadata_init d =
     bind_res (str_field [''jobId'', ''job_id''] d) (\<lambda>i.
     bind_res (opt_str_field [''script''] d) (\<lambda>sc.
     bind_res (opt_str_field [''standardInput'', ''standard_input''] d) (\<lambda>si.
     bind_res (pbs_path_field [''Error_Path'', ''standard_output''] d) (\<lambda>so.
     bind_res (pbs_path_field [''Output_Path'', ''standard_error''] d) (\<lambda>se.
       Inr \<lparr>md_job_id = i, md_script = sc, md_standard_input = si, md_standard_output = so,
            md_standard_error = se\<rparr>)))))"

text \<open>\<open>HH:MM:SS\<close> as seconds; the unpacking wants three parts.\<close>

definition pbs_duration :: "json \<Rightarrow> json res" where
  "pbs_duration v =
     (case v of
        JStr s \<Rightarrow>
          (case traverse py_int (split_on CHR '':'' s) of
             Inr [h, m, sec] \<Rightarrow> Inr (JInt (h * 3600 + m * 60 + sec))
           | _ \<Rightarrow> raise ValueError (''invalid duration string: '' @ s))
      | _ \<Rightarrow> Inr v)"

definition opt_int_of :: "(json \<Rightarrow> int res) \<Rightarrow> json \<Rightarrow> int option res" where
  "opt_int_of pint v = (if v = JNull then Inr None else map_res Some (pint v))"

definition pbs_time_init ::
  "(json \<Rightarrow> int res) \<Rightarrow> local_calendar \<Rightarrow> json \<Rightarrow> json \<Rightarrow> json \<Rightarrow> JobTime res" where
  "pbs_time_init pint cal elapsed start limit =
     bind_res (bind_res (pbs_duration elapsed) (opt_int_of pint)) (\<lambda>el.
     bind_res (bind_res (pbs_parse_timestamp cal start) (opt_int_of pint)) (\<lambda>st.
     bind_res (bind_res (pbs_duration limit) (opt_int_of pint)) (\<lambda>li.
       Inr \<lparr>jt_elapsed = el, jt_start = st, jt_end = None, jt_suspended = None, jt_limit = li\<rparr>)))"

text \<open>The nodes of a job: a range in brackets is spelled out with the width of its first number.\<close>

definition host_range :: rx where
  "host_range =
     rseqs [RGroup 1 (rplus (RChar (\<lambda>c. c \<noteq> CHR ''['')))
            , rlit ''['', RGroup 2 (rplus r_digit), rlit ''-'', RGroup 3 (rplus r_digit), rlit '']'']"

definition expand_host :: "string \<Rightarrow> string list" where
  "expand_host chunk =
     (let host = hd (split_on CHR ''/'' chunk) in
      case re_match host_range host of
        None \<Rightarrow> [host]
      | Some m \<Rightarrow>
          let width = length (opt_text (m_group m 2)) in
          map (\<lambda>i. opt_text (m_group m 1) @ show_padded width i) [group_nat m 2..<Suc (group_nat m 3)])"

definition parse_nodelist :: "json \<Rightarrow> json res" where
  "parse_nodelist v =
     (case v of
        JNull \<Rightarrow> Inr (JStr ''None assigned'')
      | JStr s \<Rightarrow> if s = [] then Inr (JStr ''None assigned'')
                  else Inr (JStr (join '','' (concat (map expand_host (split_on CHR ''+'' s)))))
      | _ \<Rightarrow> raise AttributeError [])"

text \<open>\<open>kwargs.get(k, {}).get(k2, default)\<close> and \<open>kwargs.get(k, "")\<close> as a text.\<close>

definition get_in :: "kwargs \<Rightarrow> string \<Rightarrow> string \<Rightarrow> json \<Rightarrow> json res" where
  "get_in d k k2 v = map_res (\<lambda>e. jget_def e k2 v) (jitems (jget_def d k (JObj [])))"

definition get_text :: "kwargs \<Rightarrow> string \<Rightarrow> string res" where
  "get_text d k = (case jget_def d k (JStr []) of JStr s \<Rightarrow> Inr s | _ \<Rightarrow> raise AttributeError [])"

definition pbs_job_init :: "(json \<Rightarrow> int res) \<Rightarrow> local_calendar \<Rightarrow> kwargs \<Rightarrow> Job res" where
  "pbs_job_init pint cal kwargs =
     bind_res (get_in kwargs ''Variable_List'' ''PBS_O_WORKDIR'' JNull) (\<lambda>wd.
     bind_res (get_in kwargs ''Resource_List'' ''nodes'' JNull) (\<lambda>nodes.
     bind_res (bind_res (get_text kwargs ''Job_Owner'') (\<lambda>o'. nth_res (split_on CHR ''@'' o') 1)) (\<lambda>cluster.
     bind_res (get_in kwargs ''Resource_List'' ''nodect'' JNull) (\<lambda>nodect.
     bind_res (get_in kwargs ''resources_used'' ''walltime'' JNull) (\<lambda>elapsed.
     bind_res (get_in kwargs ''Resource_List'' ''walltime'' JNull) (\<lambda>limit.
     bind_res (pbs_time_init pint cal elapsed (jget kwargs ''stime'') limit) (\<lambda>time.
     bind_res (int_of_json (jget_def kwargs ''Exit_status'' (JInt 0))) (\<lambda>exit.
     bind_res (str_field [''job_state''] (dict_update [(''job_state'', JStr [])] kwargs)) (\<lambda>state.
     let d = dict_update kwargs
               [(''working_directory'', wd), (''nodes'', nodes), (''cluster'', JStr cluster),
                (''allocation_nodes'', nodect)] in
     bind_res (str_field [''jobId'', ''job_id''] d) (\<lambda>i.
     bind_res (str_field [''Job_Name'', ''name''] d) (\<lambda>n.
     bind_res (case alias_lookup [''project'', ''account''] d of
                 None \<Rightarrow> raise ValueError [] | Some v \<Rightarrow> Inr (json_str v)) (\<lambda>acc.
     bind_res (int_field pint [''allocationNodes'', ''allocation_nodes''] d) (\<lambda>an.
     bind_res (opt_str_field [''group''] d) (\<lambda>gr.
     bind_res (bind_res (case alias_lookup [''exec_host'', ''nodes''] d of
                 None \<Rightarrow> raise ValueError [] | Some v \<Rightarrow> parse_nodelist v) (\<lambda>v. Inr (json_str v))) (\<lambda>no.
     bind_res (str_field [''queue'', ''partition''] d) (\<lambda>pa.
     bind_res (opt_str_field [''killRequestUser'', ''kill_request_user''] d) (\<lambda>ku.
     bind_res (case alias_lookup [''user''] d of
                 None \<Rightarrow> raise ValueError [] | Some _ \<Rightarrow> opt_str_field [''user''] d) (\<lambda>us.
     bind_res (str_field [''workingDirectory'', ''working_directory''] d) (\<lambda>wd.
     bind_res (int_field pint [''Priority'', ''priority''] d) (\<lambda>pr.
       Inr \<lparr>job_job_id = i, job_name = n,
            job_status = \<lparr>js_state = state, js_stateReason = None, js_exitCode = Some exit,
                          js_interruptSignal = None\<rparr>,
            job_tasks = None, job_time = time, job_account = Some acc, job_allocation_nodes = an,
            job_cluster = cluster, job_group = gr, job_nodes = no, job_partition = pa,
            job_kill_request_user = ku, job_user = us, job_working_directory = wd,
            job_priority = Some pr\<rparr>))))))))))))))))))))"

text \<open>Memory with a unit, by replacing the unit with zeros.\<close>

definition pbs_memory :: "json \<Rightarrow> json res" where
  "pbs_memory value =
     (case value of
        JStr s \<Rightarrow>
          map_res JInt (py_int (foldl (\<lambda>v (u, k). replace (lower v) u (replicate k CHR ''0'')) s
            [(''kb'', 3), (''mb'', 6), (''gb'', 9), (''tb'', 12), (''pb'', 15)]))
      | _ \<Rightarrow> Inr value)"

definition pbs_node_init :: "(json \<Rightarrow> int res) \<Rightarrow> (json \<Rightarrow> rat res) \<Rightarrow> kwargs \<Rightarrow> Node res" where
  "pbs_node_init pint pfloat kwargs =
     bind_res (get_in kwargs ''resources_available'' ''ncpus'' (JInt 0)) (\<lambda>idle.
     bind_res (get_in kwargs ''resources_available'' ''mem'' JNull) (\<lambda>mem.
     bind_res (get_in kwargs ''resources_available'' ''host'' JNull) (\<lambda>host.
     bind_res (get_in kwargs ''resources_assigned'' ''mem'' JNull) (\<lambda>amem.
     bind_res (get_in kwargs ''resources_assigned'' ''ncpus'' (JInt 0)) (\<lambda>acpus.
     bind_res (case jget_def kwargs ''state'' (JList []) of
                 JStr s \<Rightarrow> Inr [map_pbs_state s]
               | JList xs \<Rightarrow> traverse (\<lambda>x. case x of JStr s \<Rightarrow> Inr (map_pbs_state s)
                                            | _ \<Rightarrow> raise AttributeError []) xs
               | JObj d \<Rightarrow> Inr (map (\<lambda>(k, v). map_pbs_state k) d)
               | _ \<Rightarrow> raise TypeError []) (\<lambda>states.
       node_model_init pint pfloat pbs_memory [''pcpus'', ''cpus''] (Some states) (dict_update kwargs
         [(''idle_cpus'', idle), (''free_memory'', mem), (''hostname'', host),
          (''alloc_memory'', amem), (''alloc_cpus'', acpus)])))))))"

record PbsPartition =
  pp_name :: string
  pp_cpus :: "int option"
  pp_total_nodes :: "int option"
  pp_partition :: string

definition pbs_partition_init :: "(json \<Rightarrow> int res) \<Rightarrow> kwargs \<Rightarrow> PbsPartition res" where
  "pbs_partition_init pint d =
     bind_res (case alias_lookup [''started'', ''partition''] d of
                 None \<Rightarrow> raise ValueError []
               | Some (JStr s) \<Rightarrow> Inr (if lower s = ''true'' then ''UP'' else ''DOWN'')
               | Some _ \<Rightarrow> raise AttributeError []) (\<lambda>p.
     bind_res (str_field [''name''] d) (\<lambda>n.
     bind_res (opt_int_field pint [''cpus''] d) (\<lambda>c.
     bind_res (opt_int_field pint [''totalNodes'', ''total_nodes''] d) (\<lambda>t.
       Inr \<lparr>pp_name = n, pp_cpus = c, pp_total_nodes = t, pp_partition = p\<rparr>))))"

definition pbs_reservation_init ::
  "(json \<Rightarrow> int res) \<Rightarrow> local_calendar \<Rightarrow> kwargs \<Rightarrow> Reservation res" where
  "pbs_reservation_init pint cal d =
     (let time = (\<lambda>ks. case alias_lookup ks d of
                         None \<Rightarrow> raise ValueError []
                       | Some v \<Rightarrow> bind_res (pbs_parse_timestamp cal v) pint) in
      bind_res (time [''endTime'', ''end_time'']) (\<lambda>en.
      bind_res (time [''startTime'', ''start_time'']) (\<lambda>st.
      bind_res (str_field [''name''] d) (\<lambda>n.
      bind_res (str_field [''nodeList'', ''node_list''] d) (\<lambda>nl.
      bind_res (opt_str_field [''features''] d) (\<lambda>fe.
      bind_res (opt_str_field [''state''] d) (\<lambda>sta.
        Inr \<lparr>res_name = n, res_node_list = nl, res_end_time = en, res_start_time = st,
             res_features = fe, res_state = sta\<rparr>)))))))"

end
