(* ===== verification/PbsClient.thy ===== *)
theory PbsClient
  imports SshCalls PbsModels Config
begin

section \<open>The PBS tools and client\<close>

text \<open>
  \<open>lib/scheduler_clients/pbs/cli_commands/\<close> and \<open>pbs_client.py\<close>.  The tools print JSON, except
  \<open>pbs_rstat\<close>.  A message that quotes the decoder's complaint and the output itself is kept up to
  that quotation.
\<close>

subsection \<open>Command lines\<close>

record qstat_command =
  qs_username :: "string option"
  qs_ids :: "string list option"
  qs_allusers :: bool
  qs_account :: "string option"
  qs_name :: "string option"

definition qstat_base :: qstat_command where
  "qstat_base = \<lparr>qs_username = None, qs_ids = None, qs_allusers = True, qs_account = None, qs_name = None\<rparr>"

definition qstat_base_get_command :: "qstat_command \<Rightarrow> string" where
  "qstat_base_get_command c =
     join '' '' ([''qstat'', ''-F'', ''json'', ''-f''] @ (case qs_ids c of None \<Rightarrow> [] | Some is \<Rightarrow> is))"

definition qstat_get_command :: "qstat_command \<Rightarrow> string" where
  "qstat_get_command c = qstat_base_get_command c @ '' -x''"

definition qstat_metadata_get_command :: "qstat_command \<Rightarrow> string" where
  "qstat_metadata_get_command c = qstat_base_get_command c @ '' -x''"

definition pbs_partitions_get_command :: string where
  "pbs_partitions_get_command = qstat_base_get_command qstat_base @ '' -Q''"

definition pbs_ping_get_command :: string where
  "pbs_ping_get_command = qstat_base_get_command qstat_base @ '' -B''"

definition pbsnodes_get_command :: string where
  "pbsnodes_get_command = join '' '' [''pbsnodes'', ''-a'', ''-F'', ''json'']"

definition qdel_get_command :: "string \<Rightarrow> string" where
  "qdel_get_command job_id = join '' '' [''qdel'', job_id]"

definition rstat_get_command :: "string list option \<Rightarrow> string" where
  "rstat_get_command res_ids =
     join '' '' ([''pbs_rstat'', ''-Sf''] @ (case res_ids of None \<Rightarrow> [] | Some is \<Rightarrow> is))"

text \<open>\<open>cmd.append(f"-N {shlex.quote(v)}")\<close> when \<open>v\<close> is given: two words in one element.\<close>

definition opt_flag :: "string \<Rightarrow> string option \<Rightarrow> string list" where
  "opt_flag flag v = (if truthy v then [flag @ '' '' @ shlex_quote (opt_text v)] else [])"

definition env_is_empty :: "job_environment \<Rightarrow> bool" where
  "env_is_empty e \<longleftrightarrow> e = EnvDict [] \<or> e = EnvList []"

definition qsub_env :: "job_environment \<Rightarrow> string res" where
  "qsub_env e =
     (if env_is_empty e then Inr ''-V''
      else map_res (\<lambda>d. ''-v '' @ shlex_quote (join '','' (map (\<lambda>(k, v). k @ ''='' @ v) d)))
             (env_items e))"

definition qsub_words :: "string \<Rightarrow> JobDescription \<Rightarrow> string list" where
  "qsub_words env jd =
     [''qsub'', env] @
     opt_flag ''-N'' (jd_name jd) @
     (if truthy (jd_reservation jd) then opt_flag ''-q'' (jd_reservation jd)
      else opt_flag ''-q'' (jd_partition jd)) @
     opt_flag ''-P'' (jd_account jd) @
     opt_flag ''-e'' (jd_standard_error jd) @
     opt_flag ''-o'' (jd_standard_output jd) @
     opt_flag ''--'' (jd_script_path jd)"

definition qsub_get_command :: "JobDescription \<Rightarrow> string res" where
  "qsub_get_command jd =
     map_res (\<lambda>env.
       let submit_cmd = join '' '' (qsub_words env jd); cwd = jd_current_working_directory jd in
       if cwd \<noteq> [] then ''cd '' @ shlex_quote cwd @ '' && '' @ submit_cmd else submit_cmd)
       (qsub_env (jd_environment jd))"

subsection \<open>Parsers\<close>

definition pbs_unexpected :: "string \<Rightarrow> int \<Rightarrow> string \<Rightarrow> 'a res" where
  "pbs_unexpected what exit_status stderr =
     raise PbsError (''Unexpected PBS '' @ what @ '' response. exit_status:'' @ show_int exit_status @
       '' std_err:'' @ stderr)"

text \<open>The decoded output; the caller's \<open>payload.get\<close> wants a dictionary.\<close>

definition pbs_payload :: "string \<Rightarrow> string \<Rightarrow> string \<Rightarrow> string \<Rightarrow> int \<Rightarrow> kwargs res" where
  "pbs_payload what tool stdout stderr exit_status =
     (if exit_status \<noteq> 0 then pbs_unexpected what exit_status stderr
      else (case json_loads stdout of
              Inl e \<Rightarrow> Inl (Exc PbsError (''Failed to parse JSON from '' @ tool @ '' output: '') [] (Some e))
            | Inr payload \<Rightarrow> jitems payload))"

text \<open>\<open>{**d}\<close> of a value that is no mapping is a \<open>TypeError\<close>.\<close>

definition splat :: "json \<Rightarrow> kwargs res" where
  "splat v = (case v of JObj d \<Rightarrow> Inr d | _ \<Rightarrow> raise TypeError [])"

definition named :: "string \<times> json \<Rightarrow> kwargs res" where
  "named = (\<lambda>(name, attrs). map_res (dict_update [(''name'', JStr name)]) (splat attrs))"

definition pbs_partitions_parse_output :: "'c \<Rightarrow> string \<Rightarrow> string \<Rightarrow> int \<Rightarrow> kwargs list option res" where
  "pbs_partitions_parse_output c stdout stderr exit_status =
     bind_res (pbs_payload ''command'' ''qstat'' stdout stderr exit_status) (\<lambda>payload.
     bind_res (jitems (jget_def payload ''Queue'' (JList []))) (\<lambda>queues_data.
       map_res Some (traverse named queues_data)))"

definition pbsnodes_parse_output :: "'c \<Rightarrow> string \<Rightarrow> string \<Rightarrow> int \<Rightarrow> kwargs list option res" where
  "pbsnodes_parse_output c stdout stderr exit_status =
     bind_res (pbs_payload ''pbsnodes'' ''pbsnodes'' stdout stderr exit_status) (\<lambda>payload.
     bind_res (jitems (jget payload ''nodes'')) (\<lambda>nodes_data.
       map_res Some (traverse named nodes_data)))"

definition pbs_server_up :: "json \<Rightarrow> bool" where
  "pbs_server_up state \<longleftrightarrow> state \<in> set (map JStr [''Active'', ''Scheduling'', ''Idle''])"

definition pbs_ping_row :: "string \<times> json \<Rightarrow> kwargs res" where
  "pbs_ping_row = (\<lambda>(server_name, server_data).
     map_res (\<lambda>d. [(''hostname'', JStr server_name),
                   (''pinged'', JStr (if pbs_server_up (jget d ''server_state'') then ''UP'' else ''DOWN''))])
       (jitems server_data))"

definition pbs_ping_parse_output :: "'c \<Rightarrow> string \<Rightarrow> string \<Rightarrow> int \<Rightarrow> kwargs list option res" where
  "pbs_ping_parse_output c stdout stderr exit_status =
     bind_res (pbs_payload ''command'' ''qstat'' stdout stderr exit_status) (\<lambda>payload.
     bind_res (jitems (jget payload ''Server'')) (\<lambda>servers_data.
       map_res Some (traverse pbs_ping_row servers_data)))"

definition qdel_parse_output :: "'c \<Rightarrow> string \<Rightarrow> string \<Rightarrow> int \<Rightarrow> bool option res" where
  "qdel_parse_output c stdout stderr exit_status =
     (if exit_status \<noteq> 0 then pbs_unexpected ''qdel'' exit_status stderr else Inr (Some True))"

definition qsub_parse_output :: "'c \<Rightarrow> string \<Rightarrow> string \<Rightarrow> int \<Rightarrow> string option res" where
  "qsub_parse_output c stdout stderr exit_status =
     (if exit_status \<noteq> 0 then pbs_unexpected ''command'' exit_status (stderr @ '' stdout:'' @ stdout)
      else Inr (case re_match (rseqs [RBegin, RGroup 1 (rplus r_digit)]) (strip stdout) of
                  None \<Rightarrow> None | Some m \<Rightarrow> m_group m 1))"

text \<open>\<open>qstat\<close>: the jobs of the user, of the name and of the account that are asked for.\<close>

definition short_job_id :: "string \<Rightarrow> string" where
  "short_job_id job_id = hd (split_on CHR ''.'' job_id)"

definition asked_for :: "string option \<Rightarrow> json \<Rightarrow> bool" where
  "asked_for wanted v \<longleftrightarrow> (truthy wanted \<longrightarrow> v = JStr (opt_text wanted))"

definition qstat_job :: "qstat_command \<Rightarrow> string \<times> json \<Rightarrow> kwargs option res" where
  "qstat_job c = (\<lambda>(job_id, job_data).
     bind_res (jitems job_data) (\<lambda>d.
     bind_res (get_text d ''Job_Owner'') (\<lambda>o'.
       let job_owner = hd (split_on CHR ''@'' o') in
       if \<not> qs_allusers c \<and> Some job_owner \<noteq> qs_username c then Inr None
       else if \<not> asked_for (qs_name c) (jget_def d ''Job_Name'' (JStr [])) then Inr None
       else if \<not> asked_for (qs_account c) (jget_def d ''project'' (JStr [])) then Inr None
       else Inr (Some (dict_set ''user'' (JStr job_owner)
              (dict_update [(''job_id'', JStr (short_job_id job_id))] d))))))"

definition qstat_parse_output ::
  "qstat_command \<Rightarrow> string \<Rightarrow> string \<Rightarrow> int \<Rightarrow> kwargs list option res" where
  "qstat_parse_output c stdout stderr exit_status =
     bind_res (pbs_payload ''qstat'' ''qstat'' stdout stderr exit_status) (\<lambda>payload.
     bind_res (jitems (jget_def payload ''Jobs'' (JObj []))) (\<lambda>res.
       map_res (\<lambda>js. Some (List.map_filter id js)) (traverse (qstat_job c) res)))"

definition qstat_metadata_row :: "string \<times> json \<Rightarrow> kwargs res" where
  "qstat_metadata_row = (\<lambda>(job_id, job_data).
     map_res (dict_update [(''job_id'', JStr (short_job_id job_id))]) (splat job_data))"

definition qstat_metadata_parse_output :: "'c \<Rightarrow> string \<Rightarrow> string \<Rightarrow> int \<Rightarrow> kwargs list option res" where
  "qstat_metadata_parse_output c stdout stderr exit_status =
     bind_res (pbs_payload ''qstat'' ''qstat'' stdout stderr exit_status) (\<lambda>payload.
     bind_res (jitems (jget_def payload ''Jobs'' (JObj []))) (\<lambda>res.
       map_res Some (traverse qstat_metadata_row res)))"

text \<open>\<open>pbs_rstat\<close>: blocks of lines.\<close>

definition resv_block :: rx where
  "resv_block = rseqs [rlit [newline], RAhead ''Resv ID:'']"

definition rstat_keys :: "(string \<times> string) list" where
  "rstat_keys = [(''Reserve_Name'', ''name''), (''reserve_start'', ''start_time''),
     (''reserve_end'', ''end_time''), (''resv_nodes'', ''node_list'')]"

definition rstat_line :: "string \<Rightarrow> kwargs \<Rightarrow> kwargs res" where
  "rstat_line raw info =
     (let line = strip raw in
      case find (\<lambda>(p, k). starts_with p line) rstat_keys of
        None \<Rightarrow> Inr info
      | Some (p, k) \<Rightarrow>
          map_res (\<lambda>v. dict_set k (JStr (strip v)) info) (nth_res (split_first CHR ''='' line) 1))"

fun rstat_lines :: "string list \<Rightarrow> kwargs \<Rightarrow> kwargs res" where
  "rstat_lines [] info = Inr info"
| "rstat_lines (l # ls) info = bind_res (rstat_line l info) (rstat_lines ls)"

definition rstat_parse_output :: "'c \<Rightarrow> string \<Rightarrow> string \<Rightarrow> int \<Rightarrow> kwargs list option res" where
  "rstat_parse_output c stdout stderr exit_status =
     (if exit_status \<noteq> 0 then pbs_unexpected ''qstat'' exit_status stderr
      else map_res Some (traverse (\<lambda>b. rstat_lines (splitlines b) [])
             (filter (\<lambda>b. b \<noteq> []) (re_split [] resv_block (strip stdout)))))"

subsection \<open>Every tool is a scheduler command\<close>

lemma pbs_error_le [simp]: "exc_le PbsError SchedulerError"
  by (simp add: exc_le_def)

lemma pbs_unexpected_fails [simp]:
  "tool_failure (pbs_unexpected what ex err)" "tool_failure (bind_res (pbs_unexpected what ex err) f)"
  by (simp_all add: pbs_unexpected_def isinstance_def)

lemma pbs_payload_fails [simp]:
  "ex \<noteq> 0 \<Longrightarrow> tool_failure (bind_res (pbs_payload what tool out err ex) f)"
  by (simp add: pbs_payload_def)

interpretation pbs_partitions: scheduler_command pbs_partitions_parse_output
  by unfold_locales (simp add: pbs_partitions_parse_output_def)

interpretation pbsnodes: scheduler_command pbsnodes_parse_output
  by unfold_locales (simp add: pbsnodes_parse_output_def)

interpretation pbs_ping: scheduler_command pbs_ping_parse_output
  by unfold_locales (simp add: pbs_ping_parse_output_def)

interpretation qdel: scheduler_command qdel_parse_output
  by unfold_locales (simp add: qdel_parse_output_def)

interpretation qsub: scheduler_command qsub_parse_output
  by unfold_locales (simp add: qsub_parse_output_def)

interpretation qstat: scheduler_command qstat_parse_output
  by unfold_locales (simp add: qstat_parse_output_def)

interpretation qstat_metadata: scheduler_command qstat_metadata_parse_output
  by unfold_locales (simp add: qstat_metadata_parse_output_def)

interpretation rstat: scheduler_command rstat_parse_output
  by unfold_locales (simp add: rstat_parse_output_def)

subsection \<open>The client\<close>

text \<open>\<open>if result: result = [Model.model_validate(r) for r in result]\<close>.\<close>

definition validated ::
  "('w, kwargs list option) io \<Rightarrow> (kwargs \<Rightarrow> 'a res) \<Rightarrow> ('w, 'a list option) io" where
  "validated m validate =
     io_bind m (\<lambda>result. io_lift (case result of
       None \<Rightarrow> Inr None | Some xs \<Rightarrow> map_res Some (traverse validate xs)))"

definition pbs_submit_job ::
  "'w ssh \<Rightarrow> JobDescription \<Rightarrow> string \<Rightarrow> string \<Rightarrow> ('w, string option) io" where
  "pbs_submit_job ssh job_description username jwt_token =
     io_bind (io_lift (qsub_get_command job_description)) (\<lambda>command.
       executed_ssh_cmd ssh username jwt_token command (qsub_parse_output job_description)
         (jd_script job_description))"

definition pbs_attach_command :: "string \<Rightarrow> string \<Rightarrow> string \<Rightarrow> string \<Rightarrow> ('w, unit option) io" where
  "pbs_attach_command command job_id username jwt_token =
     io_raise NotImplementedError ''Interactive attach is not supported in PBS CLI client''"

definition pbs_qstat ::
  "(json \<Rightarrow> int res) \<Rightarrow> local_calendar \<Rightarrow> 'w ssh \<Rightarrow> string \<Rightarrow> string \<Rightarrow> qstat_command \<Rightarrow> ('w, Job list option) io" where
  "pbs_qstat pint cal ssh username jwt_token c =
     validated (executed_ssh_cmd ssh username jwt_token (qstat_get_command c) (qstat_parse_output c) None)
       (pbs_job_init pint cal)"

definition pbs_get_job ::
  "(json \<Rightarrow> int res) \<Rightarrow> local_calendar \<Rightarrow> 'w ssh \<Rightarrow> string \<Rightarrow> string \<Rightarrow> string \<Rightarrow> bool \<Rightarrow> ('w, Job list option) io" where
  "pbs_get_job pint cal ssh job_id username jwt_token allusers =
     pbs_qstat pint cal ssh username jwt_token
       \<lparr>qs_username = Some username, qs_ids = Some [job_id], qs_allusers = allusers,
        qs_account = None, qs_name = None\<rparr>"

definition pbs_get_jobs ::
  "(json \<Rightarrow> int res) \<Rightarrow> local_calendar \<Rightarrow> 'w ssh \<Rightarrow> string \<Rightarrow> string \<Rightarrow> bool \<Rightarrow> string option
   \<Rightarrow> string option \<Rightarrow> JobsTimeWindow \<Rightarrow> ('w, Job list option) io" where
  "pbs_get_jobs pint cal ssh username jwt_token allusers account name time_window =
     pbs_qstat pint cal ssh username jwt_token
       \<lparr>qs_username = Some username, qs_ids = None, qs_allusers = allusers,
        qs_account = account, qs_name = name\<rparr>"

definition pbs_get_job_metadata ::
  "'w ssh \<Rightarrow> string \<Rightarrow> string \<Rightarrow> string \<Rightarrow> ('w, JobMetadata list option) io" where
  "pbs_get_job_metadata ssh job_id username jwt_token =
     (let c = \<lparr>qs_username = Some username, qs_ids = Some [job_id], qs_allusers = True,
               qs_account = None, qs_name = None\<rparr> in
      validated (executed_ssh_cmd ssh username jwt_token (qstat_metadata_get_command c)
                   (qstat_metadata_parse_output c) None)
        pbs_metadata_init)"

definition pbs_cancel_job :: "'w ssh \<Rightarrow> string \<Rightarrow> string \<Rightarrow> string \<Rightarrow> ('w, bool option) io" where
  "pbs_cancel_job ssh job_id username jwt_token =
     executed_ssh_cmd ssh username jwt_token (qdel_get_command job_id) (qdel_parse_output job_id) None"

definition pbs_get_nodes ::
  "(json \<Rightarrow> int res) \<Rightarrow> (json \<Rightarrow> rat res) \<Rightarrow> 'w ssh \<Rightarrow> string \<Rightarrow> string \<Rightarrow> ('w, Node list option) io" where
  "pbs_get_nodes pint pfloat ssh username jwt_token =
     validated (executed_ssh_cmd ssh username jwt_token pbsnodes_get_command (pbsnodes_parse_output ()) None)
       (pbs_node_init pint pfloat)"

definition pbs_get_reservations ::
  "(json \<Rightarrow> int res) \<Rightarrow> local_calendar \<Rightarrow> 'w ssh \<Rightarrow> string \<Rightarrow> string \<Rightarrow> ('w, Reservation list option) io" where
  "pbs_get_reservations pint cal ssh username jwt_token =
     validated (executed_ssh_cmd ssh username jwt_token (rstat_get_command None) (rstat_parse_output ()) None)
       (pbs_reservation_init pint cal)"

definition pbs_get_partitions ::
  "(json \<Rightarrow> int res) \<Rightarrow> 'w ssh \<Rightarrow> bool \<Rightarrow> string \<Rightarrow> string \<Rightarrow> ('w, PbsPartition list option) io" where
  "pbs_get_partitions pint ssh show_hidden username jwt_token =
     validated (executed_ssh_cmd ssh username jwt_token pbs_partitions_get_command
                  (pbs_partitions_parse_output ()) None)
       (pbs_partition_init pint)"

definition pbs_get_accounts :: "string \<Rightarrow> string \<Rightarrow> ('w, Accounts list option) io" where
  "pbs_get_accounts username jwt_token = io_return None"

definition pbs_client_ping :: "'w ssh \<Rightarrow> string \<Rightarrow> string \<Rightarrow> ('w, kwargs list option) io" where
  "pbs_client_ping ssh username jwt_token =
     executed_ssh_cmd ssh username jwt_token pbs_ping_get_command (pbs_ping_parse_output ()) None"

end
