(* ===== verification/PbsListing.thy ===== *)
theory PbsListing
  imports PbsClient
begin

section \<open>What the PBS client makes of the tools' output\<close>

text \<open>
  Properties of the PBS tools and client: which jobs of a listing are reported, how node ranges are
  spelled out, what the shell is told on a submission and how the job's output files are reported.
\<close>

subsection \<open>The jobs of a listing\<close>

lemma qstat_job_Some:
  assumes "qstat_job c (i, v) = Inr (Some info)"
  obtains d o' where "v = JObj d" "get_text d ''Job_Owner'' = Inr o'"
    "qs_allusers c \<or> qs_username c = Some (hd (split_on CHR ''@'' o'))"
    "asked_for (qs_name c) (jget_def d ''Job_Name'' (JStr []))"
    "asked_for (qs_account c) (jget_def d ''project'' (JStr []))"
    "info = dict_set ''user'' (JStr (hd (split_on CHR ''@'' o')))
              (dict_update [(''job_id'', JStr (short_job_id i))] d)"
  using assms
  by (cases v) (auto simp: qstat_job_def Let_def res_iff split: if_splits)

lemma map_of_rev: "distinct (map fst d) \<Longrightarrow> map_of (rev d) = map_of d"
  by (subst map_of_inject_set) (simp_all add: rev_map [symmetric])

lemma map_of_info:
  "k \<noteq> ''user'' \<Longrightarrow> k \<noteq> ''job_id'' \<Longrightarrow> distinct (map fst d) \<Longrightarrow>
   map_of (dict_set ''user'' u (dict_update [(''job_id'', i)] d)) k = map_of d k"
  by (simp add: map_of_dict_update map_add_def map_of_rev split: option.split)

text \<open>The fields of a validated job that the selection is about.\<close>

lemma pbs_job_init_fields:
  assumes "pbs_job_init pint cal d = Inr j"
  shows "map_of d ''user'' = Some (JStr u) \<Longrightarrow> job_user j = Some u"
    and "map_of d ''Job_Name'' = Some (JStr n) \<Longrightarrow> job_name j = n"
    and "map_of d ''project'' = Some v \<Longrightarrow> job_account j = Some (json_str v)"
  using assms
  by (auto simp: pbs_job_init_def res_iff Let_def dict_update_def str_field_def opt_str_field_def)


definition selected_job :: "string \<Rightarrow> string option \<Rightarrow> string option \<Rightarrow> Job \<Rightarrow> bool" where
  "selected_job username account name j \<longleftrightarrow>
     job_user j = Some username \<and> (truthy name \<longrightarrow> Some (job_name j) = name) \<and>
     (truthy account \<longrightarrow> job_account j = account)"

lemma qstat_job_selected:
  assumes "qstat_job c (i, v) = Inr (Some info)" and "json_wf v"
    and "c = \<lparr>qs_username = Some username, qs_ids = is, qs_allusers = False, qs_account = account, qs_name = name\<rparr>"
    and "pbs_job_init pint cal info = Inr j"
  shows "selected_job username account name j"
proof -
  from assms(1) obtain d o' where d: "v = JObj d"
    "qs_allusers c \<or> qs_username c = Some (hd (split_on CHR ''@'' o'))"
    "asked_for (qs_name c) (jget_def d ''Job_Name'' (JStr []))"
    "asked_for (qs_account c) (jget_def d ''project'' (JStr []))"
    "info = dict_set ''user'' (JStr (hd (split_on CHR ''@'' o')))
              (dict_update [(''job_id'', JStr (short_job_id i))] d)"
    by (rule qstat_job_Some)
  then have dd: "distinct (map fst d)" using assms(2) by simp
  note fields = pbs_job_init_fields [OF assms(4)]
  have "job_user j = Some username"
    by (rule fields(1)) (use d(2,5) assms(3) in simp)
  moreover have "Some (job_name j) = name" if "truthy name"
  proof -
    have "map_of d ''Job_Name'' = Some (JStr (opt_text name))"
      using d(3) that assms(3) by (cases name) (auto simp: asked_for_def jget_def_def opt_text_def split: option.splits)
    then show ?thesis using fields(2) map_of_info [OF _ _ dd] d(5) that
      by (cases name) (auto simp: opt_text_def)
  qed
  moreover have "job_account j = account" if "truthy account"
  proof -
    have "map_of d ''project'' = Some (JStr (opt_text account))"
      using d(4) that assms(3) by (cases account) (auto simp: asked_for_def jget_def_def opt_text_def split: option.splits)
    then show ?thesis using fields(3) map_of_info [OF _ _ dd] d(5) that
      by (cases account) (auto simp: opt_text_def)
  qed
  ultimately show ?thesis by (simp add: selected_job_def)
qed

lemma json_wf_jget: "json_wf (JObj d) \<Longrightarrow> json_wf dflt \<Longrightarrow> json_wf (jget_def d k dflt)"
  by (auto simp: jget_def_def list_all_iff split: option.split dest: map_of_SomeD)

lemma jitems_Inr [simp]: "jitems v = Inr d \<longleftrightarrow> v = JObj d"
  by (cases v) auto

lemma pbs_payload_wf: "pbs_payload what tool out err ex = Inr d \<Longrightarrow> json_wf (JObj d)"
  by (auto simp: pbs_payload_def pbs_unexpected_def dest: json_loads_wf split: if_splits sum.splits)

lemma in_map_filter_id: "x \<in> set (List.map_filter id ys) \<longleftrightarrow> Some x \<in> set ys"
  by (force simp: List.map_filter_def)

lemma qstat_parsed_from:
  assumes "qstat_parse_output c out err ex = Inr r" and "info \<in> set (the r)"
  obtains i v where "json_wf v" "qstat_job c (i, v) = Inr (Some info)"
proof -
  from assms obtain payload res js where p: "pbs_payload ''qstat'' ''qstat'' out err ex = Inr payload"
    "jget_def payload ''Jobs'' (JObj []) = JObj res" "traverse (qstat_job c) res = Inr js"
    "r = Some (List.map_filter id js)"
    by (auto simp: qstat_parse_output_def res_iff)
  then have wf: "json_wf (JObj res)"
    using json_wf_jget [OF pbs_payload_wf [OF p(1)], of "JObj []" "''Jobs''"] by simp
  from p assms(2) have "Some info \<in> set js" by (simp add: in_map_filter_id)
  with p(3) obtain x where x: "x \<in> set res" "qstat_job c x = Inr (Some info)" by (rule traverse_member)
  obtain i v where iv: "x = (i, v)" by (cases x)
  have "json_wf v" using wf x(1) iv by (auto simp: list_all_iff)
  moreover have "qstat_job c (i, v) = Inr (Some info)" using x iv by simp
  ultimately show thesis by (rule that)
qed

text \<open>
  C18: a PBS user sees only jobs of the user.  Whatever \<open>qstat\<close> lists, every job the listing of
  the caller's jobs reports has the caller as its user and, when a name or an account was asked
  for, that name and that account.
\<close>

theorem pbs_jobs_belong_to_caller:
  "case pbs_get_jobs pint cal ssh username jwt_token False account name time_window w of
     (Inr (Some js), _) \<Rightarrow> list_all (selected_job username account name) js
   | _ \<Rightarrow> True"
proof -
  let ?c = "\<lparr>qs_username = Some username, qs_ids = None, qs_allusers = False, qs_account = account, qs_name = name\<rparr>"
  have "selected_job username account name j"
    if parsed: "qstat_parse_output ?c out err ex = Inr (Some infos)"
      and js: "traverse (pbs_job_init pint cal) infos = Inr js" and j: "j \<in> set js"
    for out err ex infos js j
  proof -
    from j js obtain info where info: "info \<in> set infos" "pbs_job_init pint cal info = Inr j"
      by (metis traverse_member)
    obtain i v where "json_wf v" "qstat_job ?c (i, v) = Inr (Some info)"
      by (rule qstat_parsed_from [OF parsed, of info]) (use info in auto)
    with info(2) show ?thesis by (intro qstat_job_selected [of ?c i v info]) simp_all
  qed
  then show ?thesis
    by (auto simp: pbs_get_jobs_def pbs_qstat_def validated_def io_simps executed_ssh_cmd_cases
        list_all_iff split: prod.split sum.split option.split)
       (auto simp: res_iff split: sum.splits option.splits)
qed


subsection \<open>The files of a job\<close>


lemma re_iter_anchored:
  "b \<noteq> [] \<Longrightarrow> re_iter n (rseqs (RBegin # rs)) b s = []"
proof (induction n arbitrary: b s)
  case (Suc n)
  then show ?case by (cases s) (simp_all add: rx_simps)
qed simp

lemma drop_cluster_path:
  assumes "h \<noteq> []" and "CHR '':'' \<notin> set h"
  shows "drop_cluster (h @ '':'' @ p) = p"
proof -
  let ?rs = "[RBegin, rplus (RChar (\<lambda>c. c \<noteq> CHR '':'')), rlit '':'']"
  have m: "rmatch (rseqs ?rs) Some ([], h @ '':'' @ p, Map.empty) = Some (rev (h @ '':''), p, Map.empty)"
    by (intro rseqs_begin rseqs_plus) (use assms in \<open>auto simp: list_all_iff rx_simps rmatch_lit_iff\<close>)
  have "re_finditer (rseqs ?rs) (h @ '':'' @ p) = [(0, Suc (length h), Map.empty)]"
    unfolding re_finditer_def re_iter.simps(2) m
    using assms(1) by (simp add: re_iter_anchored del: re_iter.simps)
  then show ?thesis by (simp add: drop_cluster_def re_remove_def)
qed

text \<open>
  The files of a PBS job are reported the wrong way round.  What \<open>qstat\<close> gives as the job's
  \<open>Output_Path\<close> is reported as its standard error and the \<open>Error_Path\<close> as its standard output,
  each without the host name in front.
\<close>

theorem pbs_metadata_swaps_streams:
  assumes "ssh username jwt_token (''qstat -F json -f '' @ job_id @ '' -x'') None w = (Inr (out, err, 0), w')"
    and "json_loads out = Inr (JObj [(''Jobs'', JObj [(i, JObj d)])])"
    and "map_of d ''Output_Path'' = Some (JStr (h @ '':'' @ out_path))" and "h \<noteq> []" "CHR '':'' \<notin> set h"
    and "map_of d ''Error_Path'' = Some (JStr (h' @ '':'' @ err_path))" and "h' \<noteq> []" "CHR '':'' \<notin> set h'"
    and "set (map fst d) \<inter> {''jobId'', ''job_id'', ''script'', ''standardInput'', ''standard_input''} = {}"
  shows "pbs_get_job_metadata ssh job_id username jwt_token w =
    (Inr (Some [\<lparr>md_job_id = short_job_id i, md_script = None, md_standard_input = None,
                 md_standard_output = Some err_path, md_standard_error = Some out_path\<rparr>]), w')"
proof -
  let ?d = "dict_update [(''job_id'', JStr (short_job_id i))] d"
  have dd: "distinct (map fst d)" using json_loads_wf [OF assms(2)] by simp
  have none: "k \<in> {''jobId'', ''job_id'', ''script'', ''standardInput'', ''standard_input''} \<Longrightarrow> map_of d k = None" for k
    using assms(9) unfolding map_of_eq_None_iff set_map by blast
  have look: "map_of ?d k = (if k = ''job_id'' then Some (JStr (short_job_id i)) else map_of d k)" for k
    using none [of "''job_id''"]
    by (auto simp: map_of_dict_update map_add_def map_of_rev [OF dd] simp del: map_of_eq_None_iff split: option.split)
  have init: "pbs_metadata_init ?d = Inr \<lparr>md_job_id = short_job_id i, md_script = None, md_standard_input = None,
                 md_standard_output = Some err_path, md_standard_error = Some out_path\<rparr>"
    using drop_cluster_path [OF assms(4,5)] drop_cluster_path [OF assms(7,8)]
    by (simp add: pbs_metadata_init_def str_field_def opt_str_field_def pbs_path_field_def look none assms(3,6))
  have "qstat_metadata_get_command \<lparr>qs_username = Some username, qs_ids = Some [job_id], qs_allusers = True,
      qs_account = None, qs_name = None\<rparr> = ''qstat -F json -f '' @ job_id @ '' -x''"
    by (simp add: qstat_metadata_get_command_def qstat_base_get_command_def)
  then show ?thesis using init assms(1,2)
    by (simp add: pbs_get_job_metadata_def validated_def io_simps executed_ssh_cmd_cases
        qstat_metadata_parse_output_def pbs_payload_def qstat_metadata_row_def splat_def)
qed

lemma pbs_metadata_swaps_streams_witness:
  "pbs_get_job_metadata
     (\<lambda>u t c i w. (Inr (''{\"Jobs\":{\"7.pbs\":{\"Error_Path\":\"h:e\",\"Output_Path\":\"h:o\"}}}'', [], 0), w + (1::nat)))
     ''7'' ''u'' ''t'' 0 =
   (Inr (Some [\<lparr>md_job_id = ''7'', md_script = None, md_standard_input = None,
                md_standard_output = Some ''e'', md_standard_error = Some ''o''\<rparr>]), 1)"
proof -
  have short: "short_job_id ''7.pbs'' = ''7''" by code_simp
  show ?thesis unfolding short [symmetric]
    by (rule pbs_metadata_swaps_streams [where i = "''7.pbs''" and h = "''h''" and h' = "''h''" and err = "[]"
          and d = "[(''Error_Path'', JStr ''h:e''), (''Output_Path'', JStr ''h:o'')]"
          and out = "''{\"Jobs\":{\"7.pbs\":{\"Error_Path\":\"h:e\",\"Output_Path\":\"h:o\"}}}''"])
       (simp_all, code_simp?)
qed


subsection \<open>Numeric accounts\<close>

lemma show_int_nonempty [simp]: "show_int n \<noteq> []"
  by (simp add: show_int_def)

text \<open>
  A job of a numeric account is lost to the account filter.  PBS prints a project that is a
  number as a JSON number; the job is then reported with the number's digits as its account, but
  asking for exactly that account skips the job.
\<close>

theorem pbs_numeric_account_is_skipped:
  assumes "map_of d ''project'' = Some (JInt n)" and "json_wf (JObj d)"
    and "qstat_job c (i, JObj d) = Inr (Some info)" and "pbs_job_init pint cal info = Inr j"
  shows "job_account j = Some (show_int n) \<and>
    qstat_job (c\<lparr>qs_account := job_account j\<rparr>) (i, JObj d) = Inr None"
proof -
  from assms(3) obtain o' where o': "get_text d ''Job_Owner'' = Inr o'"
    "qs_allusers c \<or> qs_username c = Some (hd (split_on CHR ''@'' o'))"
    "asked_for (qs_name c) (jget_def d ''Job_Name'' (JStr []))"
    and info: "info = dict_set ''user'' (JStr (hd (split_on CHR ''@'' o')))
                (dict_update [(''job_id'', JStr (short_job_id i))] d)"
    by (elim qstat_job_Some) auto
  have "map_of info ''project'' = Some (JInt n)"
    unfolding info by (subst map_of_info) (use assms(1,2) in simp_all)
  then have acc: "job_account j = Some (show_int n)"
    using pbs_job_init_fields(3) [OF assms(4)] by simp
  moreover have "\<not> asked_for (Some (show_int n)) (jget_def d ''project'' (JStr []))"
    using assms(1) by (simp add: asked_for_def jget_def_def)
  ultimately show ?thesis using o' by (auto simp: qstat_job_def Let_def)
qed

definition numeric_job :: kwargs where
  "numeric_job =
     [(''Job_Name'', JStr ''n''), (''Job_Owner'', JStr ''u@h''), (''project'', JInt 42), (''queue'', JStr ''q''),
      (''Priority'', JInt 0), (''job_state'', JStr ''R''),
      (''Variable_List'', JObj [(''PBS_O_WORKDIR'', JStr ''/d'')]),
      (''Resource_List'', JObj [(''nodect'', JInt 1)])]"

lemma pbs_numeric_account_is_skipped_witness:
  "\<exists>j. pbs_job_init int_of_json
          \<lparr>cal_fromtimestamp = \<lambda>_. None, cal_fromisoformat = \<lambda>_. None, cal_strptime = \<lambda>_ _. None,
           cal_year = [], cal_day = []\<rparr>
          (dict_set ''user'' (JStr ''u'') (dict_update [(''job_id'', JStr ''7'')] numeric_job)) = Inr j \<and>
        job_account j = Some (show_int 42) \<and>
        qstat_job (qstat_base\<lparr>qs_account := job_account j\<rparr>) (''7.pbs'', JObj numeric_job) = Inr None"
  (is "\<exists>j. pbs_job_init _ ?cal ?info = Inr j \<and> _")
proof -
  have "\<exists>j. pbs_job_init int_of_json ?cal ?info = Inr j"
    by (simp add: numeric_job_def pbs_job_init_def dict_update_def get_in_def get_text_def nth_res_def
        pbs_time_init_def pbs_duration_def pbs_parse_timestamp_def opt_int_of_def str_field_def
        opt_str_field_def int_field_def parse_nodelist_def Let_def)
  then obtain j where j: "pbs_job_init int_of_json ?cal ?info = Inr j" by blast
  have "map_of numeric_job ''project'' = Some (JInt 42)" "json_wf (JObj numeric_job)"
    "qstat_job qstat_base (''7.pbs'', JObj numeric_job) = Inr (Some ?info)"
    by (simp_all add: numeric_job_def qstat_job_def qstat_base_def get_text_def asked_for_def short_job_id_def)
  from pbs_numeric_account_is_skipped [OF this j] j show ?thesis by blast
qed

subsection \<open>Node lists\<close>

text \<open>What PBS prints for the hosts of a job: hosts and ranges of hosts, each with what is used of it.\<close>

datatype exec_host = Host string | HostRange string nat nat nat

fun show_exec_host :: "exec_host \<Rightarrow> string" where
  "show_exec_host (Host h) = h"
| "show_exec_host (HostRange p width lo hi) =
     p @ ''['' @ show_padded width lo @ ''-'' @ show_padded width hi @ '']''"

fun exec_host_names :: "exec_host \<Rightarrow> string list" where
  "exec_host_names (Host h) = [h]"
| "exec_host_names (HostRange p width lo hi) =
     map (\<lambda>i. p @ show_padded (max width (length (show_nat lo))) i) [lo..<Suc hi]"

fun exec_host_prefix :: "exec_host \<Rightarrow> string" where
  "exec_host_prefix (Host h) = h"
| "exec_host_prefix (HostRange p width lo hi) = p"

definition plain_host :: "string \<Rightarrow> bool" where
  "plain_host h \<longleftrightarrow> h \<noteq> [] \<and> set h \<inter> set ''[/+'' = {}"

lemma read_show_padded: "read_base 10 0 (show_padded w n) = n"
  by (simp add: show_padded_def Let_def read_base_zeros)

lemma show_padded_digits: "list_all is_digit (show_padded w n)" "show_padded w n \<noteq> []"
  using show_nat_digits [of n]
  by (auto simp: show_padded_def Let_def list_all_iff) (simp add: is_digit_def)

lemma length_show_padded: "length (show_padded w n) = max w (length (show_nat n))"
  by (simp add: show_padded_def Let_def)

lemma match_host_range:
  assumes "plain_host p"
  shows "\<exists>m. re_match host_range (p @ ''['' @ show_padded w lo @ ''-'' @ show_padded w hi @ '']'' @ u) = Some m
    \<and> m_group m 1 = Some p \<and> m_group m 2 = Some (show_padded w lo) \<and> m_group m 3 = Some (show_padded w hi)"
  unfolding re_match_def host_range_def
proof (rule exI, rule conjI)
  have "list_all (\<lambda>c. c \<noteq> CHR ''['') p" "p \<noteq> []"
    using assms by (auto simp: plain_host_def list_all_iff)
  then show "rmatch (rseqs [RGroup 1 (rplus (RChar (\<lambda>c. c \<noteq> CHR ''[''))), rlit ''['',
      RGroup 2 (rplus r_digit), rlit ''-'', RGroup 3 (rplus r_digit), rlit '']''])
      Some ([], p @ ''['' @ show_padded w lo @ ''-'' @ show_padded w hi @ '']'' @ u, Map.empty) =
    Some (rev '']'' @ rev (show_padded w hi) @ rev ''-'' @ rev (show_padded w lo) @ rev ''['' @ rev p, u,
      Map.empty(1 \<mapsto> p, 2 \<mapsto> show_padded w lo, 3 \<mapsto> show_padded w hi))"
    by (intro rseqs_group_plus rseqs_lit rseqs_Nil)
       (simp_all add: show_padded_digits is_digit_def)
qed (simp add: m_group_def)

lemma host_range_needs_bracket:
  assumes "CHR ''['' \<notin> set h"
  shows "re_match host_range h = None"
proof (rule ccontr)
  assume "re_match host_range h \<noteq> None"
  then obtain m where "rmatch host_range Some ([], h, Map.empty) = Some m"
    by (auto simp: re_match_def)
  from re_match_lang [OF this] obtain u where u: "u \<in> rx_lang host_range" "h = u @ fst (snd m)" by blast
  from u(1) have "CHR ''['' \<in> set u"
    unfolding host_range_def rx_lang_derived(3) [of "RGroup 1 r" for r] rx_lang_derived(3) [of "rlit w" for w] rx_lang_lit
    by auto
  with u(2) assms show False by simp
qed

lemma hd_split_on: "sep \<notin> set w \<Longrightarrow> hd (split_on sep (w @ sep # s)) = w"
  by (simp add: split_on_append)

lemma show_exec_host_chars:
  assumes "plain_host (exec_host_prefix h)"
  shows "CHR ''/'' \<notin> set (show_exec_host h)" "CHR ''+'' \<notin> set (show_exec_host h)"
proof -
  have "CHR ''/'' \<notin> set (show_padded w n)" "CHR ''+'' \<notin> set (show_padded w n)" for w n
    using show_padded_digits(1) [of w n] by (auto simp: list_all_iff is_digit_def)
  with assms show "CHR ''/'' \<notin> set (show_exec_host h)" "CHR ''+'' \<notin> set (show_exec_host h)"
    by (cases h; auto simp: plain_host_def)+
qed

lemma expand_exec_host:
  assumes "plain_host (exec_host_prefix h)"
  shows "expand_host (show_exec_host h @ CHR ''/'' # use) = exec_host_names h"
proof (cases h)
  case (Host n)
  then have "re_match host_range n = None"
    using assms by (intro host_range_needs_bracket) (auto simp: plain_host_def)
  with Host show ?thesis
    using hd_split_on [OF show_exec_host_chars(1) [OF assms]]
    by (simp add: expand_host_def)
next
  case (HostRange p w lo hi)
  obtain m where m: "re_match host_range (show_exec_host h @ []) = Some m"
    "m_group m 1 = Some p" "m_group m 2 = Some (show_padded w lo)" "m_group m 3 = Some (show_padded w hi)"
    using match_host_range [of p w lo hi "[]"] assms HostRange by auto
  then show ?thesis
    using hd_split_on [OF show_exec_host_chars(1) [OF assms]]
    by (simp add: expand_host_def HostRange opt_text_def group_nat_def read_show_padded length_show_padded
        del: upt_Suc show_exec_host.simps)
qed

text \<open>
  C33: the nodes of a PBS job are spelled out.  The list PBS prints, hosts and numbered ranges of hosts
  each with what the job uses of it, becomes the comma-separated list of exactly the hosts, every
  number of a range padded with zeros to the width of its first one.
\<close>

theorem pbs_nodes_spelled_out:
  assumes "hs \<noteq> []" and "list_all (\<lambda>(h, use). plain_host (exec_host_prefix h) \<and> CHR ''+'' \<notin> set use) hs"
  shows "parse_nodelist (JStr (join ''+'' (map (\<lambda>(h, use). show_exec_host h @ ''/'' @ use) hs))) =
    Inr (JStr (join '','' (concat (map (\<lambda>(h, use). exec_host_names h) hs))))"
proof -
  let ?chunks = "map (\<lambda>(h, use). show_exec_host h @ ''/'' @ use) hs"
  have "split_on CHR ''+'' (join ''+'' ?chunks) = ?chunks"
    by (rule split_on_join) (use assms show_exec_host_chars(2) in \<open>auto simp: list_all_iff\<close>)
  moreover have "map expand_host ?chunks = map (\<lambda>(h, use). exec_host_names h) hs"
    using assms(2) by (auto simp: list_all_iff expand_exec_host)
  moreover have "join ''+'' ?chunks \<noteq> []" using assms(1) by (cases hs rule: list.exhaust; cases "tl hs") auto
  ultimately show ?thesis by (simp add: parse_nodelist_def del: map_map)
qed

lemma pbs_nodes_spelled_out_witness:
  "parse_nodelist (JStr ''gpu/0*4+n[08-10]/1'') = Inr (JStr ''gpu,n08,n09,n10'')"
proof -
  let ?hs = "[(Host ''gpu'', ''0*4''), (HostRange ''n'' 2 8 10, ''1'')]"
  have "map (\<lambda>(h, use). show_exec_host h @ ''/'' @ use) ?hs = [''gpu/0*4'', ''n[08-10]/1'']"
    "concat (map (\<lambda>(h, use). exec_host_names h) ?hs) = [''gpu'', ''n08'', ''n09'', ''n10'']"
    by code_simp+
  moreover have "join ''+'' [''gpu/0*4'', ''n[08-10]/1''] = ''gpu/0*4+n[08-10]/1''"
    "join '','' [''gpu'', ''n08'', ''n09'', ''n10''] = ''gpu,n08,n09,n10''" by simp_all
  moreover have "list_all (\<lambda>(h, use). plain_host (exec_host_prefix h) \<and> CHR ''+'' \<notin> set use) ?hs"
    by (simp add: plain_host_def)
  ultimately show ?thesis using pbs_nodes_spelled_out [of ?hs] by (metis list.distinct(1))
qed


subsection \<open>Submission\<close>

lemma join_concat: "list_all (\<lambda>ws. ws \<noteq> []) wss \<Longrightarrow> join sep (map (join sep) wss) = join sep (concat wss)"
proof (induction wss)
  case (Cons ws wss)
  then show ?case by (cases wss) (simp_all add: join_append)
qed simp

definition flag_words :: "(string \<Rightarrow> string) \<Rightarrow> string \<Rightarrow> string option \<Rightarrow> string list list" where
  "flag_words q flag v = (if truthy v then [[flag, q (opt_text v)]] else [])"

lemma opt_flag_words: "opt_flag flag v = map (join '' '') (flag_words shlex_quote flag v)"
  by (simp add: opt_flag_def flag_words_def)

text \<open>What \<open>qsub\<close> is told for a job description and the text of its environment.\<close>

definition qsub_options :: "(string \<Rightarrow> string) \<Rightarrow> string option \<Rightarrow> JobDescription \<Rightarrow> string list list" where
  "qsub_options q env jd =
     [[''qsub''], (case env of None \<Rightarrow> [''-V''] | Some e \<Rightarrow> [''-v'', q e])] @
     flag_words q ''-N'' (jd_name jd) @
     flag_words q ''-q'' (if truthy (jd_reservation jd) then jd_reservation jd else jd_partition jd) @
     flag_words q ''-P'' (jd_account jd) @ flag_words q ''-e'' (jd_standard_error jd) @
     flag_words q ''-o'' (jd_standard_output jd) @ flag_words q ''--'' (jd_script_path jd)"

definition qsub_argv :: "string option \<Rightarrow> JobDescription \<Rightarrow> string list" where
  "qsub_argv env jd = concat (qsub_options id env jd)"

lemma flag_words_pieces:
  "list_all sh_safe flag \<Longrightarrow> flag \<noteq> [] \<Longrightarrow>
     list_all2 sh_piece (concat (flag_words shlex_quote flag v)) (concat (flag_words id flag v))"
  by (simp add: flag_words_def sh_piece_safe sh_piece_quote)

lemma qsub_line_pieces:
  "list_all2 sh_piece (concat (qsub_options shlex_quote env jd)) (qsub_argv env jd)"
  unfolding qsub_options_def qsub_argv_def concat_append
  by (intro list_all2_appendI flag_words_pieces)
     (simp_all add: sh_eval sh_piece_quote sh_piece_safe split: option.split)

lemma qsub_line:
  "join '' '' (qsub_words (case env of None \<Rightarrow> ''-V'' | Some e \<Rightarrow> ''-v '' @ shlex_quote e) jd) =
     join '' '' (concat (qsub_options shlex_quote env jd))"
proof -
  have "list_all (\<lambda>ws. ws \<noteq> []) (qsub_options shlex_quote env jd)"
    by (simp add: qsub_options_def flag_words_def split: option.split)
  moreover have "qsub_words (case env of None \<Rightarrow> ''-V'' | Some e \<Rightarrow> ''-v '' @ shlex_quote e) jd =
      map (join '' '') (qsub_options shlex_quote env jd)"
    by (simp add: qsub_words_def qsub_options_def opt_flag_words split: option.split)
  ultimately show ?thesis using join_concat by metis
qed

definition env_text :: "job_environment \<Rightarrow> string option" where
  "env_text e =
     (case e of
        EnvDict d \<Rightarrow> if d = [] then None else Some (join '','' (map (\<lambda>(k, v). k @ ''='' @ v) d))
      | EnvList _ \<Rightarrow> None)"

text \<open>
  C17: a submission to PBS is told to the shell word for word.  Whatever the job description holds,
  the shell changes to exactly its working directory and then starts \<open>qsub\<close> with exactly these
  options and values; only a non-empty environment given as a list makes the command fail.
\<close>

theorem qsub_exact_words:
  "map_res sh_tokens (qsub_get_command jd) =
     (case jd_environment jd of
        EnvList (_ # _) \<Rightarrow> raise AttributeError []
      | e \<Rightarrow> Inr (Some ((if jd_current_working_directory jd = [] then []
                         else [ShWord ''cd'', ShWord (jd_current_working_directory jd), ShOp ''&&'']) @
                        map ShWord (qsub_argv (env_text e) jd))))"
proof -
  let ?cwd = "jd_current_working_directory jd"
  have line: "sh_tokens (join '' '' (concat (qsub_options shlex_quote env jd))) =
      Some (map ShWord (qsub_argv env jd))" for env
    by (rule sh_tokens_join) (rule qsub_line_pieces)
  have cd: "sh_tokens (''cd '' @ shlex_quote ?cwd @ '' && '' @ t) =
      map_option (\<lambda>ts. [ShWord ''cd'', ShWord ?cwd, ShOp ''&&''] @ ts) (sh_tokens t)" for t
  proof -
    have "list_all2 sh_piece [''cd'', shlex_quote ?cwd] [''cd'', ?cwd]"
      by (simp add: sh_piece_quote sh_piece_safe sh_eval)
    from sh_scan_words_then [OF this, of "''&& '' @ t"] show ?thesis
      unfolding sh_tokens_def sh_scan_and by (simp add: option.map_comp comp_def)
  qed
  have cmd: "qsub_get_command jd = Inr (if ?cwd \<noteq> [] then
         ''cd '' @ shlex_quote ?cwd @ '' && '' @ join '' '' (concat (qsub_options shlex_quote (env_text e) jd))
       else join '' '' (concat (qsub_options shlex_quote (env_text e) jd)))"
    if "qsub_env (jd_environment jd) =
          Inr (case env_text e of None \<Rightarrow> ''-V'' | Some x \<Rightarrow> ''-v '' @ shlex_quote x)" for e
    using that by (simp add: qsub_get_command_def qsub_line Let_def)
  show ?thesis
  proof (cases "jd_environment jd")
    case (EnvDict d)
    then have "qsub_env (jd_environment jd) =
        Inr (case env_text (EnvDict d) of None \<Rightarrow> ''-V'' | Some x \<Rightarrow> ''-v '' @ shlex_quote x)"
      by (simp add: qsub_env_def env_is_empty_def env_items_def env_text_def)
    from cmd [OF this] EnvDict line cd show ?thesis by (simp add: Let_def)
  next
    case (EnvList es)
    show ?thesis
    proof (cases es)
      case Nil
      then have "qsub_env (jd_environment jd) =
          Inr (case env_text (EnvList []) of None \<Rightarrow> ''-V'' | Some x \<Rightarrow> ''-v '' @ shlex_quote x)"
        using EnvList by (simp add: qsub_env_def env_is_empty_def env_text_def)
      from cmd [OF this] EnvList Nil line cd show ?thesis by (simp add: Let_def)
    next
      case (Cons x xs)
      with EnvList show ?thesis
        by (simp add: qsub_get_command_def qsub_env_def env_is_empty_def env_items_def)
    qed
  qed
qed

end
