(* ===== verification/Base64.thy ===== *)
theory Base64
  imports Prelude
begin

section \<open>Base 64\<close>

text \<open>
  \<open>base64.b64encode\<close> and \<open>base64.b64decode\<close> of Python's library on bytes, kept as characters.  The
  decoder is the library's lenient one: characters outside the alphabet are skipped, a padding
  character counts only after at least two characters of a group, and text after a complete padding
  is ignored.
\<close>

subsection \<open>The alphabet\<close>

definition b64_alphabet :: string where
  "b64_alphabet = ''ABCDEFGHIJKLMNOPQRSTUVWXYZabcdefghijklmnopqrstuvwxyz0123456789+/''"

definition b64_char :: "nat \<Rightarrow> char" where
  "b64_char v = b64_alphabet ! v"

text \<open>The decoder's table: the value of a character of the alphabet.\<close>

definition b64_value :: "char \<Rightarrow> nat option" where
  "b64_value c =
     (let n = of_char c in
      if 65 \<le> n \<and> n \<le> 90 then Some (n - 65)
      else if 97 \<le> n \<and> n \<le> 122 then Some (n - 71)
      else if 48 \<le> n \<and> n \<le> 57 then Some (n + 4)
      else if n = 43 then Some 62
      else if n = 47 then Some 63
      else None)"

subsection \<open>Encoding\<close>

fun b64encode :: "string \<Rightarrow> string" where
  "b64encode [] = []"
| "b64encode [a] =
     [b64_char (of_char a div 4), b64_char (of_char a mod 4 * 16), CHR ''='', CHR ''='']"
| "b64encode [a, b] =
     [b64_char (of_char a div 4), b64_char (of_char a mod 4 * 16 + of_char b div 16),
      b64_char (of_char b mod 16 * 4), CHR ''='']"
| "b64encode (a # b # c # s) =
     [b64_char (of_char a div 4), b64_char (of_char a mod 4 * 16 + of_char b div 16),
      b64_char (of_char b mod 16 * 4 + of_char c div 64), b64_char (of_char c mod 64)] @ b64encode s"

subsection \<open>Decoding\<close>

text \<open>
  The loop of the decoder: the position in the group of four, what is left of the last character and
  the number of padding characters.  A group of one character and an incomplete padding are errors;
  \<open>binascii.Error\<close> is a \<open>ValueError\<close>.
\<close>

fun b64_go :: "nat \<Rightarrow> nat \<Rightarrow> nat \<Rightarrow> string \<Rightarrow> string res" where
  "b64_go quad_pos leftchar pads [] =
     (if quad_pos = 0 then Inr []
      else if quad_pos = 1 then raise Base64Error ''Invalid base64-encoded string''
      else raise Base64Error ''Incorrect padding'')"
| "b64_go quad_pos leftchar pads (c # s) =
     (if c = CHR ''='' then
        (if 2 \<le> quad_pos then
           (if 4 \<le> quad_pos + Suc pads then Inr [] else b64_go quad_pos leftchar (Suc pads) s)
         else b64_go quad_pos leftchar pads s)
      else
        (case b64_value c of
           None \<Rightarrow> b64_go quad_pos leftchar pads s
         | Some v \<Rightarrow>
             if quad_pos = 0 then b64_go 1 v 0 s
             else if quad_pos = 1 then
               map_res ((#) (char_of (leftchar * 4 + v div 16))) (b64_go 2 (v mod 16) 0 s)
             else if quad_pos = 2 then
               map_res ((#) (char_of (leftchar * 16 + v div 4))) (b64_go 3 (v mod 4) 0 s)
             else map_res ((#) (char_of (leftchar * 64 + v))) (b64_go 0 0 0 s)))"

definition b64decode :: "string \<Rightarrow> string res" where
  "b64decode s =
     (if list_all (\<lambda>c. of_char c < (128 :: nat)) s then b64_go 0 0 0 s
      else raise ValueError ''string argument should contain only ASCII characters'')"

subsection \<open>Decoding what was encoded\<close>

lemma b64_alphabet_values: "map b64_value b64_alphabet = map Some [0..<64]"
  by (simp add: b64_alphabet_def b64_value_def upt_conv_Cons)

lemma b64_alphabet_plain:
  "list_all (\<lambda>c. c \<noteq> CHR ''='' \<and> of_char c < (128 :: nat)) b64_alphabet"
  by (simp add: b64_alphabet_def)

lemma b64_char_value:
  assumes "v < 64"
  shows "b64_value (b64_char v) = Some v \<and> b64_char v \<noteq> CHR ''='' \<and> of_char (b64_char v) < (128 :: nat)"
proof -
  have len: "length b64_alphabet = 64" by (simp add: b64_alphabet_def)
  then have "map b64_value b64_alphabet ! v = b64_value (b64_char v)" "b64_char v \<in> set b64_alphabet"
    using assms by (simp_all add: b64_char_def)
  then show ?thesis using assms b64_alphabet_plain by (simp add: b64_alphabet_values list_all_iff)
qed

lemma b64_go_steps:
  "v < 64 \<Longrightarrow> b64_go 0 l p (b64_char v # s) = b64_go (Suc 0) v 0 s"
  "v < 64 \<Longrightarrow> b64_go (Suc 0) l p (b64_char v # s) = map_res ((#) (char_of (l * 4 + v div 16))) (b64_go 2 (v mod 16) 0 s)"
  "v < 64 \<Longrightarrow> b64_go 2 l p (b64_char v # s) = map_res ((#) (char_of (l * 16 + v div 4))) (b64_go 3 (v mod 4) 0 s)"
  "v < 64 \<Longrightarrow> b64_go 3 l p (b64_char v # s) = map_res ((#) (char_of (l * 64 + v))) (b64_go 0 0 0 s)"
  using b64_char_value [of v] by auto

lemma byte_pieces:
  assumes "a < 256" and "b < (256 :: nat)"
  shows "a div 4 < 64" "a mod 4 * 16 + b div 16 < 64" "a mod 16 * 4 + b div 64 < 64" "a mod 64 < 64"
    "a mod 4 * 16 < 64" "a mod 16 * 4 < 64"
  using assms by auto

lemma byte_rejoined:
  fixes a b :: nat
  assumes "a < 256" and "b < 256"
  shows "a div 4 * 4 + (a mod 4 * 16 + b div 16) div 16 = a"
    "(a mod 4 * 16 + b div 16) mod 16 = b div 16"
    "a div 16 * 16 + (a mod 16 * 4 + b div 64) div 4 = a"
    "(a mod 16 * 4 + b div 64) mod 4 = b div 64"
    "a div 64 * 64 + a mod 64 = a"
    "a div 4 * 4 + a mod 4 * 16 div 16 = a"
    "a div 16 * 16 + a mod 16 * 4 div 4 = a"
proof -
  have "b div 16 < 16" "b div 64 < 4" using assms by auto
  then show "a div 4 * 4 + (a mod 4 * 16 + b div 16) div 16 = a"
    "(a mod 4 * 16 + b div 16) mod 16 = b div 16"
    "a div 16 * 16 + (a mod 16 * 4 + b div 64) div 4 = a"
    "(a mod 16 * 4 + b div 64) mod 4 = b div 64" by simp_all
qed simp_all

lemma map_res_comp: "map_res f (map_res g r) = map_res (\<lambda>x. f (g x)) r"
  by (cases r) simp_all

lemma b64_go_quad:
  assumes "a < 256" and "b < 256" and "c < 256"
  shows "b64_go 0 l p (b64_char (a div 4) # b64_char (a mod 4 * 16 + b div 16) #
      b64_char (b mod 16 * 4 + c div 64) # b64_char (c mod 64) # s) =
    map_res (\<lambda>t. char_of a # char_of b # char_of c # t) (b64_go 0 0 0 s)"
  unfolding b64_go_steps(1) [OF byte_pieces(1) [OF assms(1,2)]]
    b64_go_steps(2) [OF byte_pieces(2) [OF assms(1,2)]]
    b64_go_steps(3) [OF byte_pieces(3) [OF assms(2,3)]]
    b64_go_steps(4) [OF byte_pieces(4) [OF assms(3,3)]]
    byte_rejoined(1,2) [OF assms(1,2)] byte_rejoined(3,4) [OF assms(2,3)] byte_rejoined(5) [OF assms(3,3)]
    map_res_comp ..

lemma b64_go_three:
  assumes "a < 256" and "b < 256"
  shows "b64_go 0 l p [b64_char (a div 4), b64_char (a mod 4 * 16 + b div 16), b64_char (b mod 16 * 4), CHR ''=''] =
    Inr [char_of a, char_of b]"
  unfolding b64_go_steps(1) [OF byte_pieces(1) [OF assms(1,2)]]
    b64_go_steps(2) [OF byte_pieces(2) [OF assms(1,2)]]
    b64_go_steps(3) [OF byte_pieces(6) [OF assms(2,2)]]
    byte_rejoined(1,2) [OF assms(1,2)] byte_rejoined(7) [OF assms(2,2)] by simp

lemma b64_go_two:
  assumes "a < 256"
  shows "b64_go 0 l p [b64_char (a div 4), b64_char (a mod 4 * 16), CHR ''='', CHR ''=''] = Inr [char_of a]"
  unfolding b64_go_steps(1) [OF byte_pieces(1) [OF assms assms]]
    b64_go_steps(2) [OF byte_pieces(5) [OF assms assms]] byte_rejoined(6) [OF assms assms] by simp

theorem b64_go_encode: "b64_go 0 0 0 (b64encode s) = Inr s"
  by (induction s rule: b64encode.induct)
     (simp_all add: b64_go_quad b64_go_three b64_go_two del: b64_go.simps(2))

lemma b64encode_ascii: "list_all (\<lambda>c. of_char c < (128 :: nat)) (b64encode s)"
proof (induction s rule: b64encode.induct)
  case (4 a b c s)
  have "v < 64 \<Longrightarrow> of_char (b64_char v) < (128 :: nat)" for v by (simp add: b64_char_value)
  moreover note byte_pieces [OF nat_of_char_less_256 [of a] nat_of_char_less_256 [of b]]
    byte_pieces [OF nat_of_char_less_256 [of b] nat_of_char_less_256 [of c]]
    byte_pieces [OF nat_of_char_less_256 [of c] nat_of_char_less_256 [of c]]
  ultimately show ?case using 4 by (simp del: nat_of_char_less_256)
next
  case (3 a b)
  have "v < 64 \<Longrightarrow> of_char (b64_char v) < (128 :: nat)" for v by (simp add: b64_char_value)
  moreover note byte_pieces [OF nat_of_char_less_256 [of a] nat_of_char_less_256 [of b]]
    byte_pieces [OF nat_of_char_less_256 [of b] nat_of_char_less_256 [of b]]
  ultimately show ?case by (simp del: nat_of_char_less_256)
next
  case (2 a)
  have "v < 64 \<Longrightarrow> of_char (b64_char v) < (128 :: nat)" for v by (simp add: b64_char_value)
  moreover note byte_pieces [OF nat_of_char_less_256 [of a] nat_of_char_less_256 [of a]]
  ultimately show ?case by (simp del: nat_of_char_less_256)
qed simp

theorem b64_roundtrip [simp]: "b64decode (b64encode s) = Inr s"
  by (simp add: b64decode_def b64encode_ascii b64_go_encode)

end
