(* ===== verification/Caller.thy ===== *)
theory Caller
  imports Auth SshCalls
begin

section \<open>The caller of an endpoint\<close>

text \<open>
  How every endpoint begins: it takes the user name and the access token that the authentication
  dependency left in the variables of the request.
\<close>

text \<open>\<open>ApiAuthHelper.get_auth().username\<close> and \<open>ApiAuthHelper.get_access_token()\<close>.\<close>

definition caller :: "request_vars \<Rightarrow> (string \<times> string) res" where
  "caller g =
     (case get_auth g of
        None \<Rightarrow> raise AttributeError []
      | Some a \<Rightarrow> bind_res (get_access_token g) (\<lambda>t. Inr (auth_username a, opt_str t)))"

definition as_caller :: "request_vars \<Rightarrow> (string \<Rightarrow> string \<Rightarrow> ('w, 'r) io) \<Rightarrow> ('w, 'r) io" where
  "as_caller g k = io_bind (io_lift (caller g)) (\<lambda>(username, access_token). k username access_token)"

lemma as_caller_apply [io_simps]:
  "as_caller g k w = (case caller g of Inl e \<Rightarrow> (Inl e, w) | Inr (username, access_token) \<Rightarrow> k username access_token w)"
  by (simp add: as_caller_def io_simps split: sum.split)

definition demo_vars :: request_vars where
  "demo_vars = \<lparr>g_auth = Some (Some \<lparr>auth_type = AuthUserType, auth_active = True, auth_username = ''u'',
     auth_email = None, auth_first_name = None\<rparr>), g_access_token = Some ''t''\<rparr>"

lemma caller_demo: "caller demo_vars = Inr (''u'', ''t'')"
  by (simp add: caller_def demo_vars_def get_auth_def get_access_token_def is_authenticated_def)

end
