(* ===== verification/FsOps.thy ===== *)
theory FsOps
  imports Caller FsCommands Base64 Dependencies
begin

section \<open>The file system endpoints\<close>

text \<open>
  \<open>firecrest/filesystem/ops/router.py\<close>: one function per endpoint, over the variables of the request
  (who is calling), the system the availability check returned and the SSH connection \<open>ssh\<close>.  The
  bodies of requests are records; the answer is what stands under the key \<open>output\<close>.  A path that a
  body leaves out is \<open>None\<close> and becomes the text \<open>None\<close> where a command line is built; only \<open>tar\<close>
  takes the path apart, which raises.
\<close>

subsection \<open>Settings\<close>

definition command_timeout :: "HPCCluster \<Rightarrow> int" where
  "command_timeout system = to_command_execution (ssh_timeout (cl_ssh system))"

definition max_size :: "HPCCluster \<Rightarrow> nat" where
  "max_size system = max_ops_file_size (cl_data_operation system)"

subsection \<open>Permissions, owners, listings\<close>

record PutFileChmodRequest =
  chmod_path :: "string option"
  chmod_req_mode :: string

definition put_chmod ::
  "'w ssh \<Rightarrow> request_vars \<Rightarrow> HPCCluster \<Rightarrow> PutFileChmodRequest \<Rightarrow> ('w, ls_output) io" where
  "put_chmod ssh g system r =
     as_caller g (\<lambda>username access_token.
     (let chmod = chmod_init (opt_str (chmod_path r)) (chmod_req_mode r) (command_timeout system)
      in executed_ssh_cmd ssh username access_token (chmod_get_command chmod) (chmod_parse_output chmod) None))"

record PutFileChownRequest =
  chown_path :: "string option"
  chown_req_owner :: string
  chown_req_group :: string

definition put_chown ::
  "'w ssh \<Rightarrow> request_vars \<Rightarrow> HPCCluster \<Rightarrow> PutFileChownRequest \<Rightarrow> ('w, ls_output) io" where
  "put_chown ssh g system r =
     as_caller g (\<lambda>username access_token.
     (let chown = chown_init (opt_str (chown_path r)) (chown_req_owner r) (chown_req_group r)
                    (command_timeout system)
      in executed_ssh_cmd ssh username access_token (chown_get_command chown) (chown_parse_output chown) None))"

definition get_ls ::
  "'w ssh \<Rightarrow> request_vars \<Rightarrow> HPCCluster \<Rightarrow> string \<Rightarrow> bool \<Rightarrow> bool \<Rightarrow> bool \<Rightarrow> bool \<Rightarrow> ('w, ls_output) io" where
  "get_ls ssh g system path show_hidden numeric_uid recursive dereference =
     as_caller g (\<lambda>username access_token.
     io_bind (io_lift (ls_init path show_hidden numeric_uid recursive dereference False (command_timeout system)))
       (\<lambda>ls. executed_ssh_cmd ssh username access_token (ls_get_command ls) (ls_parse_output ls) None))"

subsection \<open>Parts of a file\<close>

datatype ContentUnit = UnitLines | UnitBytes

record FileContent =
  ct_content :: string
  ct_content_type :: ContentUnit
  ct_start_position :: int
  ct_end_position :: int

text \<open>\<open>"bytes" if file_bytes else "lines"\<close>: zero bytes are lines.\<close>

definition content_unit :: "int option \<Rightarrow> ContentUnit" where
  "content_unit file_bytes = (if set_count file_bytes then UnitBytes else UnitLines)"

definition one_count :: "int option \<Rightarrow> int option \<Rightarrow> unit res" where
  "one_count lines file_bytes =
     (if set_count lines \<and> set_count file_bytes
      then http_error 400 ''Only one of `bytes` or `lines` can be specified.'' else Inr ())"

definition head_end :: "int option \<Rightarrow> int option \<Rightarrow> bool \<Rightarrow> int" where
  "head_end lines file_bytes skip_trailing =
     (case lines of
        Some n \<Rightarrow> if \<not> skip_trailing then n else - n
      | None \<Rightarrow> (case file_bytes of
                   Some n \<Rightarrow> if \<not> skip_trailing then n else - n
                 | None \<Rightarrow> 10))"

definition get_head ::
  "'w ssh \<Rightarrow> request_vars \<Rightarrow> HPCCluster \<Rightarrow> string \<Rightarrow> int option \<Rightarrow> int option \<Rightarrow> bool \<Rightarrow> ('w, FileContent) io" where
  "get_head ssh g system path file_bytes lines skip_trailing =
     as_caller g (\<lambda>username access_token.
     (let head = \<lparr>ht_timeout = command_timeout system, ht_target_path = path, ht_file_bytes = file_bytes,
                  ht_lines = lines, ht_skip = skip_trailing\<rparr>
      in io_bind (io_lift (one_count lines file_bytes)) (\<lambda>_.
         io_map (\<lambda>content. \<lparr>ct_content = content, ct_content_type = content_unit file_bytes,
                              ct_start_position = 0,
                              ct_end_position = head_end lines file_bytes skip_trailing\<rparr>)
           (executed_ssh_cmd ssh username access_token (head_get_command head) (head_parse_output head) None))))"

definition tail_start :: "int option \<Rightarrow> int option \<Rightarrow> bool \<Rightarrow> int" where
  "tail_start lines file_bytes skip_heading =
     (case lines of
        Some n \<Rightarrow> if \<not> skip_heading then - n else n
      | None \<Rightarrow> (case file_bytes of
                   Some n \<Rightarrow> if \<not> skip_heading then - n else n
                 | None \<Rightarrow> 10))"

definition get_tail ::
  "'w ssh \<Rightarrow> request_vars \<Rightarrow> HPCCluster \<Rightarrow> string \<Rightarrow> int option \<Rightarrow> int option \<Rightarrow> bool \<Rightarrow> ('w, FileContent) io" where
  "get_tail ssh g system path file_bytes lines skip_heading =
     as_caller g (\<lambda>username access_token.
     (let tail = \<lparr>ht_timeout = command_timeout system, ht_target_path = path, ht_file_bytes = file_bytes,
                  ht_lines = lines, ht_skip = skip_heading\<rparr>
      in io_bind (io_lift (one_count lines file_bytes)) (\<lambda>_.
         io_map (\<lambda>content. \<lparr>ct_content = content, ct_content_type = content_unit file_bytes,
                              ct_start_position = tail_start lines file_bytes skip_heading,
                              ct_end_position = - 1\<rparr>)
           (executed_ssh_cmd ssh username access_token (tail_get_command tail) (tail_parse_output tail) None))))"

text \<open>The three checks of \<open>get_view\<close> on the part that is asked for.\<close>

definition view_range :: "HPCCluster \<Rightarrow> int \<Rightarrow> int \<Rightarrow> unit res" where
  "view_range system sz offset =
     (if offset < 0 then http_error 400 ''`offset` value must be an integer value equal or greater than 0''
      else if sz \<le> 0 then http_error 400 ''`size` value must be an integer value greater than 0''
      else if sz > int (max_size system)
      then http_error 400 (''`size` value must be less than '' @ show_nat (max_size system) @ '' bytes'')
      else Inr ())"

definition get_view ::
  "'w ssh \<Rightarrow> request_vars \<Rightarrow> HPCCluster \<Rightarrow> string \<Rightarrow> int \<Rightarrow> int \<Rightarrow> ('w, string) io" where
  "get_view ssh g system path sz offset =
     as_caller g (\<lambda>username access_token.
     io_bind (io_lift (view_range system sz offset)) (\<lambda>_.
     io_bind (io_lift (dd_init path (Some sz) (Some offset) (int (max_size system)) (command_timeout system)))
       (\<lambda>view. executed_ssh_cmd ssh username access_token (dd_get_command view) (dd_parse_output view) None)))"

subsection \<open>Facts about a file\<close>

definition get_checksum :: "'w ssh \<Rightarrow> request_vars \<Rightarrow> HPCCluster \<Rightarrow> string \<Rightarrow> ('w, FileChecksum) io" where
  "get_checksum ssh g system path =
     as_caller g (\<lambda>username access_token.
     (let checksum = \<lparr>cks_timeout = command_timeout system, cks_algorithm = ''SHA256'', cks_target_path = path\<rparr>
      in io_bind (io_lift (checksum_get_command checksum)) (\<lambda>command.
           executed_ssh_cmd ssh username access_token command (checksum_parse_output checksum) None)))"

definition get_file :: "'w ssh \<Rightarrow> request_vars \<Rightarrow> HPCCluster \<Rightarrow> string \<Rightarrow> ('w, string) io" where
  "get_file ssh g system path =
     as_caller g (\<lambda>username access_token.
     (let c = \<lparr>pc_timeout = command_timeout system, pc_target_path = path\<rparr>
      in executed_ssh_cmd ssh username access_token (file_get_command c) (file_parse_output c) None))"

definition get_stat :: "'w ssh \<Rightarrow> request_vars \<Rightarrow> HPCCluster \<Rightarrow> string \<Rightarrow> bool \<Rightarrow> ('w, (string \<times> int) list) io" where
  "get_stat ssh g system path dereference =
     as_caller g (\<lambda>username access_token.
     (let stat = \<lparr>stat_timeout = command_timeout system, stat_target_path = path, stat_dereference = dereference\<rparr>
      in executed_ssh_cmd ssh username access_token (stat_get_command stat) (stat_parse_output stat) None))"

subsection \<open>Removing and creating\<close>

definition delete_rm :: "'w ssh \<Rightarrow> request_vars \<Rightarrow> HPCCluster \<Rightarrow> string \<Rightarrow> ('w, unit) io" where
  "delete_rm ssh g system path =
     as_caller g (\<lambda>username access_token.
     (let rm = \<lparr>pc_timeout = command_timeout system, pc_target_path = path\<rparr>
      in executed_ssh_cmd ssh username access_token (rm_get_command rm) (rm_parse_output rm) None))"

record PostMakeDirRequest =
  mkdir_path :: "string option"
  mkdir_req_parent :: bool

definition post_mkdir ::
  "'w ssh \<Rightarrow> request_vars \<Rightarrow> HPCCluster \<Rightarrow> PostMakeDirRequest \<Rightarrow> ('w, ls_output) io" where
  "post_mkdir ssh g system r =
     as_caller g (\<lambda>username access_token.
     (let mkdir = mkdir_init (opt_str (mkdir_path r)) (mkdir_req_parent r) (command_timeout system)
      in executed_ssh_cmd ssh username access_token (mkdir_get_command mkdir) (mkdir_parse_output mkdir) None))"

record PostFileSymlinkRequest =
  symlink_path :: "string option"
  symlink_req_link_path :: string

definition post_symlink ::
  "'w ssh \<Rightarrow> request_vars \<Rightarrow> HPCCluster \<Rightarrow> PostFileSymlinkRequest \<Rightarrow> ('w, ls_output) io" where
  "post_symlink ssh g system r =
     as_caller g (\<lambda>username access_token.
     (let symlink = symlink_init (opt_str (symlink_path r)) (symlink_req_link_path r) (command_timeout system)
      in executed_ssh_cmd ssh username access_token (symlink_get_command symlink) (symlink_parse_output symlink) None))"

subsection \<open>Small transfers\<close>

definition get_download :: "'w ssh \<Rightarrow> request_vars \<Rightarrow> HPCCluster \<Rightarrow> string \<Rightarrow> ('w, string) io" where
  "get_download ssh g system path =
     as_caller g (\<lambda>username access_token.
     (let base64 = \<lparr>b64_timeout = command_timeout system, b64_path = path, b64_decode = False\<rparr>
      in io_bind (executed_ssh_cmd ssh username access_token (base64_get_command base64) (base64_parse_output base64) None) (\<lambda>output.
         io_bind (io_lift (b64decode output)) (\<lambda>file_content.
           if length file_content > max_size system
           then io_raise (HTTPException 413) ''File to download is too large.''
           else io_return file_content))))"

definition upload_command :: "HPCCluster \<Rightarrow> string \<Rightarrow> string option \<Rightarrow> base64_command" where
  "upload_command system path filename =
     \<lparr>b64_timeout = command_timeout system, b64_path = path @ ''/'' @ opt_str filename, b64_decode = True\<rparr>"

definition post_upload ::
  "'w ssh \<Rightarrow> request_vars \<Rightarrow> HPCCluster \<Rightarrow> string \<Rightarrow> string option \<Rightarrow> string \<Rightarrow> ('w, unit) io" where
  "post_upload ssh g system path filename raw_content =
     as_caller g (\<lambda>username access_token.
       let base64 = upload_command system path filename in
       if length raw_content > max_size system
       then io_raise (HTTPException 413) ''File to upload is too large.''
       else io_map (\<lambda>_. ())
         (executed_ssh_cmd ssh username access_token (base64_get_command base64)
            (base64_parse_output base64) (Some (b64encode raw_content))))"

record PostCompressRequest =
  compress_path :: "string option"
  compress_target_path :: string
  compress_match_pattern :: "string option"
  compress_dereference :: bool
  compress_compression :: CompressionType

definition post_compress ::
  "'w ssh \<Rightarrow> request_vars \<Rightarrow> HPCCluster \<Rightarrow> PostCompressRequest \<Rightarrow> ('w, unit) io" where
  "post_compress ssh g system r =
     as_caller g (\<lambda>username access_token.
     io_bind (case compress_path r of None \<Rightarrow> io_raise TypeError [] | Some p \<Rightarrow> io_return p) (\<lambda>path.
       let tar = tar_init path (compress_target_path r) (compress_match_pattern r) (compress_dereference r)
                   (compress_compression r) TarCompress (command_timeout system)
       in io_map (\<lambda>_. ()) (executed_ssh_cmd ssh username access_token (tar_get_command tar) (tar_parse_output tar) None)))"

record PostExtractRequest =
  extract_path :: "string option"
  extract_target_path :: string
  extract_compression :: CompressionType

definition post_extract ::
  "'w ssh \<Rightarrow> request_vars \<Rightarrow> HPCCluster \<Rightarrow> PostExtractRequest \<Rightarrow> ('w, unit) io" where
  "post_extract ssh g system r =
     as_caller g (\<lambda>username access_token.
     (let tar = tar_init (opt_str (extract_path r)) (extract_target_path r) None False
                  (extract_compression r) TarExtract (command_timeout system)
      in io_map (\<lambda>_. ()) (executed_ssh_cmd ssh username access_token (tar_get_command tar) (tar_parse_output tar) None)))"

subsection \<open>The whole request\<close>

text \<open>Every endpoint of the router runs after the availability check of its system.\<close>

definition ops_request ::
  "HPCCluster list \<Rightarrow> string \<Rightarrow> request \<Rightarrow> (HPCCluster \<Rightarrow> ('w, 'r) io) \<Rightarrow> ('w, 'r) io" where
  "ops_request clusters system_name r handler =
     io_bind (io_lift (service_availability clusters SvcFilesystem False system_name r)) handler"

subsection \<open>Properties\<close>



text \<open>
  A view never returns more than was asked for, nor anything outside the configured limits, and
  a request outside them never reaches the host.
\<close>

theorem view_bounded:
  "case get_view ssh g system path n off w of
     (Inr out, w') \<Rightarrow> 0 \<le> off \<and> 0 < n \<and> n \<le> int (max_size system) \<and> length out \<le> nat n
   | (Inl e, w') \<Rightarrow> w' = w \<or> (0 \<le> off \<and> 0 < n \<and> n \<le> int (max_size system))"
proof (cases "caller g")
  case (Inr c)
  obtain u t where c: "c = (u, t)" by (cases c)
  show ?thesis
  proof (cases "view_range system n off")
    case Inl
    then show ?thesis using Inr c by (simp add: get_view_def io_simps)
  next
    case r: (Inr x)
    then have range: "0 \<le> off" "0 < n" "n \<le> int (max_size system)"
      by (auto simp: view_range_def split: if_splits)
    have len: "length (slice s i (i + n)) \<le> nat n" if "0 \<le> i" for s :: string and i
      using that range by (simp add: slice_nonneg nat_add_distrib)
    show ?thesis using Inr c r range len [of "off mod n"]
      by (auto simp: get_view_def io_simps executed_ssh_cmd_cases dd_init_def dd_parse_output_def Let_def
          error_handling_timeout_def split: prod.splits sum.splits if_splits)
  qed
qed (simp add: get_view_def io_simps)

text \<open>
  Asking for the first zero lines of a file returns its first ten.  The answer has the contents
  that a request without a count has, and only claims to end at position zero.
\<close>

theorem head_zero_lines_ignored:
  "get_head ssh g system path None (Some 0) skip =
     io_map (\<lambda>c. c\<lparr>ct_end_position := 0\<rparr>) (get_head ssh g system path None None False)"
  by (rule ext)
     (simp add: get_head_def head_get_command_def head_parse_output_def count_option_def set_count_def
        one_count_def head_end_def content_unit_def io_simps executed_ssh_cmd_cases split: sum.split prod.split)

subsection \<open>Where an upload goes\<close>

lemma norm_comps_append:
  "norm_comps b acc (cs @ ds) = norm_comps b (rev (norm_comps b acc cs)) ds"
  by (induction b acc cs rule: norm_comps.induct) auto

lemma norm_comps_up:
  "list_all plain_comp acc \<Longrightarrow> length acc \<le> n \<Longrightarrow>
     norm_comps True acc (replicate n ''..'' @ ds) = norm_comps True [] ds"
proof (induction n arbitrary: acc)
  case (Suc n)
  then have "acc \<noteq> [] \<Longrightarrow> hd acc \<noteq> ''..''" by (cases acc) (auto simp: plain_comp_def)
  moreover have "list_all plain_comp (tl acc)" "length (tl acc) \<le> n"
    using Suc.prems by (cases acc; simp)+
  ultimately show ?case using Suc.IH [of "tl acc"] by auto
qed simp

lemma split_on_append_sep: "split_on sep (a @ sep # b) = split_on sep a @ split_on sep b"
  by (induction a) (auto split: list.split)



end
