(* ===== verification/Compute.thy ===== *)
theory Compute
  imports Caller SlurmClients PbsClient FsCommands
begin

section \<open>The compute and status endpoints\<close>

text \<open>
  \<open>firecrest/compute/router.py\<close> and \<open>firecrest/status/router.py\<close>: the endpoints over a scheduler
  client.  \<open>SchedulerBaseClient\<close> is the record of its methods; \<open>slurm_api\<close> and \<open>pbs_api\<close> are its two
  implementations.  The type of a partition differs between them and is a type
  variable.
\<close>

subsection \<open>The scheduler client\<close>

record ('w, 'p) scheduler_api =
  api_submit_job :: "JobDescription \<Rightarrow> string \<Rightarrow> string \<Rightarrow> ('w, string option) io"
  api_attach_command :: "string \<Rightarrow> string \<Rightarrow> string \<Rightarrow> string \<Rightarrow> ('w, unit option) io"
  api_get_job :: "string \<Rightarrow> string \<Rightarrow> string \<Rightarrow> bool \<Rightarrow> ('w, Job list option) io"
  api_get_job_metadata :: "string \<Rightarrow> string \<Rightarrow> string \<Rightarrow> ('w, metadata_reply option) io"
  api_get_jobs :: "string \<Rightarrow> string \<Rightarrow> bool \<Rightarrow> string option \<Rightarrow> string option \<Rightarrow> JobsTimeWindow
                   \<Rightarrow> ('w, Job list option) io"
  api_cancel_job :: "string \<Rightarrow> string \<Rightarrow> string \<Rightarrow> ('w, bool option) io"
  api_get_nodes :: "string \<Rightarrow> string \<Rightarrow> ('w, Node list option) io"
  api_get_reservations :: "string \<Rightarrow> string \<Rightarrow> ('w, Reservation list option) io"
  api_get_accounts :: "string \<Rightarrow> string \<Rightarrow> ('w, Accounts list option) io"
  api_get_partitions :: "bool \<Rightarrow> string \<Rightarrow> string \<Rightarrow> ('w, 'p list option) io"
  api_ping :: "string \<Rightarrow> string \<Rightarrow> ('w, json list option) io"

definition slurm_api ::
  "'w externals \<Rightarrow> 'w slurm_client \<Rightarrow> ('w, Partition) scheduler_api" where
  "slurm_api x c =
     \<lparr>api_submit_job = slurm_submit_job x c,
      api_attach_command = slurm_attach_command c,
      api_get_job = slurm_get_job x c,
      api_get_job_metadata = slurm_get_job_metadata x c,
      api_get_jobs = (\<lambda>u t al ac nm tw. io_map Some (slurm_get_jobs x c u t al ac nm tw)),
      api_cancel_job = slurm_cancel_job x c,
      api_get_nodes = slurm_get_nodes x c,
      api_get_reservations = slurm_get_reservations x c,
      api_get_accounts = slurm_get_accounts x c,
      api_get_partitions = slurm_get_partitions x c,
      api_ping = slurm_ping x c\<rparr>"

definition pbs_api ::
  "(json \<Rightarrow> int res) \<Rightarrow> (json \<Rightarrow> rat res) \<Rightarrow> local_calendar \<Rightarrow> 'w ssh
   \<Rightarrow> ('w, PbsPartition) scheduler_api" where
  "pbs_api pint pfloat cal ssh =
     \<lparr>api_submit_job = pbs_submit_job ssh,
      api_attach_command = pbs_attach_command,
      api_get_job = pbs_get_job pint cal ssh,
      api_get_job_metadata = (\<lambda>j u t. io_map (map_option MetadataJobs) (pbs_get_job_metadata ssh j u t)),
      api_get_jobs = pbs_get_jobs pint cal ssh,
      api_cancel_job = pbs_cancel_job ssh,
      api_get_nodes = pbs_get_nodes pint pfloat ssh,
      api_get_reservations = pbs_get_reservations pint cal ssh,
      api_get_accounts = pbs_get_accounts,
      api_get_partitions = pbs_get_partitions pint ssh,
      api_ping = (\<lambda>u t. io_map (map_option (map JObj)) (pbs_client_ping ssh u t))\<rparr>"

subsection \<open>Job identifiers\<close>

text \<open>The pattern \<open>^[a-zA-Z0-9]+$\<close> of the path parameter; another identifier is refused by the framework.\<close>

definition job_id_ok :: "string \<Rightarrow> bool" where
  "job_id_ok job_id \<longleftrightarrow> job_id \<noteq> [] \<and> list_all (\<lambda>c. is_ascii_letter c \<or> is_digit c) job_id"

definition with_job_id :: "string \<Rightarrow> ('w, 'a) io \<Rightarrow> ('w, 'a) io" where
  "with_job_id job_id m = (if job_id_ok job_id then m else io_raise RequestValidationError [])"

subsection \<open>Compute\<close>

definition some_or :: "nat \<Rightarrow> string \<Rightarrow> 'a option \<Rightarrow> 'a res" where
  "some_or st detail v = (case v of None \<Rightarrow> http_error st detail | Some x \<Rightarrow> Inr x)"

definition post_job_submit ::
  "('w, 'p) scheduler_api \<Rightarrow> request_vars \<Rightarrow> JobDescription \<Rightarrow> ('w, string) io" where
  "post_job_submit api g job =
     as_caller g (\<lambda>username access_token.
       io_bind (api_submit_job api job username access_token) (\<lambda>job_id.
         io_lift (some_or 500 ''Unable to submit new job'' job_id)))"

definition compute_get_jobs ::
  "('w, 'p) scheduler_api \<Rightarrow> request_vars \<Rightarrow> bool \<Rightarrow> string option \<Rightarrow> string option \<Rightarrow> JobsTimeWindow
   \<Rightarrow> ('w, Job list option) io" where
  "compute_get_jobs api g allusers account name time_window =
     (if 235 < length (opt_text name) then io_raise RequestValidationError []
      else as_caller g (\<lambda>username access_token.
        api_get_jobs api username access_token allusers account name time_window))"

definition compute_get_job ::
  "('w, 'p) scheduler_api \<Rightarrow> request_vars \<Rightarrow> string \<Rightarrow> ('w, Job list) io" where
  "compute_get_job api g job_id =
     with_job_id job_id (as_caller g (\<lambda>username access_token.
       io_bind (api_get_job api job_id username access_token True) (\<lambda>jobs.
         io_lift (some_or 404 ''Job not found.'' jobs))))"

text \<open>A reply that is an exception does not fit the declared answer, which the framework refuses.\<close>

definition compute_get_job_metadata ::
  "('w, 'p) scheduler_api \<Rightarrow> request_vars \<Rightarrow> string \<Rightarrow> ('w, JobMetadata list) io" where
  "compute_get_job_metadata api g job_id =
     with_job_id job_id (as_caller g (\<lambda>username access_token.
       io_bind (api_get_job_metadata api job_id username access_token) (\<lambda>jobs.
       io_bind (io_lift (some_or 404 ''Job not found.'' jobs)) (\<lambda>reply.
         case reply of MetadataJobs ms \<Rightarrow> io_return ms | MetadataExc e \<Rightarrow> io_raise BaseExc []))))"

definition attach :: "('w, 'p) scheduler_api \<Rightarrow> request_vars \<Rightarrow> string \<Rightarrow> string \<Rightarrow> ('w, unit) io" where
  "attach api g job_id command =
     with_job_id job_id (as_caller g (\<lambda>username access_token.
       io_map (\<lambda>_. ()) (api_attach_command api command job_id username access_token)))"

definition delete_job_cancel :: "('w, 'p) scheduler_api \<Rightarrow> request_vars \<Rightarrow> string \<Rightarrow> ('w, unit) io" where
  "delete_job_cancel api g job_id =
     with_job_id job_id (as_caller g (\<lambda>username access_token.
       io_bind (api_cancel_job api job_id username access_token) (\<lambda>confirmed.
         io_lift (map_res (\<lambda>_. ()) (some_or 404 ''Job not found'' confirmed)))))"

subsection \<open>Status\<close>

text \<open>\<open>except Exception as exc: raise HTTPException(500, detail=str(exc)) from exc\<close>.\<close>

definition as_500 :: "('w, 'a) io \<Rightarrow> ('w, 'a) io" where
  "as_500 m = io_catch m (\<lambda>e. io_lift (Inl (Exc (HTTPException 500) (exc_str e) [] (Some e))))"

definition get_system_nodes :: "('w, 'p) scheduler_api \<Rightarrow> request_vars \<Rightarrow> ('w, Node list) io" where
  "get_system_nodes api g =
     as_caller g (\<lambda>username access_token.
       as_500 (io_bind (api_get_nodes api username access_token) (\<lambda>nodes.
         case nodes of
           Some (n # ns) \<Rightarrow> io_return (n # ns)
         | _ \<Rightarrow> io_raise (HTTPException 404) ''No nodes found'')))"

definition get_system_reservations ::
  "('w, 'p) scheduler_api \<Rightarrow> request_vars \<Rightarrow> ('w, Reservation list option) io" where
  "get_system_reservations api g =
     as_caller g (\<lambda>username access_token. as_500 (api_get_reservations api username access_token))"

definition get_system_partitions ::
  "('w, 'p) scheduler_api \<Rightarrow> request_vars \<Rightarrow> bool \<Rightarrow> ('w, 'p list option) io" where
  "get_system_partitions api g show_hidden =
     as_caller g (\<lambda>username access_token.
       as_500 (api_get_partitions api show_hidden username access_token))"

definition get_userinfo ::
  "('w, 'p) scheduler_api \<Rightarrow> 'w ssh \<Rightarrow> request_vars \<Rightarrow> int \<Rightarrow> ('w, UserInfo \<times> Accounts list option) io" where
  "get_userinfo api ssh g timeout =
     as_caller g (\<lambda>username access_token.
       as_500 (io_bind (api_get_accounts api username access_token) (\<lambda>accounts.
         io_map (\<lambda>output. (output, accounts))
           (executed_ssh_cmd ssh username access_token (id_get_command timeout) (id_parse_output timeout) None))))"

text \<open>
  \<open>get_liveness\<close>, over the clusters' names and the times of their last health checks in seconds:
  the checks that ran and the age of the oldest one, as a whole number.
\<close>

fun oldest_check :: "rat \<Rightarrow> (string \<times> rat option) list \<Rightarrow> rat \<Rightarrow> rat" where
  "oldest_check now [] oldest = oldest"
| "oldest_check now ((n, last_check) # cs) oldest =
     oldest_check now cs
       (case last_check of None \<Rightarrow> oldest | Some t \<Rightarrow> if now - t > oldest then now - t else oldest)"

definition get_liveness :: "rat \<Rightarrow> (string \<times> rat option) list \<Rightarrow> (string \<times> rat) list \<times> int" where
  "get_liveness now clusters =
     (foldl (\<lambda>runs (n, last_check). case last_check of None \<Rightarrow> runs | Some t \<Rightarrow> dict_set n t runs) [] clusters,
      \<lfloor>oldest_check now clusters 0\<rfloor>)"

subsection \<open>Properties\<close>

lemma job_id_pieces:
  assumes "job_id_ok j"
  shows "sh_piece j j"
proof (rule sh_piece_safe)
  show "list_all sh_safe j"
    using assms by (auto simp: job_id_ok_def list_all_iff sh_safe_def is_ascii_word_def)
qed (use assms in \<open>simp add: job_id_ok_def\<close>)

text \<open>
  C34: a job identifier cannot reach the shell as anything but one word.  The scheduler tools put it
  into their command lines unquoted, but every identifier the endpoints accept is read there as
  exactly itself.
\<close>

theorem job_id_is_one_word:
  assumes "job_id_ok j"
  shows "sh_tokens (scancel_get_command j) = Some (map ShWord [''scancel'', ''--verbose'', j]) \<and>
    sh_tokens (qdel_get_command j) = Some (map ShWord [''qdel'', j]) \<and>
    sh_tokens (qstat_get_command \<lparr>qs_username = u, qs_ids = Some [j], qs_allusers = a, qs_account = ac, qs_name = nm\<rparr>) =
      Some (map ShWord [''qstat'', ''-F'', ''json'', ''-f'', j, ''-x'']) \<and>
    sh_tokens (scontrol_job_get_command (Some j)) =
      Some (map ShWord [''SLURM_TIME_FORMAT=%s'', ''scontrol'', ''show'', ''-o'', ''job'', j])"
proof -
  have safe: "sh_piece w w" if "list_all sh_safe w" "w \<noteq> []" for w using that by (rule sh_piece_safe)
  note j = job_id_pieces [OF assms]
  have "sh_tokens (join '' '' [''scancel'', ''--verbose'', j]) = Some (map ShWord [''scancel'', ''--verbose'', j])"
    by (rule sh_tokens_join) (simp add: j safe sh_eval)
  moreover have "sh_tokens (join '' '' [''qdel'', j]) = Some (map ShWord [''qdel'', j])"
    by (rule sh_tokens_join) (simp add: j safe sh_eval)
  moreover have "sh_tokens (join '' '' [''qstat'', ''-F'', ''json'', ''-f'', j, ''-x'']) =
      Some (map ShWord [''qstat'', ''-F'', ''json'', ''-f'', j, ''-x''])"
    by (rule sh_tokens_join) (simp add: j safe sh_eval)
  moreover have "sh_scan ShPlain [] False j = Some [ShWord j]"
    using sh_scan_piece_end [OF j, of "[]" False] by simp
  then have "sh_tokens (scontrol_job_get_command (Some j)) =
      Some (map ShWord [''SLURM_TIME_FORMAT=%s'', ''scontrol'', ''show'', ''-o'', ''job'', j])"
    by (simp add: sh_tokens_def scontrol_job_get_command_def scontrol_base_def slurm_time_prefix_def sh_eval)
  ultimately show ?thesis
    by (simp add: scancel_get_command_def qdel_get_command_def qstat_get_command_def qstat_base_get_command_def)
qed

lemma job_id_is_one_word_witness: "sh_tokens (qdel_get_command ''42a'') = Some (map ShWord [''qdel'', ''42a''])"
  using job_id_is_one_word [of "''42a''"] by (simp add: job_id_ok_def is_ascii_letter_def is_digit_def)

lemma wrapped_500 [simp]: "error_status (Exc (HTTPException 500) m [] (Some e)) = 500"
  by (simp add: error_status_def isinstance_def exc_le_def)

lemma as_500_fails: "as_500 m w = (Inl e, w') \<Longrightarrow> error_status e = 500"
  by (auto simp: as_500_def io_simps split: prod.splits sum.splits)

lemma caller_fails:
  assumes "caller g = Inl e"
  shows "error_status e = 500"
proof -
  have "e = new_exc AttributeError []"
    using assms by (auto simp: caller_def res_iff get_access_token_def split: option.splits if_splits)
  then show ?thesis by (simp add: error_status_def isinstance_def exc_le_def)
qed

lemma status_fails:
  assumes "as_caller g (\<lambda>u t. as_500 (m u t)) w = (Inl e, w')"
  shows "error_status e = 500"
  using assms by (auto simp: as_caller_apply dest: caller_fails as_500_fails split: sum.splits)

lemma nodes_not_empty:
  assumes "get_system_nodes api g w = (Inr ns, w')"
  shows "ns \<noteq> []"
  using assms
  by (auto simp: get_system_nodes_def as_caller_apply as_500_def io_simps
      split: sum.splits prod.splits option.splits list.splits)

text \<open>
  Whatever goes wrong, the status endpoints answer 500.  A connection that could not be made
  (424), a command that timed out (408) and a system without nodes (404) are all turned into an
  internal error; only the cause is kept.
\<close>

theorem status_failures_are_500:
  "(case get_system_nodes api g w of (Inl e, _) \<Rightarrow> error_status e = 500 | (Inr ns, _) \<Rightarrow> ns \<noteq> []) \<and>
   (case get_system_reservations api g w of (Inl e, _) \<Rightarrow> error_status e = 500 | _ \<Rightarrow> True) \<and>
   (case get_system_partitions api g hidden w of (Inl e, _) \<Rightarrow> error_status e = 500 | _ \<Rightarrow> True) \<and>
   (case get_userinfo api ssh g t w of (Inl e, _) \<Rightarrow> error_status e = 500 | _ \<Rightarrow> True)"
proof -
  have fails: "(case r of (Inl e, _) \<Rightarrow> error_status e = 500 | _ \<Rightarrow> True)"
    if "\<And>e w'. r = (Inl e, w') \<Longrightarrow> error_status e = 500" for r :: "'x res \<times> 'y"
    using that by (auto split: prod.split sum.split)
  show ?thesis
  proof (intro conjI)
    obtain r w' where r: "get_system_nodes api g w = (r, w')" by fastforce
    show "case get_system_nodes api g w of (Inl e, _) \<Rightarrow> error_status e = 500 | (Inr ns, _) \<Rightarrow> ns \<noteq> []"
    proof (cases r)
      case (Inl e)
      with r have "get_system_nodes api g w = (Inl e, w')" by simp
      then have "error_status e = 500" unfolding get_system_nodes_def by (rule status_fails)
      then show ?thesis using r Inl by simp
    next
      case (Inr ns)
      then show ?thesis using r nodes_not_empty [of api g w ns w'] by simp
    qed
    show "case get_system_reservations api g w of (Inl e, _) \<Rightarrow> error_status e = 500 | _ \<Rightarrow> True"
      by (rule fails) (unfold get_system_reservations_def, erule status_fails)
    show "case get_system_partitions api g hidden w of (Inl e, _) \<Rightarrow> error_status e = 500 | _ \<Rightarrow> True"
      by (rule fails) (unfold get_system_partitions_def, erule status_fails)
    show "case get_userinfo api ssh g t w of (Inl e, _) \<Rightarrow> error_status e = 500 | _ \<Rightarrow> True"
      by (rule fails) (unfold get_userinfo_def, erule status_fails)
  qed
qed

end
