(* ===== verification/Health.thy ===== *)
theory Health
  imports Compute Dependencies
begin

section \<open>Health checks\<close>

text \<open>
  \<open>firecrest/status/health_check/\<close>: the checks of a cluster's services and the checker that runs
  them and leaves their reports where the availability check reads them.  A check runs over the
  connection pools, which it changes, and the world.  A report is a \<open>ServiceHealth\<close>; the times it
  also carries are left out.  The messages that print a list or the name of a class are the
  parameters \<open>show_pings\<close> and \<open>class_name\<close>.
\<close>

subsection \<open>A check\<close>

type_synonym pools = "(string \<times> pool) list"

type_synonym ('w, 'a) check = "(pools \<times> 'w, 'a) io"

definition report :: "BackendServiceType \<Rightarrow> bool \<Rightarrow> string option \<Rightarrow> string option \<Rightarrow> ServiceHealth" where
  "report ty healthy message path =
     \<lparr>sh_service_type = ty, sh_healthy = healthy, sh_message = message, sh_path = path\<rparr>"

text \<open>\<open>HealthCheckBase.check\<close>: whatever the check raises becomes a report.\<close>

definition run_check ::
  "('w, ServiceHealth) check \<Rightarrow> (exc \<Rightarrow> ServiceHealth) \<Rightarrow> (pools \<times> 'w) \<Rightarrow> ServiceHealth \<times> (pools \<times> 'w)" where
  "run_check execute_check handle_error s =
     (case execute_check s of
        (Inr health, s') \<Rightarrow> (health, s')
      | (Inl ex, s') \<Rightarrow> (handle_error ex, s'))"

record probe_env =
  pe_clusters :: "HPCCluster list"
  pe_now :: int
  pe_username :: string
  pe_token :: string
  pe_username_claim :: string
  pe_class_name :: "exc_class \<Rightarrow> string"
  pe_show_pings :: "json list \<Rightarrow> string"

text \<open>
  The pool of the system, whose \<open>execute_timeout\<close> the check sets to its own timeout.  It is the
  pool that all requests of the system use.
\<close>

definition probe_pool :: "probe_env \<Rightarrow> string \<Rightarrow> int \<Rightarrow> pools \<Rightarrow> unit res \<times> pools" where
  "probe_pool env name timeout ps =
     (case ssh_client_dependency (pe_clusters env) True (pe_now env) name ps of
        (Inl e, ps') \<Rightarrow> (Inl e, ps')
      | (Inr p, ps') \<Rightarrow> (Inr (), dict_set name (p\<lparr>execute_timeout := timeout\<rparr>) ps'))"

definition probe_command ::
  "probe_env \<Rightarrow> 'w ssh \<Rightarrow> string \<Rightarrow> int \<Rightarrow> string \<Rightarrow> (string \<Rightarrow> string \<Rightarrow> int \<Rightarrow> 'r res) \<Rightarrow> ('w, unit) check" where
  "probe_command env ssh name timeout command parse_output = (\<lambda>(ps, w).
     case probe_pool env name timeout ps of
       (Inl e, ps') \<Rightarrow> (Inl e, (ps', w))
     | (Inr _, ps') \<Rightarrow>
         (case executed_ssh_cmd ssh (pe_username env) (pe_token env) command parse_output None w of
            (r, w') \<Rightarrow> (map_res (\<lambda>_. ()) r, (ps', w'))))"

definition ssh_check :: "probe_env \<Rightarrow> 'w ssh \<Rightarrow> string \<Rightarrow> int \<Rightarrow> pools \<times> 'w \<Rightarrow> ServiceHealth \<times> (pools \<times> 'w)" where
  "ssh_check env ssh name timeout =
     run_check
       (io_map (\<lambda>_. report SvcSsh True None None)
          (probe_command env ssh name timeout (true_get_command ()) (true_parse_output ())))
       (\<lambda>ex. report SvcSsh False (Some (exc_str ex)) None)"

text \<open>\<open>LsCommand(self.path, no_recursion=True)\<close> with the default timeout of five seconds.\<close>

definition filesystem_check ::
  "probe_env \<Rightarrow> 'w ssh \<Rightarrow> string \<Rightarrow> string \<Rightarrow> int \<Rightarrow> pools \<times> 'w \<Rightarrow> ServiceHealth \<times> (pools \<times> 'w)" where
  "filesystem_check env ssh name path timeout =
     run_check
       (io_map (\<lambda>_. report SvcFilesystem True None (Some path))
          (probe_command env ssh name timeout (ls_get_command (ls_single path 5)) (ls_parse_output (ls_single path 5))))
       (\<lambda>ex. report SvcFilesystem False (Some (exc_str ex)) (Some path))"

text \<open>\<open>all(ping["pinged"].lower() == "up" for ping in pings)\<close> stops at the first ping that is not.\<close>

fun all_up :: "json list \<Rightarrow> bool res" where
  "all_up [] = Inr True"
| "all_up (ping # pings) =
     bind_res (jindex ping ''pinged'') (\<lambda>v.
       case v of JStr s \<Rightarrow> if lower s = ''up'' then all_up pings else Inr False
       | _ \<Rightarrow> raise AttributeError [])"

definition scheduler_execute_check ::
  "probe_env \<Rightarrow> (scheduler_client \<Rightarrow> ('w, 'p) scheduler_api) \<Rightarrow> string \<Rightarrow> ('w, ServiceHealth) check" where
  "scheduler_execute_check env client name = (\<lambda>(ps, w).
     case scheduler_client_dependency (pe_clusters env) (pe_username_claim env) True (pe_now env) name ps of
       (Inl e, ps') \<Rightarrow> (Inl e, (ps', w))
     | (Inr c, ps') \<Rightarrow>
         (case api_ping (client c) (pe_username env) (pe_token env) w of
            (Inl e, w') \<Rightarrow> (Inl e, (ps', w'))
          | (Inr None, w') \<Rightarrow> (raise TypeError [], (ps', w'))
          | (Inr (Some pings), w') \<Rightarrow>
              (map_res (\<lambda>b. report SvcScheduler b (Some (pe_show_pings env pings)) None) (all_up pings), (ps', w'))))"

definition scheduler_error :: "probe_env \<Rightarrow> exc \<Rightarrow> string" where
  "scheduler_error env ex =
     (let n = pe_class_name env (exc_cls ex) in if exc_str ex \<noteq> [] then n @ '': '' @ exc_str ex else n)"

definition scheduler_check ::
  "probe_env \<Rightarrow> (scheduler_client \<Rightarrow> ('w, 'p) scheduler_api) \<Rightarrow> string \<Rightarrow> pools \<times> 'w
   \<Rightarrow> ServiceHealth \<times> (pools \<times> 'w)" where
  "scheduler_check env client name =
     run_check (scheduler_execute_check env client name)
       (\<lambda>ex. report SvcScheduler False (Some (scheduler_error env ex)) None)"

definition s3_check :: "('w, unit) io \<Rightarrow> pools \<times> 'w \<Rightarrow> ServiceHealth \<times> (pools \<times> 'w)" where
  "s3_check list_buckets =
     run_check (\<lambda>(ps, w). case list_buckets w of
         (r, w') \<Rightarrow> (map_res (\<lambda>_. report SvcExternalStorage True None None) r, (ps, w')))
       (\<lambda>ex. report SvcExternalStorage False (Some (exc_str ex)) None)"

subsection \<open>The checker of a cluster\<close>

record 'w backends =
  be_fetch_token :: "('w, string) io"
  be_decode :: "string \<Rightarrow> string res"
  be_ssh :: "'w ssh"
  be_list_buckets :: "('w, unit) io"

text \<open>The checks of the services that are probed, in the order in which they are started.\<close>

type_synonym 'w run = "pools \<times> 'w \<Rightarrow> ServiceHealth \<times> (pools \<times> 'w)"

definition storage_checks :: "'w backends \<Rightarrow> HPCCluster \<Rightarrow> 'w run list res" where
  "storage_checks be cluster =
     (case data_transfer (cl_data_operation cluster) of
        None \<Rightarrow> raise AttributeError []
      | Some (S3Config _) \<Rightarrow> Inr [s3_check (be_list_buckets be)]
      | Some _ \<Rightarrow> Inr [])"

definition cluster_checks ::
  "probe_env \<Rightarrow> 'w backends \<Rightarrow> (scheduler_client \<Rightarrow> ('w, 'p) scheduler_api) \<Rightarrow> HPCCluster \<Rightarrow> 'w run list res" where
  "cluster_checks env be client cluster =
     (case probing_services (cl_probing cluster) of
        None \<Rightarrow> Inr []
      | Some services \<Rightarrow>
          (let name = cl_name cluster in
           map_res (\<lambda>storage.
               (case map_of services SvcScheduler of None \<Rightarrow> []
                | Some _ \<Rightarrow> [scheduler_check env client name]) @
               (case map_of services SvcSsh of None \<Rightarrow> []
                | Some timeout \<Rightarrow> [ssh_check env (be_ssh be) name timeout]) @
               (case map_of services SvcFilesystem of None \<Rightarrow> []
                | Some timeout \<Rightarrow>
                    map (\<lambda>fs. filesystem_check env (be_ssh be) name (fs_path fs) timeout) (cl_file_systems cluster)) @
               storage)
             (case map_of services SvcExternalStorage of None \<Rightarrow> Inr [] | Some _ \<Rightarrow> storage_checks be cluster)))"

fun run_all :: "'w run list \<Rightarrow> pools \<times> 'w \<Rightarrow> ServiceHealth list \<times> (pools \<times> 'w)" where
  "run_all [] s = ([], s)"
| "run_all (c # cs) s =
     (case c s of (h, s') \<Rightarrow> (case run_all cs s' of (hs, s'') \<Rightarrow> (h # hs, s'')))"

definition checker_error :: "probe_env \<Rightarrow> exc \<Rightarrow> ServiceHealth" where
  "checker_error env ex =
     report SvcException False
       (Some (''Cluster HealthChecker execution failed with error: '' @ pe_class_name env (exc_cls ex) @
              (if exc_str ex \<noteq> [] then '' - '' @ exc_str ex else []))) None"

text \<open>
  The cluster with the reports of its services.  Getting a token and decoding it yields the user of
  the service account; a failure of the checker itself leaves one report of a service type nobody
  asks for, and is raised again.
\<close>

definition cluster_check ::
  "probe_env \<Rightarrow> 'w backends \<Rightarrow> (scheduler_client \<Rightarrow> ('w, 'p) scheduler_api) \<Rightarrow> HPCCluster \<Rightarrow> pools \<times> 'w
   \<Rightarrow> unit res \<times> HPCCluster \<times> (pools \<times> 'w)" where
  "cluster_check env be client cluster s =
     (case s of (ps, w) \<Rightarrow>
      case be_fetch_token be w of
        (Inl e, w') \<Rightarrow> (Inl e, cluster\<lparr>cl_servicesHealth := Some [checker_error env e]\<rparr>, (ps, w'))
      | (Inr token, w') \<Rightarrow>
          (case bind_res (be_decode be token) (\<lambda>username.
                  cluster_checks (env\<lparr>pe_username := username, pe_token := token\<rparr>) be client cluster) of
             Inl e \<Rightarrow> (Inl e, cluster\<lparr>cl_servicesHealth := Some [checker_error env e]\<rparr>, (ps, w'))
           | Inr checks \<Rightarrow>
               (case run_all checks (ps, w') of
                  (results, s') \<Rightarrow> (Inr (), cluster\<lparr>cl_servicesHealth := Some results\<rparr>, s'))))"

subsection \<open>What the checker leaves behind\<close>

text \<open>The reports there should be: one per probed service and one per file system.\<close>

definition probed :: "HPCCluster \<Rightarrow> (BackendServiceType \<times> string option) list" where
  "probed cluster =
     (case probing_services (cl_probing cluster) of
        None \<Rightarrow> []
      | Some services \<Rightarrow>
          (if map_of services SvcScheduler = None then [] else [(SvcScheduler, None)]) @
          (if map_of services SvcSsh = None then [] else [(SvcSsh, None)]) @
          (if map_of services SvcFilesystem = None then []
           else map (\<lambda>fs. (SvcFilesystem, Some (fs_path fs))) (cl_file_systems cluster)) @
          (if map_of services SvcExternalStorage = None then []
           else (case data_transfer (cl_data_operation cluster) of
                   Some (S3Config _) \<Rightarrow> [(SvcExternalStorage, None)] | _ \<Rightarrow> [])))"

definition about :: "ServiceHealth \<Rightarrow> BackendServiceType \<times> string option" where
  "about h = (sh_service_type h, sh_path h)"

lemma about_report [simp]: "about (report ty b m p) = (ty, p)"
  by (simp add: about_def report_def)

definition reports_about :: "'w run \<Rightarrow> BackendServiceType \<times> string option \<Rightarrow> bool" where
  "reports_about c k \<longleftrightarrow> (\<forall>s. about (fst (c s)) = k)"

lemma io_map_Inr: "io_map (\<lambda>_. h) m s = (Inr h', s') \<Longrightarrow> h' = h"
  by (auto simp: io_map_apply split: prod.splits sum.splits)

lemma run_check_about:
  assumes "\<And>s h s'. m s = (Inr h, s') \<Longrightarrow> about h = k" and "\<And>e. about (f e) = k"
  shows "reports_about (run_check m f) k"
  using assms by (auto simp: reports_about_def run_check_def split: prod.split sum.split)

lemma checks_about:
  "reports_about (ssh_check env ssh name timeout) (SvcSsh, None)"
  "reports_about (filesystem_check env ssh name path timeout) (SvcFilesystem, Some path)"
  "reports_about (scheduler_check env client name) (SvcScheduler, None)"
  "reports_about (s3_check list_buckets) (SvcExternalStorage, None)"
proof -
  show "reports_about (ssh_check env ssh name timeout) (SvcSsh, None)"
    unfolding ssh_check_def by (rule run_check_about) (auto dest: io_map_Inr)
  show "reports_about (filesystem_check env ssh name path timeout) (SvcFilesystem, Some path)"
    unfolding filesystem_check_def by (rule run_check_about) (auto dest: io_map_Inr)
  show "reports_about (scheduler_check env client name) (SvcScheduler, None)"
    unfolding scheduler_check_def
    by (rule run_check_about)
       (auto simp: scheduler_execute_check_def res_iff split: prod.splits sum.splits option.splits)
  show "reports_about (s3_check list_buckets) (SvcExternalStorage, None)"
    unfolding s3_check_def
    by (rule run_check_about) (auto simp: res_iff split: prod.splits)
qed

lemma run_all_about: "list_all2 reports_about cs ks \<Longrightarrow> map about (fst (run_all cs s)) = ks"
proof (induction cs ks arbitrary: s rule: list_all2_induct)
  case (Cons c cs k ks)
  have "about (fst (c s)) = k" using Cons.hyps unfolding reports_about_def by blast
  with Cons.IH [of "snd (c s)"] show ?case by (simp add: split_beta)
qed simp

lemma cluster_checks_about:
  assumes "cluster_checks env be client cluster = Inr cs"
  shows "list_all2 reports_about cs (probed cluster)"
proof (cases "probing_services (cl_probing cluster)")
  case None
  then show ?thesis using assms by (simp add: cluster_checks_def probed_def)
next
  case (Some services)
  have fs: "list_all2 reports_about
      (map (\<lambda>fs. filesystem_check env (be_ssh be) n (fs_path fs) t) fss)
      (map (\<lambda>fs. (SvcFilesystem, Some (fs_path fs))) fss)" for n t fss
    by (induction fss) (simp_all add: checks_about)
  show ?thesis
    using assms Some
    by (auto simp: cluster_checks_def probed_def storage_checks_def Let_def res_iff checks_about fs
        intro!: list_all2_appendI split: option.splits DataTransferConfig.splits)
qed

lemma cluster_check_reports:
  assumes "cluster_check env be client cluster s = (Inr (), c', s')"
  obtains hs where "c' = cluster\<lparr>cl_servicesHealth := Some hs\<rparr>" "map about hs = probed cluster"
proof -
  obtain ps w where s: "s = (ps, w)" by (cases s)
  from assms obtain token w' username checks hs where
    "be_fetch_token be w = (Inr token, w')" "be_decode be token = Inr username"
    and c: "cluster_checks (env\<lparr>pe_username := username, pe_token := token\<rparr>) be client cluster = Inr checks"
    and r: "run_all checks (ps, w') = (hs, s')" and c': "c' = cluster\<lparr>cl_servicesHealth := Some hs\<rparr>"
    unfolding cluster_check_def s
    by (auto simp: res_iff split: prod.splits sum.splits)
  have "map about hs = probed cluster"
    using run_all_about [OF cluster_checks_about [OF c], of "(ps, w')"] r by simp
  with c' show thesis by (rule that)
qed

lemma find_append: "List.find P (xs @ ys) = (case List.find P xs of None \<Rightarrow> List.find P ys | Some x \<Rightarrow> Some x)"
  by (induction xs) auto

lemma find_map: "List.find P (map f xs) = map_option f (List.find (\<lambda>x. P (f x)) xs)"
  by (induction xs) auto


text \<open>A run of the checker on a host where no command works.\<close>

definition demo_env :: probe_env where
  "demo_env = \<lparr>pe_clusters = [demo_cluster], pe_now = 0, pe_username = [], pe_token = [], pe_username_claim = ''sub'',
     pe_class_name = (\<lambda>_. ''E''), pe_show_pings = (\<lambda>_. [])\<rparr>"

definition broken_host :: "unit backends" where
  "broken_host = \<lparr>be_fetch_token = io_return ''t'', be_decode = (\<lambda>_. Inr ''svc''),
     be_ssh = (\<lambda>u t c i. io_return ([], ''no'', 2)), be_list_buckets = io_return ()\<rparr>"

definition demo_health :: ServiceHealth where
  "demo_health = report SvcFilesystem False (Some ''500: Remote process failed with exit status:2 and error message:no'') (Some ''/scratch'')"

lemma demo_check:
  "\<exists>s'. cluster_check demo_env broken_host (\<lambda>_. undefined) demo_cluster ([], ()) =
     (Inr (), demo_cluster\<lparr>cl_servicesHealth := Some [demo_health]\<rparr>, s')"
proof -
  have failed: "ls_parse_output c [] ''no'' 2 = http_error 500 ''Remote process failed with exit status:2 and error message:no''" for c
    by (simp add: ls_parse_output_def error_handling_timeout_def error_handling_def remote_error_message_def
        show_int_def show_nat_small digit_char_def strip_def lstrip_def rstrip_def is_ws_def)
  have dep: "\<exists>p ps. ssh_client_dependency [demo_cluster] True 0 ''daint'' [] = (Inr p, ps)"
    by (simp add: ssh_client_dependency_def service_availability_def demo_cluster_def pool_init_def
        default_ssh_timeouts_def Let_def)
  then obtain p ps where p: "ssh_client_dependency [demo_cluster] True 0 ''daint'' [] = (Inr p, ps)" by blast
  have n: "show_nat 500 = ''500''" by code_simp
  have checks: "cluster_checks env broken_host client demo_cluster =
      Inr [filesystem_check env (be_ssh broken_host) ''daint'' ''/scratch'' 10]" for env client
    by (simp add: cluster_checks_def demo_cluster_def)
  have "fst (filesystem_check env (be_ssh broken_host) ''daint'' ''/scratch'' 10 ([], ())) = demo_health"
    if "pe_clusters env = [demo_cluster]" "pe_now env = 0" for env
    using that p
    by (simp add: filesystem_check_def run_check_def io_map_apply probe_command_def probe_pool_def
        executed_ssh_cmd_cases broken_host_def io_return_def failed demo_health_def exc_str_def n)
  moreover have "be_fetch_token broken_host () = (Inr ''t'', ())" "be_decode broken_host ''t'' = Inr ''svc''"
    by (simp_all add: broken_host_def io_return_def)
  ultimately show ?thesis by (simp add: cluster_check_def checks demo_env_def split_beta del: split_paired_Ex)
qed

text \<open>
  A health check that fails as a whole opens the system.  When the checker cannot get or read its
  token, whatever the last reports said is forgotten and scheduler and SSH requests pass the check.
\<close>

theorem failed_checker_opens_services:
  "case cluster_check env be client cluster s of
     (Inl e, c', s') \<Rightarrow>
       service_availability (c' # cs) SvcScheduler False (cl_name cluster) r = Inr c' \<and>
       service_availability (c' # cs) SvcSsh False (cl_name cluster) r = Inr c'
   | _ \<Rightarrow> True"
proof -
  have opened: "service_availability (c' # cs) ty False (cl_name cluster) r = Inr c'"
    if "c' = cluster\<lparr>cl_servicesHealth := Some [checker_error env e]\<rparr>" "ty = SvcScheduler \<or> ty = SvcSsh" for c' ty e env
    using that
    by (auto simp: service_availability_def scheduler_health_def ssh_health_def find_service_def checker_error_def report_def)
  show ?thesis
    by (cases s) (auto simp: cluster_check_def opened split: prod.splits sum.splits)
qed

lemma pool_after_probe:
  assumes "ssh_client_dependency (pe_clusters env) True (pe_now env) name ps = (Inr p, ps')"
  shows "map_of (fst (snd (run_check (io_map (\<lambda>_. h) (probe_command env ssh name timeout c parse)) f (ps, w)))) name =
      Some (p\<lparr>execute_timeout := timeout\<rparr>)"
  using assms
  by (auto simp: run_check_def io_map_apply probe_command_def probe_pool_def split: prod.splits sum.splits)

text \<open>
  The health check leaves its own timeout in the pool.  After a check of the SSH service or of a
  file system every request of the system gets a pool whose commands are stopped after the check's
  timeout, not the configured one; when that timeout is not below the idle timeout, the pool is in a
  state its constructor refuses.
\<close>

theorem probe_changes_pool_timeout:
  assumes "ssh_client_dependency (pe_clusters env) True (pe_now env) name ps = (Inr p, ps')"
  shows "map_of (fst (snd (ssh_check env ssh name timeout (ps, w)))) name = Some (p\<lparr>execute_timeout := timeout\<rparr>) \<and>
    map_of (fst (snd (filesystem_check env ssh name path timeout (ps, w)))) name = Some (p\<lparr>execute_timeout := timeout\<rparr>)"
  unfolding ssh_check_def filesystem_check_def by (intro conjI pool_after_probe [OF assms])

lemma demo_pool:
  "\<exists>p ps'. ssh_client_dependency [demo_cluster] True 0 ''daint'' [] = (Inr p, ps') \<and> idle_timeout p = 60"
  by (simp add: ssh_client_dependency_def service_availability_def demo_cluster_def pool_init_def
      default_ssh_timeouts_def Let_def)

lemma probe_changes_pool_timeout_witness:
  "\<exists>p. map_of (fst (snd (ssh_check demo_env (\<lambda>u t c i. io_return ([], [], 0)) ''daint'' 90 ([], ())))) ''daint'' = Some p \<and>
     idle_timeout p = 60 \<and> execute_timeout p = 90"
proof -
  obtain p ps' where p: "ssh_client_dependency [demo_cluster] True 0 ''daint'' [] = (Inr p, ps')" "idle_timeout p = 60"
    using demo_pool by blast
  have "ssh_client_dependency (pe_clusters demo_env) True (pe_now demo_env) ''daint'' [] = (Inr p, ps')"
    using p(1) by (simp add: demo_env_def)
  from probe_changes_pool_timeout [OF this, of "\<lambda>u t c i. io_return ([], [], 0)" 90 "()" "[]"] p(2)
  show ?thesis by simp
qed


end
