(* ===== verification/JobScripts.thy ===== *)
theory JobScripts
  imports Shell PosixPath SlurmModels
begin

section \<open>The jobs that move data\<close>

text \<open>
  \<open>lib/datatransfers/datatransfer_base.py\<close>, the copies of its helpers in
  \<open>firecrest/filesystem/transfer/router.py\<close>, and the templates of the job scripts.

  The templates are rendered by jinja2, which is not part of the program: \<open>render\<close>, from a file
  name and the parameters to the text of the script, is an argument of everything that builds a job.
  What a template says is its list of pieces; \<open>renders\<close> states what jinja2 documents, that a
  variable is replaced by its value, escaped for HTML unless the template marks it as safe.
\<close>

subsection \<open>Locations, logs, jobs\<close>

record TransferJobLogs =
  log_output :: string
  log_error :: string

record TransferJob =
  tj_job_id :: string
  tj_system :: string
  tj_working_directory :: string
  tj_logs :: TransferJobLogs

datatype DataTransferType = TransferS3 | TransferWormhole | TransferStreamer

text \<open>The requests of the three methods; a wormhole upload has a code, a download has none.\<close>

datatype DataTransferRequest =
    S3TransferRequest "int option"
  | WormholeTransferRequest
  | WormholeTransferUploadRequest string
  | StreamerTransferRequest

fun transfer_method :: "DataTransferRequest \<Rightarrow> DataTransferType" where
  "transfer_method (S3TransferRequest n) = TransferS3"
| "transfer_method WormholeTransferRequest = TransferWormhole"
| "transfer_method (WormholeTransferUploadRequest wc) = TransferWormhole"
| "transfer_method StreamerTransferRequest = TransferStreamer"

record DataTransferLocation =
  loc_host :: "string option"
  loc_system :: "string option"
  loc_path :: "string option"
  loc_transfer_directives :: "DataTransferRequest option"

datatype DataTransferResponse =
    S3TransferResponse "string option" "string list option" "string option" "int option"
  | WormholeTransferResponse "string option"
  | StreamerTransferResponse "string option"

record DataTransferOperation =
  op_transfer_job :: TransferJob
  op_transfer_directives :: DataTransferResponse

text \<open>
  \<open>JobHelper\<close>: the job's description, validated as \<open>JobDescriptionModel(**job.job_param)\<close>.  The
  random part of the names of its logs is the argument \<open>unique_id\<close>.
\<close>

definition job_helper :: "string \<Rightarrow> string \<Rightarrow> string \<Rightarrow> string \<Rightarrow> JobDescription" where
  "job_helper unique_id working_dir script name =
     \<lparr>jd_name = Some name, jd_account = None, jd_reservation = None, jd_partition = None,
      jd_current_working_directory = working_dir, jd_standard_input = Some ''/dev/null'',
      jd_standard_output = Some (working_dir @ ''/.f7t_file_handling_job_'' @ unique_id @ ''.log''),
      jd_standard_error = Some (working_dir @ ''/.f7t_file_handling_job_error_'' @ unique_id @ ''.log''),
      jd_environment = EnvDict [(''PATH'', ''/bin:/usr/bin/:/usr/local/bin/'')],
      jd_constraints = None, jd_script = Some script, jd_script_path = None\<rparr>"

text \<open>
  The description of the job in the answer.  The scheduler's answer without an identifier and a
  missing system are refused by the model's fields, which are texts.
\<close>

definition transfer_job :: "string option \<Rightarrow> string option \<Rightarrow> JobDescription \<Rightarrow> TransferJob res" where
  "transfer_job job_id system job =
     (case (job_id, system) of
        (Some j, Some s) \<Rightarrow> Inr \<lparr>tj_job_id = j, tj_system = s,
          tj_working_directory = jd_current_working_directory job,
          tj_logs = \<lparr>log_output = opt_str (jd_standard_output job),
                     log_error = opt_str (jd_standard_error job)\<rparr>\<rparr>
      | _ \<Rightarrow> raise ValueError [])"

subsection \<open>\<open>str.format\<close>\<close>

text \<open>
  Python's \<open>text.format(account=account)\<close>.  A doubled brace is a brace; a field is replaced by the
  argument it names; a position or an unknown name is an error, and so is a brace alone.  A field
  with a conversion, a format specification, an attribute or an index is formatted by \<open>rich\<close>, given
  the text after the opening brace, to a text and the rest.
\<close>

fun field_name :: "string \<Rightarrow> string \<times> string" where
  "field_name [] = ([], [])"
| "field_name (c # s) =
     (if c \<in> set ''{}!:.['' then ([], c # s)
      else (case field_name s of (n, r) \<Rightarrow> (c # n, r)))"

lemma field_name_split: "field_name s = (n, r) \<Longrightarrow> s = n @ r"
  by (induction s arbitrary: n r) (auto split: prod.splits if_splits)

function format_fuel :: "nat \<Rightarrow> (string \<Rightarrow> (string \<times> string) res) \<Rightarrow> string \<Rightarrow> string \<Rightarrow> string res" where
  "format_fuel 0 rich account s = Inr []"
| "format_fuel (Suc n) rich account [] = Inr []"
| "format_fuel (Suc n) rich account (c # s) =
     (if c = CHR ''}'' then
        (if starts_with ''}'' s then map_res ((#) c) (format_fuel n rich account (drop 1 s))
         else raise ValueError ''Single '}' encountered in format string'')
      else if c \<noteq> CHR ''{'' then map_res ((#) c) (format_fuel n rich account s)
      else if s = [] then raise ValueError ''Single '{' encountered in format string''
      else if starts_with ''{'' s then map_res ((#) c) (format_fuel n rich account (drop 1 s))
      else (case field_name s of
          (f, []) \<Rightarrow> raise ValueError ''expected '}' before end of string''
        | (f, d # r) \<Rightarrow>
            if d = CHR ''}'' then
              (if f = ''account'' then map_res ((@) account) (format_fuel n rich account r)
               else if list_all is_digit f
               then raise IndexError ''Replacement index out of range for positional args tuple''
               else raise KeyError f)
            else if d = CHR ''{'' then raise ValueError ''unexpected '{' in field name''
            else bind_res (rich s) (\<lambda>(t, rest).
              map_res ((@) t) (format_fuel n rich account rest))))"
  by pat_completeness auto
termination by (relation "measure fst") auto

text \<open>Every round of the loop consumes a character, so the length of the text is fuel enough.\<close>

definition py_format :: "(string \<Rightarrow> (string \<times> string) res) \<Rightarrow> string \<Rightarrow> string \<Rightarrow> string res" where
  "py_format rich account s = format_fuel (Suc (length s)) rich account s"

subsection \<open>Scheduler directives\<close>

definition format_directives ::
  "(string \<Rightarrow> (string \<times> string) res) \<Rightarrow> string list \<Rightarrow> string option \<Rightarrow> string res" where
  "format_directives rich directives account =
     (let directives_str = join [newline] directives in
      if contains ''{account}'' directives_str
      then (case account of
              None \<Rightarrow> http_error 400 ''Account parameter is required on this system.''
            | Some a \<Rightarrow> py_format rich a directives_str)
      else Inr directives_str)"

subsection \<open>Templates\<close>

datatype tvalue = TNone | TStr string | TInt int | TBool bool | TStrs "string list"

type_synonym params = "(string \<times> tvalue) list"

type_synonym render = "string \<Rightarrow> params \<Rightarrow> string"

datatype piece =
    Txt string
  | Var string
  | Safe string
  | IfTrue string "piece list" "piece list"
  | IfEq string string "piece list" "piece list"
  | IfNotNone string "piece list"
  | ForEach string string "piece list"

text \<open>How a value prints and when it counts as true.\<close>

definition tv_text :: "tvalue \<Rightarrow> string" where
  "tv_text v = (case v of TNone \<Rightarrow> ''None'' | TStr s \<Rightarrow> s | TInt i \<Rightarrow> show_int i
     | TBool b \<Rightarrow> (if b then ''True'' else ''False'') | TStrs ss \<Rightarrow> [])"

definition tv_true :: "tvalue \<Rightarrow> bool" where
  "tv_true v = (case v of TNone \<Rightarrow> False | TStr s \<Rightarrow> s \<noteq> [] | TInt i \<Rightarrow> i \<noteq> 0 | TBool b \<Rightarrow> b
     | TStrs ss \<Rightarrow> ss \<noteq> [])"

definition tv_get :: "params \<Rightarrow> string \<Rightarrow> tvalue" where
  "tv_get ps x = (case map_of ps x of None \<Rightarrow> TStr [] | Some v \<Rightarrow> v)"

text \<open>What a loop runs over: the elements of a list, the characters of a text.\<close>

definition tv_items :: "tvalue \<Rightarrow> string list" where
  "tv_items v = (case v of TStrs ss \<Rightarrow> ss | TStr s \<Rightarrow> map (\<lambda>c. [c]) s | _ \<Rightarrow> [])"

fun expand :: "(string \<Rightarrow> string) \<Rightarrow> params \<Rightarrow> piece list \<Rightarrow> string" where
  "expand esc ps [] = []"
| "expand esc ps (Txt t # rest) = t @ expand esc ps rest"
| "expand esc ps (Var x # rest) = esc (tv_text (tv_get ps x)) @ expand esc ps rest"
| "expand esc ps (Safe x # rest) = tv_text (tv_get ps x) @ expand esc ps rest"
| "expand esc ps (IfTrue x yes no # rest) =
     (if tv_true (tv_get ps x) then expand esc ps yes else expand esc ps no) @ expand esc ps rest"
| "expand esc ps (IfEq x t yes no # rest) =
     (if tv_get ps x = TStr t then expand esc ps yes else expand esc ps no) @ expand esc ps rest"
| "expand esc ps (IfNotNone x yes # rest) =
     (if tv_get ps x = TNone then [] else expand esc ps yes) @ expand esc ps rest"
| "expand esc ps (ForEach y xs body # rest) =
     concat (map (\<lambda>t. expand esc ((y, TStr t) # ps) body) (tv_items (tv_get ps xs))) @ expand esc ps rest"

lemma expand_append [simp]: "expand esc ps (xs @ ys) = expand esc ps xs @ expand esc ps ys"
  by (induction esc ps xs rule: expand.induct) simp_all

text \<open>
  What jinja2 documents of a template with automatic escaping: the variables are replaced, escaped
  by a function that leaves no quote, no angle bracket and changes nothing else.
\<close>

definition markup_chars :: string where
  "markup_chars = ''&<>'' @ [squote, dquote]"

definition escapes_markup :: "(string \<Rightarrow> string) \<Rightarrow> bool" where
  "escapes_markup esc \<longleftrightarrow>
     (\<forall>s. squote \<notin> set (esc s) \<and> dquote \<notin> set (esc s) \<and>
          (set s \<inter> set markup_chars = {} \<longrightarrow> esc s = s))"

definition renders :: "(string \<Rightarrow> string) \<Rightarrow> render \<Rightarrow> string \<Rightarrow> piece list \<Rightarrow> bool" where
  "renders esc rdr filename template \<longleftrightarrow>
     escapes_markup esc \<and> (\<forall>ps. rdr filename ps = expand esc ps template)"

subsection \<open>What a request brings\<close>

text \<open>
  The random identifiers of a request, the renderer of templates and the formatter of the rich
  fields of \<open>str.format\<close>.
\<close>

record job_env =
  je_job_uuid :: string
  je_object_uuid :: string
  je_tmp_uuid :: string
  je_render :: render
  je_rich :: "string \<Rightarrow> (string \<times> string) res"

type_synonym 'w submit = "JobDescription \<Rightarrow> string \<Rightarrow> string \<Rightarrow> ('w, string option) io"

subsection \<open>The scripts of the file jobs\<close>

text \<open>
  Every script is a header, the scheduler's directives, a line that tells the job's name, the command
  between \<open>status=$(\<close> and \<open>)\<close>, and a report on its exit status.
\<close>

definition script_lines :: "string list \<Rightarrow> string" where
  "script_lines ls = concat (map (\<lambda>l. l @ [newline]) ls)"

definition script_header :: string where
  "script_header = script_lines
     [''#!/bin/bash'',
      ''# Copyright (c) 2025, ETH Zurich. All rights reserved.'',
      ''#'',
      ''# Please, refer to the LICENSE file in the root directory.'',
      ''# SPDX-License-Identifier: BSD-3-Clause'']"

definition script_title :: "string \<Rightarrow> string" where
  "script_title title =
     ''echo $(date -u) '' @ [dquote] @ title @ '' Job (id:${SLURM_JOB_ID:-${PBS_JOBID:-unknown}})'' @ [dquote]"

definition script_report :: "string \<Rightarrow> string \<Rightarrow> string list \<Rightarrow> string" where
  "script_report done_text verb details = script_lines
     ([''if [[ '' @ [dquote] @ ''$?'' @ [dquote] @ '' == '' @ [squote, CHR ''0'', squote] @ '' ]]'',
       ''then'',
       ''    echo $(date -u) '' @ [dquote] @ ''Files were successfully '' @ done_text @ ''.'' @ [dquote]] @
      details @
      [''    exit 0'',
       ''else'',
       ''    echo $(date -u) '' @ [dquote] @ ''Unable to '' @ verb @ '' files exit code:${?} error: ${status}'' @
         [dquote] @ '' >&2'',
       ''    exit $?'',
       ''fi''])"

definition script_start :: "string \<Rightarrow> string \<Rightarrow> piece list" where
  "script_start blank title =
     [Txt (script_header @ blank), Var ''sbatch_directives'',
      Txt ([newline, newline] @ script_title title @ [newline, newline])]"

definition status_of :: "piece list \<Rightarrow> piece list" where
  "status_of command = [Txt ''status=$(''] @ command @ [Txt '')'']"

definition in_script :: "string \<Rightarrow> string \<Rightarrow> string \<Rightarrow> string \<Rightarrow> piece list \<Rightarrow> piece list" where
  "in_script blank title done_text verb command =
     script_start blank title @ status_of command @ [Txt (newline # script_report done_text verb [])]"

text \<open>A variable between apostrophes.\<close>

definition quoted_var :: "string \<Rightarrow> piece list" where
  "quoted_var x = [Txt [squote], Var x, Txt [squote]]"

definition move_command :: "piece list" where
  "move_command = [Txt ''mv  -- ''] @ quoted_var ''source_path'' @ [Txt '' ''] @ quoted_var ''target_path''"

definition delete_command :: "piece list" where
  "delete_command = [Txt ''rm -R  -- ''] @ quoted_var ''path''"

definition extract_command :: "piece list" where
  "extract_command = [Txt ''tar -x'', Var ''compression_flag'', Txt ''f ''] @ quoted_var ''source_path''
     @ [Txt '' -C ''] @ quoted_var ''target_path''"

definition copy_command :: "piece list" where
  "copy_command = [Txt ''cp --force -R${derefparam} --preserve=all -- ''] @ quoted_var ''source_path''
     @ [Txt '' ''] @ quoted_var ''target_path''"

definition compress_command :: "piece list" where
  "compress_command = [Txt ''tar '', Var ''options'', Txt '' -c'', Var ''compression_flag'', Txt ''vf '']
     @ quoted_var ''target_path'' @ [Txt '' -C ''] @ quoted_var ''source_dir'' @ [Txt ''  '']
     @ quoted_var ''source_file''"

definition compress_pattern_command :: "piece list" where
  "compress_pattern_command =
     [Txt ''cd '', Var ''source_dir'', Txt ''; find . -type f -regex '']
     @ quoted_var ''match_pattern'' @ [Txt '' -print0 | tar '', Var ''options'', Txt '' -c'',
        Var ''compression_flag'', Txt ''vf ''] @ quoted_var ''target_path''
     @ [Txt '' --null --files-from - '']"

definition move_template :: "piece list" where
  "move_template = in_script [newline, newline] ''Move Files'' ''moved'' ''move'' move_command"

definition delete_template :: "piece list" where
  "delete_template = in_script [newline, newline] ''Delete Files'' ''deleted'' ''delete'' delete_command"

definition extract_template :: "piece list" where
  "extract_template = in_script [newline] ''Extract Files'' ''extracted'' ''extract'' extract_command"

definition copy_deref :: "piece list" where
  "copy_deref =
     [Txt (newline # ''if [ '' @ [dquote]), Var ''dereference'',
      Txt (dquote # '' = '' @ [dquote] @ ''True'' @ [dquote] @ script_lines
        ['' ]; then '', ''    derefparam='' @ [dquote] @ ''L'' @ [dquote], ''else'',
         ''    derefparam='' @ [dquote] @ ''d'' @ [dquote], ''fi'', []])]"

definition copy_template :: "piece list" where
  "copy_template = script_start [newline, newline] ''Copy Files'' @ copy_deref @ status_of copy_command @
     [Txt ([newline, newline, newline] @ script_report ''copied'' ''copy'' [])]"

definition compress_template :: "piece list" where
  "compress_template = script_start [newline, newline] ''Compress Files'' @
     [IfTrue ''match_pattern''
       ([Txt [newline, newline]] @ status_of compress_pattern_command @
        [Txt (newline # script_report ''compressed'' ''compress''
           [''    echo -e '' @ [dquote] @ ''Files compressed:'' @ [CHR 0x5C] @ ''n$status'' @ [dquote]] @ [newline])])
       ([Txt [newline, newline]] @ status_of compress_command @
        [Txt (newline # script_report ''compressed'' ''compress'' [] @ [newline])])]"

subsection \<open>The commands of rendered scripts\<close>

lemma escapes_squote: "escapes_markup esc \<Longrightarrow> squote \<notin> set (esc s)"
  by (simp add: escapes_markup_def)

lemma escapes_plain: "escapes_markup esc \<Longrightarrow> set s \<inter> set markup_chars = {} \<Longrightarrow> esc s = s"
  by (simp add: escapes_markup_def)

text \<open>A variable between apostrophes adds exactly its escaped value to a word, whatever it is.\<close>

lemma sh_piece_quoted_var:
  "escapes_markup esc \<Longrightarrow> sh_piece (expand esc ps (quoted_var x)) (esc (tv_text (tv_get ps x)))"
  using sh_piece_single [OF escapes_squote [of esc]] by (simp add: quoted_var_def)

text \<open>\<open>runs script line\<close>: the line stands in a script as a command substitution of its own.\<close>

definition runs :: "string \<Rightarrow> string \<Rightarrow> bool" where
  "runs script line \<longleftrightarrow>
     (\<exists>before after. script = before @ ''status=$('' @ line @ '')'' @ newline # after)"

lemma runs_template: "runs (expand esc ps (pre @ status_of c @ Txt (newline # t) # post)) (expand esc ps c)"
  unfolding runs_def status_of_def
  by (intro exI [of _ "expand esc ps pre"] exI [of _ "t @ expand esc ps post"]) simp

lemma runs_inside:
  assumes "runs s l"
  shows "runs (a @ s @ b) l"
proof -
  obtain before after where "s = before @ ''status=$('' @ l @ '')'' @ newline # after"
    using assms by (auto simp: runs_def)
  then show ?thesis unfolding runs_def
    by (intro exI [of _ "a @ before"] exI [of _ "after @ b"]) simp
qed

lemma in_script_runs: "runs (expand esc ps (in_script b t d v command)) (expand esc ps command)"
  unfolding in_script_def by (rule runs_template)

lemma runs_piece: "runs (a @ expand esc ps (status_of c @ [Txt (newline # t)])) (expand esc ps c)"
  using runs_inside [OF runs_template, of a esc ps "[]" c t "[]" "[]"] by simp

lemma copy_runs: "runs (expand esc ps copy_template) (expand esc ps copy_command)"
  using runs_template [of esc ps "script_start [newline, newline] ''Copy Files'' @ copy_deref" copy_command
      "[newline, newline] @ script_report ''copied'' ''copy'' []" "[]"]
  by (simp add: copy_template_def)

lemma compress_runs:
  "runs (expand esc ps compress_template)
     (expand esc ps (if tv_true (tv_get ps ''match_pattern'') then compress_pattern_command else compress_command))"
proof -
  have "\<exists>a t. expand esc ps compress_template = a @ expand esc ps (status_of
      (if tv_true (tv_get ps ''match_pattern'') then compress_pattern_command else compress_command) @
      [Txt (newline # t)])"
    unfolding compress_template_def
    by (cases "tv_true (tv_get ps ''match_pattern'')";
        intro exI [of _ "expand esc ps (script_start [newline, newline] ''Compress Files'') @ [newline, newline]"] exI)
       simp_all
  then show ?thesis by (metis runs_piece)
qed

end
