(* ===== verification/DataTransferBase.thy ===== *)
theory DataTransferBase
  imports JobScripts SshCalls Caller
begin

section \<open>What a data transfer promises\<close>

text \<open>
  \<open>lib/datatransfers/datatransfer_base.py\<close>: the abstract class \<open>DataTransferBase\<close> with its two
  operations.  Its contract is the locale \<open>data_transfer\<close>: a transfer acts on the scheduler and
  over SSH in the caller's name only, and what it answers is a job it submitted and the directives of
  its method.  The three methods and the choice between them are its interpretations.
\<close>

fun response_method :: "DataTransferResponse \<Rightarrow> DataTransferType" where
  "response_method (S3TransferResponse u us c n) = TransferS3"
| "response_method (WormholeTransferResponse wc) = TransferWormhole"
| "response_method (StreamerTransferResponse c) = TransferStreamer"

text \<open>
  The operation describes a job that the scheduler accepted under this name and token, with the
  identifier it answered, and the job works and logs in the user's directory.
\<close>

definition submitted_by :: "'w submit \<Rightarrow> string \<Rightarrow> string \<Rightarrow> string \<Rightarrow> DataTransferOperation \<Rightarrow> bool" where
  "submitted_by submit work_dir username access_token op \<longleftrightarrow>
     (\<exists>job w w'. submit job username access_token w = (Inr (Some (tj_job_id (op_transfer_job op))), w') \<and>
        jd_current_working_directory job = work_dir @ ''/'' @ username \<and>
        tj_working_directory (op_transfer_job op) = work_dir @ ''/'' @ username \<and>
        jd_standard_output job = Some (log_output (tj_logs (op_transfer_job op))) \<and>
        jd_standard_error job = Some (log_error (tj_logs (op_transfer_job op))))"

lemma submitted_byI:
  assumes "submit (job_helper uuid (work_dir @ ''/'' @ username) script title) username access_token w = (Inr job_id, w')"
    and "transfer_job job_id system (job_helper uuid (work_dir @ ''/'' @ username) script title) = Inr tj"
    and "op_transfer_job op = tj"
  shows "submitted_by submit work_dir username access_token op"
proof -
  obtain j s where "job_id = Some j" "system = Some s"
    using assms(2) by (cases job_id; cases system) (auto simp: transfer_job_def)
  then show ?thesis using assms unfolding submitted_by_def
    by (intro exI [of _ "job_helper uuid (work_dir @ ''/'' @ username) script title"] exI [of _ w] exI [of _ w'])
       (auto simp: transfer_job_def job_helper_def)
qed

text \<open>Two systems that treat this user alike: they may differ in what they do for everyone else.\<close>

definition same_for ::
  "string \<Rightarrow> string \<Rightarrow> 'w submit \<Rightarrow> 'w ssh option \<Rightarrow> 'w submit \<Rightarrow> 'w ssh option \<Rightarrow> bool" where
  "same_for username access_token submit ssh submit' ssh' \<longleftrightarrow>
     (\<forall>job. submit' job username access_token = submit job username access_token) \<and>
     rel_option (\<lambda>s s'. \<forall>command stdin. s' username access_token command stdin = s username access_token command stdin)
       ssh ssh'"

lemma same_for_submit:
  "same_for u t submit ssh submit' ssh' \<Longrightarrow> submit' job u t = submit job u t"
  by (simp add: same_for_def)

lemma same_for_ssh:
  "same_for u t submit ssh submit' ssh' \<Longrightarrow>
     (ssh = None \<and> ssh' = None) \<or>
     (\<exists>s s'. ssh = Some s \<and> ssh' = Some s' \<and> (\<forall>command. s' u t command = s u t command))"
  by (auto simp: same_for_def option_rel_Some1 option_rel_Some2 fun_eq_iff elim!: option.rel_cases)

locale transfer_direction =
  fixes run_transfer ::
    "'w submit \<Rightarrow> 'w ssh option \<Rightarrow> job_env \<Rightarrow> DataTransferLocation \<Rightarrow> DataTransferLocation \<Rightarrow> string \<Rightarrow> string
     \<Rightarrow> string option \<Rightarrow> ('w, DataTransferOperation) io"
    and work_dir :: string
    and transfer_kind :: DataTransferType
  assumes submits: "run_transfer submit ssh x source target u t account w = (Inr op, w') \<Longrightarrow>
      submitted_by submit work_dir u t op"
    and answers: "run_transfer submit ssh x source target u t account w = (Inr op, w') \<Longrightarrow>
      response_method (op_transfer_directives op) = transfer_kind"
    and agrees: "same_for u t submit ssh submit' ssh' \<Longrightarrow>
      run_transfer submit' ssh' x source target u t account = run_transfer submit ssh x source target u t account"

locale data_transfer_base =
  up: transfer_direction upload work_dir transfer_kind + down: transfer_direction download work_dir transfer_kind
  for upload download ::
    "'w submit \<Rightarrow> 'w ssh option \<Rightarrow> job_env \<Rightarrow> DataTransferLocation \<Rightarrow> DataTransferLocation \<Rightarrow> string \<Rightarrow> string
     \<Rightarrow> string option \<Rightarrow> ('w, DataTransferOperation) io"
    and work_dir :: string
    and transfer_kind :: DataTransferType

text \<open>
  What an endpoint gets that checks the method of the request and then leaves the rest to the transfer.
\<close>

context transfer_direction begin

lemma endpoint_submits:
  assumes "caller g = Inr (u, t)"
    and "as_caller g (\<lambda>u t. io_bind (io_lift check) (\<lambda>_. run_transfer submit ssh x source target u t account)) w =
      (Inr op, w')"
  shows "(\<exists>ok. check = Inr ok) \<and> submitted_by submit work_dir u t op \<and>
    response_method (op_transfer_directives op) = transfer_kind"
  using assms by (cases check) (auto simp: io_simps dest: submits answers)

lemma endpoint_agrees:
  assumes "caller g = Inr (u, t)" and "same_for u t submit ssh submit' ssh'"
  shows "as_caller g (\<lambda>u t. io_bind (io_lift check) (\<lambda>_. run_transfer submit' ssh' x source target u t account)) =
    as_caller g (\<lambda>u t. io_bind (io_lift check) (\<lambda>_. run_transfer submit ssh x source target u t account))"
  by (simp add: fun_eq_iff io_simps assms(1) agrees [OF assms(2)] split: sum.split)

end

end
