(* ===== verification/FloatDiv.thy ===== *)
theory FloatDiv
  imports Prelude
begin

section \<open>Dividing integers as Python does\<close>

text \<open>
  \<open>ceil(a / b)\<close> of two integers.  Python's \<open>/\<close> gives the double nearest to the exact quotient, ties
  to the even one; \<open>math.ceil\<close> of a double is exact.  The division is done on natural numbers: the
  quotient is scaled by a power of two until it has the 53 bits of a double's fraction (at most 1074
  times, where the doubles end), rounded, and scaled back.  A quotient beyond the largest double
  is an \<open>OSError\<close>.
\<close>

definition round_half_even :: "nat \<Rightarrow> nat \<Rightarrow> nat" where
  "round_half_even n d =
     (let q = n div d; r = n mod d in
      if 2 * r < d \<or> (2 * r = d \<and> even q) then q else Suc q)"

definition subnormal_bits :: nat where
  "subnormal_bits = 1074"

function scale_up :: "nat \<Rightarrow> nat \<Rightarrow> nat \<Rightarrow> nat" where
  "scale_up a b s = (if s < subnormal_bits \<and> a * 2 ^ s div b < 2 ^ 52 then scale_up a b (Suc s) else s)"
  by pat_completeness auto
termination by (relation "measure (\<lambda>(a, b, s). subnormal_bits - s)") auto

function scale_down :: "nat \<Rightarrow> nat \<Rightarrow> nat \<Rightarrow> nat" where
  "scale_down a b k = (if k < 1024 \<and> 2 ^ 53 \<le> a div (b * 2 ^ k) then scale_down a b (Suc k) else k)"
  by pat_completeness auto
termination by (relation "measure (\<lambda>(a, b, k). 1024 - k)") auto

declare scale_up.simps [simp del] scale_down.simps [simp del]

text \<open>The quotient as a double: the value \<open>m * 2 ^ k / 2 ^ s\<close>, where \<open>s\<close> or \<open>k\<close> is zero.\<close>

definition float_quotient :: "nat \<Rightarrow> nat \<Rightarrow> nat \<times> nat" where
  "float_quotient a b =
     (let s = scale_up a b 0; k = (if 0 < s then 0 else scale_down a b 0) in
      (round_half_even (a * 2 ^ s) (b * 2 ^ k) * 2 ^ k, s))"

definition ceil_quotient :: "nat \<Rightarrow> nat \<Rightarrow> nat" where
  "ceil_quotient a b = (case float_quotient a b of (m, s) \<Rightarrow> (m + (2 ^ s - 1)) div 2 ^ s)"

definition floor_quotient :: "nat \<Rightarrow> nat \<Rightarrow> nat" where
  "floor_quotient a b = (case float_quotient a b of (m, s) \<Rightarrow> m div 2 ^ s)"

definition ceil_div :: "int \<Rightarrow> int \<Rightarrow> int res" where
  "ceil_div a b =
     (let m = nat \<bar>a\<bar>; n = nat \<bar>b\<bar> in
      if b = 0 then raise ZeroDivisionError ''division by zero''
      else if 2 ^ 1024 \<le> floor_quotient m n
      then raise OverflowError ''integer division result too large for a float''
      else if (0 \<le> a) = (0 < b) then Inr (int (ceil_quotient m n))
      else Inr (- int (floor_quotient m n)))"

subsection \<open>Small quotients\<close>

lemma round_half_even_exact: "0 < d \<Longrightarrow> d dvd n \<Longrightarrow> round_half_even n d = n div d"
  by (simp add: round_half_even_def mod_eq_0_iff_dvd)

lemma round_half_even_le: "round_half_even n d \<le> Suc (n div d)"
  by (simp add: round_half_even_def Let_def)

lemma round_half_even_ge: "n div d \<le> round_half_even n d"
  by (simp add: round_half_even_def Let_def)

text \<open>Above the half the result is at least one, and it is never above the next integer.\<close>

lemma round_half_even_pos: "0 < d \<Longrightarrow> d < 2 * n \<Longrightarrow> 0 < round_half_even n d"
  by (cases "n < d") (auto simp: round_half_even_def Let_def div_greater_zero_iff)

lemma round_half_even_shift:
  assumes "0 < d" and "even q"
  shows "round_half_even (q * d + r) d = q + round_half_even r d"
proof -
  have "(q * d + r) div d = q + r div d" "(q * d + r) mod d = r mod d"
    using assms(1) by (simp_all add: add.commute)
  then show ?thesis using assms(2) by (simp add: round_half_even_def Let_def)
qed

lemma scale_up_enough:
  assumes "2 ^ 52 \<le> a * 2 ^ subnormal_bits div b" and "s \<le> subnormal_bits"
  shows "2 ^ 52 \<le> a * 2 ^ scale_up a b s div b"
  using assms
proof (induction a b s rule: scale_up.induct)
  case (1 a b s)
  show ?case
  proof (cases "s < subnormal_bits \<and> a * 2 ^ s div b < 2 ^ 52")
    case True
    then show ?thesis using 1 by (subst scale_up.simps) simp
  next
    case False
    then have "s = subnormal_bits \<or> 2 ^ 52 \<le> a * 2 ^ s div b" using "1.prems"(2) by auto
    then show ?thesis using False "1.prems"(1) by (subst scale_up.simps) auto
  qed
qed

lemma ceil_up:
  assumes "0 < (n :: nat)" and "j * n < x" and "x \<le> Suc j * n"
  shows "(x + (n - 1)) div n = Suc j"
  by (rule div_nat_eqI) (use assms in \<open>simp_all add: mult.commute\<close>)

text \<open>
  Below \<open>2 ^ 53\<close> rounding does not show: the result is the exact ceiling.
\<close>

lemma scaled_remainder:
  fixes a b t :: nat
  assumes "2 ^ 52 \<le> a * t div b" and "a < 2 ^ 53" and "0 < b"
  shows "b < 2 * t"
proof -
  have "2 ^ 52 * b \<le> a * t div b * b" using assms(1) by (rule mult_le_mono1)
  also have "\<dots> \<le> a * t" by (rule div_times_less_eq_dividend)
  finally have le: "2 ^ 52 * b \<le> a * t" .
  then have "0 < t" using assms(3) by (cases t) simp_all
  then have "a * t < 2 ^ 53 * t" using assms(2) by (intro mult_strict_right_mono) simp_all
  with le have "2 ^ 52 * b < 2 ^ 53 * t" by (rule order_le_less_trans)
  then show ?thesis by simp
qed

theorem ceil_quotient_exact:
  assumes "a < 2 ^ 53" and "0 < b" and "b < 2 ^ 53"
  shows "ceil_quotient a b = (a + (b - 1)) div b"
proof (cases "a = 0")
  case True
  have "round_half_even 0 d = 0" if "0 < d" for d using that by (simp add: round_half_even_exact)
  then show ?thesis using True assms(2) by (simp add: ceil_quotient_def float_quotient_def Let_def)
next
  case False
  define s where "s = scale_up a b 0"
  define t :: nat where "t = 2 ^ s"
  have "2 ^ 52 * b \<le> 1 * 2 ^ subnormal_bits"
  proof -
    have "2 ^ 52 * b \<le> 2 ^ 52 * 2 ^ 53" using assms(3) by simp
    also have "\<dots> = (2::nat) ^ 105" by simp
    also have "\<dots> \<le> 2 ^ subnormal_bits" by (rule power_increasing) (simp_all add: subnormal_bits_def)
    finally show ?thesis by simp
  qed
  also have "\<dots> \<le> a * 2 ^ subnormal_bits" using False by (intro mult_le_mono1) simp
  finally have "2 ^ 52 \<le> a * 2 ^ subnormal_bits div b"
    using assms(2) by (simp add: less_eq_div_iff_mult_less_eq)
  then have enough: "2 ^ 52 \<le> a * t div b"
    unfolding t_def s_def by (rule scale_up_enough) simp
  then have big: "b < 2 * t" using assms by (intro scaled_remainder)
  define q r where "q = a div b" and "r = a mod b"
  have a: "a = q * b + r" "r < b" using assms(2) by (simp_all add: q_def r_def)
  show ?thesis
  proof (cases "s = 0")
    case True
    then have "2 ^ 52 \<le> a div b" using enough by (simp add: t_def)
    then have "b = 1" using big True assms(2) by (simp add: t_def)
    moreover have "scale_down a 1 0 = 0" using assms(1) by (subst scale_down.simps) simp
    ultimately show ?thesis using True
      by (simp add: ceil_quotient_def float_quotient_def s_def round_half_even_exact Let_def)
  next
    case False
    then have ceil: "ceil_quotient a b = (round_half_even (a * t) b + (t - 1)) div t"
      by (simp add: ceil_quotient_def float_quotient_def s_def [symmetric] t_def Let_def)
    have t: "0 < t" "even t" using False by (simp_all add: t_def)
    have "a * t = (q * t) * b + r * t" using a(1) by (simp add: algebra_simps)
    then have split: "round_half_even (a * t) b = q * t + round_half_even (r * t) b"
      using t assms(2) by (simp add: round_half_even_shift)
    show ?thesis
    proof (cases "r = 0")
      case True
      have "round_half_even 0 b = 0" using assms(2) by (simp add: round_half_even_exact)
      then have "ceil_quotient a b = (q * t + (t - 1)) div t" using ceil split True by simp
      also have "\<dots> = q" by (rule div_nat_eqI) (use t(1) in \<open>simp_all add: mult.commute\<close>)
      also have "\<dots> = (a + (b - 1)) div b"
        by (rule sym, rule div_nat_eqI) (use a True assms(2) in \<open>simp_all add: mult.commute\<close>)
      finally show ?thesis .
    next
      case False
      have "b < 2 * (r * t)" using big False by (metis mult.left_commute mult_le_mono2 Suc_leI
          order_less_le_trans mult.right_neutral One_nat_def neq0_conv mult.commute)
      then have "0 < round_half_even (r * t) b" using assms(2) by (intro round_half_even_pos)
      moreover have "r * t div b < t" using a(2) t(1) assms(2)
        by (simp add: less_mult_imp_div_less mult.commute)
      then have "round_half_even (r * t) b \<le> t" using round_half_even_le [of "r * t" b] by simp
      ultimately have "ceil_quotient a b = Suc q"
        unfolding ceil split by (intro ceil_up t(1)) simp_all
      moreover have "(a + (b - 1)) div b = Suc q" using a False by (intro ceil_up assms(2)) simp_all
      ultimately show ?thesis by simp
    qed
  qed
qed

end
