(* ===== verification/S3Transfer.thy ===== *)
theory S3Transfer
  imports DataTransferBase FloatDiv Caller FsCommands Dependencies
begin

section \<open>Transfers through an object store\<close>

text \<open>
  \<open>lib/datatransfers/s3/s3_datatransfer.py\<close> and \<open>bucket_lifecycle_configuration\<close> of
  \<open>firecrest/config.py\<close>.  The store's client is aiobotocore's: its methods are the fields of
  \<open>s3_client\<close>, each an effect that may raise, and \<open>s3_enter\<close> and \<open>s3_exit\<close> are the two ends of
  \<open>async with\<close>.  The scheduler is its \<open>submit_job\<close>; the connection to the host is \<open>ssh\<close>.
\<close>

subsection \<open>Resources\<close>

text \<open>\<open>async with\<close>: the exit runs whatever the body does, and its exception replaces the body's.\<close>

definition io_with :: "('w, unit) io \<Rightarrow> ('w, unit) io \<Rightarrow> ('w, 'a) io \<Rightarrow> ('w, 'a) io" where
  "io_with enter exit body =
     io_bind enter (\<lambda>_. \<lambda>w. case body w of (r, w') \<Rightarrow>
       (case exit w' of (Inl e, w'') \<Rightarrow> (Inl e, w'') | (Inr _, w'') \<Rightarrow> (r, w'')))"

lemma io_with_apply [io_simps]:
  "io_with enter exit body w =
     (case enter w of
        (Inl e, w1) \<Rightarrow> (Inl e, w1)
      | (Inr _, w1) \<Rightarrow> (case body w1 of (r, w2) \<Rightarrow>
          (case exit w2 of (Inl e, w3) \<Rightarrow> (Inl e, w3) | (Inr _, w3) \<Rightarrow> (r, w3))))"
  by (simp add: io_with_def io_simps)

subsection \<open>The store's client\<close>

record 'w s3_client =
  s3_enter :: "('w, unit) io"
  s3_exit :: "('w, unit) io"
  s3_create_bucket :: "string \<Rightarrow> ('w, unit) io"
  s3_put_bucket_lifecycle :: "string \<Rightarrow> json \<Rightarrow> ('w, unit) io"
  s3_create_multipart_upload :: "string \<Rightarrow> string \<Rightarrow> ('w, string) io"
  s3_presign :: "string \<Rightarrow> params \<Rightarrow> int \<Rightarrow> string option \<Rightarrow> ('w, string) io"

definition bucket_lifecycle_to_json :: "int \<Rightarrow> json" where
  "bucket_lifecycle_to_json days =
     JObj [(''Rules'', JList [JObj
       [(''ID'', JStr ''ExpireObjects''), (''Prefix'', JStr []), (''Status'', JStr ''Enabled''),
        (''Expiration'', JObj [(''Days'', JInt days)])]])]"

text \<open>With a tenant the bucket's name is qualified, in the parameters of the signed request only.\<close>

definition generate_presigned_url ::
  "'w s3_client \<Rightarrow> string \<Rightarrow> params \<Rightarrow> string option \<Rightarrow> int \<Rightarrow> string option \<Rightarrow> ('w, string) io" where
  "generate_presigned_url client action ps tenant ttl meth =
     (let ps' = (if truthy tenant \<and> map_of ps ''Bucket'' \<noteq> None
                 then dict_set ''Bucket'' (TStr (opt_str tenant @ '':'' @ tv_text (tv_get ps ''Bucket''))) ps
                 else ps)
      in s3_presign client action ps' ttl meth)"

record 'w S3Datatransfer =
  st3_submit :: "'w submit"
  st3_directives :: "string list"
  st3_private :: "'w s3_client"
  st3_public :: "'w s3_client"
  st3_ssh :: "'w ssh option"
  st3_work_dir :: string
  st3_lifecycle_days :: int
  st3_max_part_size :: int
  st3_use_split :: bool
  st3_tmp_folder :: string
  st3_parallel_runs :: int
  st3_tenant :: "string option"
  st3_ttl :: int
  st3_system_name :: string

subsection \<open>Steps that upload and download share\<close>

definition object_name :: "string \<Rightarrow> string option \<Rightarrow> string res" where
  "object_name uuid path =
     (case path of None \<Rightarrow> raise TypeError [] | Some p \<Rightarrow> Inr (uuid @ ''/'' @ basename p))"

text \<open>
  The bucket is the user's; its life cycle is only set when it is new.  The \<open>except\<close> clause covers
  both calls.
\<close>

definition ensure_bucket :: "'w s3_client \<Rightarrow> string \<Rightarrow> int \<Rightarrow> ('w, unit) io" where
  "ensure_bucket client username days =
     io_catch
       (io_bind (s3_create_bucket client username) (\<lambda>_.
          s3_put_bucket_lifecycle client username (bucket_lifecycle_to_json days)))
       (\<lambda>e. if isinstance e BucketAlreadyOwnedByYou then io_return () else io_lift (Inl e))"

definition object_params :: "string \<Rightarrow> string \<Rightarrow> params" where
  "object_params username name = [(''Bucket'', TStr username), (''Key'', TStr name)]"

text \<open>\<open>range(1, ceil(size / max_part_size) + 1)\<close>: the numbers of the parts.\<close>

definition part_numbers :: "int \<Rightarrow> int \<Rightarrow> int list res" where
  "part_numbers sz max_part = map_res (\<lambda>n. [1..n]) (ceil_div sz max_part)"

definition part_urls ::
  "'w S3Datatransfer \<Rightarrow> 'w s3_client \<Rightarrow> string \<Rightarrow> string \<Rightarrow> string \<Rightarrow> int \<Rightarrow> ('w, string list) io" where
  "part_urls d client username name upload_id sz =
     io_bind (io_lift (part_numbers sz (st3_max_part_size d)))
       (io_traverse (\<lambda>part_number.
          generate_presigned_url client ''upload_part''
            (object_params username name @
              [(''UploadId'', TStr upload_id), (''PartNumber'', TInt part_number)])
            (st3_tenant d) (st3_ttl d) None))"

definition complete_url ::
  "'w S3Datatransfer \<Rightarrow> 'w s3_client \<Rightarrow> string \<Rightarrow> string \<Rightarrow> string \<Rightarrow> ('w, string) io" where
  "complete_url d client username name upload_id =
     generate_presigned_url client ''complete_multipart_upload''
       (object_params username name @ [(''UploadId'', TStr upload_id)])
       (st3_tenant d) (st3_ttl d) (Some ''POST'')"

definition object_url ::
  "'w S3Datatransfer \<Rightarrow> 'w s3_client \<Rightarrow> string \<Rightarrow> string \<Rightarrow> string \<Rightarrow> ('w, string) io" where
  "object_url d client action username name =
     generate_presigned_url client action (object_params username name) (st3_tenant d) (st3_ttl d) None"

subsection \<open>Upload\<close>

definition s3_file_size :: "DataTransferRequest option \<Rightarrow> int res" where
  "s3_file_size directives =
     (case directives of
        Some (S3TransferRequest (Some n)) \<Rightarrow> Inr n
      | Some (S3TransferRequest None) \<Rightarrow> raise TypeError []
      | _ \<Rightarrow> raise AttributeError [])"

definition s3_upload_job ::
  "job_env \<Rightarrow> 'w S3Datatransfer \<Rightarrow> string option \<Rightarrow> string \<Rightarrow> string \<Rightarrow> string \<Rightarrow> string option
   \<Rightarrow> JobDescription res" where
  "s3_upload_job x d target_path username head_url url account =
     map_res (\<lambda>directives.
       job_helper (je_job_uuid x) (st3_work_dir d @ ''/'' @ username)
         (je_render x ''job_s3_downloader.sh''
            [(''sbatch_directives'', TStr directives), (''download_head_url'', TStr head_url),
             (''download_url'', TStr url), (''target_path'', TStr (opt_str target_path)),
             (''max_part_size'', TStr (show_int (st3_max_part_size d)))])
         ''IngressFileTransfer'')
       (format_directives (je_rich x) (st3_directives d) account)"

definition s3_upload ::
  "job_env \<Rightarrow> 'w S3Datatransfer \<Rightarrow> DataTransferLocation \<Rightarrow> DataTransferLocation \<Rightarrow> string \<Rightarrow> string
   \<Rightarrow> string option \<Rightarrow> ('w, DataTransferOperation) io" where
  "s3_upload x d source target username access_token account =
     (let private = st3_private d in
      io_bind (io_lift (object_name (je_object_uuid x) (loc_path target))) (\<lambda>name.
      io_bind (io_with (s3_enter private) (s3_exit private)
        (io_bind (ensure_bucket private username (st3_lifecycle_days d)) (\<lambda>_.
         io_bind (s3_create_multipart_upload private username name) (\<lambda>upload_id.
         io_bind (io_lift (s3_file_size (loc_transfer_directives source))) (\<lambda>file_size.
         io_bind (part_urls d (st3_public d) username name upload_id file_size) (\<lambda>urls.
         io_bind (complete_url d (st3_public d) username name upload_id) (\<lambda>done_url.
         io_bind (object_url d private ''get_object'' username name) (\<lambda>get_url.
         io_bind (object_url d private ''head_object'' username name) (\<lambda>head_url.
         io_bind (io_lift (s3_upload_job x d (loc_path target) username head_url get_url account)) (\<lambda>job.
         io_map (\<lambda>job_id. (job_id, job, urls, done_url))
           (st3_submit d job username access_token))))))))))) (\<lambda>(job_id, job, urls, done_url).
      io_lift (map_res
        (\<lambda>tj. \<lparr>op_transfer_job = tj, op_transfer_directives =
           S3TransferResponse None (Some urls) (Some done_url) (Some (st3_max_part_size d))\<rparr>)
        (transfer_job job_id (loc_system target) job)))))"

subsection \<open>Download\<close>

text \<open>\<open>async with ssh_client.get_client(\<dots>): await client.execute(StatCommand(path, True))\<close>.\<close>

definition run_stat :: "'w ssh \<Rightarrow> string \<Rightarrow> string \<Rightarrow> string option \<Rightarrow> ('w, (string \<times> int) list) io" where
  "run_stat ssh username access_token path =
     (let stat = \<lparr>stat_timeout = 5, stat_target_path = opt_str path, stat_dereference = True\<rparr>
      in executed_ssh_cmd ssh username access_token (stat_get_command stat) (stat_parse_output stat) None)"

definition s3_download_job ::
  "job_env \<Rightarrow> 'w S3Datatransfer \<Rightarrow> string option \<Rightarrow> string \<Rightarrow> string list \<Rightarrow> string \<Rightarrow> string option
   \<Rightarrow> JobDescription res" where
  "s3_download_job x d source_path username urls done_url account =
     map_res (\<lambda>directives.
       job_helper (je_job_uuid x) (st3_work_dir d @ ''/'' @ username)
         (je_render x ''job_s3_uploader_multipart.sh''
            [(''sbatch_directives'', TStr directives),
             (''F7T_MAX_PART_SIZE'', TStr (show_int (st3_max_part_size d))),
             (''F7T_MP_USE_SPLIT'', TStr (if st3_use_split d then ''true'' else ''false'')),
             (''F7T_TMP_FOLDER'', TStr (st3_tmp_folder d @ ''/'' @ je_tmp_uuid x @ ''/'')),
             (''F7T_MP_PARALLEL_RUN'', TStr (show_int (st3_parallel_runs d))),
             (''F7T_MP_PARTS_URL'', TStr (join '' '' (map (\<lambda>url. dquote # url @ [dquote]) urls))),
             (''F7T_MP_NUM_PARTS'', TStr (show_nat (length urls))),
             (''F7T_MP_INPUT_FILE'', TStr (opt_str source_path)),
             (''F7T_MP_COMPLETE_URL'', TStr done_url)])
         ''OutgressFileTransfer'')
       (format_directives (je_rich x) (st3_directives d) account)"

definition s3_download ::
  "job_env \<Rightarrow> 'w S3Datatransfer \<Rightarrow> DataTransferLocation \<Rightarrow> DataTransferLocation \<Rightarrow> string \<Rightarrow> string
   \<Rightarrow> string option \<Rightarrow> ('w, DataTransferOperation) io" where
  "s3_download x d source target username access_token account =
     (let private = st3_private d in
      case st3_ssh d of
        None \<Rightarrow> io_raise (HTTPException 501) ''Download cannot be performed without SSH enabled''
      | Some ssh \<Rightarrow>
      io_bind (run_stat ssh username access_token (loc_path source)) (\<lambda>stat_output.
      io_bind (io_lift (object_name (je_object_uuid x) (loc_path source))) (\<lambda>name.
      io_bind (io_with (s3_enter private) (s3_exit private)
        (io_bind (ensure_bucket private username (st3_lifecycle_days d)) (\<lambda>_.
         io_bind (s3_create_multipart_upload private username name) (\<lambda>upload_id.
         io_bind (io_lift (case map_of stat_output ''size'' of None \<Rightarrow> raise KeyError ''size'' | Some n \<Rightarrow> Inr n)) (\<lambda>sz.
         io_bind (part_urls d private username name upload_id sz) (\<lambda>urls.
         io_bind (complete_url d private username name upload_id) (\<lambda>done_url.
         io_bind (io_lift (s3_download_job x d (loc_path source) username urls done_url account)) (\<lambda>job.
         io_map (\<lambda>job_id. (job_id, job)) (st3_submit d job username access_token))))))))) (\<lambda>(job_id, job).
      io_bind (io_with (s3_enter (st3_public d)) (s3_exit (st3_public d))
        (object_url d (st3_public d) ''get_object'' username name)) (\<lambda>url.
      io_lift (map_res
        (\<lambda>tj. \<lparr>op_transfer_job = tj, op_transfer_directives = S3TransferResponse (Some url) None None None\<rparr>)
        (transfer_job job_id (Some (st3_system_name d)) job)))))))"

subsection \<open>The parts of a file\<close>

lemma io_traverse_length: "io_traverse f xs w = (Inr ys, w') \<Longrightarrow> length ys = length xs"
  by (induction xs arbitrary: ys w w') (auto simp: io_simps split: prod.splits sum.splits)

text \<open>\<open>covers k p n\<close>: \<open>k\<close> parts of size \<open>p\<close> hold \<open>n\<close> bytes and one part less does not.\<close>

definition covers :: "nat \<Rightarrow> int \<Rightarrow> int \<Rightarrow> bool" where
  "covers k p n \<longleftrightarrow> n \<le> int k * p \<and> (int k - 1) * p < n"

lemma ceil_div_exact:
  assumes "0 < n" "n < 2 ^ 53" "0 < p" "p < 2 ^ 53"
  shows "ceil_div n p = Inr (int ((nat n + (nat p - 1)) div nat p))"
proof -
  have bounds: "nat n < 2 ^ 53" "0 < nat p" "nat p < 2 ^ 53"
    using assms by (simp_all add: nat_less_iff)
  have "floor_quotient (nat n) (nat p) \<le> ceil_quotient (nat n) (nat p)"
    unfolding floor_quotient_def ceil_quotient_def
    by (cases "float_quotient (nat n) (nat p)") (simp only: prod.case, rule div_le_mono, rule le_add1)
  also have "\<dots> \<le> nat n + (nat p - 1)" using bounds by (simp add: ceil_quotient_exact)
  also have "\<dots> < 2 ^ 53 + 2 ^ 53" using bounds by linarith
  also have "\<dots> < (2 :: nat) ^ 1024" by simp
  finally show ?thesis
    using assms bounds by (simp add: ceil_div_def Let_def ceil_quotient_exact not_le)
qed

lemma part_numbers_cover:
  assumes "0 < n" "n < 2 ^ 53" "0 < p" "p < 2 ^ 53"
  shows "\<exists>k. part_numbers n p = Inr [1..int k] \<and> covers k p n"
proof -
  define k where "k = (nat n + (nat p - 1)) div nat p"
  have "k * nat p \<le> nat n + (nat p - 1)" unfolding k_def by (rule div_times_less_eq_dividend)
  moreover have "nat n + (nat p - 1) < Suc k * nat p"
    using dividend_less_div_times [of "nat p" "nat n + (nat p - 1)"] assms(3)
    unfolding k_def by (simp only: mult_Suc zero_less_nat_eq)
  ultimately have "int (k * nat p) \<le> n + (p - 1)" "n + (p - 1) < int (Suc k * nat p)"
    using assms by linarith+
  then have "covers k p n" using assms by (simp add: covers_def algebra_simps)
  then show ?thesis using ceil_div_exact [OF assms] by (auto simp: part_numbers_def k_def)
qed

lemma part_urls_cover:
  assumes "part_urls d client username name upload_id n w = (Inr urls, w')"
    and "0 < n" "n < 2 ^ 53" "0 < st3_max_part_size d" "st3_max_part_size d < 2 ^ 53"
  shows "covers (length urls) (st3_max_part_size d) n"
proof -
  obtain k where k: "part_numbers n (st3_max_part_size d) = Inr [1..int k]" "covers k (st3_max_part_size d) n"
    using part_numbers_cover assms(2-) by blast
  then have "length urls = k"
    using assms(1) by (auto simp: part_urls_def io_simps dest: io_traverse_length)
  with k show ?thesis by simp
qed

text \<open>Both directions keep the contract of \<open>DataTransferBase\<close>.\<close>

lemma run_stat_agrees:
  assumes "same_for u t submit (Some s) submit' (Some s')"
  shows "run_stat s' u t path = run_stat s u t path"
  using same_for_ssh [OF assms] by (simp add: run_stat_def executed_ssh_cmd_def)

interpretation s3: data_transfer_base
  "\<lambda>submit ssh x. s3_upload x (d\<lparr>st3_submit := submit, st3_ssh := ssh\<rparr>)"
  "\<lambda>submit ssh x. s3_download x (d\<lparr>st3_submit := submit, st3_ssh := ssh\<rparr>)"
  "st3_work_dir d" TransferS3
  for d :: "'w S3Datatransfer"
proof unfold_locales
  fix submit submit' :: "'w submit" and ssh ssh' :: "'w ssh option" and x source target u t account w op w'
  let ?d = "d\<lparr>st3_submit := submit, st3_ssh := ssh\<rparr>" and ?d' = "d\<lparr>st3_submit := submit', st3_ssh := ssh'\<rparr>"
  show "submitted_by submit (st3_work_dir d) u t op" "response_method (op_transfer_directives op) = TransferS3"
    if "s3_upload x ?d source target u t account w = (Inr op, w')"
    using that
    by (auto simp: s3_upload_def s3_upload_job_def io_simps Let_def res_iff
        intro!: submitted_byI split: prod.splits sum.splits)
  show "submitted_by submit (st3_work_dir d) u t op" "response_method (op_transfer_directives op) = TransferS3"
    if "s3_download x ?d source target u t account w = (Inr op, w')"
    using that
    by (auto simp: s3_download_def s3_download_job_def io_simps Let_def res_iff
        intro!: submitted_byI split: prod.splits sum.splits option.splits)
  assume same: "same_for u t submit ssh submit' ssh'"
  show "s3_upload x ?d' source target u t account = s3_upload x ?d source target u t account"
    by (simp add: s3_upload_def s3_upload_job_def part_urls_def complete_url_def object_url_def same_for_submit [OF same])
  show "s3_download x ?d' source target u t account = s3_download x ?d source target u t account"
  proof (cases ssh)
    case None
    then have "ssh' = None" using same_for_ssh [OF same] by simp
    then show ?thesis by (simp add: s3_download_def None)
  next
    case (Some s)
    then obtain s' where "ssh' = Some s'" using same_for_ssh [OF same] by auto
    then show ?thesis using same Some
      by (simp add: s3_download_def s3_download_job_def part_urls_def complete_url_def object_url_def
          same_for_submit [OF same] run_stat_agrees [of u t submit s submit' s'])
  qed
qed

text \<open>
  C15: the answer to an upload request has exactly as many part URLs as the file needs: parts of the
  announced size hold the whole file, and no part is left over.  (Above \<open>2 ^ 53\<close> bytes the division
  of the code rounds.)
\<close>

theorem upload_urls_cover_file:
  assumes "loc_transfer_directives source = Some (S3TransferRequest (Some n))"
    and "0 < n" "n < 2 ^ 53" "0 < st3_max_part_size d" "st3_max_part_size d < 2 ^ 53"
  shows "case s3_upload x d source target username access_token account w of
      (Inl e, _) \<Rightarrow> True
    | (Inr op, _) \<Rightarrow> (\<exists>urls u. op_transfer_directives op =
          S3TransferResponse None (Some urls) (Some u) (Some (st3_max_part_size d)) \<and>
        covers (length urls) (st3_max_part_size d) n)"
  using assms(1) part_urls_cover [OF _ assms(2-)]
  by (auto simp: s3_upload_def s3_file_size_def io_simps Let_def res_iff
      split: prod.splits sum.splits)

definition demo_env :: job_env where
  "demo_env = \<lparr>je_job_uuid = ''1'', je_object_uuid = ''2'', je_tmp_uuid = ''3'',
     je_render = (\<lambda>f ps. f), je_rich = (\<lambda>s. raise ValueError [])\<rparr>"

definition demo_submit :: "string list submit" where
  "demo_submit job username token = (\<lambda>w. (Inr (Some ''17''), w @ [''submit'']))"

definition demo_store :: "string list s3_client" where
  "demo_store = \<lparr>s3_enter = io_return (), s3_exit = io_return (),
     s3_create_bucket = (\<lambda>b w. (Inr (), w @ [''create_bucket''])),
     s3_put_bucket_lifecycle = (\<lambda>b j w. (Inr (), w @ [''put_bucket_lifecycle''])),
     s3_create_multipart_upload = (\<lambda>b k w. (Inr ''id'', w @ [''create_multipart_upload''])),
     s3_presign = (\<lambda>a ps ttl m w. (Inr ''url'', w @ [a]))\<rparr>"

definition demo_s3 :: "string list S3Datatransfer" where
  "demo_s3 = \<lparr>st3_submit = demo_submit, st3_directives = [''#SBATCH -pxfer''],
     st3_private = demo_store, st3_public = demo_store, st3_ssh = None, st3_work_dir = ''/scratch'',
     st3_lifecycle_days = 10, st3_max_part_size = 4, st3_use_split = False, st3_tmp_folder = ''tmp'',
     st3_parallel_runs = 3, st3_tenant = None, st3_ttl = 60, st3_system_name = ''daint''\<rparr>"

definition demo_source :: DataTransferLocation where
  "demo_source = \<lparr>loc_host = None, loc_system = None, loc_path = None,
     loc_transfer_directives = Some (S3TransferRequest (Some 10))\<rparr>"

definition demo_target :: DataTransferLocation where
  "demo_target = \<lparr>loc_host = None, loc_system = Some ''daint'', loc_path = Some ''/scratch/u/f'',
     loc_transfer_directives = None\<rparr>"

lemmas demo_s3_defs = demo_env_def demo_submit_def demo_store_def demo_s3_def demo_source_def demo_target_def

lemma demo_s3_upload:
  "map_res (\<lambda>op. tj_job_id (op_transfer_job op))
     (fst (s3_upload demo_env demo_s3 demo_source demo_target ''u'' ''t'' None [])) = Inr ''17''"
proof -
  have "part_numbers 10 4 = Inr [1, 2, 3]"
    by (simp add: part_numbers_def ceil_div_exact upto.simps)
  then show ?thesis
    by (simp add: s3_upload_def demo_s3_defs object_name_def ensure_bucket_def part_urls_def complete_url_def
        object_url_def generate_presigned_url_def s3_file_size_def s3_upload_job_def format_directives_def
        transfer_job_def io_simps Let_def)
qed

lemma upload_urls_cover_file_witness:
  "case s3_upload demo_env demo_s3 demo_source demo_target ''u'' ''t'' None [] of
      (Inl e, _) \<Rightarrow> False
    | (Inr op, _) \<Rightarrow> (\<exists>urls u. op_transfer_directives op =
          S3TransferResponse None (Some urls) (Some u) (Some 4) \<and> covers (length urls) 4 10)"
  using upload_urls_cover_file [of demo_source 10 demo_s3 demo_env demo_target "''u''" "''t''" None "[]"]
    demo_s3_upload
  by (auto simp: demo_source_def demo_s3_def split: prod.splits sum.splits)

end
