(* ===== verification/Utf8.thy ===== *)
theory Utf8
  imports JsonText
begin

section \<open>UTF-8\<close>

text \<open>
  \<open>bytes.decode("utf-8")\<close>, strict: overlong forms, surrogates and values above U+10FFFF are refused
  with a \<open>UnicodeDecodeError\<close>, a \<open>ValueError\<close>.  Bytes are kept as characters; a code point above
  U+00FF is read as a question mark, as in \<open>json_loads\<close>.
\<close>

definition continues :: "nat \<Rightarrow> nat \<Rightarrow> char \<Rightarrow> bool" where
  "continues lo hi c \<longleftrightarrow> lo \<le> code c \<and> code c \<le> hi"

definition low_bits :: "char \<Rightarrow> nat" where
  "low_bits c = code c mod 64"

fun utf8_decode :: "string \<Rightarrow> string res" where
  "utf8_decode [] = Inr []"
| "utf8_decode (a # s) =
     (let n = code a; bad = raise ValueError ''invalid utf-8'' in
      if n < 128 then map_res ((#) a) (utf8_decode s)
      else if 194 \<le> n \<and> n \<le> 223 then
        (case s of
           b # t \<Rightarrow> if continues 128 191 b
                    then map_res ((#) (code_point (n mod 32 * 64 + low_bits b))) (utf8_decode t) else bad
         | _ \<Rightarrow> bad)
      else if 224 \<le> n \<and> n \<le> 239 then
        (case s of
           b # c # t \<Rightarrow>
             if continues (if n = 224 then 160 else 128) (if n = 237 then 159 else 191) b \<and> continues 128 191 c
             then map_res ((#) (code_point (n mod 16 * 4096 + low_bits b * 64 + low_bits c))) (utf8_decode t)
             else bad
         | _ \<Rightarrow> bad)
      else if 240 \<le> n \<and> n \<le> 244 then
        (case s of
           b # c # d # t \<Rightarrow>
             if continues (if n = 240 then 144 else 128) (if n = 244 then 143 else 191) b \<and>
                continues 128 191 c \<and> continues 128 191 d
             then map_res ((#) (CHR ''?'')) (utf8_decode t)
             else bad
         | _ \<Rightarrow> bad)
      else bad)"

lemma utf8_decode_ascii: "list_all (\<lambda>c. code c < 128) s \<Longrightarrow> utf8_decode s = Inr s"
  by (induction s) simp_all

end
