(* ===== verification/PointTransfers.thy ===== *)
theory PointTransfers
  imports S3Transfer Base64 JsonDump
begin

section \<open>Transfers from point to point\<close>

text \<open>
  \<open>lib/datatransfers/magic_wormhole/wormhole_datatransfer.py\<close> and
  \<open>lib/datatransfers/streamer/streamer_datatransfer.py\<close>: a job on the system that talks to a client of
  the user's.  What the \<open>secrets\<close> module draws is an argument.
\<close>

subsection \<open>Submitting the job\<close>

text \<open>The common end: the job is submitted, its identifier and logs are returned with the directives.\<close>

definition submit_transfer ::
  "'w submit \<Rightarrow> JobDescription \<Rightarrow> string \<Rightarrow> string \<Rightarrow> string option \<Rightarrow> DataTransferResponse
   \<Rightarrow> ('w, DataTransferOperation) io" where
  "submit_transfer submit job username access_token system directives =
     io_bind (submit job username access_token) (\<lambda>job_id.
       io_lift (map_res (\<lambda>tj. \<lparr>op_transfer_job = tj, op_transfer_directives = directives\<rparr>)
         (transfer_job job_id system job)))"

subsection \<open>Wormhole\<close>

definition SPACE_WORDS :: "string list" where
  "SPACE_WORDS =
     [''orbit'', ''station'', ''colony'', ''outpost'', ''asteroid'', ''comet'', ''probe'', ''module'',
      ''observatory'',
      ''alphacentauri'', ''proxima'', ''barnardsstar'', ''sirius'', ''vega'', ''betelgeuse'', ''rigel'',
      ''polaris'', ''andromeda'', ''orion'', ''pegasus'', ''lyra'',
      ''nebula'', ''pulsar'', ''quasar'', ''singularity'', ''eventhorizon'', ''exoplanet'', ''galaxy'',
      ''cluster'']"

text \<open>\<open>below\<close> is what \<open>randbelow(98)\<close> returned, \<open>picks\<close> the positions of the words drawn.\<close>

definition generate_wormhole_code :: "nat \<Rightarrow> nat list \<Rightarrow> string" where
  "generate_wormhole_code below picks =
     show_nat (below + 1) @ ''-'' @ join ''-'' (map (\<lambda>i. SPACE_WORDS ! i) picks)"

record 'w WormholeDatatransfer =
  wh_submit :: "'w submit"
  wh_directives :: "string list"
  wh_work_dir :: string
  wh_system_name :: string
  wh_pypi_index_url :: "string option"

definition opt_tv :: "string option \<Rightarrow> tvalue" where
  "opt_tv v = (case v of None \<Rightarrow> TNone | Some s \<Rightarrow> TStr s)"

definition wormhole_receiver_code :: "DataTransferRequest option \<Rightarrow> string res" where
  "wormhole_receiver_code directives =
     (case directives of Some (WormholeTransferUploadRequest wc) \<Rightarrow> Inr wc | _ \<Rightarrow> raise AttributeError [])"

definition wormhole_upload ::
  "job_env \<Rightarrow> 'w WormholeDatatransfer \<Rightarrow> DataTransferLocation \<Rightarrow> DataTransferLocation \<Rightarrow> string \<Rightarrow> string
   \<Rightarrow> string option \<Rightarrow> ('w, DataTransferOperation) io" where
  "wormhole_upload x d source target username access_token account =
     io_bind (io_lift (format_directives (je_rich x) (wh_directives d) account)) (\<lambda>directives.
     io_bind (io_lift (wormhole_receiver_code (loc_transfer_directives source))) (\<lambda>wormhole_code.
       submit_transfer (wh_submit d)
         (job_helper (je_job_uuid x) (wh_work_dir d @ ''/'' @ username)
            (je_render x ''job_wormhole_receive.sh''
               [(''sbatch_directives'', TStr directives), (''target_path'', opt_tv (loc_path target)),
                (''wormhole_code'', TStr wormhole_code), (''pypi_index_url'', opt_tv (wh_pypi_index_url d))])
            ''IngressFileTransfer'')
         username access_token (loc_system target) (WormholeTransferResponse None)))"

definition wormhole_download ::
  "job_env \<Rightarrow> nat \<Rightarrow> nat list \<Rightarrow> 'w WormholeDatatransfer \<Rightarrow> DataTransferLocation \<Rightarrow> DataTransferLocation \<Rightarrow> string
   \<Rightarrow> string \<Rightarrow> string option \<Rightarrow> ('w, DataTransferOperation) io" where
  "wormhole_download x below picks d source target username access_token account =
     (let wormhole_code = generate_wormhole_code below picks in
      io_bind (io_lift (format_directives (je_rich x) (wh_directives d) account)) (\<lambda>directives.
        submit_transfer (wh_submit d)
          (job_helper (je_job_uuid x) (wh_work_dir d @ ''/'' @ username)
             (je_render x ''job_wormhole_send.sh''
                [(''sbatch_directives'', TStr directives), (''source'', opt_tv (loc_path source)),
                 (''wormhole_code'', TStr wormhole_code), (''pypi_index_url'', opt_tv (wh_pypi_index_url d))])
             ''OutgressFileTransfer'')
          username access_token (Some (wh_system_name d)) (WormholeTransferResponse (Some wormhole_code))))"

subsection \<open>Streamer\<close>

record 'w StreamerDatatransfer =
  sd_submit :: "'w submit"
  sd_directives :: "string list"
  sd_work_dir :: string
  sd_system_name :: string
  sd_pypi_index_url :: "string option"
  sd_port_range :: "int \<times> int"
  sd_public_ips :: "string list"
  sd_host :: "string option"
  sd_wait_timeout :: int
  sd_inbound_transfer_limit :: int
  sd_ssh :: "'w ssh option"

text \<open>\<open>public_ips if public_ips else ["localhost"]\<close>; the other settings are kept as they are given.\<close>

definition streamer_init ::
  "'w submit \<Rightarrow> string list \<Rightarrow> string \<Rightarrow> string \<Rightarrow> StreamerDataTransfer \<Rightarrow> 'w ssh option \<Rightarrow> 'w StreamerDatatransfer" where
  "streamer_init submit directives work_dir system_name c ssh =
     \<lparr>sd_submit = submit, sd_directives = directives, sd_work_dir = work_dir, sd_system_name = system_name,
      sd_pypi_index_url = st_pypi_index_url c, sd_port_range = st_port_range c,
      sd_public_ips = (case st_public_ips c of None \<Rightarrow> [''localhost''] | Some [] \<Rightarrow> [''localhost''] | Some ips \<Rightarrow> ips),
      sd_host = st_host c, sd_wait_timeout = st_wait_timeout c,
      sd_inbound_transfer_limit = st_inbound_transfer_limit c, sd_ssh = ssh\<rparr>"

text \<open>\<open>base64.urlsafe_b64encode\<close> and \<open>base64.urlsafe_b64decode\<close>.\<close>

definition urlsafe_char :: "char \<Rightarrow> char" where
  "urlsafe_char c = (if c = CHR ''+'' then CHR ''-'' else if c = CHR ''/'' then CHR ''_'' else c)"

definition from_urlsafe_char :: "char \<Rightarrow> char" where
  "from_urlsafe_char c = (if c = CHR ''-'' then CHR ''+'' else if c = CHR ''_'' then CHR ''/'' else c)"

definition urlsafe_b64encode :: "string \<Rightarrow> string" where
  "urlsafe_b64encode s = map urlsafe_char (b64encode s)"

definition urlsafe_b64decode :: "string \<Rightarrow> string res" where
  "urlsafe_b64decode s = b64decode (map from_urlsafe_char s)"

text \<open>The coordinates hold no float, so the printer of floats is never used.\<close>

abbreviation dumps :: "json \<Rightarrow> string" where
  "dumps \<equiv> json_dumps (\<lambda>_. [])"

definition streamer_coordinates :: "'w StreamerDatatransfer \<Rightarrow> string \<Rightarrow> json" where
  "streamer_coordinates d secret =
     JObj [(''ports'', JList [JInt (fst (sd_port_range d)), JInt (snd (sd_port_range d))]),
           (''ips'', JList (map JStr (sd_public_ips d))),
           (''secret'', JStr secret)]"

definition encoded_coordinates :: "'w StreamerDatatransfer \<Rightarrow> string \<Rightarrow> string" where
  "encoded_coordinates d secret = urlsafe_b64encode (dumps (streamer_coordinates d secret))"

definition streamer_params ::
  "'w StreamerDatatransfer \<Rightarrow> string \<Rightarrow> string \<Rightarrow> string option \<Rightarrow> string \<Rightarrow> params" where
  "streamer_params d directives operation path secret =
     [(''sbatch_directives'', TStr directives), (''operation'', TStr operation),
      (''target_path'', opt_tv path), (''secret'', TStr secret),
      (''port_range'', TStr (show_int (fst (sd_port_range d)) @ '' '' @ show_int (snd (sd_port_range d)))),
      (''public_ips'', TStrs (sd_public_ips d)), (''host'', opt_tv (sd_host d)),
      (''pypi_index_url'', opt_tv (sd_pypi_index_url d)),
      (''wait_timeout'', TInt (sd_wait_timeout d)),
      (''inbound_transfer_limit'', TInt (sd_inbound_transfer_limit d))]"

text \<open>
  The check before an upload: the target must not exist.  The 403 is raised inside the \<open>try\<close>, whose
  handler lets only a 404 pass, which says that \<open>stat\<close> found nothing.
\<close>

definition http_status :: "exc \<Rightarrow> nat option" where
  "http_status e = (case exc_cls e of HTTPException s \<Rightarrow> Some s | _ \<Rightarrow> None)"

definition check_absent :: "'w ssh \<Rightarrow> string \<Rightarrow> string \<Rightarrow> string option \<Rightarrow> ('w, unit) io" where
  "check_absent ssh username access_token path =
     io_catch
       (io_bind (run_stat ssh username access_token path) (\<lambda>_.
          io_raise (HTTPException 403)
            (''Target file '' @ [CHR 0x27] @ opt_str path @ [CHR 0x27] @ '' already exists.'')))
       (\<lambda>e. if http_status e = Some 404 then io_return () else io_lift (Inl e))"

text \<open>
  The check before a download: a missing source is an error, any other HTTP error of \<open>stat\<close> is
  ignored; an exception that is no HTTP error is not caught.
\<close>

definition check_present :: "'w ssh \<Rightarrow> string \<Rightarrow> string \<Rightarrow> string option \<Rightarrow> ('w, unit) io" where
  "check_present ssh username access_token path =
     io_catch (io_map (\<lambda>_. ()) (run_stat ssh username access_token path))
       (\<lambda>e. if http_status e = None \<or> http_status e = Some 404 then io_lift (Inl e) else io_return ())"

definition with_ssh :: "'w ssh option \<Rightarrow> ('w ssh \<Rightarrow> ('w, unit) io) \<Rightarrow> ('w, unit) io" where
  "with_ssh ssh check = (case ssh of None \<Rightarrow> io_return () | Some s \<Rightarrow> check s)"

definition streamer_upload ::
  "job_env \<Rightarrow> string \<Rightarrow> 'w StreamerDatatransfer \<Rightarrow> DataTransferLocation \<Rightarrow> DataTransferLocation \<Rightarrow> string \<Rightarrow> string
   \<Rightarrow> string option \<Rightarrow> ('w, DataTransferOperation) io" where
  "streamer_upload x secret d source target username access_token account =
     io_bind (io_lift (format_directives (je_rich x) (sd_directives d) account)) (\<lambda>directives.
     io_bind (with_ssh (sd_ssh d) (\<lambda>ssh. check_absent ssh username access_token (loc_path target))) (\<lambda>_.
       submit_transfer (sd_submit d)
         (job_helper (je_job_uuid x) (sd_work_dir d @ ''/'' @ username)
            (je_render x ''job_streamer.sh'' (streamer_params d directives ''receive'' (loc_path target) secret))
            ''IngressFileTransfer'')
         username access_token (loc_system target)
         (StreamerTransferResponse (Some (encoded_coordinates d secret)))))"

definition streamer_download ::
  "job_env \<Rightarrow> string \<Rightarrow> 'w StreamerDatatransfer \<Rightarrow> DataTransferLocation \<Rightarrow> DataTransferLocation \<Rightarrow> string \<Rightarrow> string
   \<Rightarrow> string option \<Rightarrow> ('w, DataTransferOperation) io" where
  "streamer_download x secret d source target username access_token account =
     io_bind (io_lift (format_directives (je_rich x) (sd_directives d) account)) (\<lambda>directives.
     io_bind (with_ssh (sd_ssh d) (\<lambda>ssh. check_present ssh username access_token (loc_path source))) (\<lambda>_.
       submit_transfer (sd_submit d)
         (job_helper (je_job_uuid x) (sd_work_dir d @ ''/'' @ username)
            (je_render x ''job_streamer.sh'' (streamer_params d directives ''send'' (loc_path source) secret))
            ''OutgressFileTransfer'')
         username access_token (Some (sd_system_name d))
         (StreamerTransferResponse (Some (encoded_coordinates d secret)))))"

subsection \<open>Lemmas\<close>

lemma urlsafe_inverse: "c \<noteq> CHR ''-'' \<Longrightarrow> c \<noteq> CHR ''_'' \<Longrightarrow> from_urlsafe_char (urlsafe_char c) = c"
  by (simp add: urlsafe_char_def from_urlsafe_char_def)

lemma b64_alphabet_urlsafe: "list_all (\<lambda>c. c \<noteq> CHR ''-'' \<and> c \<noteq> CHR ''_'') b64_alphabet"
  by (simp add: b64_alphabet_def)

lemma b64_char_urlsafe: "v < 64 \<Longrightarrow> b64_char v \<noteq> CHR ''-'' \<and> b64_char v \<noteq> CHR ''_''"
proof -
  assume "v < 64"
  moreover have "length b64_alphabet = 64" by (simp add: b64_alphabet_def)
  ultimately have "b64_char v \<in> set b64_alphabet" by (simp add: b64_char_def)
  then show ?thesis using b64_alphabet_urlsafe by (simp add: list_all_iff)
qed

lemma b64_pieces:
  "code a div 4 < 64" "code a mod 4 * 16 + code b div 16 < 64" "code a mod 16 * 4 + code b div 64 < 64"
  "code a mod 64 < 64" "code a mod 4 * 16 < 64" "code a mod 16 * 4 < 64"
  using byte_pieces [of "code a" "code b"] by simp_all

lemma b64encode_urlsafe: "list_all (\<lambda>c. c \<noteq> CHR ''-'' \<and> c \<noteq> CHR ''_'') (b64encode s)"
  by (induction s rule: b64encode.induct) (simp_all add: b64_char_urlsafe b64_pieces)

lemma urlsafe_roundtrip [simp]: "urlsafe_b64decode (urlsafe_b64encode s) = Inr s"
proof -
  have "map from_urlsafe_char (map urlsafe_char (b64encode s)) = b64encode s"
    unfolding map_map using b64encode_urlsafe [of s] by (intro map_idI) (simp add: list_all_iff urlsafe_inverse)
  then show ?thesis by (simp add: urlsafe_b64decode_def urlsafe_b64encode_def)
qed

lemma coordinates_read:
  "json_loads (dumps (streamer_coordinates d secret)) = Inr (streamer_coordinates d secret)"
  by (rule json_roundtrip) (simp_all add: streamer_coordinates_def list_all_iff)

text \<open>Both methods keep the contract of \<open>DataTransferBase\<close>.\<close>

lemma submit_transfer_submits:
  assumes "submit_transfer submit (job_helper uuid (wd @ ''/'' @ u) script title) u t system directives w = (Inr op, w')"
  shows "submitted_by submit wd u t op" "op_transfer_directives op = directives"
  using assms
  by (auto simp: submit_transfer_def io_bind_Inr_iff io_lift_apply res_iff intro!: submitted_byI)

lemma submit_transfer_agrees:
  assumes "same_for u t submit ssh submit' ssh'"
  shows "submit_transfer submit' job u t system directives = submit_transfer submit job u t system directives"
  by (simp add: submit_transfer_def same_for_submit [OF assms])

interpretation wormhole: data_transfer_base
  "\<lambda>submit ssh x. wormhole_upload x (d\<lparr>wh_submit := submit\<rparr>)"
  "\<lambda>submit ssh x. wormhole_download x below picks (d\<lparr>wh_submit := submit\<rparr>)"
  "wh_work_dir d" TransferWormhole
  for below picks and d :: "'w WormholeDatatransfer"
proof unfold_locales
  fix submit submit' :: "'w submit" and ssh ssh' :: "'w ssh option" and x source target u t account w op w'
  let ?d = "d\<lparr>wh_submit := submit\<rparr>" and ?d' = "d\<lparr>wh_submit := submit'\<rparr>"
  show "submitted_by submit (wh_work_dir d) u t op" "response_method (op_transfer_directives op) = TransferWormhole"
    if "wormhole_upload x ?d source target u t account w = (Inr op, w')"
    using that by (auto simp: wormhole_upload_def io_bind_Inr_iff dest: submit_transfer_submits [simplified])
  show "submitted_by submit (wh_work_dir d) u t op" "response_method (op_transfer_directives op) = TransferWormhole"
    if "wormhole_download x below picks ?d source target u t account w = (Inr op, w')"
    using that by (auto simp: wormhole_download_def Let_def io_bind_Inr_iff dest: submit_transfer_submits [simplified])
  assume same: "same_for u t submit ssh submit' ssh'"
  show "wormhole_upload x ?d' source target u t account = wormhole_upload x ?d source target u t account"
    by (simp add: wormhole_upload_def submit_transfer_agrees [OF same])
  show "wormhole_download x below picks ?d' source target u t account =
      wormhole_download x below picks ?d source target u t account"
    by (simp add: wormhole_download_def submit_transfer_agrees [OF same])
qed

lemma with_ssh_agrees:
  assumes "same_for u t submit ssh submit' ssh'"
  shows "with_ssh ssh' (\<lambda>s. check_absent s u t path) = with_ssh ssh (\<lambda>s. check_absent s u t path)"
    and "with_ssh ssh' (\<lambda>s. check_present s u t path) = with_ssh ssh (\<lambda>s. check_present s u t path)"
proof -
  consider "ssh = None" "ssh' = None"
    | s s' where "ssh = Some s" "ssh' = Some s'" "run_stat s' u t path = run_stat s u t path"
    using same_for_ssh [OF assms] assms run_stat_agrees by blast
  then show "with_ssh ssh' (\<lambda>s. check_absent s u t path) = with_ssh ssh (\<lambda>s. check_absent s u t path)"
    and "with_ssh ssh' (\<lambda>s. check_present s u t path) = with_ssh ssh (\<lambda>s. check_present s u t path)"
    by (cases; simp add: with_ssh_def check_absent_def check_present_def)+
qed

interpretation streamer: data_transfer_base
  "\<lambda>submit ssh x. streamer_upload x secret (d\<lparr>sd_submit := submit, sd_ssh := ssh\<rparr>)"
  "\<lambda>submit ssh x. streamer_download x secret (d\<lparr>sd_submit := submit, sd_ssh := ssh\<rparr>)"
  "sd_work_dir d" TransferStreamer
  for secret and d :: "'w StreamerDatatransfer"
proof unfold_locales
  fix submit submit' :: "'w submit" and ssh ssh' :: "'w ssh option" and x source target u t account w op w'
  let ?d = "d\<lparr>sd_submit := submit, sd_ssh := ssh\<rparr>" and ?d' = "d\<lparr>sd_submit := submit', sd_ssh := ssh'\<rparr>"
  show "submitted_by submit (sd_work_dir d) u t op" "response_method (op_transfer_directives op) = TransferStreamer"
    if "streamer_upload x secret ?d source target u t account w = (Inr op, w')"
    using that by (auto simp: streamer_upload_def io_bind_Inr_iff dest: submit_transfer_submits [simplified])
  show "submitted_by submit (sd_work_dir d) u t op" "response_method (op_transfer_directives op) = TransferStreamer"
    if "streamer_download x secret ?d source target u t account w = (Inr op, w')"
    using that by (auto simp: streamer_download_def io_bind_Inr_iff dest: submit_transfer_submits [simplified])
  assume same: "same_for u t submit ssh submit' ssh'"
  show "streamer_upload x secret ?d' source target u t account = streamer_upload x secret ?d source target u t account"
    by (simp add: streamer_upload_def submit_transfer_agrees [OF same] with_ssh_agrees [OF same]
        streamer_params_def encoded_coordinates_def streamer_coordinates_def)
  show "streamer_download x secret ?d' source target u t account =
      streamer_download x secret ?d source target u t account"
    by (simp add: streamer_download_def submit_transfer_agrees [OF same] with_ssh_agrees [OF same]
        streamer_params_def encoded_coordinates_def streamer_coordinates_def)
qed

text \<open>Every word of a wormhole code, and the code itself, is safe for the shell.\<close>

lemma space_words_safe: "list_all (list_all is_ascii_letter) SPACE_WORDS"
  by (simp add: SPACE_WORDS_def is_ascii_letter_def)

lemma wormhole_code_safe:
  assumes "list_all (\<lambda>i. i < length SPACE_WORDS) picks"
  shows "list_all sh_safe (generate_wormhole_code below picks)"
proof -
  have word: "list_all sh_safe (SPACE_WORDS ! i)" if "i < length SPACE_WORDS" for i
    using space_words_safe that by (auto simp: list_all_length sh_safe_def is_ascii_word_def)
  then have "list_all sh_safe (join ''-'' (map (\<lambda>i. SPACE_WORDS ! i) picks))" using assms
    by (intro list_all_join) (auto simp: list_all_iff sh_safe_def)
  moreover have "list_all sh_safe (show_nat n)" for n
    using show_nat_digits [of n] by (auto simp: list_all_iff sh_safe_def is_ascii_word_def)
  ultimately show ?thesis by (simp add: generate_wormhole_code_def sh_safe_def)
qed

end
