(* ===== verification/StreamerCore.thy ===== *)
theory StreamerCore
  imports PointTransfers Utf8
begin

section \<open>The streamer\<close>

text \<open>
  \<open>firecrest-streamer/src/streamer/streamer_core.py\<close>: one side sends a file over a websocket, the other
  writes it.  A connection is the list of messages it delivers, in order, and how it ends: closed
  normally or with an exception.  The functions return what they return in the code, the messages
  sent or the files afterwards, and the code and reason with which they close the connection.
  SHA-256, as hexadecimal digits, is the argument \<open>sha256\<close>.  What is reported is not modelled, except
  where reporting raises: the progress bar divides by the announced number of chunks.
\<close>

datatype ws_message = TextMsg string | BinMsg string

definition CHUNK_SIZE :: nat where
  "CHUNK_SIZE = 5 * 1024 * 1024"

subsection \<open>Reporting\<close>

type_synonym progress = "int \<Rightarrow> json \<Rightarrow> unit res"

text \<open>
  \<open>ConsoleReporter.progress\<close>.  A chunk_total that is a text raises \<open>ValueError\<close> when it is no number and
  \<open>TypeError\<close> when it is one; both are read as \<open>TypeError\<close>.
\<close>

definition console_progress :: progress where
  "console_progress current chunk_total =
     (case jnum chunk_total of
        None \<Rightarrow> raise TypeError []
      | Some q \<Rightarrow> if q = 0 then raise ZeroDivisionError ''float division by zero'' else Inr ())"

text \<open>\<open>sizeof_fmt\<close> takes the absolute value of its argument.\<close>

definition sizeof_ok :: "json \<Rightarrow> unit res" where
  "sizeof_ok v = (if jnum v = None then raise TypeError [] else Inr ())"

subsection \<open>Closing with an error\<close>

text \<open>\<open>type(e).__name__\<close> for the exceptions that can reach the handlers; others keep Python's base name.\<close>

definition exc_name :: "exc \<Rightarrow> string" where
  "exc_name e =
     (case exc_cls e of
        ValueError \<Rightarrow> ''ValueError'' | JSONDecodeError \<Rightarrow> ''JSONDecodeError'' | KeyError \<Rightarrow> ''KeyError''
      | TypeError \<Rightarrow> ''TypeError'' | AttributeError \<Rightarrow> ''AttributeError''
      | ZeroDivisionError \<Rightarrow> ''ZeroDivisionError'' | OSError \<Rightarrow> ''OSError''
      | FileNotFoundError \<Rightarrow> ''FileNotFoundError'' | FileExistsError \<Rightarrow> ''FileExistsError''
      | ConnectionClosedError \<Rightarrow> ''ConnectionClosedError'' | TimeoutError \<Rightarrow> ''TimeoutError''
      | _ \<Rightarrow> ''Exception'')"

definition error_reason :: "string \<Rightarrow> string" where
  "error_reason name = dumps (JObj [(''type'', JStr ''error''), (''error'', JStr name)])"

subsection \<open>Sending\<close>

record tx_result =
  tx_returned :: bool
  tx_sent :: "ws_message list"
  tx_close :: "(nat \<times> string) option"

text \<open>\<open>while chunk := f.read(CHUNK_SIZE)\<close>\<close>

function chunks :: "string \<Rightarrow> string list" where
  "chunks s = (if s = [] then [] else take CHUNK_SIZE s # chunks (drop CHUNK_SIZE s))"
  by pat_completeness auto
termination by (relation "measure length") (auto simp: CHUNK_SIZE_def)

declare chunks.simps [simp del]

definition num_chunks :: "string \<Rightarrow> nat" where
  "num_chunks s = (length s + CHUNK_SIZE - 1) div CHUNK_SIZE"

definition init_message :: "string \<Rightarrow> json" where
  "init_message content = JObj [(''type'', JStr ''init''), (''num_chunks'', JInt (int (num_chunks content))),
     (''file_size'', JInt (int (length content)))]"

definition eof_message :: "(string \<Rightarrow> string) \<Rightarrow> string \<Rightarrow> json" where
  "eof_message sha256 content =
     JObj [(''type'', JStr ''eof''), (''sha256_hash'', JStr (sha256 content))]"

text \<open>
  \<open>fails i\<close> is the exception the \<open>i\<close>th call of \<open>send\<close> raises, if it does; the first call sends the
  description of the file.
\<close>

fun send_chunks ::
  "progress \<Rightarrow> (nat \<Rightarrow> exc option) \<Rightarrow> json \<Rightarrow> nat \<Rightarrow> string list \<Rightarrow> ws_message list \<times> exc option" where
  "send_chunks progress fails chunk_total i [] = ([], None)"
| "send_chunks progress fails chunk_total i (c # cs) =
     (case fails i of
        Some e \<Rightarrow> ([], Some e)
      | None \<Rightarrow>
          (case progress (int i) chunk_total of
             Inl e \<Rightarrow> ([BinMsg c], Some e)
           | Inr _ \<Rightarrow> (case send_chunks progress fails chunk_total (Suc i) cs of
               (ms, r) \<Rightarrow> (BinMsg c # ms, r))))"

definition send_failed :: "ws_message list \<Rightarrow> exc \<Rightarrow> tx_result" where
  "send_failed sent e =
     \<lparr>tx_returned = False, tx_sent = sent,
      tx_close = (if isinstance e ConnectionClosedError then None
                  else if isinstance e FileNotFoundError then Some (3003, error_reason ''FileNotFoundError'')
                  else Some (1011, error_reason (exc_name e)))\<rparr>"

definition stream_send ::
  "(string \<Rightarrow> string) \<Rightarrow> (string \<Rightarrow> string res) \<Rightarrow> progress \<Rightarrow> (nat \<Rightarrow> exc option) \<Rightarrow> string \<Rightarrow> tx_result" where
  "stream_send sha256 read_file progress fails target =
     (case read_file target of
        Inl e \<Rightarrow> send_failed [] e
      | Inr content \<Rightarrow>
          (let start = BinMsg (dumps (init_message content));
               chunk_total = JInt (int (num_chunks content)) in
           case fails 0 of
             Some e \<Rightarrow> send_failed [] e
           | None \<Rightarrow>
               (case send_chunks progress fails chunk_total 1 (chunks content) of
                  (ms, Some e) \<Rightarrow> send_failed (start # ms) e
                | (ms, None) \<Rightarrow>
                    (case fails (Suc (length ms)) of
                       Some e \<Rightarrow> send_failed (start # ms) e
                     | None \<Rightarrow>
                         \<lparr>tx_returned = True,
                          tx_sent = start # ms @ [BinMsg (dumps (eof_message sha256 content))],
                          tx_close = None\<rparr>))))"

subsection \<open>Receiving\<close>

type_synonym files = "string \<Rightarrow> string option"

record rx_result =
  rx_returned :: bool
  rx_files :: files
  rx_close :: "(nat \<times> string) option"

text \<open>The variables of the loop: the description, the size counted, what was written, the chunks.\<close>

record rx_state =
  rx_init :: "json option"
  rx_size :: int
  rx_written :: string
  rx_chunks :: int

datatype rx_step =
    RxContinue rx_state
  | RxBreak bool rx_state
  | RxTooBig rx_state
  | RxRaise exc rx_state

text \<open>\<open>RxBreak True\<close> leaves the loop after the file was removed.\<close>

definition or_raise :: "rx_state \<Rightarrow> 'a res \<Rightarrow> ('a \<Rightarrow> rx_step) \<Rightarrow> rx_step" where
  "or_raise st r k = (case r of Inl e \<Rightarrow> RxRaise e st | Inr x \<Rightarrow> k x)"

definition first_message :: "rx_state \<Rightarrow> ws_message \<Rightarrow> rx_step" where
  "first_message st m =
     (case m of
        TextMsg s \<Rightarrow> RxRaise (new_exc AttributeError []) st
      | BinMsg b \<Rightarrow>
          or_raise st (bind_res (utf8_decode b) json_loads) (\<lambda>v.
          or_raise st (bind_res (jindex v ''file_size'') sizeof_ok) (\<lambda>_.
            RxContinue (st\<lparr>rx_init := Some v\<rparr>))))"

definition data_message ::
  "progress \<Rightarrow> int option \<Rightarrow> json \<Rightarrow> rx_state \<Rightarrow> string res \<Rightarrow> rx_step" where
  "data_message progress size_limit init st data =
     (let st1 = st\<lparr>rx_size := rx_size st + int CHUNK_SIZE\<rparr> in
      if (case size_limit of None \<Rightarrow> False | Some l \<Rightarrow> rx_size st1 > l) then RxTooBig st1
      else or_raise st1 data (\<lambda>b.
        let st2 = st1\<lparr>rx_written := rx_written st1 @ b, rx_chunks := rx_chunks st1 + 1\<rparr> in
        or_raise st2 (bind_res (jindex init ''num_chunks'') (progress (rx_chunks st2))) (\<lambda>_. RxContinue st2)))"

definition receive_message ::
  "(string \<Rightarrow> string) \<Rightarrow> progress \<Rightarrow> int option \<Rightarrow> rx_state \<Rightarrow> ws_message \<Rightarrow> rx_step" where
  "receive_message sha256 progress size_limit st m =
     (case rx_init st of
        None \<Rightarrow> first_message st m
      | Some init \<Rightarrow>
          (case m of
             BinMsg b \<Rightarrow> data_message progress size_limit init st (Inr b)
           | TextMsg s \<Rightarrow>
               if starts_with (''{'' @ [dquote] @ ''type'' @ [dquote] @ '':'' @ [dquote] @ ''error'' @ [dquote]) s
               then RxRaise (new_exc AttributeError []) st
               else if starts_with (''{'' @ [dquote] @ ''type'' @ [dquote] @ '':'' @ [dquote] @ ''eof'' @ [dquote]) s
               then or_raise st (bind_res (json_loads s) (\<lambda>v. jindex v ''sha256_hash'')) (\<lambda>h.
                      RxBreak (h \<noteq> JStr (sha256 (rx_written st))) st)
               else data_message progress size_limit init st (raise TypeError [])))"

fun receive_loop ::
  "(string \<Rightarrow> string) \<Rightarrow> progress \<Rightarrow> int option \<Rightarrow> exc option \<Rightarrow> rx_state \<Rightarrow> ws_message list \<Rightarrow> rx_step" where
  "receive_loop sha256 progress size_limit ending st [] =
     (case ending of None \<Rightarrow> RxBreak False st | Some e \<Rightarrow> RxRaise e st)"
| "receive_loop sha256 progress size_limit ending st (m # ms) =
     (case receive_message sha256 progress size_limit st m of
        RxContinue st' \<Rightarrow> receive_loop sha256 progress size_limit ending st' ms
      | r \<Rightarrow> r)"

definition rx_start :: rx_state where
  "rx_start = \<lparr>rx_init = None, rx_size = 0, rx_written = [], rx_chunks = 0\<rparr>"

definition limit_reason :: "int \<Rightarrow> string" where
  "limit_reason l = ''Inbound transfer limit exceeded, max allowed transfer size: '' @ show_int l @ '' bytes.''"

text \<open>
  The target is created, which fails when it exists; \<open>cannot_create\<close> is another reason it cannot be.
  The handler for an existing file names \<open>FileNotFoundError\<close>.
\<close>

definition stream_receive ::
  "(string \<Rightarrow> string) \<Rightarrow> progress \<Rightarrow> (string \<Rightarrow> exc option) \<Rightarrow> files \<Rightarrow> string \<Rightarrow> int option
   \<Rightarrow> ws_message list \<Rightarrow> exc option \<Rightarrow> rx_result" where
  "stream_receive sha256 progress cannot_create files target size_limit messages ending =
     (case (if files target \<noteq> None then Some (new_exc FileExistsError []) else cannot_create target) of
        Some e \<Rightarrow> \<lparr>rx_returned = False, rx_files = files,
          rx_close = Some (if isinstance e FileExistsError then (3003, error_reason ''FileNotFoundError'')
                           else (1011, error_reason (exc_name e)))\<rparr>
      | None \<Rightarrow>
          (case receive_loop sha256 progress size_limit ending rx_start messages of
             RxTooBig st \<Rightarrow> \<lparr>rx_returned = False, rx_files = files(target := None),
               rx_close = Some (1009, limit_reason (case size_limit of None \<Rightarrow> 0 | Some l \<Rightarrow> l))\<rparr>
           | RxRaise e st \<Rightarrow> \<lparr>rx_returned = False, rx_files = files(target \<mapsto> rx_written st),
               rx_close = Some (if isinstance e FileExistsError then (3003, error_reason ''FileNotFoundError'')
                                else (1011, error_reason (exc_name e)))\<rparr>
           | RxBreak removed st \<Rightarrow> \<lparr>rx_returned = True,
               rx_files = (if removed then files(target := None) else files(target \<mapsto> rx_written st)),
               rx_close = None\<rparr>
           | RxContinue st \<Rightarrow> \<lparr>rx_returned = True, rx_files = files(target \<mapsto> rx_written st), rx_close = None\<rparr>))"

subsection \<open>What the sender sends\<close>

lemma chunks_concat [simp]: "concat (chunks s) = s"
  by (induction s rule: chunks.induct) (subst chunks.simps, simp)

lemma chunks_nonempty: "c \<in> set (chunks s) \<Longrightarrow> c \<noteq> []"
  by (induction s rule: chunks.induct) (subst (asm) (2) chunks.simps, auto simp: CHUNK_SIZE_def split: if_splits)

lemma chunks_Nil [simp]: "chunks [] = []"
  by (subst chunks.simps) simp

lemma ceil_step:
  assumes "0 < (k :: nat)" and "0 < m"
  shows "(m + k - 1) div k = Suc ((m - k + k - 1) div k)"
proof (cases "k \<le> m")
  case True
  then obtain j where "m = k + j" using le_Suc_ex by blast
  moreover obtain i where "k = Suc i" using assms(1) by (cases k) simp_all
  ultimately have "m + k - 1 = (j + i) + k" "m - k + k - 1 = j + i" by simp_all
  then show ?thesis using div_add_self2 [of k "j + i"] assms(1) by (simp only:)
next
  case False
  then have "(m + k - 1) div k = 1" using assms by (intro div_nat_eqI) simp_all
  then show ?thesis using False assms(1) by simp
qed

lemma chunks_length: "length (chunks s) = num_chunks s"
proof (induction s rule: chunks.induct)
  case (1 s)
  have pos: "0 < CHUNK_SIZE" by (simp add: CHUNK_SIZE_def)
  show ?case
  proof (cases "s = []")
    case True
    then show ?thesis by (simp add: num_chunks_def CHUNK_SIZE_def)
  next
    case False
    then have "length (chunks s) = Suc (num_chunks (drop CHUNK_SIZE s))"
      using 1 by (subst chunks.simps) simp
    then show ?thesis using ceil_step [OF pos, of "length s"] False by (simp add: num_chunks_def)
  qed
qed

lemma send_chunks_all:
  "(\<And>k. progress k t = Inr ()) \<Longrightarrow> send_chunks progress (\<lambda>_. None) t i cs = (map BinMsg cs, None)"
  by (induction cs arbitrary: i) simp_all

lemma console_progress_ok: "n \<noteq> 0 \<Longrightarrow> console_progress k (JInt n) = Inr ()"
  by (simp add: console_progress_def)

theorem stream_send_messages:
  assumes "read_file target = Inr content"
  shows "stream_send sha256 read_file console_progress (\<lambda>_. None) target =
    \<lparr>tx_returned = True,
     tx_sent = BinMsg (dumps (init_message content)) # map BinMsg (chunks content @ [dumps (eof_message sha256 content)]),
     tx_close = None\<rparr>"
proof -
  have "send_chunks console_progress (\<lambda>_. None) (JInt (int (num_chunks content))) i (chunks content) =
      (map BinMsg (chunks content), None)" for i
  proof (cases "content = []")
    case False
    then have "num_chunks content \<noteq> 0" unfolding chunks_length [symmetric] by (subst chunks.simps) simp
    then show ?thesis by (intro send_chunks_all console_progress_ok) simp
  qed simp
  then show ?thesis using assms by (simp add: stream_send_def)
qed

subsection \<open>What the receiver writes\<close>

definition fits :: "int option \<Rightarrow> int \<Rightarrow> bool" where
  "fits size_limit n \<longleftrightarrow> (case size_limit of None \<Rightarrow> True | Some l \<Rightarrow> n \<le> l)"

lemma data_message_ok:
  assumes "jindex init ''num_chunks'' = Inr (JInt n)"
  shows "data_message console_progress size_limit init st (Inr b) =
    (let st1 = st\<lparr>rx_size := rx_size st + int CHUNK_SIZE\<rparr>;
         st2 = st1\<lparr>rx_written := rx_written st @ b, rx_chunks := rx_chunks st + 1\<rparr> in
     if \<not> fits size_limit (rx_size st1) then RxTooBig st1
     else if n = 0 then RxRaise (new_exc ZeroDivisionError ''float division by zero'') st2
     else RxContinue st2)"
  using assms
  by (auto simp: data_message_def fits_def or_raise_def Let_def console_progress_def split: option.splits)

lemma receive_chunks:
  assumes "rx_init st = Some init" and "jindex init ''num_chunks'' = Inr (JInt n)" and "n \<noteq> 0"
  shows "receive_loop sha256 console_progress size_limit None st (map BinMsg cs) =
      RxBreak False (st\<lparr>rx_size := rx_size st + int (length cs) * int CHUNK_SIZE,
        rx_written := rx_written st @ concat cs, rx_chunks := rx_chunks st + int (length cs)\<rparr>) \<and>
        (cs \<noteq> [] \<longrightarrow> fits size_limit (rx_size st + int (length cs) * int CHUNK_SIZE))
    \<or> (\<exists>st'. receive_loop sha256 console_progress size_limit None st (map BinMsg cs) = RxTooBig st') \<and>
        \<not> fits size_limit (rx_size st + int (length cs) * int CHUNK_SIZE)"
  using assms(1)
proof (induction cs arbitrary: st)
  case (Cons c cs)
  let ?sz = "rx_size st + int CHUNK_SIZE"
  let ?st = "st\<lparr>rx_size := ?sz, rx_written := rx_written st @ c, rx_chunks := rx_chunks st + 1\<rparr>"
  have all: "rx_size st + int (length (c # cs)) * int CHUNK_SIZE = ?sz + int (length cs) * int CHUNK_SIZE"
    by (simp add: algebra_simps)
  have mono: "fits size_limit ?sz" if f: "fits size_limit (?sz + int (length cs) * int CHUNK_SIZE)"
  proof (cases size_limit)
    case (Some l)
    have "0 \<le> int (length cs) * int CHUNK_SIZE" by simp
    moreover have "?sz + int (length cs) * int CHUNK_SIZE \<le> l" using f Some by (simp add: fits_def)
    ultimately have "?sz \<le> l" by linarith
    then show ?thesis using Some by (simp add: fits_def)
  qed (simp add: fits_def)
  show ?case
  proof (cases "fits size_limit ?sz")
    case True
    have step: "receive_loop sha256 console_progress size_limit None st (map BinMsg (c # cs)) =
        receive_loop sha256 console_progress size_limit None ?st (map BinMsg cs)"
      using Cons.prems True assms(3) by (simp add: receive_message_def data_message_ok [OF assms(2)] Let_def)
    have "rx_init ?st = Some init" using Cons.prems by simp
    from Cons.IH [OF this] show ?thesis
      unfolding step all using True by (cases "cs = []") (simp_all add: ac_simps)
  next
    case False
    then have "receive_loop sha256 console_progress size_limit None st (map BinMsg (c # cs)) =
        RxTooBig (st\<lparr>rx_size := ?sz\<rparr>)"
      using Cons.prems by (simp add: receive_message_def data_message_ok [OF assms(2)] Let_def)
    then show ?thesis unfolding all using mono False by blast
  qed
qed simp

lemma first_message_init:
  "first_message st (BinMsg (dumps (init_message content))) = RxContinue (st\<lparr>rx_init := Some (init_message content)\<rparr>)"
proof -
  have "no_float (init_message content)" "json_wf (init_message content)" by (simp_all add: init_message_def)
  then have "bind_res (utf8_decode (dumps (init_message content))) json_loads = Inr (init_message content)"
    by (simp add: utf8_decode_ascii [OF json_dumps_ascii] json_roundtrip)
  then show ?thesis
    by (simp add: first_message_def or_raise_def init_message_def sizeof_ok_def del: json_dumps.simps)
qed

lemma num_chunks_zero: "num_chunks content = 0 \<longleftrightarrow> content = []"
  unfolding chunks_length [symmetric] by (subst chunks.simps) simp

text \<open>
  C4: what a file becomes on the other side of a streamer.  Sender and receiver run over a connection
  that loses nothing.  Counted in whole chunks, the closing message included, the transfer must fit
  the receiver's limit, or it is refused and nothing is kept.  The closing message, sent as bytes, is
  not recognised: it is appended to the file and its checksum is never compared.  The receiver of an
  empty file fails.
\<close>

theorem streamed_file_gets_trailer:
  assumes "read_file source = Inr content" and "files target = None" and "cannot_create target = None"
  shows "stream_receive sha256 console_progress cannot_create files target size_limit
      (tx_sent (stream_send sha256 read_file console_progress (\<lambda>_. None) source)) None =
    (if \<not> fits size_limit (int (num_chunks content + 1) * int CHUNK_SIZE)
     then \<lparr>rx_returned = False, rx_files = files(target := None),
           rx_close = Some (1009, limit_reason (the size_limit))\<rparr>
     else if content = []
     then \<lparr>rx_returned = False, rx_files = files(target \<mapsto> dumps (eof_message sha256 [])),
           rx_close = Some (1011, error_reason ''ZeroDivisionError'')\<rparr>
     else \<lparr>rx_returned = True, rx_files = files(target \<mapsto> content @ dumps (eof_message sha256 content)),
           rx_close = None\<rparr>)"
proof -
  let ?init = "init_message content" and ?eof = "dumps (eof_message sha256 content)"
  let ?st = "rx_start\<lparr>rx_init := Some ?init\<rparr>"
  let ?cs = "chunks content @ [?eof]"
  have init: "rx_init ?st = Some ?init" "jindex ?init ''num_chunks'' = Inr (JInt (int (num_chunks content)))"
    by (simp_all add: init_message_def)
  have start: "receive_loop sha256 console_progress size_limit None rx_start (BinMsg (dumps ?init) # map BinMsg ?cs) =
      receive_loop sha256 console_progress size_limit None ?st (map BinMsg ?cs)"
    by (simp add: receive_message_def rx_start_def first_message_init del: map_append)
  have sz: "rx_size ?st + int (length ?cs) * int CHUNK_SIZE = int (num_chunks content + 1) * int CHUNK_SIZE"
    by (simp add: rx_start_def chunks_length add.commute)
  show ?thesis
  proof (cases "content = []")
    case False
    then have "int (num_chunks content) \<noteq> 0" by (simp add: num_chunks_zero)
    from receive_chunks [OF init this, of sha256 size_limit ?cs] False show ?thesis
      unfolding stream_receive_def stream_send_messages [of read_file source content, OF assms(1)] tx_result.simps start sz
      using assms(2,3) by (auto simp: rx_start_def fits_def split: option.splits)
  next
    case True
    then have "receive_loop sha256 console_progress size_limit None ?st (map BinMsg ?cs) =
        (if fits size_limit (int CHUNK_SIZE)
         then RxRaise (new_exc ZeroDivisionError ''float division by zero'')
                (?st\<lparr>rx_size := int CHUNK_SIZE, rx_written := ?eof, rx_chunks := 1\<rparr>)
         else RxTooBig (?st\<lparr>rx_size := int CHUNK_SIZE\<rparr>))"
      using init by (simp add: receive_message_def data_message_ok Let_def num_chunks_zero rx_start_def)
    moreover have "num_chunks content = 0" using True by (simp add: num_chunks_zero)
    ultimately show ?thesis
      unfolding stream_receive_def stream_send_messages [of read_file source content, OF assms(1)] tx_result.simps start
      using assms(2,3) True by (auto simp: exc_name_def isinstance_def exc_le_def fits_def split: option.splits)
  qed
qed

lemma streamed_file_gets_trailer_witness:
  "rx_files (stream_receive (\<lambda>s. ''ab'') console_progress (\<lambda>_. None) Map.empty ''g'' (Some 10485760)
      (tx_sent (stream_send (\<lambda>s. ''ab'') (\<lambda>_. Inr ''hello'') console_progress (\<lambda>_. None) ''f'')) None) ''g'' =
    Some (''hello'' @ dumps (JObj [(''type'', JStr ''eof''), (''sha256_hash'', JStr ''ab'')]))"
proof -
  have "num_chunks ''hello'' = 1" by (simp add: num_chunks_def CHUNK_SIZE_def)
  then show ?thesis
    by (subst streamed_file_gets_trailer [of "\<lambda>_. Inr ''hello''" "''f''" "''hello''" Map.empty "''g''" "\<lambda>_. None"])
       (simp_all add: fits_def CHUNK_SIZE_def eof_message_def del: json_dumps.simps)
qed

subsection \<open>The limit on what is received\<close>

text \<open>Messages of at most five quarters of a chunk pass \<open>max_size\<close> of both ends.\<close>

definition message_fits :: "ws_message \<Rightarrow> bool" where
  "message_fits m \<longleftrightarrow> (case m of BinMsg b \<Rightarrow> 4 * length b \<le> 5 * CHUNK_SIZE | TextMsg s \<Rightarrow> True)"

definition rx_bounded :: "int \<Rightarrow> rx_state \<Rightarrow> bool" where
  "rx_bounded l st \<longleftrightarrow> 4 * int (length (rx_written st)) \<le> 5 * rx_size st \<and> rx_size st \<le> max 0 l"

definition step_bounded :: "int \<Rightarrow> rx_step \<Rightarrow> bool" where
  "step_bounded l r \<longleftrightarrow>
     (case r of RxTooBig st \<Rightarrow> True | RxContinue st \<Rightarrow> rx_bounded l st | RxBreak b st \<Rightarrow> rx_bounded l st
      | RxRaise e st \<Rightarrow> rx_bounded l st)"

lemma step_bounded_simps [simp]:
  "step_bounded l (RxTooBig st)"
  "step_bounded l (RxContinue st) = rx_bounded l st"
  "step_bounded l (RxBreak b st) = rx_bounded l st"
  "step_bounded l (RxRaise e st) = rx_bounded l st"
  by (simp_all add: step_bounded_def)

lemma step_bounded_or_raise [intro]:
  "rx_bounded l st \<Longrightarrow> (\<And>x. r = Inr x \<Longrightarrow> step_bounded l (k x)) \<Longrightarrow> step_bounded l (or_raise st r k)"
  by (auto simp: or_raise_def split: sum.split)

lemma rx_bounded_init [simp]: "rx_bounded l (st\<lparr>rx_init := v\<rparr>) = rx_bounded l st"
  by (simp add: rx_bounded_def)

lemma data_message_bounded:
  assumes "rx_bounded l st" and "\<And>b. data = Inr b \<Longrightarrow> 4 * length b \<le> 5 * CHUNK_SIZE"
  shows "step_bounded l (data_message progress (Some l) init st data)"
proof -
  let ?st1 = "st\<lparr>rx_size := rx_size st + int CHUNK_SIZE\<rparr>"
  show ?thesis
  proof (cases "rx_size ?st1 > l")
    case False
    have st1: "rx_bounded l ?st1" using assms(1) False by (simp add: rx_bounded_def)
    have st2: "rx_bounded l (?st1\<lparr>rx_written := rx_written st @ b, rx_chunks := n\<rparr>)" if "data = Inr b" for b n
      using assms(1) assms(2) [OF that] False by (simp add: rx_bounded_def)
    show ?thesis using False unfolding data_message_def Let_def
      by (auto simp: not_less intro!: step_bounded_or_raise st1) (use st2 in simp_all)
  qed (simp add: data_message_def Let_def)
qed

lemma receive_message_bounded:
  assumes "rx_bounded l st" and "message_fits m"
  shows "step_bounded l (receive_message sha256 progress (Some l) st m)"
  using assms
  by (auto simp: receive_message_def first_message_def message_fits_def
      split: option.split ws_message.splits intro!: step_bounded_or_raise data_message_bounded)

lemma receive_loop_bounded:
  "rx_bounded l st \<Longrightarrow> list_all message_fits ms \<Longrightarrow>
     step_bounded l (receive_loop sha256 progress (Some l) ending st ms)"
proof (induction ms arbitrary: st)
  case (Cons m ms)
  have "step_bounded l (receive_message sha256 progress (Some l) st m)"
    using Cons.prems by (intro receive_message_bounded) simp_all
  with Cons show ?case by (auto split: rx_step.split)
qed (simp split: option.split)

text \<open>
  C22: whatever the other side sends, the file that is left at the target is never longer than five
  quarters of the limit: the loop counts a whole chunk per message, and a message is at most a quarter
  longer.
\<close>

theorem received_file_bounded:
  assumes "files target = None" and "list_all message_fits messages"
  shows "case rx_files (stream_receive sha256 progress cannot_create files target (Some l) messages ending) target of
      None \<Rightarrow> True
    | Some data \<Rightarrow> 4 * int (length data) \<le> 5 * max 0 l"
proof -
  have "rx_bounded l rx_start" by (simp add: rx_bounded_def rx_start_def)
  from receive_loop_bounded [OF this assms(2), of sha256 progress ending] show ?thesis
    using assms(1)
    by (auto simp: stream_receive_def rx_bounded_def split: option.splits rx_step.split)
qed

lemma received_file_bounded_witness:
  "case rx_files (stream_receive (\<lambda>s. []) console_progress (\<lambda>_. None) Map.empty ''g'' (Some 8)
      [BinMsg ''{}'', BinMsg ''data''] None) ''g'' of
     None \<Rightarrow> True | Some data \<Rightarrow> 4 * int (length data) \<le> 5 * max 0 8"
  by (rule received_file_bounded) (simp_all add: message_fits_def CHUNK_SIZE_def)

subsection \<open>The sender's loop\<close>

text \<open>None of \<open>n\<close> calls of \<open>send\<close>, from the \<open>i\<close>th on, raises.\<close>

primrec sends_ok :: "(nat \<Rightarrow> exc option) \<Rightarrow> nat \<Rightarrow> nat \<Rightarrow> bool" where
  "sends_ok fails i 0 = True"
| "sends_ok fails i (Suc n) = (fails i = None \<and> sends_ok fails (Suc i) n)"

lemma sends_ok_last: "sends_ok fails i (Suc n) \<longleftrightarrow> sends_ok fails i n \<and> fails (i + n) = None"
  by (induction n arbitrary: i) auto

lemma send_chunks_prefix:
  assumes "\<And>k. progress k tot = Inr ()"
  shows "\<exists>k \<le> length cs. fst (send_chunks progress fails tot i cs) = map BinMsg (take k cs) \<and>
    (snd (send_chunks progress fails tot i cs) = None \<longleftrightarrow> sends_ok fails i (length cs)) \<and>
    (snd (send_chunks progress fails tot i cs) = None \<longrightarrow> k = length cs)"
proof (induction cs arbitrary: i)
  case Nil
  then show ?case by simp
next
  case (Cons c cs)
  show ?case
  proof (cases "fails i")
    case None
    from Cons [of "Suc i"] obtain k where k: "k \<le> length cs"
      "fst (send_chunks progress fails tot (Suc i) cs) = map BinMsg (take k cs)"
      "snd (send_chunks progress fails tot (Suc i) cs) = None \<longleftrightarrow> sends_ok fails (Suc i) (length cs)"
      "snd (send_chunks progress fails tot (Suc i) cs) = None \<longrightarrow> k = length cs"
      by (elim exE conjE)
    show ?thesis
      by (rule exI [of _ "Suc k"])
        (use k None assms in \<open>simp add: split_beta\<close>)
  next
    case (Some e)
    then show ?thesis by (intro exI [of _ 0]) simp
  qed
qed

lemma chunks_sizes: "list_all (\<lambda>c. c \<noteq> [] \<and> length c \<le> CHUNK_SIZE) (chunks s)"
proof (induction s rule: chunks.induct)
  case (1 s)
  then show ?case by (subst chunks.simps) (auto simp: CHUNK_SIZE_def)
qed

lemma send_chunks_console:
  "\<exists>k \<le> num_chunks content.
    fst (send_chunks console_progress fails (JInt (int (num_chunks content))) i (chunks content)) = map BinMsg (take k (chunks content)) \<and>
    (snd (send_chunks console_progress fails (JInt (int (num_chunks content))) i (chunks content)) = None \<longleftrightarrow>
       sends_ok fails i (num_chunks content)) \<and>
    (snd (send_chunks console_progress fails (JInt (int (num_chunks content))) i (chunks content)) = None \<longrightarrow> k = num_chunks content)"
proof (cases "content = []")
  case True
  then show ?thesis using num_chunks_zero [of content] by simp
next
  case False
  then have "console_progress k (JInt (int (num_chunks content))) = Inr ()" for k
    by (intro console_progress_ok) (simp add: num_chunks_zero)
  from send_chunks_prefix [of console_progress _ "chunks content" fails i, OF this] show ?thesis by (simp add: chunks_length)
qed

text \<open>
  C21: the sender's loop ends.  It reads the file in non-empty chunks of at most
  \<open>CHUNK_SIZE\<close> bytes, as many as it announced, that together are the file; whatever call of \<open>send\<close>
  fails, what went out is a beginning of the announcement, the chunks and the closing message, and
  the transfer succeeds exactly when none of them failed.
\<close>

theorem sender_sends_prefix:
  "let r = stream_send sha256 read_file console_progress fails source in
   case read_file source of
     Inl e \<Rightarrow> \<not> tx_returned r \<and> tx_sent r = []
   | Inr content \<Rightarrow>
       concat (chunks content) = content \<and> length (chunks content) = num_chunks content \<and>
       list_all (\<lambda>c. c \<noteq> [] \<and> length c \<le> CHUNK_SIZE) (chunks content) \<and>
       tx_sent r = take (length (tx_sent r))
         (BinMsg (dumps (init_message content)) # map BinMsg (chunks content @ [dumps (eof_message sha256 content)])) \<and>
       (tx_returned r \<longleftrightarrow> length (tx_sent r) = num_chunks content + 2) \<and>
       (tx_returned r \<longleftrightarrow> sends_ok fails 0 (num_chunks content + 2))"
proof (cases "read_file source")
  case (Inl e)
  then show ?thesis by (simp add: stream_send_def send_failed_def)
next
  case (Inr content)
  let ?n = "num_chunks content" and ?r = "stream_send sha256 read_file console_progress fails source"
  obtain ms x where send: "send_chunks console_progress fails (JInt (int ?n)) (Suc 0) (chunks content) = (ms, x)" by fastforce
  obtain k where k: "k \<le> ?n" "ms = map BinMsg (take k (chunks content))"
    "x = None \<longleftrightarrow> sends_ok fails (Suc 0) ?n" "x = None \<longrightarrow> k = ?n"
    using send_chunks_console [of content fails "Suc 0"] unfolding send fst_conv snd_conv by blast
  have len: "length ms = k" using k(1,2) by (simp add: chunks_length)
  have all: "sends_ok fails 0 (Suc (Suc ?n)) \<longleftrightarrow>
      fails 0 = None \<and> sends_ok fails (Suc 0) ?n \<and> fails (Suc ?n) = None"
    using sends_ok_last [of fails "Suc 0" ?n] by (auto simp: numeral_2_eq_2)
  have "?r = (case fails 0 of Some e \<Rightarrow> send_failed [] e
    | None \<Rightarrow> (case x of Some e \<Rightarrow> send_failed (BinMsg (dumps (init_message content)) # ms) e
      | None \<Rightarrow> (case fails (Suc (length ms)) of Some e \<Rightarrow> send_failed (BinMsg (dumps (init_message content)) # ms) e
        | None \<Rightarrow> \<lparr>tx_returned = True, tx_sent = BinMsg (dumps (init_message content)) # ms @
            [BinMsg (dumps (eof_message sha256 content))], tx_close = None\<rparr>)))"
    by (simp add: stream_send_def Inr send Let_def split: option.split)
  then show ?thesis
    using k len
    by (auto simp: Inr Let_def chunks_length chunks_sizes all send_failed_def take_map simp del: sends_ok.simps
        split: option.splits)
qed

end
