(* ===== verification/StreamerLink.thy ===== *)
theory StreamerLink
  imports StreamerCore
begin

section \<open>How the two ends of a stream find each other\<close>

text \<open>
  \<open>firecrest-streamer/src/streamer/streamer_server.py\<close> and \<open>streamer_client.py\<close>: the server takes the
  first port of its range it can bind and admits who knows the secret; the client reads the
  coordinates and tries every address and port.  Binding and connecting are arguments.
\<close>

subsection \<open>The server\<close>

datatype Operation = OpSend | OpReceive

record StreamConfig =
  sc_operation :: Operation
  sc_target :: string
  sc_secret :: string
  sc_port_range :: "int \<times> int"
  sc_ips :: "string list"
  sc_host :: string
  sc_wait_timeout :: int
  sc_inbound_transfer_limit :: int

text \<open>
  \<open>process_request\<close>: the answer that refuses the connection, or none, and then the timeout is
  cancelled.  \<open>authorization\<close> is the header's value.
\<close>

definition process_request :: "string \<Rightarrow> string option \<Rightarrow> (nat \<times> string) option" where
  "process_request secret authorization =
     (case authorization of
        None \<Rightarrow> Some (401, ''Missing Authorization header'' @ [newline])
      | Some a \<Rightarrow>
          (let token = last (split_str ''Bearer '' a) in
           if token \<noteq> secret then Some (403, ''Invalid secret'' @ [newline]) else None))"

text \<open>
  The loop over the ports.  \<open>serve\<close> is one round: it binds the port and serves one client, or raises;
  only an \<open>OSError\<close> moves on to the next port.
\<close>

fun serve_ports :: "(int \<Rightarrow> unit res) \<Rightarrow> int list \<Rightarrow> int option res" where
  "serve_ports serve [] = Inr None"
| "serve_ports serve (port # ports) =
     (case serve port of
        Inr _ \<Rightarrow> Inr (Some port)
      | Inl e \<Rightarrow> if isinstance e OSError then serve_ports serve ports else Inl e)"

definition port_numbers :: "int \<times> int \<Rightarrow> int list" where
  "port_numbers r = [fst r..snd r]"

definition stream :: "(int \<Rightarrow> unit res) \<Rightarrow> StreamConfig \<Rightarrow> int option res" where
  "stream serve config = serve_ports serve (port_numbers (sc_port_range config))"

text \<open>What the server does with a client: receive up to its limit, or send.\<close>

definition server_receive ::
  "(string \<Rightarrow> string) \<Rightarrow> (string \<Rightarrow> exc option) \<Rightarrow> files \<Rightarrow> StreamConfig \<Rightarrow> ws_message list \<Rightarrow> exc option \<Rightarrow> rx_result" where
  "server_receive sha256 cannot_create files config messages ending =
     stream_receive sha256 console_progress cannot_create files (sc_target config)
       (Some (sc_inbound_transfer_limit config)) messages ending"

definition server_send ::
  "(string \<Rightarrow> string) \<Rightarrow> (string \<Rightarrow> string res) \<Rightarrow> (nat \<Rightarrow> exc option) \<Rightarrow> StreamConfig \<Rightarrow> tx_result" where
  "server_send sha256 read_file fails config =
     stream_send sha256 read_file console_progress fails (sc_target config)"

text \<open>The coordinates the server prints also name its operation.\<close>

definition operation_value :: "Operation \<Rightarrow> string" where
  "operation_value op = (case op of OpSend \<Rightarrow> ''send'' | OpReceive \<Rightarrow> ''receive'')"

definition server_coordinates :: "StreamConfig \<Rightarrow> string" where
  "server_coordinates config = urlsafe_b64encode (dumps (JObj
     [(''ports'', JList [JInt (fst (sc_port_range config)), JInt (snd (sc_port_range config))]),
      (''ips'', JList (map JStr (sc_ips config))), (''secret'', JStr (sc_secret config)),
      (''operation'', JStr (operation_value (sc_operation config)))]))"

subsection \<open>The client's configuration\<close>

text \<open>The fields are not validated: they are what the JSON text holds.\<close>

record ClientConfig =
  cc_target :: string
  cc_secret :: json
  cc_port_range :: json
  cc_ip_list :: json
  cc_operation :: "Operation option"

text \<open>\<open>Operation[operation] if operation else None\<close>\<close>

definition operation_of :: "json \<Rightarrow> Operation option res" where
  "operation_of v =
     (if \<not> jtruthy v then Inr None
      else if v = JStr ''send'' then Inr (Some OpSend)
      else if v = JStr ''receive'' then Inr (Some OpReceive)
      else (case v of JList xs \<Rightarrow> raise TypeError [] | JObj d \<Rightarrow> raise TypeError [] | _ \<Rightarrow> raise KeyError []))"

definition read_coordinates :: "string \<Rightarrow> ClientConfig res" where
  "read_coordinates coordinates =
     bind_res (urlsafe_b64decode coordinates) (\<lambda>bytes.
     bind_res (utf8_decode bytes) (\<lambda>json_str.
     bind_res (json_loads json_str) (\<lambda>data.
     bind_res (jitems data) (\<lambda>d.
     bind_res (jindex data ''secret'') (\<lambda>secret.
     bind_res (jindex data ''ports'') (\<lambda>ports.
     bind_res (jindex data ''ips'') (\<lambda>ips.
     bind_res (operation_of (jget d ''operation'')) (\<lambda>operation.
       Inr \<lparr>cc_target = [], cc_secret = secret, cc_port_range = ports, cc_ip_list = ips,
            cc_operation = operation\<rparr>))))))))"

text \<open>Malformed text and missing keys become a \<open>ClickException\<close>; other exceptions leave the function.\<close>

definition set_coordinates :: "string \<Rightarrow> ClientConfig res" where
  "set_coordinates coordinates =
     catch_res (read_coordinates coordinates) (\<lambda>e.
       if isinstance e JSONDecodeError \<or> isinstance e KeyError \<or> isinstance e Base64Error
       then Inl (Exc ClickException ''Invalid coordinates format'' [] (Some e))
       else Inl e)"

subsection \<open>The client's search\<close>

text \<open>An address is a text and a port an integer; another value is read as a \<open>TypeError\<close>.\<close>

definition json_port :: "json \<Rightarrow> nat \<Rightarrow> int res" where
  "json_port v i =
     bind_res (jelems v) (\<lambda>xs. if i < length xs then (case xs ! i of JInt n \<Rightarrow> Inr n | _ \<Rightarrow> raise TypeError [])
                               else raise IndexError [])"

definition client_ports :: "json \<Rightarrow> int list res" where
  "client_ports v = bind_res (json_port v 0) (\<lambda>a. bind_res (json_port v 1) (\<lambda>b. Inr (port_numbers (a, b))))"

definition ip_text :: "json \<Rightarrow> string res" where
  "ip_text v = (case v of JStr s \<Rightarrow> Inr s | _ \<Rightarrow> raise TypeError [])"

definition client_endpoints :: "ClientConfig \<Rightarrow> (string \<times> int) list res" where
  "client_endpoints config =
     bind_res (jelems (cc_ip_list config)) (\<lambda>ips.
     map_res concat (traverse (\<lambda>v.
       bind_res (client_ports (cc_port_range config)) (\<lambda>ports.
       bind_res (ip_text v) (\<lambda>ip. Inr (map (\<lambda>port. (ip, port)) ports)))) ips))"

definition tries_next :: "exc \<Rightarrow> bool" where
  "tries_next e \<longleftrightarrow> isinstance e OSError \<or> isinstance e InvalidStatus \<or> isinstance e InvalidMessage"

text \<open>\<open>connect ip port\<close> opens the websocket with the secret as bearer token.\<close>

fun try_connect :: "(string \<Rightarrow> int \<Rightarrow> 'c res) \<Rightarrow> (string \<times> int) list \<Rightarrow> 'c option res" where
  "try_connect connect [] = Inr None"
| "try_connect connect ((ip, port) # rest) =
     (case connect ip port of
        Inr c \<Rightarrow> Inr (Some c)
      | Inl e \<Rightarrow> if tries_next e then try_connect connect rest else Inl e)"

text \<open>How a client's run ends: refused by its coordinates, connected, nothing found, or an error.\<close>

datatype 'c client_run = WrongDirection | Connected 'c | NoConnection | ClientError exc

definition client_connect ::
  "Operation \<Rightarrow> (json \<Rightarrow> string \<Rightarrow> int \<Rightarrow> 'c res) \<Rightarrow> ClientConfig \<Rightarrow> 'c client_run" where
  "client_connect wanted connect config =
     (if (case cc_operation config of None \<Rightarrow> False | Some op \<Rightarrow> op \<noteq> wanted) then WrongDirection
      else (case bind_res (client_endpoints config) (try_connect (connect (cc_secret config))) of
              Inl e \<Rightarrow> ClientError e
            | Inr None \<Rightarrow> NoConnection
            | Inr (Some c) \<Rightarrow> Connected c))"

definition client_receive :: "(json \<Rightarrow> string \<Rightarrow> int \<Rightarrow> 'c res) \<Rightarrow> ClientConfig \<Rightarrow> 'c client_run" where
  "client_receive connect config = client_connect OpSend connect config"

definition client_send :: "(json \<Rightarrow> string \<Rightarrow> int \<Rightarrow> 'c res) \<Rightarrow> ClientConfig \<Rightarrow> 'c client_run" where
  "client_send connect config = client_connect OpReceive connect config"

subsection \<open>Lemmas\<close>

lemma serve_ports_member: "serve_ports serve ports = Inr (Some p) \<Longrightarrow> p \<in> set ports \<and> serve p = Inr ()"
  by (induction ports) (auto split: sum.splits if_splits)

lemma try_connect_finds:
  assumes "(ip, port) \<in> set eps" and "connect ip port = Inr c"
    and "\<And>i p. (i, p) \<noteq> (ip, port) \<Longrightarrow> \<exists>e. connect i p = Inl e \<and> tries_next e"
  shows "try_connect connect eps = Inr (Some c)"
  using assms(1)
proof (induction eps)
  case (Cons ep eps)
  obtain i p where ep: "ep = (i, p)" by (cases ep)
  show ?case
  proof (cases "ep = (ip, port)")
    case True
    then show ?thesis using assms(2) by simp
  next
    case False
    then obtain e where "connect i p = Inl e" "tries_next e" using assms(3) [of i p] ep by auto
    then show ?thesis using Cons False ep by auto
  qed
qed simp

definition coordinates_config :: "'w StreamerDatatransfer \<Rightarrow> string \<Rightarrow> ClientConfig" where
  "coordinates_config d secret =
     \<lparr>cc_target = [], cc_secret = JStr secret,
      cc_port_range = JList [JInt (fst (sd_port_range d)), JInt (snd (sd_port_range d))],
      cc_ip_list = JList (map JStr (sd_public_ips d)), cc_operation = None\<rparr>"

lemma endpoints_of_coordinates:
  "client_endpoints (coordinates_config d secret) =
     Inr (concat (map (\<lambda>ip. map (\<lambda>port. (ip, port)) (port_numbers (sd_port_range d))) (sd_public_ips d)))"
proof -
  have "client_ports (cc_port_range (coordinates_config d secret)) = Inr (port_numbers (sd_port_range d))"
    by (simp add: client_ports_def json_port_def coordinates_config_def)
  then show ?thesis
    by (simp add: client_endpoints_def coordinates_config_def traverse_map ip_text_def
        traverse_total [of "sd_public_ips d" _ "\<lambda>ip. map (\<lambda>port. (ip, port)) (port_numbers (sd_port_range d))"])
qed

subsection \<open>Properties\<close>

text \<open>
  The client reads from the coordinates in the API's answer exactly the port range, the addresses
  and the secret of the server's job, whatever characters the secret and the addresses have.
\<close>

theorem coordinates_roundtrip:
  "set_coordinates (encoded_coordinates d secret) = Inr (coordinates_config d secret)"
proof -
  have "no_float (streamer_coordinates d secret)" by (simp add: streamer_coordinates_def list_all_iff)
  then have "utf8_decode (dumps (streamer_coordinates d secret)) = Inr (dumps (streamer_coordinates d secret))"
    by (intro utf8_decode_ascii json_dumps_ascii)
  moreover have "jitems (streamer_coordinates d secret) = Inr
      [(''ports'', cc_port_range (coordinates_config d secret)), (''ips'', cc_ip_list (coordinates_config d secret)),
       (''secret'', JStr secret)]"
    "jindex (streamer_coordinates d secret) ''secret'' = Inr (JStr secret)"
    "jindex (streamer_coordinates d secret) ''ports'' = Inr (cc_port_range (coordinates_config d secret))"
    "jindex (streamer_coordinates d secret) ''ips'' = Inr (cc_ip_list (coordinates_config d secret))"
    by (simp_all add: streamer_coordinates_def coordinates_config_def)
  ultimately show ?thesis
    by (simp add: set_coordinates_def read_coordinates_def encoded_coordinates_def coordinates_read operation_of_def
        del: json_dumps.simps) (simp add: coordinates_config_def)
qed

text \<open>
  C13: the ends of a stream meet.  When the job's server got a port of its range and can be reached
  there under one of the public addresses, and nobody else accepts the secret, then a client that is
  given the API's coordinates connects to it, whichever port it was.
\<close>

theorem client_finds_server:
  assumes "serve_ports serve (port_numbers (sd_port_range d)) = Inr (Some port)"
    and "ip \<in> set (sd_public_ips d)"
    and "connect (JStr secret) ip port = Inr c"
    and "\<And>i p. (i, p) \<noteq> (ip, port) \<Longrightarrow> \<exists>e. connect (JStr secret) i p = Inl e \<and> tries_next e"
  shows "map_res (client_connect op connect) (set_coordinates (encoded_coordinates d secret)) = Inr (Connected c)"
proof -
  have "(ip, port) \<in> set (concat (map (\<lambda>ip. map (\<lambda>port. (ip, port)) (port_numbers (sd_port_range d))) (sd_public_ips d)))"
    using assms(2) serve_ports_member [OF assms(1)] by auto
  from try_connect_finds [of ip port _ "connect (JStr secret)", OF this assms(3,4)]
  show ?thesis unfolding coordinates_roundtrip
    by (simp add: client_connect_def endpoints_of_coordinates) (simp add: coordinates_config_def)
qed

definition demo_streamer :: "unit StreamerDatatransfer" where
  "demo_streamer = streamer_init (\<lambda>_ _ _. io_return None) [] ''/scratch'' ''daint''
     (default_streamer\<lparr>st_public_ips := Some [''192.0.2.1'', ''192.0.2.2'']\<rparr>) None"

text \<open>The third port is the first free one, and the second address the one that can be reached.\<close>

definition demo_connect :: "json \<Rightarrow> string \<Rightarrow> int \<Rightarrow> nat res" where
  "demo_connect secret ip port =
     (if (ip, port) = (''192.0.2.2'', 5667) \<and> secret = JStr ''s'' then Inr 7 else raise OSError [])"

lemma client_finds_server_witness:
  "map_res (client_connect OpSend demo_connect) (set_coordinates (encoded_coordinates demo_streamer ''s'')) = Inr (Connected 7)"
proof (rule client_finds_server)
  show "serve_ports (\<lambda>p. if p < 5667 then raise OSError [] else Inr ()) (port_numbers (sd_port_range demo_streamer)) = Inr (Some 5667)"
    by (simp add: demo_streamer_def streamer_init_def default_streamer_def port_numbers_def isinstance_def upto.simps)
  show "''192.0.2.2'' \<in> set (sd_public_ips demo_streamer)"
    by (simp add: demo_streamer_def streamer_init_def)
  show "demo_connect (JStr ''s'') ''192.0.2.2'' 5667 = Inr 7"
    by (simp add: demo_connect_def)
  show "\<exists>e. demo_connect (JStr ''s'') i p = Inl e \<and> tries_next e" if "(i, p) \<noteq> (''192.0.2.2'', 5667)" for i p
    using that by (auto simp: demo_connect_def tries_next_def isinstance_def)
qed

lemma split_str_fuel_absent:
  assumes "q \<in> set sep" and "q \<notin> set s" and "length s \<le> n"
  shows "split_str_fuel n sep acc s = [rev acc @ s]"
  using assms(2,3)
proof (induction s arbitrary: n acc)
  case Nil
  then show ?case by (cases n) simp_all
next
  case (Cons c s)
  have "\<not> starts_with sep (c # s)"
  proof
    assume "starts_with sep (c # s)"
    then obtain t where "c # s = sep @ t" by (auto simp: starts_with_iff)
    then have "set (c # s) = set sep \<union> set t" by (simp only: set_append)
    then show False using assms(1) Cons.prems(1) by blast
  qed
  with Cons show ?case by (cases n) simp_all
qed

lemma bearer_token_part:
  assumes "CHR '' '' \<notin> set t"
  shows "last (split_str ''Bearer '' (''Bearer '' @ t)) = t"
proof -
  have "split_str_fuel n ''Bearer '' [] t = [t]" if "length t \<le> n" for n
    using split_str_fuel_absent [of "CHR '' ''" "''Bearer ''" t n "[]"] assms that by simp
  then show ?thesis unfolding split_str_def by simp
qed

text \<open>
  The server admits the client that presents its secret as a bearer token and refuses every other
  token with 403, and a request without a token with 401.
\<close>

theorem server_admits_secret:
  "(if CHR '' '' \<in> set token then True
    else process_request secret (Some (''Bearer '' @ token)) =
      (if token = secret then None else Some (403, ''Invalid secret'' @ [newline]))) \<and>
   process_request secret None = Some (401, ''Missing Authorization header'' @ [newline])"
proof (cases "CHR '' '' \<in> set token")
  case False
  then show ?thesis unfolding process_request_def option.case Let_def bearer_token_part [OF False] by simp
qed (simp add: process_request_def)

end
