(* ===== verification/TransferRouter.thy ===== *)
theory TransferRouter
  imports PointTransfers
begin

section \<open>The transfer endpoints\<close>

text \<open>
  \<open>firecrest/filesystem/transfer/router.py\<close> and the clients \<open>DataTransferDependency\<close> builds
  (\<open>firecrest/dependencies.py\<close>).  Every endpoint submits one job in the caller's name; moving,
  copying, deleting, compressing and extracting render a script, a transfer is left to the method the
  system is configured with.
\<close>

subsection \<open>The data transfer of a system\<close>

datatype 'w datatransfer =
    DtS3 "'w S3Datatransfer"
  | DtWormhole "'w WormholeDatatransfer"
  | DtStreamer "'w StreamerDatatransfer"

text \<open>
  The two clients of the store, for the private and the public address, are made by the third-party
  session and come in as arguments.
\<close>

definition make_datatransfer ::
  "'w submit \<Rightarrow> 'w ssh option \<Rightarrow> 'w s3_client \<Rightarrow> 'w s3_client \<Rightarrow> string \<Rightarrow> string list \<Rightarrow> string
   \<Rightarrow> DataTransferConfig \<Rightarrow> 'w datatransfer" where
  "make_datatransfer submit ssh private public work_dir directives system_name c =
     (case c of
        StreamerConfig s \<Rightarrow> DtStreamer (streamer_init submit directives work_dir system_name s ssh)
      | WormholeConfig pypi_index_url \<Rightarrow>
          DtWormhole \<lparr>wh_submit = submit, wh_directives = directives, wh_work_dir = work_dir,
            wh_system_name = system_name, wh_pypi_index_url = pypi_index_url\<rparr>
      | S3Config s \<Rightarrow>
          DtS3 \<lparr>st3_submit = submit, st3_directives = directives, st3_private = private, st3_public = public,
            st3_ssh = ssh, st3_work_dir = work_dir, st3_lifecycle_days = s3_lifecycle_days s,
            st3_max_part_size = max_part_size (s3_multipart s), st3_use_split = use_split (s3_multipart s),
            st3_tmp_folder = tmp_folder (s3_multipart s), st3_parallel_runs = parallel_runs (s3_multipart s),
            st3_tenant = s3_tenant s, st3_ttl = s3_ttl s, st3_system_name = system_name\<rparr>)"

fun service_type :: "DataTransferConfig \<Rightarrow> DataTransferType" where
  "service_type (S3Config s) = TransferS3"
| "service_type (WormholeConfig u) = TransferWormhole"
| "service_type (StreamerConfig s) = TransferStreamer"

text \<open>What a transfer draws at random.\<close>

record transfer_draws =
  td_secret :: string
  td_below :: nat
  td_picks :: "nat list"

definition dt_upload ::
  "job_env \<Rightarrow> transfer_draws \<Rightarrow> 'w datatransfer \<Rightarrow> DataTransferLocation \<Rightarrow> DataTransferLocation \<Rightarrow> string
   \<Rightarrow> string \<Rightarrow> string option \<Rightarrow> ('w, DataTransferOperation) io" where
  "dt_upload x r dt source target username access_token account =
     (case dt of
        DtS3 d \<Rightarrow> s3_upload x d source target username access_token account
      | DtWormhole d \<Rightarrow> wormhole_upload x d source target username access_token account
      | DtStreamer d \<Rightarrow> streamer_upload x (td_secret r) d source target username access_token account)"

definition dt_download ::
  "job_env \<Rightarrow> transfer_draws \<Rightarrow> 'w datatransfer \<Rightarrow> DataTransferLocation \<Rightarrow> DataTransferLocation \<Rightarrow> string
   \<Rightarrow> string \<Rightarrow> string option \<Rightarrow> ('w, DataTransferOperation) io" where
  "dt_download x r dt source target username access_token account =
     (case dt of
        DtS3 d \<Rightarrow> s3_download x d source target username access_token account
      | DtWormhole d \<Rightarrow> wormhole_download x (td_below r) (td_picks r) d source target username access_token account
      | DtStreamer d \<Rightarrow> streamer_download x (td_secret r) d source target username access_token account)"

subsection \<open>Upload and download\<close>

record PostFileTransferRequest =
  pf_path :: "string option"
  pf_transfer_directives :: DataTransferRequest
  pf_account :: "string option"

definition check_method :: "HPCCluster \<Rightarrow> DataTransferRequest \<Rightarrow> unit res" where
  "check_method system directives =
     (case data_transfer (cl_data_operation system) of
        None \<Rightarrow> raise AttributeError []
      | Some c \<Rightarrow> if transfer_method directives \<noteq> service_type c
                  then http_error 400 ''Requested transfer method is not available.'' else Inr ())"

definition transfer_post_upload ::
  "job_env \<Rightarrow> transfer_draws \<Rightarrow> 'w datatransfer \<Rightarrow> request_vars \<Rightarrow> string \<Rightarrow> HPCCluster
   \<Rightarrow> PostFileTransferRequest \<Rightarrow> ('w, DataTransferOperation) io" where
  "transfer_post_upload x r dt g system_name system req =
     as_caller g (\<lambda>username access_token.
     io_bind (io_lift (check_method system (pf_transfer_directives req))) (\<lambda>_.
       dt_upload x r dt
         \<lparr>loc_host = None, loc_system = None, loc_path = None,
          loc_transfer_directives = Some (pf_transfer_directives req)\<rparr>
         \<lparr>loc_host = None, loc_system = Some system_name, loc_path = pf_path req,
          loc_transfer_directives = Some (pf_transfer_directives req)\<rparr>
         username access_token (pf_account req)))"

definition transfer_post_download ::
  "job_env \<Rightarrow> transfer_draws \<Rightarrow> 'w datatransfer \<Rightarrow> request_vars \<Rightarrow> string \<Rightarrow> HPCCluster
   \<Rightarrow> PostFileTransferRequest \<Rightarrow> ('w, DataTransferOperation) io" where
  "transfer_post_download x r dt g system_name system req =
     as_caller g (\<lambda>username access_token.
     io_bind (io_lift (check_method system (pf_transfer_directives req))) (\<lambda>_.
       dt_download x r dt
         \<lparr>loc_host = None, loc_system = Some system_name, loc_path = pf_path req, loc_transfer_directives = None\<rparr>
         \<lparr>loc_host = None, loc_system = None, loc_path = None, loc_transfer_directives = None\<rparr>
         username access_token (pf_account req)))"

lemma dt_upload_simps:
  "dt_upload x r (DtS3 d) = s3_upload x d"
  "dt_upload x r (DtWormhole d1) = wormhole_upload x d1"
  "dt_upload x r (DtStreamer d2) = streamer_upload x (td_secret r) d2"
  by (simp_all add: fun_eq_iff dt_upload_def)

lemma dt_download_simps:
  "dt_download x r (DtS3 d) = s3_download x d"
  "dt_download x r (DtWormhole d1) = wormhole_download x (td_below r) (td_picks r) d1"
  "dt_download x r (DtStreamer d2) = streamer_download x (td_secret r) d2"
  by (simp_all add: fun_eq_iff dt_download_def)

text \<open>Whatever the method, the transfer of a system keeps the contract of \<open>DataTransferBase\<close>.\<close>

interpretation transfers: data_transfer_base
  "\<lambda>submit ssh x. dt_upload x r (make_datatransfer submit ssh store1 store2 work_dir directives name c)"
  "\<lambda>submit ssh x. dt_download x r (make_datatransfer submit ssh store1 store2 work_dir directives name c)"
  work_dir "service_type c"
  for r and store1 store2 :: "'w s3_client" and work_dir directives name c
proof -
  let ?mk = "\<lambda>submit ssh. make_datatransfer submit ssh store1 store2 work_dir directives name c"
  let ?none = "\<lambda>_ _ _. io_return None :: ('w, string option) io"
  note dispatch = dt_upload_simps dt_download_simps
  show "data_transfer_base (\<lambda>submit ssh x. dt_upload x r (?mk submit ssh)) (\<lambda>submit ssh x. dt_download x r (?mk submit ssh))
      work_dir (service_type c)"
  proof (cases c)
    case (S3Config s)
    define d where "d = (case ?mk ?none None of DtS3 d \<Rightarrow> d)"
    have "?mk submit ssh = DtS3 (d\<lparr>st3_submit := submit, st3_ssh := ssh\<rparr>)" for submit ssh
      by (simp add: d_def make_datatransfer_def S3Config)
    moreover have "st3_work_dir d = work_dir" "service_type c = TransferS3"
      by (simp_all add: d_def make_datatransfer_def S3Config)
    ultimately show ?thesis using s3.data_transfer_base_axioms [of d] by (simp only: dispatch)
  next
    case (WormholeConfig url)
    define d where "d = (case ?mk ?none None of DtWormhole d \<Rightarrow> d)"
    have "?mk submit ssh = DtWormhole (d\<lparr>wh_submit := submit\<rparr>)" for submit ssh
      by (simp add: d_def make_datatransfer_def WormholeConfig)
    moreover have "wh_work_dir d = work_dir" "service_type c = TransferWormhole"
      by (simp_all add: d_def make_datatransfer_def WormholeConfig)
    ultimately show ?thesis
      using wormhole.data_transfer_base_axioms [of d "td_below r" "td_picks r"] by (simp only: dispatch)
  next
    case (StreamerConfig s)
    define d where "d = (case ?mk ?none None of DtStreamer d \<Rightarrow> d)"
    have "?mk submit ssh = DtStreamer (d\<lparr>sd_submit := submit, sd_ssh := ssh\<rparr>)" for submit ssh
      by (simp add: d_def make_datatransfer_def streamer_init_def StreamerConfig)
    moreover have "sd_work_dir d = work_dir" "service_type c = TransferStreamer"
      by (simp_all add: d_def make_datatransfer_def streamer_init_def StreamerConfig)
    ultimately show ?thesis
      using streamer.data_transfer_base_axioms [of "td_secret r" d] by (simp only: dispatch)
  qed
qed

text \<open>A transfer that succeeds submitted the caller's job and answers with the requested method.\<close>

definition transferred ::
  "'w submit \<Rightarrow> string \<Rightarrow> string \<Rightarrow> string \<Rightarrow> DataTransferRequest \<Rightarrow> DataTransferOperation res \<times> 'w \<Rightarrow> bool" where
  "transferred submit work_dir u t directives result \<longleftrightarrow>
     (case result of
        (Inl e, _) \<Rightarrow> True
      | (Inr op, _) \<Rightarrow> submitted_by submit work_dir u t op \<and>
          response_method (op_transfer_directives op) = transfer_method directives)"

lemma check_method_Inr:
  "data_transfer (cl_data_operation system) = Some c \<Longrightarrow> check_method system directives = Inr ok \<Longrightarrow>
     transfer_method directives = service_type c"
  by (simp add: check_method_def split: if_splits)

text \<open>
  C7: an upload or a download acts as the caller only, whatever the method of the system: a scheduler
  and an SSH connection that would do anything else for other users give the same result.  When it
  succeeds, its answer is a job that the scheduler accepted in the caller's name and with the caller's
  token, working and logging in the caller's directory, and the directives of the method requested.
\<close>

theorem transfers_run_as_caller:
  assumes "caller g = Inr (u, t)" and "data_transfer (cl_data_operation system) = Some c"
    and "same_for u t submit ssh submit' ssh'"
    and "dt = (\<lambda>submit ssh. make_datatransfer submit ssh store1 store2 work_dir directives name c)"
  shows "transfer_post_upload x r (dt submit' ssh') g name system req =
      transfer_post_upload x r (dt submit ssh) g name system req \<and>
    transfer_post_download x r (dt submit' ssh') g name system req =
      transfer_post_download x r (dt submit ssh) g name system req \<and>
    transferred submit work_dir u t (pf_transfer_directives req)
      (transfer_post_upload x r (dt submit ssh) g name system req w) \<and>
    transferred submit work_dir u t (pf_transfer_directives req)
      (transfer_post_download x r (dt submit ssh) g name system req w)"
proof (intro conjI)
  note endpoints = transfer_post_upload_def transfer_post_download_def assms(4)
  note kind = check_method_Inr [OF assms(2)]
  show "transfer_post_upload x r (dt submit' ssh') g name system req =
      transfer_post_upload x r (dt submit ssh) g name system req"
    unfolding endpoints by (rule transfers.up.endpoint_agrees [OF assms(1,3)])
  show "transfer_post_download x r (dt submit' ssh') g name system req =
      transfer_post_download x r (dt submit ssh) g name system req"
    unfolding endpoints by (rule transfers.down.endpoint_agrees [OF assms(1,3)])
  show "transferred submit work_dir u t (pf_transfer_directives req)
      (transfer_post_upload x r (dt submit ssh) g name system req w)"
    using kind unfolding transferred_def endpoints
    by (fastforce dest!: transfers.up.endpoint_submits [OF assms(1)] split: prod.split sum.split)
  show "transferred submit work_dir u t (pf_transfer_directives req)
      (transfer_post_download x r (dt submit ssh) g name system req w)"
    using kind unfolding transferred_def endpoints
    by (fastforce dest!: transfers.down.endpoint_submits [OF assms(1)] split: prod.split sum.split)
qed

text \<open>A system that transfers with wormholes, and a scheduler that refuses everyone but the caller.\<close>

definition wormhole_cluster :: HPCCluster where
  "wormhole_cluster = demo_cluster\<lparr>cl_data_operation :=
     default_data_operation\<lparr>data_transfer := Some (WormholeConfig None)\<rparr>\<rparr>"

definition choosy_submit :: "string list submit" where
  "choosy_submit job username access_token =
     (if username = ''u'' \<and> access_token = ''t'' then demo_submit job username access_token
      else io_raise (HTTPException 403) ''not for you'')"

definition demo_upload :: "string list submit \<Rightarrow> DataTransferOperation res \<times> string list" where
  "demo_upload submit = transfer_post_upload demo_env \<lparr>td_secret = [], td_below = 6, td_picks = [1, 2]\<rparr>
     (make_datatransfer submit None demo_store demo_store ''/scratch'' [] ''daint'' (WormholeConfig None))
     demo_vars ''daint'' wormhole_cluster
     \<lparr>pf_path = Some ''/scratch/u/f'', pf_transfer_directives = WormholeTransferUploadRequest ''7-orbit'', pf_account = None\<rparr> []"

lemma transfers_run_as_caller_witness:
  "demo_upload choosy_submit = demo_upload demo_submit \<and>
   transferred demo_submit ''/scratch'' ''u'' ''t'' (WormholeTransferUploadRequest ''7-orbit'') (demo_upload demo_submit) \<and>
   map_res (\<lambda>op. tj_job_id (op_transfer_job op)) (fst (demo_upload demo_submit)) = Inr ''17''"
proof (intro conjI)
  have configured: "data_transfer (cl_data_operation wormhole_cluster) = Some (WormholeConfig None)"
    by (simp add: wormhole_cluster_def)
  have same: "same_for ''u'' ''t'' demo_submit None choosy_submit None"
    by (simp add: same_for_def choosy_submit_def)
  note transfers = transfers_run_as_caller [OF caller_demo configured same refl]
  show "demo_upload choosy_submit = demo_upload demo_submit"
    unfolding demo_upload_def using transfers by metis
  show "transferred demo_submit ''/scratch'' ''u'' ''t'' (WormholeTransferUploadRequest ''7-orbit'') (demo_upload demo_submit)"
    unfolding demo_upload_def using transfers
    by (metis PostFileTransferRequest.select_convs(2))
  show "map_res (\<lambda>op. tj_job_id (op_transfer_job op)) (fst (demo_upload demo_submit)) = Inr ''17''"
    using configured
    by (simp add: demo_upload_def transfer_post_upload_def make_datatransfer_def dt_upload_def wormhole_upload_def
        check_method_def io_simps caller_demo format_directives_def wormhole_receiver_code_def submit_transfer_def
        transfer_job_def demo_submit_def demo_env_def job_helper_def)
qed

subsection \<open>File jobs\<close>

definition router_work_dir :: "string \<Rightarrow> HPCCluster \<Rightarrow> string res" where
  "router_work_dir system_name system =
     (case default_work_dir system of
        Some (c # d) \<Rightarrow> Inr (c # d)
      | _ \<Rightarrow> raise ValueError (''The system '' @ system_name @ '' has no filesystem defined as default_work_dir''))"

definition job_directives :: "job_env \<Rightarrow> HPCCluster \<Rightarrow> string option \<Rightarrow> string res" where
  "job_directives x system account =
     format_directives (je_rich x) (datatransfer_jobs_directives (cl_data_operation system)) account"

definition submit_file_job ::
  "job_env \<Rightarrow> 'w submit \<Rightarrow> string \<Rightarrow> string \<Rightarrow> string \<Rightarrow> string \<Rightarrow> string \<Rightarrow> params \<Rightarrow> string
   \<Rightarrow> ('w, TransferJob) io" where
  "submit_file_job x submit username access_token system_name work_dir filename ps title =
     (let job = job_helper (je_job_uuid x) (work_dir @ ''/'' @ username) (je_render x filename ps) title in
      io_bind (submit job username access_token) (\<lambda>job_id. io_lift (transfer_job job_id (Some system_name) job)))"

record MoveRequest =
  mv_path :: "string option"
  mv_target_path :: string
  mv_account :: "string option"

definition move_mv ::
  "job_env \<Rightarrow> 'w submit \<Rightarrow> request_vars \<Rightarrow> string \<Rightarrow> HPCCluster \<Rightarrow> MoveRequest \<Rightarrow> ('w, TransferJob) io" where
  "move_mv x submit g system_name system req =
     as_caller g (\<lambda>username access_token.
     io_bind (io_lift (router_work_dir system_name system)) (\<lambda>work_dir.
     io_bind (io_lift (job_directives x system (mv_account req))) (\<lambda>directives.
       submit_file_job x submit username access_token system_name work_dir ''job_move.sh''
         [(''sbatch_directives'', TStr directives), (''source_path'', opt_tv (mv_path req)),
          (''target_path'', TStr (mv_target_path req))] ''MoveFiles'')))"

record CopyRequest =
  cp_path :: "string option"
  cp_target_path :: string
  cp_account :: "string option"
  cp_dereference :: bool

definition post_cp ::
  "job_env \<Rightarrow> 'w submit \<Rightarrow> request_vars \<Rightarrow> string \<Rightarrow> HPCCluster \<Rightarrow> CopyRequest \<Rightarrow> ('w, TransferJob) io" where
  "post_cp x submit g system_name system req =
     as_caller g (\<lambda>username access_token.
     io_bind (io_lift (job_directives x system (cp_account req))) (\<lambda>directives.
     io_bind (io_lift (router_work_dir system_name system)) (\<lambda>work_dir.
       submit_file_job x submit username access_token system_name work_dir ''job_copy.sh''
         [(''sbatch_directives'', TStr directives), (''source_path'', opt_tv (cp_path req)),
          (''target_path'', TStr (cp_target_path req)), (''dereference'', TBool (cp_dereference req))]
         ''CopyFiles'')))"

definition transfer_rm ::
  "job_env \<Rightarrow> 'w submit \<Rightarrow> request_vars \<Rightarrow> string \<Rightarrow> HPCCluster \<Rightarrow> string \<Rightarrow> string option \<Rightarrow> ('w, TransferJob) io" where
  "transfer_rm x submit g system_name system path account =
     as_caller g (\<lambda>username access_token.
     io_bind (io_lift (router_work_dir system_name system)) (\<lambda>work_dir.
     io_bind (io_lift (job_directives x system account)) (\<lambda>directives.
       submit_file_job x submit username access_token system_name work_dir ''job_delete.sh''
         [(''sbatch_directives'', TStr directives), (''path'', TStr path)] ''DeleteFiles'')))"

record CompressRequest =
  co_path :: "string option"
  co_target_path :: string
  co_account :: "string option"
  co_match_pattern :: "string option"
  co_dereference :: bool
  co_compression :: CompressionType

definition transfer_compress ::
  "job_env \<Rightarrow> 'w submit \<Rightarrow> request_vars \<Rightarrow> string \<Rightarrow> HPCCluster \<Rightarrow> CompressRequest \<Rightarrow> ('w, TransferJob) io" where
  "transfer_compress x submit g system_name system req =
     as_caller g (\<lambda>username access_token.
     io_bind (io_lift (router_work_dir system_name system)) (\<lambda>work_dir.
     io_bind (io_lift (case co_path req of None \<Rightarrow> raise TypeError [] | Some p \<Rightarrow> Inr p)) (\<lambda>path.
     io_bind (io_lift (job_directives x system (co_account req))) (\<lambda>directives.
       submit_file_job x submit username access_token system_name work_dir ''job_compress.sh''
         [(''sbatch_directives'', TStr directives), (''source_dir'', TStr (dirname path)),
          (''source_file'', TStr (basename path)), (''target_path'', TStr (co_target_path req)),
          (''match_pattern'', opt_tv (co_match_pattern req)),
          (''options'', TStr (if co_dereference req then ''--dereference'' else [])),
          (''compression_flag'', TStr (compression_flag (co_compression req)))]
         ''CompressFiles''))))"

record ExtractRequest =
  ex_path :: "string option"
  ex_target_path :: string
  ex_account :: "string option"
  ex_compression :: CompressionType

definition transfer_extract ::
  "job_env \<Rightarrow> 'w submit \<Rightarrow> request_vars \<Rightarrow> string \<Rightarrow> HPCCluster \<Rightarrow> ExtractRequest \<Rightarrow> ('w, TransferJob) io" where
  "transfer_extract x submit g system_name system req =
     as_caller g (\<lambda>username access_token.
     io_bind (io_lift (router_work_dir system_name system)) (\<lambda>work_dir.
     io_bind (io_lift (job_directives x system (ex_account req))) (\<lambda>directives.
       submit_file_job x submit username access_token system_name work_dir ''job_extract.sh''
         [(''sbatch_directives'', TStr directives), (''source_path'', opt_tv (ex_path req)),
          (''target_path'', TStr (ex_target_path req)),
          (''compression_flag'', TStr (compression_flag (ex_compression req)))] ''CompressFiles'')))"

subsection \<open>The words of the file jobs\<close>

lemma tv_text_simps [simp]: "tv_text (TStr s) = s" "tv_text (opt_tv p) = opt_str p"
  by (simp_all add: tv_text_def opt_tv_def split: option.split)

lemma tv_get_simps [simp]:
  "tv_get ((k, v) # ps) x = (if k = x then v else tv_get ps x)"
  by (simp add: tv_get_def)

lemmas quoted_var_end = sh_scan_piece_end [OF sh_piece_quoted_var, of _ "[]" False]
lemmas quoted_var_space = sh_scan_piece_space [OF sh_piece_quoted_var]

lemma delete_words:
  assumes "escapes_markup esc"
  shows "sh_tokens (expand esc ps delete_command) =
    Some (map ShWord [''rm'', ''-R'', ''--'', esc (tv_text (tv_get ps ''path''))])"
  using quoted_var_end [OF assms, of ps "''path''"]
  by (simp add: delete_command_def sh_tokens_def sh_eval)

lemma move_words:
  assumes "escapes_markup esc"
  shows "sh_tokens (expand esc ps move_command) =
    Some (map ShWord [''mv'', ''--'', esc (tv_text (tv_get ps ''source_path'')), esc (tv_text (tv_get ps ''target_path''))])"
  using quoted_var_end [OF assms, of ps "''target_path''"] quoted_var_space [OF assms, of ps "''source_path''"]
  by (simp add: move_command_def sh_tokens_def sh_eval)

text \<open>The options of \<open>tar\<close> are never escaped.\<close>

lemma flags_plain:
  assumes "escapes_markup esc"
  shows "esc [] = []" "esc ''z'' = ''z''" "esc ''j'' = ''j''" "esc ''J'' = ''J''" "esc ''--dereference'' = ''--dereference''"
  by (simp_all add: escapes_plain [OF assms] markup_chars_def)

lemma extract_words:
  assumes "escapes_markup esc" and "tv_get ps ''compression_flag'' = TStr (compression_flag c)"
  shows "sh_tokens (expand esc ps extract_command) =
    Some (map ShWord [''tar'', ''-x'' @ compression_flag c @ ''f'', esc (tv_text (tv_get ps ''source_path'')),
      ''-C'', esc (tv_text (tv_get ps ''target_path''))])"
  using quoted_var_end [OF assms(1), of ps "''target_path''"] quoted_var_space [OF assms(1), of ps "''source_path''"]
  by (cases c) (simp_all add: extract_command_def sh_tokens_def sh_eval assms(2) flags_plain [OF assms(1)])

lemma compress_words:
  assumes "escapes_markup esc" and "tv_get ps ''compression_flag'' = TStr (compression_flag c)"
    and "tv_get ps ''options'' = TStr (if d then ''--dereference'' else [])"
  shows "sh_tokens (expand esc ps compress_command) =
    Some (map ShWord ([''tar''] @ (if d then [''--dereference''] else []) @
      [''-c'' @ compression_flag c @ ''vf'', esc (tv_text (tv_get ps ''target_path'')), ''-C'',
       esc (tv_text (tv_get ps ''source_dir'')), esc (tv_text (tv_get ps ''source_file''))]))"
proof -
  show ?thesis
    using quoted_var_end [OF assms(1), of ps "''source_file''"] quoted_var_space [OF assms(1), of ps "''target_path''"]
      quoted_var_space [OF assms(1), of ps "''source_dir''"]
    by (cases c; cases d)
       (simp_all add: compress_command_def sh_tokens_def sh_eval assms(2,3) flags_plain [OF assms(1)])
qed

subsection \<open>Properties\<close>

text \<open>A scheduler that accepts every job and records it with the name and the token it came under.\<close>

definition recording_submit :: "string option \<Rightarrow> (JobDescription \<times> string \<times> string) list submit" where
  "recording_submit job_id job username token = (\<lambda>w. (Inr job_id, w @ [(job, username, token)]))"

text \<open>At most one job was submitted, under the caller's name, and its script runs exactly these words.\<close>

definition runs_words ::
  "string \<Rightarrow> string \<Rightarrow> string \<Rightarrow> string list \<Rightarrow> (JobDescription \<times> string \<times> string) list \<Rightarrow> bool" where
  "runs_words username token cwd ws submitted \<longleftrightarrow>
     submitted = [] \<or>
     (\<exists>job script line. submitted = [(job, username, token)] \<and> jd_current_working_directory job = cwd \<and>
        jd_script job = Some script \<and> runs script line \<and> sh_tokens line = Some (map ShWord ws))"

definition renders_file_jobs :: "(string \<Rightarrow> string) \<Rightarrow> render \<Rightarrow> bool" where
  "renders_file_jobs esc rdr \<longleftrightarrow>
     renders esc rdr ''job_move.sh'' move_template \<and> renders esc rdr ''job_delete.sh'' delete_template \<and>
     renders esc rdr ''job_extract.sh'' extract_template \<and> renders esc rdr ''job_compress.sh'' compress_template"

definition job_dir :: "HPCCluster \<Rightarrow> string \<Rightarrow> string" where
  "job_dir system username = opt_str (default_work_dir system) @ ''/'' @ username"

lemma submit_file_job_runs:
  assumes "runs (je_render x filename ps) line" and "sh_tokens line = Some (map ShWord ws)"
  shows "runs_words username token (work_dir @ ''/'' @ username) ws
    (snd (submit_file_job x (recording_submit job_id) username token system_name work_dir filename ps title []))"
  using assms unfolding runs_words_def
  by (intro disjI2) (auto simp: submit_file_job_def recording_submit_def io_simps job_helper_def Let_def)

lemma router_work_dir_Inr: "router_work_dir n system = Inr d \<Longrightarrow> default_work_dir system = Some d"
  by (auto simp: router_work_dir_def split: option.splits list.splits)

lemma runs_words_Nil [simp]: "runs_words u t cwd ws []"
  by (simp add: runs_words_def)


text \<open>An escape with the HTML entities, and a renderer that expands the templates with it.\<close>

definition demo_escape :: "string \<Rightarrow> string" where
  "demo_escape s = concat (map (\<lambda>c.
     if c = CHR ''&'' then ''&amp;'' else if c = CHR ''<'' then ''&lt;'' else if c = CHR ''>'' then ''&gt;''
     else if c = squote then ''&#39;'' else if c = dquote then ''&#34;'' else [c]) s)"

definition demo_render :: render where
  "demo_render filename ps = expand demo_escape ps
     (if filename = ''job_move.sh'' then move_template else if filename = ''job_delete.sh'' then delete_template
      else if filename = ''job_extract.sh'' then extract_template else compress_template)"

lemma demo_escape_escapes: "escapes_markup demo_escape"
proof -
  have "squote \<notin> set (demo_escape s) \<and> dquote \<notin> set (demo_escape s) \<and>
      (set s \<inter> set markup_chars = {} \<longrightarrow> demo_escape s = s)" for s
    by (induction s) (auto simp: demo_escape_def markup_chars_def)
  then show ?thesis by (simp add: escapes_markup_def)
qed


text \<open>
  On a system whose scheduler directives name the account, a file job without an account is
  refused before anything is submitted, whatever the endpoint.
\<close>

theorem account_required:
  assumes "contains ''{account}'' (join [newline] (datatransfer_jobs_directives (cl_data_operation system)))"
  shows "(\<exists>e. transfer_rm x submit g name system path None w = (Inl e, w)) \<and>
    (\<exists>e. move_mv x submit g name system (mv\<lparr>mv_account := None\<rparr>) w = (Inl e, w)) \<and>
    (\<exists>e. post_cp x submit g name system (cp\<lparr>cp_account := None\<rparr>) w = (Inl e, w)) \<and>
    (\<exists>e. transfer_compress x submit g name system (co\<lparr>co_account := None\<rparr>) w = (Inl e, w)) \<and>
    (\<exists>e. transfer_extract x submit g name system (ex\<lparr>ex_account := None\<rparr>) w = (Inl e, w))"
proof -
  have "job_directives x system None = http_error 400 ''Account parameter is required on this system.''"
    using assms by (simp add: job_directives_def format_directives_def)
  then show ?thesis
    by (simp add: transfer_rm_def move_mv_def post_cp_def transfer_compress_def transfer_extract_def io_simps
        split: sum.split option.split)
qed

end
