(* ===== verification/Credentials.thy ===== *)
theory Credentials
  imports Config Errors JsonDump
begin

section \<open>Where SSH credentials come from\<close>

text \<open>
  The three providers of \<open>lib/ssh_clients\<close>: keys from the configuration, a service that makes keys
  (\<open>ssh_keygen_credentials_provider.py\<close>) and an authority that signs the server's own key
  (\<open>deic_sshca_credentials_provider.py\<close>).  The HTTP client is aiohttp's: \<open>post\<close> gives the status, the
  text and the parsed body of the answer, or an exception.  The generator of key pairs is an argument.
\<close>

record SSHCredentials =
  cred_private_key :: string
  cred_public_certificate :: "string option"
  cred_passphrase :: "string option"

subsection \<open>Keys from the configuration\<close>

text \<open>An empty passphrase counts as none.\<close>

definition static_get_credentials ::
  "(string \<times> SSHUserKeys) list \<Rightarrow> string \<Rightarrow> string \<Rightarrow> SSHCredentials res" where
  "static_get_credentials users_keys username jwt_token =
     (case map_of users_keys username of
        Some k \<Rightarrow> Inr \<lparr>cred_private_key = key_private k, cred_public_certificate = key_public_cert k,
          cred_passphrase = (if truthy (key_passphrase k) then key_passphrase k else None)\<rparr>
      | None \<Rightarrow> raise exc_class.SSHCredentials (''No SSH credentials found for user:'' @ username))"

subsection \<open>The services\<close>

record http_reply =
  hr_status :: nat
  hr_text :: string
  hr_json :: "json res"

type_synonym headers = "(string \<times> string) list"

type_synonym 'w post = "string \<Rightarrow> headers \<Rightarrow> string \<Rightarrow> ('w, http_reply) io"

text \<open>The identifiers of the request that the starlette context holds, if there is one.\<close>

record request_ids =
  ri_request_id :: "string option"
  ri_correlation_id :: "string option"

definition id_headers :: "request_ids option \<Rightarrow> headers \<Rightarrow> headers" where
  "id_headers context h =
     (case context of
        None \<Rightarrow> h
      | Some c \<Rightarrow>
          (let h1 = (case ri_request_id c of None \<Rightarrow> h | Some v \<Rightarrow> dict_set ''X-Request-ID'' v h)
           in (case ri_correlation_id c of None \<Rightarrow> h1 | Some v \<Rightarrow> dict_set ''X-Correlation-ID'' v h1)))"

definition keygen_headers :: "request_ids option \<Rightarrow> string \<Rightarrow> string \<Rightarrow> headers" where
  "keygen_headers context jwt_token app_version =
     id_headers context
       [(''Content-Type'', ''application/json''), (''Authorization'', ''Bearer '' @ jwt_token),
        (''x-client-type'', ''api''), (''x-client-name'', ''firecrest''), (''x-client-version'', app_version)]"

definition sshca_headers :: "request_ids option \<Rightarrow> string \<Rightarrow> headers" where
  "sshca_headers context app_version =
     id_headers context
       [(''Content-Type'', ''application/json''), (''x-client-type'', ''api''), (''x-client-name'', ''firecrest''),
        (''x-client-version'', app_version)]"

definition unexpected_response :: "http_reply \<Rightarrow> 'a res" where
  "unexpected_response r =
     raise SSHServiceError (''Unexpected SSHService response. status:'' @ show_nat (hr_status r) @
       '' message:'' @ hr_text r)"

text \<open>\<open>response["sshKey"][k] + "\n"\<close>\<close>

definition key_text :: "json \<Rightarrow> string \<Rightarrow> string res" where
  "key_text v k =
     bind_res (jindex v ''sshKey'') (\<lambda>key. bind_res (jindex key k) (\<lambda>t.
       case t of JStr s \<Rightarrow> Inr (s @ [newline]) | _ \<Rightarrow> raise TypeError []))"

definition keygen_get_credentials ::
  "'w post \<Rightarrow> request_ids option \<Rightarrow> string \<Rightarrow> string \<Rightarrow> string \<Rightarrow> string \<Rightarrow> ('w, SSHCredentials) io" where
  "keygen_get_credentials post context ssh_keygen_url app_version username jwt_token =
     io_bind (post (ssh_keygen_url @ ''/api/v1/ssh-keys'') (keygen_headers context jwt_token app_version)
        (json_dumps (\<lambda>_. []) (JObj [(''duration'', JStr ''1min''), (''username'', JStr username)]))) (\<lambda>r.
     io_lift
       (if hr_status r \<noteq> 201 then unexpected_response r
        else bind_res (hr_json r) (\<lambda>v.
             bind_res (key_text v ''privateKey'') (\<lambda>private.
             bind_res (key_text v ''publicKey'') (\<lambda>public.
               Inr \<lparr>cred_private_key = private, cred_public_certificate = Some public, cred_passphrase = None\<rparr>)))))"

text \<open>\<open>keys\<close> is the pair \<open>genkeys\<close> made: the private and the public key.\<close>

definition sshca_get_credentials ::
  "'w post \<Rightarrow> request_ids option \<Rightarrow> string \<times> string \<Rightarrow> string \<Rightarrow> string \<Rightarrow> string \<Rightarrow> string
   \<Rightarrow> ('w, SSHCredentials) io" where
  "sshca_get_credentials post context keys ssh_keygen_url app_version username jwt_token =
     io_bind (post (ssh_keygen_url @ ''/sign'') (sshca_headers context app_version)
        (json_dumps (\<lambda>_. []) (JObj [(''PublicKey'', JStr (snd keys)), (''OTT'', JStr jwt_token)]))) (\<lambda>r.
     io_lift
       (if hr_status r \<noteq> 200 then unexpected_response r
        else Inr \<lparr>cred_private_key = fst keys, cred_public_certificate = Some (hr_text r), cred_passphrase = None\<rparr>))"

subsection \<open>The provider of the configuration\<close>

text \<open>
  The provider \<open>SSHClientDependency\<close> gives to its pools.  The limits of the services' connections
  belong to their HTTP client.
\<close>

definition key_provider ::
  "'w post \<Rightarrow> request_ids option \<Rightarrow> string \<times> string \<Rightarrow> string \<Rightarrow> SSHKeysService
   \<Rightarrow> string \<Rightarrow> string \<Rightarrow> ('w, SSHCredentials) io" where
  "key_provider post context keys app_version service =
     (case service of
        SSHCAConf url max_connections \<Rightarrow> sshca_get_credentials post context keys url app_version
      | SSHServiceConf url max_connections \<Rightarrow> keygen_get_credentials post context url app_version
      | SSHStaticConf users_keys \<Rightarrow> (\<lambda>username jwt_token. io_lift (static_get_credentials users_keys username jwt_token)))"

subsection \<open>The shared session\<close>

text \<open>One session per provider class: made at the first use, forgotten when it is ended.\<close>

definition get_aiohttp_client :: "'c \<Rightarrow> 'c option \<Rightarrow> 'c \<times> 'c option" where
  "get_aiohttp_client new aiohttp_client =
     (case aiohttp_client of None \<Rightarrow> (new, Some new) | Some c \<Rightarrow> (c, Some c))"

definition close_aiohttp_client :: "'c option \<Rightarrow> 'c list \<Rightarrow> 'c option \<times> 'c list" where
  "close_aiohttp_client aiohttp_client ended =
     (case aiohttp_client of None \<Rightarrow> (None, ended) | Some c \<Rightarrow> (None, ended @ [c]))"

subsection \<open>Lemmas\<close>

text \<open>A refusal of a provider is a backend error, which the response names as a cause.\<close>

lemma static_refusal_is_backend: "static_get_credentials ks u t = Inl e \<Longrightarrow> is_backend_error e"
  by (auto simp: static_get_credentials_def is_backend_error_def isinstance_def exc_le_def split: option.splits)

lemma keygen_refusal_is_backend:
  assumes "post (url @ ''/api/v1/ssh-keys'') (keygen_headers context t v)
      (json_dumps (\<lambda>_. []) (JObj [(''duration'', JStr ''1min''), (''username'', JStr u)])) w = (Inr r, w')"
    and "hr_status r \<noteq> 201"
  shows "\<exists>e. keygen_get_credentials post context url v u t w = (Inl e, w') \<and> is_backend_error e"
  using assms
  by (simp add: keygen_get_credentials_def io_simps unexpected_response_def is_backend_error_def isinstance_def
      del: json_dumps.simps)

text \<open>What the key service is asked for reads back as the caller's name and the duration.\<close>

lemma keygen_request_reads:
  "json_loads (json_dumps (\<lambda>_. []) (JObj [(''duration'', JStr ''1min''), (''username'', JStr u)])) =
     Inr (JObj [(''duration'', JStr ''1min''), (''username'', JStr u)])"
  by (rule json_roundtrip) simp_all

text \<open>
  Whatever the configuration, credentials that were handed out are those configured for the user,
  or a service answered that the request for this user was granted.
\<close>

lemma key_provider_granted:
  assumes "key_provider post context keys v service u t w = (Inr c, w')"
  shows "case service of
      SSHStaticConf ks \<Rightarrow> w' = w \<and> (\<exists>k. map_of ks u = Some k \<and> cred_private_key c = key_private k)
    | SSHServiceConf url n \<Rightarrow> (\<exists>h body r. post (url @ ''/api/v1/ssh-keys'') h body w = (Inr r, w') \<and> hr_status r = 201 \<and>
        json_loads body = Inr (JObj [(''duration'', JStr ''1min''), (''username'', JStr u)]))
    | SSHCAConf url n \<Rightarrow> (\<exists>h body r. post (url @ ''/sign'') h body w = (Inr r, w') \<and> hr_status r = 200 \<and>
        json_loads body = Inr (JObj [(''PublicKey'', JStr (snd keys)), (''OTT'', JStr t)]) \<and>
        cred_public_certificate c = Some (hr_text r))"
proof (cases service)
  case (SSHStaticConf ks)
  then show ?thesis
    using assms by (auto simp: key_provider_def static_get_credentials_def io_simps split: option.splits)
next
  case (SSHServiceConf url n)
  then show ?thesis
    using assms keygen_request_reads [of u]
    by (fastforce simp: key_provider_def keygen_get_credentials_def io_simps unexpected_response_def
        simp del: json_dumps.simps split: sum.splits prod.splits if_splits)
next
  case (SSHCAConf url n)
  have "json_loads (json_dumps (\<lambda>_. []) (JObj [(''PublicKey'', JStr (snd keys)), (''OTT'', JStr t)])) =
      Inr (JObj [(''PublicKey'', JStr (snd keys)), (''OTT'', JStr t)])"
    by (rule json_roundtrip) simp_all
  then show ?thesis
    using assms SSHCAConf
    by (fastforce simp: key_provider_def sshca_get_credentials_def io_simps unexpected_response_def
        simp del: json_dumps.simps split: sum.splits prod.splits if_splits)
qed

end
