(* ===== verification/WebApp.thy ===== *)
theory WebApp
  imports Tracing Auth Caller Config
begin

section \<open>The web application: middleware, error handlers, scheduled tasks\<close>

text \<open>
  \<open>firecrest/main.py\<close> and the authentication dependency of \<open>firecrest/dependencies.py\<close>: a request
  passes, from the outside in, the handler of unforeseen exceptions, the path in lower case, the
  tracing log, the response headers, the variables of the request, the handlers of the registered
  exceptions and the routes.  Middleware added later stands further outside, which is Starlette's
  rule; \<open>RawContextMiddleware\<close>, the last one, is not modelled and appears as the \<open>web_context\<close> a
  request starts with.
\<close>

subsection \<open>Requests, responses and the log\<close>

datatype web_body = Answer string | ErrorBody ApiResponseError

record web_response =
  wr_status :: nat
  wr_headers :: "(string \<times> string) list"
  wr_body :: web_body

text \<open>
  The state of a request: the mutable path is a field of \<open>web_request\<close>, \<open>web_username\<close> is
  \<open>request.state.username\<close>, which every layer shares, and \<open>web_vars\<close> what the context variable of
  \<open>request_vars\<close> holds in the task at hand.  The handlers return what they log beside the state.
\<close>

record 'w web =
  web_request :: http_request
  web_username :: "string option"
  web_vars :: request_vars
  web_context :: tracing_data
  web_world :: 'w

datatype log_entry =
    TraceRecord "(string \<times> json) list"
  | RequestFailed string string
  | HandledError log_record

type_synonym 'w router = "'w web \<Rightarrow> web_response res \<times> 'w web"

type_synonym 'w handler = "'w web \<Rightarrow> web_response res \<times> 'w web \<times> log_entry list"

record Logger =
  enable_tracing_log :: bool
  loggable_request_headers :: "header_rule list option"

definition default_logger :: Logger where
  "default_logger = \<lparr>enable_tracing_log = False, loggable_request_headers = Some []\<rparr>"

text \<open>
  What the handlers take from their surroundings: Python's \<open>repr\<close> of an exception's arguments, the
  errors of a failed validation, the time, the version and the path of \<open>request.url\<close>.
\<close>

record app_env =
  ae_repr :: "exc \<Rightarrow> string"
  ae_errors :: "exc \<Rightarrow> validation_error list"
  ae_time :: string
  ae_version :: string
  ae_url_path :: "http_request \<Rightarrow> string"

subsection \<open>Authentication of a request\<close>

text \<open>The authorisation service that all routers share: OpenFGA when it is configured.\<close>

definition global_authZ ::
  "(fga_request \<Rightarrow> ('w, nat) io) \<Rightarrow> OpenFGA option \<Rightarrow> (string \<Rightarrow> string \<Rightarrow> string \<Rightarrow> ('w, unit) io) option" where
  "global_authZ post authorization =
     (case authorization of None \<Rightarrow> None | Some fga \<Rightarrow> Some (authorize post (Some (fga_config_url fga))))"

text \<open>
  \<open>APIAuthDependency\<close>: routers without a system in their path have no system name, which the
  request to OpenFGA would write \<open>None\<close>; the routers that authorise all have one.  FastAPI's
  \<open>HTTPBearer\<close>, which runs before and only ever rejects a request, is not modelled.
\<close>

definition api_auth_dependency ::
  "(string \<Rightarrow> ApiAuthModel res) \<Rightarrow> (string \<Rightarrow> string \<Rightarrow> string \<Rightarrow> ('w, unit) io) option \<Rightarrow> bool
   \<Rightarrow> string option \<Rightarrow> 'w web \<Rightarrow> unit res \<times> 'w web" where
  "api_auth_dependency authN globalAuthZ needs_authz system_name s =
     (case auth_dependency authN (if needs_authz then globalAuthZ else None) (opt_str system_name)
             (map_of (rq_headers (web_request s)) ''authorization'') (web_world s) of
        (Inl e, w) \<Rightarrow> (Inl e, s\<lparr>web_world := w\<rparr>)
      | (Inr (auth, token), w) \<Rightarrow>
          (Inr (), s\<lparr>web_vars := set_access_token token (set_auth (Some auth) (web_vars s)),
                     web_username := Some (auth_username auth), web_world := w\<rparr>))"

definition protected :: "('w web \<Rightarrow> unit res \<times> 'w web) \<Rightarrow> 'w router \<Rightarrow> 'w router" where
  "protected dependency endpoint s =
     (case dependency s of (Inl e, s') \<Rightarrow> (Inl e, s') | (Inr _, s') \<Rightarrow> endpoint s')"

subsection \<open>Middleware\<close>

text \<open>
  \<open>call_next\<close> runs the inner application in a task of its own, on a copy of the context
  variables: what it assigns to them is gone when it returns.
\<close>

definition call_next :: "'w handler \<Rightarrow> 'w handler" where
  "call_next app s = (case app s of (r, s', l) \<Rightarrow> (r, s'\<lparr>web_vars := web_vars s\<rparr>, l))"

definition init_request_vars :: "'w handler \<Rightarrow> 'w handler" where
  "init_request_vars app s = call_next app (s\<lparr>web_vars := fresh_request_vars\<rparr>)"

text \<open>\<open>MutableHeaders.update\<close>: names in lower case, one value for each.\<close>

fun set_header :: "string \<Rightarrow> string \<Rightarrow> (string \<times> string) list \<Rightarrow> (string \<times> string) list" where
  "set_header k v [] = [(lower k, v)]"
| "set_header k v ((k', v') # hs) =
     (if k' = lower k then (k', v) # filter (\<lambda>h. fst h \<noteq> lower k) hs else (k', v') # set_header k v hs)"

definition update_headers :: "(string \<times> string) list \<Rightarrow> (string \<times> string) list \<Rightarrow> (string \<times> string) list" where
  "update_headers hs new = foldl (\<lambda>acc (k, v). set_header k v acc) hs new"

definition meta_headers_handler :: "app_env \<Rightarrow> 'w handler \<Rightarrow> 'w handler" where
  "meta_headers_handler env app s =
     (let headers = response_headers_meta (ae_time env) (ae_version env) (get_auth_username (web_vars s)) None in
      case call_next app s of
        (Inl e, s', l) \<Rightarrow> (Inl e, s', l)
      | (Inr response, s', l) \<Rightarrow>
          (Inr (response\<lparr>wr_headers := update_headers (wr_headers response) headers\<rparr>), s', l))"

definition trace_entries :: "(string \<times> json) list option \<Rightarrow> log_entry list" where
  "trace_entries t = (case t of None \<Rightarrow> [] | Some r \<Rightarrow> [TraceRecord r])"

definition trace ::
  "Logger \<Rightarrow> Log_operation \<Rightarrow> string option \<Rightarrow> nat option \<Rightarrow> 'w web \<Rightarrow> (string \<times> json) list option res" where
  "trace cfg operation username status_code s =
     (if enable_tracing_log cfg
      then tracing_log_middleware operation (web_request s) username status_code
             (loggable_request_headers cfg) (web_context s)
      else Inr None)"

definition request_failed :: "app_env \<Rightarrow> 'w web \<Rightarrow> exc \<Rightarrow> log_entry" where
  "request_failed env s e = RequestFailed (ae_url_path env (web_request s)) (exc_str e)"

definition log_middleware :: "app_env \<Rightarrow> Logger \<Rightarrow> 'w handler \<Rightarrow> 'w handler" where
  "log_middleware env cfg app s =
     (case trace cfg LogRequest None None s of
        Inl e \<Rightarrow> (Inl e, s, [request_failed env s e])
      | Inr t \<Rightarrow>
          (case call_next app s of
             (Inl e, s', l) \<Rightarrow> (Inl e, s', trace_entries t @ l @ [request_failed env s' e])
           | (Inr response, s', l) \<Rightarrow>
               (case trace cfg LogResponse (web_username s') (Some (wr_status response)) s' of
                  Inl e \<Rightarrow> (Inl e, s', trace_entries t @ l @ [request_failed env s' e])
                | Inr t' \<Rightarrow> (Inr response, s', trace_entries t @ l @ trace_entries t'))))"

definition lower_case_middleware :: "'w handler \<Rightarrow> 'w handler" where
  "lower_case_middleware app s =
     call_next app (s\<lparr>web_request := (web_request s)\<lparr>rq_path := lower_case_path (rq_path (web_request s))\<rparr>\<rparr>)"

subsection \<open>Exception handlers\<close>

definition has_handler :: "exc \<Rightarrow> bool" where
  "has_handler e \<longleftrightarrow>
     (case exc_cls e of HTTPException s \<Rightarrow> True | _ \<Rightarrow> False) \<or> isinstance e RequestValidationError \<or>
     isinstance e SchedulerError \<or> isinstance e SSHServiceError \<or> isinstance e SSHClientError"

definition handle_exception :: "app_env \<Rightarrow> 'w web \<Rightarrow> exc \<Rightarrow> web_response \<times> log_entry" where
  "handle_exception env s e =
     (case http_exception_handler (ae_repr env) (ae_errors env) (ae_time env) (ae_version env)
             (get_auth_username (web_vars s)) e of
        (response, rec) \<Rightarrow>
          (\<lparr>wr_status = resp_status response,
            wr_headers = map (\<lambda>(k, v). (lower k, v)) (resp_headers response),
            wr_body = ErrorBody (resp_content response)\<rparr>, HandledError rec))"

definition exception_middleware :: "app_env \<Rightarrow> 'w router \<Rightarrow> 'w handler" where
  "exception_middleware env router s =
     (case router s of
        (Inr response, s') \<Rightarrow> (Inr response, s', [])
      | (Inl e, s') \<Rightarrow>
          (if has_handler e
           then (case handle_exception env s' e of (response, entry) \<Rightarrow> (Inr response, s', [entry]))
           else (Inl e, s', [])))"

subsection \<open>The application\<close>

definition application :: "app_env \<Rightarrow> Logger \<Rightarrow> 'w router \<Rightarrow> 'w handler" where
  "application env cfg router =
     lower_case_middleware (log_middleware env cfg (meta_headers_handler env
       (init_request_vars (exception_middleware env router))))"

text \<open>The handler of \<open>Exception\<close>, outside of every other middleware.\<close>

definition serve :: "app_env \<Rightarrow> Logger \<Rightarrow> 'w router \<Rightarrow> 'w web \<Rightarrow> web_response \<times> 'w web \<times> log_entry list" where
  "serve env cfg router s =
     (case application env cfg router s of
        (Inr response, s', l) \<Rightarrow> (response, s', l)
      | (Inl e, s', l) \<Rightarrow>
          (case handle_exception env s' e of (response, entry) \<Rightarrow> (response, s', l @ [entry])))"

subsection \<open>Scheduled tasks\<close>

text \<open>
  What \<open>lifespan\<close> starts: the checks of every cluster at its interval and, every five seconds, the
  pruning of the connection pools, each under an identifier of its own.
\<close>

datatype scheduled = CheckCluster HPCCluster | PruneClientPools

definition schedule_tasks :: "HPCCluster list \<Rightarrow> (string \<times> int \<times> scheduled) list" where
  "schedule_tasks clusters =
     map (\<lambda>c. (''check-cluster-'' @ cl_name c, probing_interval (cl_probing c), CheckCluster c)) clusters @
     [(''prune-connection-pool'', 5, PruneClientPools)]"

lemma schedule_ids_distinct:
  "distinct (map fst (schedule_tasks clusters)) \<longleftrightarrow> distinct (map cl_name clusters)"
proof -
  have "distinct (map (\<lambda>c. ''check-cluster-'' @ cl_name c) clusters) \<longleftrightarrow> distinct (map cl_name clusters)"
    by (induction clusters) auto
  then show ?thesis by (auto simp: schedule_tasks_def comp_def)
qed

subsection \<open>Lemmas\<close>

lemma dependency_accepted:
  assumes "api_auth_dependency authN az needs_authz system s = (Inr (), s')"
  shows "\<exists>auth token. authN token = Inr auth \<and> caller (web_vars s') = Inr (auth_username auth, token) \<and>
     web_username s' = Some (auth_username auth) \<and> web_request s' = web_request s \<and> web_context s' = web_context s"
  using assms
  by (auto simp: api_auth_dependency_def auth_dependency_def io_simps caller_def get_auth_def is_authenticated_def
      get_access_token_def set_access_token_def set_auth_def Let_def split: sum.splits prod.splits)

text \<open>A router that authorises, with OpenFGA configured, admits whom OpenFGA answered 200 for.\<close>

lemma dependency_authorised:
  assumes "api_auth_dependency (authenticate uh jd t cfg) (global_authZ post (Some fga)) True (Some system) s = (Inr (), s')"
  shows "\<exists>auth token. web_username s' = Some (auth_username auth) \<and> oidc_accepts uh jd t cfg token auth \<and>
    post \<lparr>fga_url = fga_config_url fga, fga_token = ''Bearer '' @ token, fga_user = ''user:'' @ auth_username auth,
          fga_relation = ''member'', fga_object = ''vcluster:'' @ system\<rparr> (web_world s) = (Inr 200, web_world s')"
proof -
  from assms obtain auth token w where
    d: "auth_dependency (authenticate uh jd t cfg) (Some (authorize post (Some (fga_config_url fga)))) system
      (map_of (rq_headers (web_request s)) ''authorization'') (web_world s) = (Inr (auth, token), w)"
    and s': "web_username s' = Some (auth_username auth)" "web_world s' = w"
    by (auto simp: api_auth_dependency_def global_authZ_def split: sum.splits prod.splits)
  from oidc_fga.dependency_permits [OF d] s' show ?thesis
    by (auto simp: fga_permits_def)
qed

text \<open>The variables of the task a middleware runs in are its own.\<close>

lemma call_next_vars [simp]: "web_vars (fst (snd (call_next app s))) = web_vars s"
  by (simp add: call_next_def split: prod.split)

lemma call_next_apply: "app s = (r, s', l) \<Longrightarrow> call_next app s = (r, s'\<lparr>web_vars := web_vars s\<rparr>, l)"
  by (simp add: call_next_def)

text \<open>
  The handlers below the tracing log, and what they make of an answer: its headers are extended by
  those of a request without user.
\<close>

definition core :: "app_env \<Rightarrow> 'w router \<Rightarrow> 'w handler" where
  "core env router = meta_headers_handler env (init_request_vars (exception_middleware env router))"

definition answered :: "app_env \<Rightarrow> string option \<Rightarrow> web_response \<Rightarrow> web_response" where
  "answered env user response =
     response\<lparr>wr_headers := update_headers (wr_headers response)
       (response_headers_meta (ae_time env) (ae_version env) user None)\<rparr>"

lemma core_answer:
  assumes "router (s\<lparr>web_vars := fresh_request_vars\<rparr>) = (Inr response, s')"
  shows "core env router s =
    (Inr (answered env (get_auth_username (web_vars s)) response), s'\<lparr>web_vars := web_vars s\<rparr>, [])"
  using assms
  by (simp add: core_def meta_headers_handler_def init_request_vars_def exception_middleware_def call_next_def
      answered_def Let_def)

lemma core_context:
  assumes "\<And>r. context_ok (web_context r) \<Longrightarrow> context_ok (web_context (snd (router r)))"
    and "context_ok (web_context s)" and "core env router s = (r, s', l)"
  shows "context_ok (web_context s')"
  using assms(1) [of "s\<lparr>web_vars := fresh_request_vars\<rparr>"] assms(2,3)
  by (auto simp: core_def meta_headers_handler_def init_request_vars_def exception_middleware_def call_next_def
      Let_def split: prod.splits sum.splits if_splits)

definition lowered :: "'w web \<Rightarrow> 'w web" where
  "lowered s = s\<lparr>web_request := (web_request s)\<lparr>rq_path := lower (rq_path (web_request s))\<rparr>\<rparr>"

lemma application_core:
  "application env cfg router s = call_next (log_middleware env cfg (core env router)) (lowered s)"
  by (simp add: application_def lower_case_middleware_def core_def lowered_def lower_case_path_def)

lemma trace_off: "\<not> enable_tracing_log cfg \<Longrightarrow> trace cfg op u n s = Inr None"
  by (simp add: trace_def)

lemma trace_ok:
  "rules_ok (loggable_request_headers cfg) \<Longrightarrow> context_ok (web_context s) \<Longrightarrow> \<exists>t. trace cfg op u n s = Inr t"
  using tracing_ok by (simp add: trace_def)

lemma log_middleware_result:
  assumes "\<And>op u n. \<exists>t. trace cfg op u n s = Inr t"
    and "app s = (r, s', l)" and "\<And>op u n. \<exists>t. trace cfg op u n (s'\<lparr>web_vars := web_vars s\<rparr>) = Inr t"
  shows "\<exists>l'. log_middleware env cfg app s = (r, s'\<lparr>web_vars := web_vars s\<rparr>, l')"
proof -
  obtain t where "trace cfg LogRequest None None s = Inr t" using assms(1) by blast
  moreover obtain t' where "trace cfg LogResponse (web_username s') (Some (case r of Inl e \<Rightarrow> 0 | Inr x \<Rightarrow> wr_status x))
      (s'\<lparr>web_vars := web_vars s\<rparr>) = Inr t'"
    using assms(3) by blast
  ultimately show ?thesis
    using assms(2) by (cases r) (simp_all add: log_middleware_def call_next_def)
qed

text \<open>With a context and well-formed rules the log leaves the answer alone.\<close>

lemma application_result:
  assumes "rules_ok (loggable_request_headers cfg) \<or> \<not> enable_tracing_log cfg"
    and "context_ok (web_context s)" and "context_ok (web_context s')"
    and core: "core env router (lowered s) = (r, s', l)"
  shows "\<exists>l'. application env cfg router s = (r, s'\<lparr>web_vars := web_vars s\<rparr>, l')"
proof -
  have ok: "\<exists>t. trace cfg op u n q = Inr t" if "context_ok (web_context q)" for op u n and q :: "'a web"
    using that assms(1) trace_ok trace_off by blast
  have "context_ok (web_context (lowered s))" using assms(2) by (simp add: lowered_def)
  then obtain l' where "log_middleware env cfg (core env router) (lowered s) =
      (r, s'\<lparr>web_vars := web_vars (lowered s)\<rparr>, l')"
    using log_middleware_result [of cfg "lowered s" "core env router" r s' l env] ok core assms(3) by auto
  then show ?thesis by (simp add: application_core call_next_def lowered_def)
qed

definition demo_env :: app_env where
  "demo_env = \<lparr>ae_repr = (\<lambda>_. []), ae_errors = (\<lambda>_. []), ae_time = ''now'', ae_version = ''2.x.x'',
     ae_url_path = rq_path\<rparr>"

definition demo_web :: "unit web" where
  "demo_web = \<lparr>web_request = \<lparr>rq_path = ''/Compute/Daint/jobs'', rq_root_path = [], rq_method = ''GET'',
       rq_headers = [(''authorization'', ''Bearer t'')]\<rparr>,
     web_username = None, web_vars = fresh_request_vars,
     web_context = Some [(''X-Request-ID'', ''r1''), (''X-Correlation-ID'', ''c1'')], web_world = ()\<rparr>"

definition demo_auth :: "string \<Rightarrow> ApiAuthModel res" where
  "demo_auth token = Inr \<lparr>auth_type = AuthUserType, auth_active = True, auth_username = ''u'',
     auth_email = None, auth_first_name = None\<rparr>"

text \<open>An endpoint that ran one command, as \<open>SSHClient.execute\<close> notes it.\<close>

definition demo_endpoint :: "unit router" where
  "demo_endpoint s =
     (Inr \<lparr>wr_status = 200, wr_headers = [], wr_body = Answer ''ok''\<rparr>,
      s\<lparr>web_context := log_backend_command ''squeue'' 0 (web_context s)\<rparr>)"

definition demo_router :: "unit router" where
  "demo_router = protected (api_auth_dependency demo_auth None True (Some ''daint'')) demo_endpoint"

lemma context_ok_log: "context_ok ctx \<Longrightarrow> context_ok (log_backend_command c e ctx)"
  by (cases ctx) (simp_all add: context_ok_def [of None])

lemma dependency_context [simp]: "web_context (snd (api_auth_dependency authN az needs_authz system s)) = web_context s"
  by (simp add: api_auth_dependency_def split: sum.split prod.split)

lemma demo_context:
  assumes "context_ok (web_context r)"
  shows "context_ok (web_context (snd (demo_router r)))"
proof (cases "api_auth_dependency demo_auth None True (Some ''daint'') r")
  case (Pair x s')
  then have "web_context s' = web_context r" by (metis dependency_context snd_conv)
  then show ?thesis
    using assms context_ok_log [of "web_context r" "''squeue''" 0]
    by (simp add: demo_router_def protected_def Pair demo_endpoint_def split: sum.split)
qed

subsection \<open>Properties\<close>




text \<open>
  A request that authenticates and is answered.  The dependency and the endpoint know
  its user, but the headers of the answer are computed outside of the task that holds the
  variables of the request: whoever asks, the answer carries the time and the version and no
  \<open>F7T-AuthUsername\<close>, which \<open>response_headers_meta\<close> has for every known user.
\<close>

theorem answers_never_name_user:
  assumes "web_vars s = fresh_request_vars"
    and "api_auth_dependency authN az needs_authz system ((lowered s)\<lparr>web_vars := fresh_request_vars\<rparr>) = (Inr (), s1)"
    and "endpoint s1 = (Inr response, s2)"
    and "rules_ok (loggable_request_headers cfg)" and "context_ok (web_context s)" and "context_ok (web_context s2)"
  shows "fst (serve env cfg (protected (api_auth_dependency authN az needs_authz system) endpoint) s) =
      response\<lparr>wr_headers := update_headers (wr_headers response)
        [(''F7T-Timestamp'', ae_time env), (''F7T-AppVersion'', ae_version env)]\<rparr> \<and>
    (\<exists>u. get_auth_username (web_vars s1) = Some u \<and>
      (''F7T-AuthUsername'', u) \<in> set (response_headers_meta t v (get_auth_username (web_vars s1)) None))"
proof -
  let ?router = "protected (api_auth_dependency authN az needs_authz system) endpoint"
  have "?router ((lowered s)\<lparr>web_vars := fresh_request_vars\<rparr>) = (Inr response, s2)"
    using assms(2,3) by (simp add: protected_def)
  then have "core env ?router (lowered s) =
      (Inr (answered env None response), s2\<lparr>web_vars := web_vars (lowered s)\<rparr>, [])"
    using core_answer [of ?router "lowered s" response s2 env] assms(1)
    by (simp add: lowered_def get_auth_username_def get_auth_def is_authenticated_def fresh_request_vars_def)
  from application_result [OF _ assms(5) _ this, of cfg] assms(4,6)
  obtain l where "application env cfg ?router s = (Inr (answered env None response), s2\<lparr>web_vars := web_vars s\<rparr>, l)"
    by auto
  then have "fst (serve env cfg ?router s) = answered env None response" by (simp add: serve_def)
  moreover obtain u token where "caller (web_vars s1) = Inr (u, token)"
    using dependency_accepted [OF assms(2)] by blast
  then have "get_auth_username (web_vars s1) = Some u"
    by (auto simp: caller_def get_auth_username_def res_iff split: option.splits)
  ultimately show ?thesis
    by (simp add: answered_def response_headers_meta_def Let_def)
qed

definition demo_lowered :: "unit web" where
  "demo_lowered = (lowered demo_web)\<lparr>web_vars := fresh_request_vars\<rparr>"

definition demo_admitted :: "unit web" where
  "demo_admitted = snd (api_auth_dependency demo_auth None True (Some ''daint'') demo_lowered)"

lemma demo_admitted: "api_auth_dependency demo_auth None True (Some ''daint'') demo_lowered = (Inr (), demo_admitted)"
  by (simp add: demo_admitted_def api_auth_dependency_def auth_dependency_def io_simps demo_auth_def demo_lowered_def
      lowered_def demo_web_def bearer_token_def scheme_param_def Let_def)

lemma demo_admitted_context: "web_context demo_admitted = web_context demo_web"
  by (simp add: demo_admitted_def demo_lowered_def lowered_def)

lemma demo_context_ok: "context_ok (web_context demo_web)"
  by (simp add: context_ok_def demo_web_def)

lemma answers_never_name_user_witness:
  "fst (serve demo_env default_logger demo_router demo_web) =
     \<lparr>wr_status = 200, wr_headers = [(''f7t-timestamp'', ''now''), (''f7t-appversion'', ''2.x.x'')],
      wr_body = Answer ''ok''\<rparr>"
proof -
  have "fst (serve demo_env default_logger demo_router demo_web) =
      (\<lparr>wr_status = 200, wr_headers = [], wr_body = Answer ''ok''\<rparr> :: web_response)\<lparr>wr_headers :=
        update_headers [] [(''F7T-Timestamp'', ''now''), (''F7T-AppVersion'', ''2.x.x'')]\<rparr>"
    using answers_never_name_user [OF _ demo_admitted [unfolded demo_lowered_def], of demo_endpoint
        "\<lparr>wr_status = 200, wr_headers = [], wr_body = Answer ''ok''\<rparr>" _ default_logger demo_env]
      context_ok_log [OF demo_context_ok] demo_context_ok
    by (simp add: demo_router_def demo_endpoint_def demo_admitted_context default_logger_def rules_ok_def
        demo_env_def) (simp add: demo_web_def)
  then show ?thesis by (simp add: update_headers_def lower_char_def char_of_def bit_Suc_0_iff)
qed

text \<open>
  C28: what the log says of a request.  A request to \<open>/resource/system/rest\<close>, in any letter
  case and under any root path, that authenticates and runs one remote command leaves exactly two
  records: one before, without user and status, and one after, with the user of the token, the
  status of the answer and the command with its exit status.
\<close>

theorem request_is_traced:
  fixes s :: "'w web"
  assumes "lower (rq_path (web_request s)) = rq_root_path (web_request s) @ endpoint_path"
    and "endpoint_path = ''/'' @ resource @ ''/'' @ sys @ ''/'' @ rest"
    and "is_segment resource" and "is_segment sys" and "newline \<notin> set rest"
    and "\<not> contains ''/status/liveness'' (lower (rq_path (web_request s)))"
    and "web_context s = Some d" and "''backend'' \<notin> fst ` set d"
    and "map_of d ''X-Correlation-ID'' = Some cid" and "map_of d ''X-Request-ID'' = Some rid"
    and "api_auth_dependency authN az needs_authz (Some sys) ((lowered s)\<lparr>web_vars := fresh_request_vars\<rparr>) = (Inr (), s1)"
    and "endpoint s1 = (Inr response, s1\<lparr>web_context := log_backend_command command exit_status (web_context s1), web_world := w\<rparr>)"
  shows "\<exists>u. get_auth_username (web_vars s1) = Some u \<and>
    snd (snd (serve env \<lparr>enable_tracing_log = True, loggable_request_headers = Some []\<rparr>
        (protected (api_auth_dependency authN az needs_authz (Some sys)) endpoint) s)) =
      [TraceRecord [(''username'', JNull), (''system_name'', JStr sys),
         (''message'', JStr (''Requesting: '' @ endpoint_path)), (''endpoint'', JStr endpoint_path),
         (''resource'', JStr resource), (''http_request_method'', JStr (rq_method (web_request s))),
         (''http_response_status_code'', JNull), (''correlation_id'', JStr cid), (''request_id'', JStr rid)],
       TraceRecord [(''username'', JStr u), (''system_name'', JStr sys),
         (''message'', JStr (''Responding: '' @ endpoint_path)), (''endpoint'', JStr endpoint_path),
         (''resource'', JStr resource), (''http_request_method'', JStr (rq_method (web_request s))),
         (''http_response_status_code'', JInt (int (wr_status response))), (''correlation_id'', JStr cid),
         (''request_id'', JStr rid),
         (''backend'', JObj [(''command'', JStr command), (''exit_status'', JStr (show_int exit_status))])]]"
proof -
  let ?cfg = "\<lparr>enable_tracing_log = True, loggable_request_headers = Some []\<rparr>"
  let ?router = "protected (api_auth_dependency authN az needs_authz (Some sys)) endpoint"
  obtain u token where dep: "caller (web_vars s1) = Inr (u, token)" "web_username s1 = Some u"
      "web_request s1 = web_request (lowered s)" "web_context s1 = Some d"
    using dependency_accepted [OF assms(11)] assms(7) by (auto simp: lowered_def)
  have user: "get_auth_username (web_vars s1) = Some u"
    using dep(1) by (auto simp: caller_def get_auth_username_def res_iff split: option.splits)
  have path: "trace_endpoint (web_request (lowered s)) = endpoint_path"
    using assms(1) by (auto simp: trace_endpoint_def removeprefix_def lowered_def)
  have parts: "endpoint_parts endpoint_path = (resource, sys)" "sys \<noteq> []"
    using system_endpoint_parts assms(2-5) by (simp_all add: is_segment_def)
  note traced = trace_def tracing_log_middleware_def trace_fields_def path parts json_opt_def operation_value_def Let_def
  have before: "trace ?cfg LogRequest None None (lowered s) = Inr (Some
      [(''username'', JNull), (''system_name'', JStr sys),
       (''message'', JStr (''Requesting: '' @ endpoint_path)), (''endpoint'', JStr endpoint_path),
       (''resource'', JStr resource), (''http_request_method'', JStr (rq_method (web_request s))),
       (''http_response_status_code'', JNull), (''correlation_id'', JStr cid), (''request_id'', JStr rid)])"
    using assms(6-10) by (simp add: traced) (simp add: lowered_def)
  let ?s2 = "s1\<lparr>web_context := log_backend_command command exit_status (Some d), web_world := w,
      web_vars := web_vars (lowered s)\<rparr>"
  have after: "trace ?cfg LogResponse (Some u) (Some (wr_status response)) ?s2 = Inr (Some
      [(''username'', JStr u), (''system_name'', JStr sys),
       (''message'', JStr (''Responding: '' @ endpoint_path)), (''endpoint'', JStr endpoint_path),
       (''resource'', JStr resource), (''http_request_method'', JStr (rq_method (web_request s))),
       (''http_response_status_code'', JInt (int (wr_status response))), (''correlation_id'', JStr cid),
       (''request_id'', JStr rid),
       (''backend'', JObj [(''command'', JStr command), (''exit_status'', JStr (show_int exit_status))])])"
    using assms(6,9,10) by (simp add: traced dep(3) backend_log_command) (simp add: lowered_def)
  have "core env ?router (lowered s) = (Inr (answered env (get_auth_username (web_vars (lowered s))) response), ?s2, [])"
    by (rule core_answer [THEN trans]) (simp_all add: protected_def assms(11,12) dep(4))
  with before after dep(2) show ?thesis
    by (intro exI [of _ u]) (simp add: user serve_def application_core log_middleware_def call_next_def
        trace_entries_def answered_def)
qed

lemma request_is_traced_witness:
  "\<exists>r1 r2. snd (snd (serve demo_env \<lparr>enable_tracing_log = True, loggable_request_headers = Some []\<rparr>
      demo_router demo_web)) = [TraceRecord r1, TraceRecord r2] \<and>
    map_of r2 ''backend'' = Some (JObj [(''command'', JStr ''squeue''), (''exit_status'', JStr (show_int 0))])"
proof -
  have endpoint: "demo_endpoint demo_admitted =
      (Inr \<lparr>wr_status = 200, wr_headers = [], wr_body = Answer ''ok''\<rparr>,
       demo_admitted\<lparr>web_context := log_backend_command ''squeue'' 0 (web_context demo_admitted), web_world := ()\<rparr>)"
    by (simp add: demo_endpoint_def)
  have path: "lower (rq_path (web_request demo_web)) = ''/compute/daint/jobs''"
    by (simp add: demo_web_def lower_char_def char_of_def bit_Suc_0_iff)
  have parts: "is_segment ''compute''" "is_segment ''daint''" "newline \<notin> set ''jobs''"
    by code_simp+
  have "\<exists>u. get_auth_username (web_vars demo_admitted) = Some u \<and>
    snd (snd (serve demo_env \<lparr>enable_tracing_log = True, loggable_request_headers = Some []\<rparr> demo_router demo_web)) =
      [TraceRecord [(''username'', JNull), (''system_name'', JStr ''daint''),
         (''message'', JStr (''Requesting: '' @ ''/compute/daint/jobs'')), (''endpoint'', JStr ''/compute/daint/jobs''),
         (''resource'', JStr ''compute''), (''http_request_method'', JStr (rq_method (web_request demo_web))),
         (''http_response_status_code'', JNull), (''correlation_id'', JStr ''c1''), (''request_id'', JStr ''r1'')],
       TraceRecord [(''username'', JStr u), (''system_name'', JStr ''daint''),
         (''message'', JStr (''Responding: '' @ ''/compute/daint/jobs'')), (''endpoint'', JStr ''/compute/daint/jobs''),
         (''resource'', JStr ''compute''), (''http_request_method'', JStr (rq_method (web_request demo_web))),
         (''http_response_status_code'', JInt (int (wr_status \<lparr>wr_status = 200, wr_headers = [], wr_body = Answer ''ok''\<rparr>))),
         (''correlation_id'', JStr ''c1''), (''request_id'', JStr ''r1''),
         (''backend'', JObj [(''command'', JStr ''squeue''), (''exit_status'', JStr (show_int 0))])]]"
    unfolding demo_router_def
    by (rule request_is_traced [where endpoint = demo_endpoint and rest = "''jobs''"
            and d = "the (web_context demo_web)" and w = "()",
          OF _ _ _ _ _ _ _ _ _ _ demo_admitted [unfolded demo_lowered_def] endpoint])
       (simp_all add: path parts, simp_all add: demo_web_def)
  then show ?thesis by auto
qed

end
