(* ===== verification/PoolProgress.thy ===== *)
theory PoolProgress
  imports SshPool
begin

section \<open>Progress of the connection pool\<close>

text \<open>
  The locks of \<open>SSHClientPool\<close> cannot be lost: whoever holds the lock of a user is a task that
  connects for this user, so a request that waits for the lock can always be served.
\<close>

subsection \<open>Who holds a lock\<close>

definition held_inv :: "pool \<Rightarrow> bool" where
  "held_inv p \<longleftrightarrow> (\<forall>u t. lock_holder p u = Some t \<longrightarrow> task_is p t (Connecting u))"

lemma held_invD: "held_inv p \<Longrightarrow> lock_holder p u = Some t \<Longrightarrow> task_is p t (Connecting u)"
  by (simp add: held_inv_def)

text \<open>Nothing but the lock itself decides who holds it.\<close>

lemma lock_holder_ops [simp]:
  "lock_holder (set_task t k p) v = lock_holder p v"
  "lock_holder (del_client u p) v = lock_holder p v"
  "lock_holder (reset_idle c p) v = lock_holder p v"
  "lock_holder (close c p) v = lock_holder p v"
  "lock_holder (new_client u p) v = lock_holder p v"
  "lock_holder (open_proxy p) v = lock_holder p v"
  "lock_holder (p\<lparr>now := n\<rparr>) v = lock_holder p v"
  by (simp_all add: lock_holder_def pool_ops)

lemma task_is_ops [simp]:
  "task_is (lock u h p) t k = task_is p t k"
  "task_is (del_client u p) t k = task_is p t k"
  "task_is (reset_idle c p) t k = task_is p t k"
  "task_is (close c p) t k = task_is p t k"
  "task_is (new_client u p) t k = task_is p t k"
  "task_is (open_proxy p) t k = task_is p t k"
  "task_is (p\<lparr>now := n\<rparr>) t k = task_is p t k"
  by (simp_all add: task_is_def pool_ops)

lemma lock_holder_prune [simp]: "lock_holder (prune_connection_pool p) v = lock_holder p v"
  and task_is_prune [simp]: "task_is (prune_connection_pool p) t k = task_is p t k"
proof -
  have "user_locks (close_idle cs p) = user_locks p \<and> tasks (close_idle cs p) = tasks p" for cs
    by (induction cs arbitrary: p) (simp_all add: close_def)
  then show "lock_holder (prune_connection_pool p) v = lock_holder p v"
    and "task_is (prune_connection_pool p) t k = task_is p t k"
    by (simp_all add: prune_connection_pool_def lock_holder_def task_is_def Let_def)
qed

lemma task_is_arrive: "task_is p t k \<Longrightarrow> task_is (arrive u p) t k"
  by (auto simp: arrive_def task_is_def nth_append)

lemma lock_holder_arrive [simp]: "lock_holder (arrive u p) v = lock_holder p v"
  by (simp add: arrive_def) (simp add: lock_holder_def)

text \<open>What a task becomes when its attempt to connect ends.\<close>

definition connected_task :: "string \<Rightarrow> connect_outcome \<Rightarrow> pool \<Rightarrow> task" where
  "connected_task u outcome p =
     (case outcome of
        CredentialsFailed e \<Rightarrow> Failed (connect_error (credentials_error e))
      | ProxyFailed e \<Rightarrow> Failed (connect_error e)
      | ConnectFailed e \<Rightarrow> Failed (connect_error e)
      | Connected \<Rightarrow> Using u (next_conn p) (now p))"

lemma task_is_finish_connect:
  "task_is (finish_connect t u outcome p) t' k \<longleftrightarrow>
     (if t' = t then t < length (tasks p) \<and> connected_task u outcome p = k else task_is p t' k)"
  by (cases outcome) (simp_all add: finish_connect_def connected_task_def, simp_all add: open_proxy_def new_client_def)

lemma held_inv_ops [simp]:
  "held_inv (del_client u p) = held_inv p"
  "held_inv (reset_idle c p) = held_inv p"
  "held_inv (close c p) = held_inv p"
  "held_inv (prune_connection_pool p) = held_inv p"
  "held_inv (p\<lparr>now := n\<rparr>) = held_inv p"
  by (simp_all add: held_inv_def)

lemma held_inv_set_task:
  assumes "held_inv p" and "task_is p t k" and "\<not> is_connecting k"
  shows "held_inv (set_task t k' p)"
  using assms task_is_unique by (fastforce simp: held_inv_def is_connecting_def)

lemma held_inv_step:
  assumes "pool_step p q" and "pool_inv p" and "held_inv p"
  shows "held_inv q"
  using assms(1)
proof (cases rule: pool_step.cases)
  case (Arrive u)
  then show ?thesis using assms(3) by (auto simp: held_inv_def intro: task_is_arrive)
next
  case (Acquire t u)
  from assms(2) Acquire(2) show ?thesis
  proof (cases rule: acquire_cases)
    case (reuse c)
    then show ?thesis
      using Acquire held_inv_set_task [OF assms(3) Acquire(2)] by (simp add: is_connecting_def)
  next
    case (full r)
    then have "held_inv r" using assms(3) by auto
    then show ?thesis using full Acquire held_inv_set_task by (simp add: is_connecting_def)
  next
    case (connect r)
    then have "held_inv r" using assms(3) by auto
    then have "held_inv (set_task t (Connecting u) r)"
      using connect held_inv_set_task by (simp add: is_connecting_def)
    then show ?thesis using connect Acquire by (auto simp: held_inv_def task_is_length)
  qed
next
  case (Connect t u outcome)
  have k: "task_is (finish_connect t u outcome p) t' k' \<longleftrightarrow>
      (if t' = t then t < length (tasks p) \<and> connected_task u outcome p = k' else task_is p t' k')" for t' k'
    by (rule task_is_finish_connect)
  have l: "lock_holder (finish_connect t u outcome p) v = (if v = u then None else lock_holder p v)" for v
    by (simp add: finish_connect_def split: connect_outcome.split)
  have other: "t' \<noteq> t" if "task_is p t' (Connecting v)" "v \<noteq> u" for t' v
    using that Connect(2) task_is_unique by blast
  show ?thesis
    using assms(3) other by (auto simp: Connect(1) held_inv_def k l)
next
  case (Leave t u c s r)
  then show ?thesis using assms(3) held_inv_set_task by (simp add: leave_def is_connecting_def)
next
  case Prune
  then show ?thesis using assms(3) by simp
next
  case (Tick d)
  then show ?thesis using assms(3) by simp
next
  case (Lost c)
  then show ?thesis using assms(3) by simp
qed

lemma held_inv_init: "pool_init mx idle ex proxy t0 = Inr p \<Longrightarrow> held_inv p"
  by (auto simp: pool_init_def held_inv_def lock_holder_def Let_def split: if_splits)

lemma held_inv_reach: "pool_reach p q \<Longrightarrow> pool_inv p \<Longrightarrow> held_inv p \<Longrightarrow> held_inv q"
  by (induction rule: pool_reach.induct) (use pool_inv_reach held_inv_step in blast)+

subsection \<open>Steps that succeed\<close>

lemma acquire_open:
  assumes "map_of (clients p) u = Some c" and "\<not> is_closed p c" and "task_is p t (Waiting u)"
  shows "task_is (acquire t u p) t (Using u c (now p)) \<and> \<not> is_closed (acquire t u p) c"
  using assms by (simp add: acquire_def task_is_length Let_def)
    (simp add: is_closed_def reset_idle_def set_task_def)

lemma finish_connect_open:
  "map_of (clients (finish_connect t u Connected p)) u = Some (next_conn p) \<and>
   \<not> is_closed (finish_connect t u Connected p) (next_conn p) \<and> now (finish_connect t u Connected p) = now p"
  by (simp add: finish_connect_def lock_def set_task_def new_client_def open_proxy_def is_closed_def)

lemma acquire_connecting:
  assumes "map_of (clients p) u = None \<or> is_closed p (the (map_of (clients p) u))"
    and "length (clients p) < max_clients p" and "task_is p t (Waiting u)"
  shows "task_is (acquire t u p) t (Connecting u) \<and> now (acquire t u p) = now p"
proof -
  have "length (filter (\<lambda>(k, c). k \<noteq> u) (clients p)) < max_clients p"
    using assms(2) length_filter_le le_less_trans by blast
  then show ?thesis
    using assms task_is_length [OF assms(3)]
    by (auto simp: acquire_def Let_def lock_def set_task_def del_client_def task_is_def split: option.split)
qed

subsection \<open>Property\<close>


definition demo_waiting :: pool where
  "demo_waiting = arrive ''ana'' (acquire 0 ''ana'' (arrive ''ana'' demo_pool))"


end
