(* ===== verification/NodeListing.thy ===== *)
theory NodeListing
  imports SlurmListing SlurmClients
begin

section \<open>The nodes of a cluster\<close>

text \<open>
  What \<open>slurm_get_nodes\<close> makes of the listing of \<open>sinfo -N\<close>, which has a row for every node in
  every of its partitions: one node for each name, with all of its partitions.
\<close>

subsection \<open>The specification\<close>

text \<open>
  A row has fourteen columns.  That the parser and the model accept it takes a number of CPUs and a
  slash between the allocated and the idle ones.
\<close>

definition wf_node_row :: "string list \<Rightarrow> bool" where
  "wf_node_row r \<longleftrightarrow> length r = 14 \<and> list_all (\<lambda>t. CHR ''|'' \<notin> set t \<and> newline \<notin> set t) r \<and>
     int_or_none (r ! 1) \<noteq> None \<and> CHR ''/'' \<in> set (r ! 13)"

abbreviation row_node :: "string list \<Rightarrow> string" where
  "row_node r \<equiv> r ! 5"

definition node_listing :: "string list list \<Rightarrow> string" where
  "node_listing rows = concat (map (\<lambda>r. join ''|'' r @ [newline]) rows)"

text \<open>The first row of every node, in the order of the listing, and the partitions of all of its rows.\<close>

fun first_rows :: "string list list \<Rightarrow> string list list" where
  "first_rows [] = []"
| "first_rows (r # rs) = r # filter (\<lambda>q. row_node q \<noteq> row_node r) (first_rows rs)"

definition partitions_of :: "string list list \<Rightarrow> string \<Rightarrow> string list" where
  "partitions_of rows n = concat (map (\<lambda>r. split_on CHR '','' (r ! 9)) (filter (\<lambda>r. row_node r = n) rows))"

definition listed_node :: "string list list \<Rightarrow> string list \<Rightarrow> Node" where
  "listed_node rows r =
     (let topology = int_or_none (hd (split_on CHR '':'' (r ! 0))) in
      \<lparr>nd_sockets = topology, nd_cores = topology, nd_threads = topology,
       nd_cpus = the (int_or_none (r ! 1)), nd_cpu_load = float_or_none (r ! 2),
       nd_free_memory = int_or_none (r ! 3), nd_features = Some (JStr (r ! 4)), nd_name = row_node r,
       nd_address = Some (r ! 6), nd_hostname = Some (r ! 7), nd_state = [map_slurm_state (r ! 8)],
       nd_partitions = Some (partitions_of rows (row_node r)), nd_weight = int_or_none (r ! 10),
       nd_alloc_memory = int_or_none (r ! 12),
       nd_alloc_cpus = int_or_none (hd (split_on CHR ''/'' (r ! 13))),
       nd_idle_cpus = int_or_none (split_on CHR ''/'' (r ! 13) ! 1)\<rparr>)"

definition listed_nodes :: "string list list \<Rightarrow> Node list option" where
  "listed_nodes rows = option_none_if_empty (map (listed_node rows) (first_rows rows))"

subsection \<open>Reading a row\<close>

text \<open>What the parser keeps of a node, with the partitions \<open>ps\<close> collected for it so far.\<close>

definition node_kwargs :: "string list \<Rightarrow> string list \<Rightarrow> kwargs" where
  "node_kwargs r ps =
     (let topology = j_int_opt (int_or_none (hd (split_on CHR '':'' (r ! 0)))) in
      [(''sockets'', topology), (''cores'', topology), (''threads'', topology),
       (''cpus'', j_int_opt (int_or_none (r ! 1))),
       (''cpu_load'', case float_or_none (r ! 2) of None \<Rightarrow> JNull | Some v \<Rightarrow> JFloat v),
       (''free_memory'', j_int_opt (int_or_none (r ! 3))),
       (''features'', JStr (r ! 4)), (''name'', JStr (r ! 5)), (''address'', JStr (r ! 6)),
       (''hostname'', JStr (r ! 7)), (''state'', JList [JStr (r ! 8)]),
       (''partitions'', JList (map JStr ps)),
       (''weight'', j_int_opt (int_or_none (r ! 10))), (''slurmd_version'', JStr (r ! 11)),
       (''alloc_memory'', j_int_opt (int_or_none (r ! 12))),
       (''alloc_cpus'', j_int_opt (int_or_none (hd (split_on CHR ''/'' (r ! 13))))),
       (''idle_cpus'', j_int_opt (int_or_none (split_on CHR ''/'' (r ! 13) ! 1)))])"

lemma sinfo_node_kwargs:
  assumes "wf_node_row r"
  shows "sinfo_node r = Inr (node_kwargs r (split_on CHR '','' (r ! 9)))"
proof -
  have "Suc 0 < length (split_on CHR ''/'' (r ! 13))"
    using assms by (simp add: wf_node_row_def length_split_on count_list_0_iff flip: neq0_conv)
  then show ?thesis by (simp add: sinfo_node_def node_kwargs_def nth_res_def Let_def)
qed

lemma extend_node_kwargs [simp]: "extend_partitions qs (node_kwargs r ps) = node_kwargs r (ps @ qs)"
  by (simp add: extend_partitions_def node_kwargs_def Let_def)

lemma traverse_texts [simp]:
  "traverse (\<lambda>x. case x of JStr s \<Rightarrow> Inr s | _ \<Rightarrow> raise ValueError []) (map JStr ps) = Inr ps"
  by (induction ps) simp_all

lemma node_kwargs_valid:
  assumes "wf_node_row r" and "pint_ok pint" and "\<And>v. pfloat (JFloat v) = Inr v"
  shows "slurm_node_init pint pfloat (node_kwargs r (partitions_of rows (row_node r))) = Inr (listed_node rows r)"
proof -
  obtain cpus where cpus: "int_or_none (r ! 1) = Some cpus" using assms(1) by (auto simp: wf_node_row_def)
  have load: "(case (case float_or_none t of None \<Rightarrow> JNull | Some v \<Rightarrow> JFloat v) of
      JNull \<Rightarrow> Inr None | v \<Rightarrow> map_res Some (pfloat v)) = Inr (float_or_none t)" for t
    by (simp add: assms(3) split: option.split)
  have int: "(case j_int_opt n of JNull \<Rightarrow> Inr None | v \<Rightarrow> map_res Some (pint v)) = Inr n" for n
    using assms(2) by (cases n) (simp_all add: j_int_opt_def pint_ok_def)
  have mem: "(if j_int_opt n = JNull then Inr None else map_res Some (pint (j_int_opt n))) = Inr n" for n
    using assms(2) by (cases n) (simp_all add: j_int_opt_def pint_ok_def)
  have req: "pint (j_int_opt (Some i)) = Inr i" for i
    using assms(2) by (simp add: j_int_opt_def pint_ok_def)
  note fields = opt_int_field_def int_field_def opt_float_field_def before_int_field_def
    opt_str_or_list_field_def opt_str_list_field_def str_field_def opt_str_field_def alias_lookup_def
  show ?thesis
    by (simp add: slurm_node_init_def node_model_init_def listed_node_def node_kwargs_def Let_def fields
        map_filter_simps str_list_or_str_def load int mem req cpus [simplified])
qed

subsection \<open>Reading the listing\<close>

lemma first_rows_subset: "r \<in> set (first_rows rs) \<Longrightarrow> r \<in> set rs"
  by (induction rs) auto

lemma first_rows_names: "row_node ` set (first_rows rs) = row_node ` set rs"
proof (induction rs)
  case (Cons r rs)
  have "row_node ` {x \<in> A. row_node x \<noteq> n} = row_node ` A - {n}" for A n by auto
  then show ?case using Cons.IH by simp
qed simp

lemma first_rows_distinct: "distinct (map row_node (first_rows rs))"
  by (induction rs) (auto simp: distinct_map_filter)

lemma first_rows_snoc:
  "first_rows (rs @ [r]) =
     (if row_node r \<in> row_node ` set rs then first_rows rs else first_rows rs @ [r])"
  by (induction rs) auto

lemma partitions_of_snoc:
  "partitions_of (rs @ [r]) n =
     partitions_of rs n @ (if row_node r = n then split_on CHR '','' (r ! 9) else [])"
  by (simp add: partitions_of_def)

lemma partitions_of_new: "n \<notin> row_node ` set rs \<Longrightarrow> partitions_of rs n = []"
  by (auto simp: partitions_of_def filter_empty_conv)

lemma dict_set_rows:
  assumes "distinct (map row_node rs)" and "n \<in> row_node ` set rs"
  shows "dict_set n v (map (\<lambda>r. (row_node r, f r)) rs) = map (\<lambda>r. (row_node r, if row_node r = n then v else f r)) rs"
  using assms
proof (induction rs)
  case (Cons a rs)
  show ?case
  proof (cases "row_node a = n")
    case True
    then have "\<forall>x \<in> set rs. row_node x \<noteq> n" using Cons.prems(1) by (auto simp: image_iff)
    then show ?thesis using True by simp
  qed (use Cons in auto)
qed simp

lemma map_of_rows:
  "distinct (map row_node rs) \<Longrightarrow> r \<in> set rs \<Longrightarrow> map_of (map (\<lambda>r. (row_node r, f r)) rs) (row_node r) = Some (f r)"
  by (intro map_of_is_SomeI) (auto simp: comp_def)

lemma map_of_rows_None:
  "n \<notin> row_node ` set rs \<Longrightarrow> map_of (map (\<lambda>r. (row_node r, f r)) rs) n = None"
  by (auto simp: map_of_eq_None_iff)

text \<open>The nodes collected after some rows of the listing.\<close>

definition collected :: "string list list \<Rightarrow> (string \<times> kwargs) list" where
  "collected rs = map (\<lambda>r. (row_node r, node_kwargs r (partitions_of rs (row_node r)))) (first_rows rs)"

lemma split_node_row: "wf_node_row r \<Longrightarrow> split_on CHR ''|'' (join ''|'' r) = r"
  by (rule split_on_join) (auto simp: wf_node_row_def list_all_iff)

lemma collect_row:
  assumes "wf_node_row r"
  shows "sinfo_row (join ''|'' r) (collected rs) = Inr (collected (rs @ [r]))"
proof (cases "row_node r \<in> row_node ` set rs")
  case True
  then have "row_node r \<in> row_node ` set (first_rows rs)" by (simp add: first_rows_names)
  then obtain q where q: "q \<in> set (first_rows rs)" "row_node q = row_node r" by (metis imageE)
  have same: "p = q" if "p \<in> set (first_rows rs)" "row_node p = row_node r" for p
    using that q first_rows_distinct [of rs] by (metis distinct_map inj_onD)
  let ?f = "\<lambda>p. node_kwargs p (partitions_of rs (row_node p))"
  have "sinfo_row (join ''|'' r) (collected rs) =
      Inr (dict_set (row_node r) (node_kwargs q (partitions_of (rs @ [r]) (row_node r)))
        (map (\<lambda>p. (row_node p, ?f p)) (first_rows rs)))"
    using assms map_of_rows [OF first_rows_distinct q(1), of ?f] q(2)
    by (simp add: sinfo_row_def split_node_row collected_def wf_node_row_def partitions_of_snoc)
  also have "dict_set (row_node r) (node_kwargs q (partitions_of (rs @ [r]) (row_node r)))
        (map (\<lambda>p. (row_node p, ?f p)) (first_rows rs)) = collected (rs @ [r])"
    unfolding dict_set_rows [OF first_rows_distinct \<open>row_node r \<in> row_node ` set (first_rows rs)\<close>]
    using True q(2) same by (auto simp: collected_def first_rows_snoc partitions_of_snoc)
  finally show ?thesis .
next
  case False
  then have "row_node r \<notin> row_node ` set (first_rows rs)" by (simp add: first_rows_names)
  then have "map_of (collected rs) (row_node r) = None" "row_node r \<notin> set (map fst (collected rs))"
    by (auto simp: collected_def map_of_rows_None)
  moreover have "split_on CHR '','' (r ! 9) = partitions_of (rs @ [r]) (row_node r)"
    by (simp add: partitions_of_snoc partitions_of_new [OF False])
  moreover have "collected (rs @ [r]) =
      collected rs @ [(row_node r, node_kwargs r (partitions_of (rs @ [r]) (row_node r)))]"
    using False \<open>row_node r \<notin> row_node ` set (first_rows rs)\<close>
    by (auto simp: collected_def first_rows_snoc partitions_of_snoc)
  ultimately show ?thesis using assms
    by (simp add: sinfo_row_def split_node_row sinfo_node_kwargs dict_set_new wf_node_row_def)
qed

lemma collect_rows:
  "list_all wf_node_row rs \<Longrightarrow> sinfo_rows (map (join ''|'') rs) (collected done) = Inr (collected (done @ rs))"
proof (induction rs arbitrary: "done")
  case (Cons r rs)
  then show ?case using Cons.IH [of "done @ [r]"] by (simp add: collect_row)
qed simp

lemma node_row_blank [simp]: "sinfo_row [] nodes = Inr nodes"
  by (simp add: sinfo_row_def)

lemma sinfo_rows_append: "sinfo_rows (xs @ ys) nodes = bind_res (sinfo_rows xs nodes) (sinfo_rows ys)"
proof (induction xs arbitrary: nodes)
  case (Cons x xs)
  then show ?case by (cases "sinfo_row x nodes") simp_all
qed simp

lemma sinfo_collects:
  assumes "list_all wf_node_row rows"
  shows "sinfo_parse_output c (node_listing rows) stderr 0 = Inr (option_none_if_empty (map snd (collected rows)))"
proof -
  have "list_all (\<lambda>l. newline \<notin> set l) (map (join ''|'') rows)"
    using assms join_no_newline [of newline "CHR ''|''"] by (auto simp: list_all_iff wf_node_row_def)
  then have "split_on newline (node_listing rows) = map (join ''|'') rows @ [[]]"
    using split_lines [of newline "map (join ''|'') rows"] by (simp add: node_listing_def comp_def)
  moreover have "collected [] = []" by (simp add: collected_def)
  ultimately show ?thesis using collect_rows [OF assms, of "[]"]
    by (simp add: sinfo_parse_output_def sinfo_rows_append)
qed

lemma nodes_valid:
  assumes "list_all wf_node_row rows" and "pint_ok pint" and "\<And>v. pfloat (JFloat v) = Inr v"
  shows "traverse (validate_json (slurm_node_init pint pfloat)) (map (JObj \<circ> snd) (collected rows)) =
    Inr (map (listed_node rows) (first_rows rows))"
proof -
  have "list_all wf_node_row (first_rows rows)"
    using assms(1) by (auto simp: list_all_iff dest: first_rows_subset)
  moreover have "list_all wf_node_row rs \<Longrightarrow>
      traverse (validate_json (slurm_node_init pint pfloat))
        (map (\<lambda>r. JObj (node_kwargs r (partitions_of rows (row_node r)))) rs) = Inr (map (listed_node rows) rs)" for rs
    by (induction rs) (simp_all add: validate_json_def node_kwargs_valid assms(2,3))
  ultimately show ?thesis by (simp add: collected_def comp_def)
qed

text \<open>
  C19: listing the nodes of a cluster over SSH gives one node for every name in the listing of
  \<open>sinfo\<close>, in the order of their first rows, each with the partitions of all of its rows and the
  other values of its first row, its state without flags; no row is dropped or counted twice.
  (Sockets, cores and threads are the same number: all are read from the first part of the
  column \<open>S:C:T\<close>.)
\<close>

theorem sinfo_nodes_merged:
  assumes "list_all wf_node_row rows" and "pint_ok (ext_pint x)" and "\<forall>v. ext_pfloat x (JFloat v) = Inr v"
    and "sl_mode c = Some ModeSsh" and "sl_ssh c = Some ssh"
    and "ssh u t sinfo_get_command None w = (Inr (node_listing rows, stderr, 0), w')"
  shows "slurm_get_nodes x c u t w = (Inr (listed_nodes rows), w') \<and>
    (\<forall>r \<in> set rows. \<exists>n \<in> set (map (listed_node rows) (first_rows rows)).
       nd_name n = row_node r \<and> set (split_on CHR '','' (r ! 9)) \<subseteq> set (the (nd_partitions n))) \<and>
    distinct (map nd_name (map (listed_node rows) (first_rows rows)))"
proof (intro conjI ballI)
  have name: "nd_name (listed_node rows q) = row_node q"
    "nd_partitions (listed_node rows q) = Some (partitions_of rows (row_node q))" for q
    by (simp_all add: listed_node_def Let_def)
  have objs: "map_option (map JObj) (option_none_if_empty (map snd (collected rows))) =
      option_none_if_empty (map (JObj \<circ> snd) (collected rows))"
    by (simp add: option_none_if_empty_def)
  have valid: "validate_all (validate_json (slurm_node_init (ext_pint x) (ext_pfloat x)))
      (option_none_if_empty (map (JObj \<circ> snd) (collected rows))) = Inr (listed_nodes rows)"
    using nodes_valid [OF assms(1,2)] assms(3)
    by (simp add: option_none_if_empty_def validate_all_def listed_nodes_def collected_def)
  have cli: "cli_get_nodes ssh u t w = (Inr (option_none_if_empty (map snd (collected rows))), w')"
    by (simp add: cli_get_nodes_def executed_ssh_cmd_cases assms(6) sinfo_collects [OF assms(1)])
  show "slurm_get_nodes x c u t w = (Inr (listed_nodes rows), w')"
    by (simp add: slurm_get_nodes_def on_default_def assms(4,5) io_simps cli objs valid)
  show "\<exists>n \<in> set (map (listed_node rows) (first_rows rows)).
      nd_name n = row_node r \<and> set (split_on CHR '','' (r ! 9)) \<subseteq> set (the (nd_partitions n))"
    if r: "r \<in> set rows" for r
  proof -
    have "row_node r \<in> row_node ` set (first_rows rows)" using r by (simp add: first_rows_names)
    then obtain q where q: "q \<in> set (first_rows rows)" "row_node q = row_node r" by (metis imageE)
    have "set (split_on CHR '','' (r ! 9)) \<subseteq> set (partitions_of rows (row_node r))"
      using r by (auto simp: partitions_of_def)
    then show ?thesis using q by (intro bexI [of _ "listed_node rows q"]) (simp_all add: name)
  qed
  show "distinct (map nd_name (map (listed_node rows) (first_rows rows)))"
    using first_rows_distinct [of rows] by (simp add: comp_def name)
qed

text \<open>A cluster of two nodes, one of them in two partitions.\<close>

definition demo_row :: "string \<Rightarrow> string \<Rightarrow> string list" where
  "demo_row node part =
     [''2:8:2'', ''32'', ''0.5'', ''1000'', ''gpu'', node, node, node, ''idle*'', part, ''1'', ''24.05'',
      ''2000'', ''0/32/0/32'']"

definition demo_rows :: "string list list" where
  "demo_rows = [demo_row ''n1'' ''debug'', demo_row ''n2'' ''debug'', demo_row ''n1'' ''normal'']"

definition demo_sinfo :: "unit ssh" where
  "demo_sinfo = (\<lambda>u t c i. io_return (node_listing demo_rows, [], 0))"

definition demo_node_externals :: "unit externals" where
  "demo_node_externals = demo_externals\<lparr>ext_pfloat := \<lambda>v. case v of JFloat r \<Rightarrow> Inr r | _ \<Rightarrow> raise ValueError []\<rparr>"

definition demo_sinfo_client :: "unit slurm_client" where
  "demo_sinfo_client = demo_rest_only\<lparr>sl_mode := Some ModeSsh, sl_ssh := Some demo_sinfo\<rparr>"

lemma sinfo_nodes_merged_witness:
  "\<exists>n1 n2. fst (slurm_get_nodes demo_node_externals demo_sinfo_client ''u'' ''t'' ()) = Inr (Some [n1, n2]) \<and>
     nd_name n1 = ''n1'' \<and> nd_partitions n1 = Some [''debug'', ''normal''] \<and> nd_state n1 = [IDLE] \<and>
     nd_name n2 = ''n2'' \<and> nd_partitions n2 = Some [''debug'']"
proof -
  have wf: "list_all wf_node_row demo_rows" by code_simp
  have first: "first_rows demo_rows = [demo_row ''n1'' ''debug'', demo_row ''n2'' ''debug'']" by code_simp
  have parts: "partitions_of demo_rows ''n1'' = [''debug'', ''normal'']" "partitions_of demo_rows ''n2'' = [''debug'']"
    by code_simp+
  have st: "map_slurm_state ''idle*'' = IDLE" by code_simp
  have ext: "pint_ok (ext_pint demo_node_externals)" "\<forall>v. ext_pfloat demo_node_externals (JFloat v) = Inr v"
    by (simp_all add: demo_node_externals_def demo_externals_def pint_ok_def)
  have client: "sl_mode demo_sinfo_client = Some ModeSsh" "sl_ssh demo_sinfo_client = Some demo_sinfo"
    "demo_sinfo ''u'' ''t'' sinfo_get_command None () = (Inr (node_listing demo_rows, [], 0), ())"
    by (simp_all add: demo_sinfo_client_def demo_sinfo_def io_simps)
  show ?thesis
    using sinfo_nodes_merged [OF wf ext client, THEN conjunct1]
    by (simp add: listed_nodes_def first listed_node_def Let_def demo_row_def parts st option_none_if_empty_def)
qed

end
