(* ===== verification/DemoLauncher.thy ===== *)
theory DemoLauncher
  imports PointTransfers
begin

section \<open>The demo launcher\<close>

text \<open>
  \<open>build/demo-launcher/src/launcher\<close>: a small application that asks for an SSH host, for the
  credentials of a user and for a scheduler, writes them to the settings of the API and restarts it; it
  is also the identity provider of the demonstration.

  The launcher's state are its settings, the two files it writes and the calls it made to
  supervisord.  What asyncssh, PyJWT, packaging, supervisord and the host answer is the record
  \<open>launcher_env\<close>, another one at every request.  Opening the client file for appending is taken to
  succeed.
\<close>

subsection \<open>The commands\<close>

definition pwd_get_command :: "int \<Rightarrow> string" where
  "pwd_get_command command_timeout = timeout_prefix command_timeout @ '' pwd''"

definition pwd_parse_output :: "int \<Rightarrow> string \<Rightarrow> string \<Rightarrow> int \<Rightarrow> string res" where
  "pwd_parse_output c stdout stderr exit_status =
     (if exit_status \<noteq> 0 then error_handling_timeout stderr exit_status else Inr (strip stdout))"

definition sinfo_version_get_command :: "int \<Rightarrow> string" where
  "sinfo_version_get_command command_timeout = timeout_prefix command_timeout @ '' sinfo -V''"

definition sinfo_version_parse_output :: "int \<Rightarrow> string \<Rightarrow> string \<Rightarrow> int \<Rightarrow> string res" where
  "sinfo_version_parse_output c stdout stderr exit_status =
     (if exit_status \<noteq> 0 then error_handling_timeout stderr exit_status
      else if 1 < length (split_ws stdout) then Inr (split_ws stdout ! 1) else raise IndexError [])"

definition qstat_version_get_command :: "int \<Rightarrow> string" where
  "qstat_version_get_command command_timeout = timeout_prefix command_timeout @ '' qstat --version''"

definition qstat_version_parse_output :: "int \<Rightarrow> string \<Rightarrow> string \<Rightarrow> int \<Rightarrow> string res" where
  "qstat_version_parse_output c stdout stderr exit_status =
     (if exit_status \<noteq> 0 then error_handling_timeout stderr exit_status
      else Inr (remove_prefix (strip stdout) ''pbs_version = ''))"

interpretation pwd_cmd: remote_command pwd_get_command pwd_parse_output
  by (rule remote_command_intro) (simp_all add: pwd_get_command_def pwd_parse_output_def timeout_prefix_def)

interpretation sinfo_version_cmd: remote_command sinfo_version_get_command sinfo_version_parse_output
  by (rule remote_command_intro)
    (simp_all add: sinfo_version_get_command_def sinfo_version_parse_output_def timeout_prefix_def)

interpretation qstat_version_cmd: remote_command qstat_version_get_command qstat_version_parse_output
  by (rule remote_command_intro)
    (simp_all add: qstat_version_get_command_def qstat_version_parse_output_def timeout_prefix_def)

subsection \<open>The state\<close>

record UnsafeSettings =
  us_ssh_credentials :: "(string \<times> SSHUserKeys) list"
  us_cluster :: HPCCluster
  us_service_account :: "string \<times> string"

datatype sup_call = StopProcess string | StartProcess string

record launcher =
  ln_settings :: UnsafeSettings
  ln_webui_client :: string
  ln_config_file :: "UnsafeSettings option"
  ln_calls :: "sup_call list"

text \<open>
  \<open>'k\<close> and \<open>'c\<close> are imported keys and certificates, \<open>'n\<close> connections.  \<open>le_run\<close> is
  \<open>SSHClient.execute\<close> up to the parser of the command; \<open>le_compare\<close> orders two versions.
\<close>

record ('k, 'c, 'n) launcher_env =
  le_socket :: "string \<Rightarrow> int option \<Rightarrow> unit res"
  le_private_key :: "string option \<Rightarrow> string option \<Rightarrow> 'k res"
  le_certificate :: "string \<Rightarrow> 'c res"
  le_connect :: "string \<Rightarrow> int option \<Rightarrow> string \<times> 'k \<times> string option \<times> 'c option \<Rightarrow> 'n option \<Rightarrow> 'n res"
  le_run :: "'n \<Rightarrow> string \<Rightarrow> (string \<times> string \<times> int) res"
  le_compare :: "string \<Rightarrow> string \<Rightarrow> int res"
  le_settings_file :: "string option"
  le_statename :: "sup_call list \<Rightarrow> string \<Rightarrow> string res"
  le_supervise :: "sup_call list \<Rightarrow> sup_call \<Rightarrow> unit res"
  le_repr :: "exc \<Rightarrow> string"
  le_now :: int
  le_jwt_encode :: "(string \<times> json) list \<Rightarrow> string"
  le_jwt_decode :: "string \<Rightarrow> (string \<times> json) list res"

definition ln_gets :: "(launcher \<Rightarrow> 'a) \<Rightarrow> (launcher, 'a) io" where
  "ln_gets f = (\<lambda>s. (Inr (f s), s))"

definition ln_modify :: "(launcher \<Rightarrow> launcher) \<Rightarrow> (launcher, unit) io" where
  "ln_modify f = (\<lambda>s. (Inr (), f s))"

lemma ln_apply [io_simps]: "ln_gets f s = (Inr (f s), s)" "ln_modify h s = (Inr (), h s)"
  by (simp_all add: ln_gets_def ln_modify_def)

text \<open>\<open>except Exception as e: raise HTTPException(status_code=400, detail=repr(e))\<close>.\<close>

definition as_400 :: "(exc \<Rightarrow> string) \<Rightarrow> (launcher, 'a) io \<Rightarrow> (launcher, 'a) io" where
  "as_400 repr m = io_catch m (\<lambda>e. io_lift (Inl (Exc (HTTPException 400) (repr e) [] (Some e))))"

subsection \<open>Tokens\<close>

definition opt_json :: "string option \<Rightarrow> json" where
  "opt_json v = (case v of None \<Rightarrow> JNull | Some s \<Rightarrow> JStr s)"

definition token_payload :: "int \<Rightarrow> string option \<Rightarrow> (string \<times> json) list" where
  "token_payload t0 username =
     [(''sub'', JStr (opt_str username @ ''-client'')), (''name'', opt_json username),
      (''username'', opt_json username), (''preferred_username'', opt_json username),
      (''scope'', JStr ''firecrest-v2 profile email''), (''exp'', JInt (t0 + 360 * 86400))]"

definition generate_token :: "('k, 'c, 'n) launcher_env \<Rightarrow> string option \<Rightarrow> string" where
  "generate_token env username = le_jwt_encode env (token_payload (le_now env) username)"

record token_answer =
  ta_access_token :: string
  ta_token_type :: string
  ta_expires_in :: int
  ta_refresh_token :: string

text \<open>The client's secret and the password are not looked at.\<close>

definition get_token ::
  "('k, 'c, 'n) launcher_env \<Rightarrow> (string \<times> string) option \<Rightarrow> string option \<Rightarrow> string option \<Rightarrow> string option
   \<Rightarrow> token_answer" where
  "get_token env credentials grant_type client_id client_secret =
     (let username = (if truthy client_id then client_id else None);
          username = (case credentials of
                        Some (c # cs, password) \<Rightarrow> Some (c # cs)
                      | _ \<Rightarrow> username);
          token = generate_token env username
      in \<lparr>ta_access_token = token, ta_token_type = ''bearer'', ta_expires_in = 31556952, ta_refresh_token = token\<rparr>)"

definition userinfo_endpoint :: "('k, 'c, 'n) launcher_env \<Rightarrow> string \<Rightarrow> (string \<times> json) list res" where
  "userinfo_endpoint env token =
     bind_res (le_jwt_decode env token) (\<lambda>payload.
       let username = (case map_of payload ''name'' of None \<Rightarrow> JNull | Some v \<Rightarrow> v);
           username = (case map_of payload ''username'' of None \<Rightarrow> username | Some v \<Rightarrow> v)
       in Inr [(''id'', username), (''username'', username), (''preferred_username'', username),
               (''firstName'', username), (''lastName'', JStr ''client''), (''email'', username)])"

definition auth_redirect :: "string \<Rightarrow> string \<Rightarrow> string \<times> nat" where
  "auth_redirect state redirect_uri = (redirect_uri @ ''?state='' @ state @ ''&code=secret-code'', 302)"

text \<open>
  The public key: \<open>n.to_bytes((n.bit_length() + 7) // 8, byteorder="big")\<close>, encoded by jose's
  \<open>base64url_encode\<close>, the argument \<open>b64url\<close>.
\<close>

function to_bytes :: "nat \<Rightarrow> string" where
  "to_bytes n = (if n = 0 then [] else to_bytes (n div 256) @ [char_of (n mod 256)])"
  by pat_completeness auto
termination by (relation "measure id") auto

declare to_bytes.simps [simp del]

definition get_jwk :: "(string \<Rightarrow> string) \<Rightarrow> string \<Rightarrow> nat \<Rightarrow> nat \<Rightarrow> (string \<times> string) list" where
  "get_jwk b64url kid n e =
     [(''kty'', ''RSA''), (''use'', ''sig''), (''alg'', ''RS256''), (''kid'', kid),
      (''n'', b64url (to_bytes n)), (''e'', b64url (to_bytes e))]"

subsection \<open>Connecting\<close>

definition check_ssh_socket :: "('k, 'c, 'n) launcher_env \<Rightarrow> string \<Rightarrow> int option \<Rightarrow> bool res" where
  "check_ssh_socket env hostname port =
     (case le_socket env hostname port of
        Inl e \<Rightarrow> Inl (Exc (HTTPException 400)
          (''Unable to establish connection with '' @ hostname @ '' on port '' @
             (case port of None \<Rightarrow> ''None'' | Some p \<Rightarrow> show_int p)) [] (Some e))
      | Inr _ \<Rightarrow> Inr True)"

definition sshClient ::
  "('k, 'c, 'n) launcher_env \<Rightarrow> string \<times> 'k \<times> string option \<times> 'c option \<Rightarrow> (launcher, 'n) io" where
  "sshClient env login =
     io_bind (ln_gets (cl_ssh \<circ> us_cluster \<circ> ln_settings)) (\<lambda>ssh.
       io_lift (bind_res
         (if truthy (ssh_proxy_host ssh)
          then map_res Some (le_connect env (opt_str (ssh_proxy_host ssh)) (ssh_proxy_port ssh) login None)
          else Inr None) (\<lambda>proxy.
         le_connect env (ssh_host ssh) (Some (ssh_port ssh)) login proxy)))"

definition run_command ::
  "('k, 'c, 'n) launcher_env \<Rightarrow> 'n \<Rightarrow> string \<Rightarrow> (string \<Rightarrow> string \<Rightarrow> int \<Rightarrow> 'r res) \<Rightarrow> 'r res" where
  "run_command env conn command parse_output =
     bind_res (le_run env conn command) (\<lambda>(stdout, stderr, exit_status). parse_output stdout stderr exit_status)"

text \<open>The user's key and, when there is one, the certificate.\<close>

definition import_keys ::
  "('k, 'c, 'n) launcher_env \<Rightarrow> string option \<Rightarrow> string option \<Rightarrow> string option \<Rightarrow> ('k \<times> 'c option) res" where
  "import_keys env private_key public_cert passphrase =
     bind_res (le_private_key env private_key passphrase) (\<lambda>key.
     bind_res (if truthy public_cert then map_res Some (le_certificate env (opt_str public_cert)) else Inr None) (\<lambda>cert.
       Inr (key, cert)))"

subsection \<open>The requests\<close>

record SSHConnection =
  sc_hostname :: string
  sc_hostport :: int
  sc_proxyhost :: "string option"
  sc_proxyport :: "int option"

definition ssh_connection :: "('k, 'c, 'n) launcher_env \<Rightarrow> SSHConnection \<Rightarrow> (launcher, string) io" where
  "ssh_connection env req =
     as_400 (le_repr env)
       (io_bind (io_lift (if truthy (sc_proxyhost req)
                          then check_ssh_socket env (opt_str (sc_proxyhost req)) (sc_proxyport req)
                          else check_ssh_socket env (sc_hostname req) (Some (sc_hostport req)))) (\<lambda>_.
        io_bind (ln_modify (\<lambda>s. s\<lparr>ln_settings := (ln_settings s)\<lparr>us_cluster := (us_cluster (ln_settings s))
          \<lparr>cl_ssh := \<lparr>ssh_host = sc_hostname req, ssh_port = sc_hostport req, ssh_proxy_host = sc_proxyhost req,
             ssh_proxy_port = sc_proxyport req, ssh_max_clients = 100, ssh_timeout = default_ssh_timeouts\<rparr>\<rparr>\<rparr>\<rparr>)) (\<lambda>_.
        io_return ''SSH hosts saved successfully.'')))"

text \<open>An empty text of the form counts as missing.\<close>

record UserCredentials =
  uc_username :: "string option"
  uc_private_key :: "string option"
  uc_public_cert :: "string option"
  uc_passphrase :: "string option"

definition empty_as_none :: "string option \<Rightarrow> string option" where
  "empty_as_none v = (if truthy v then v else None)"

definition credentials_body :: "string \<Rightarrow> string \<Rightarrow> string option \<Rightarrow> string option \<Rightarrow> UserCredentials" where
  "credentials_body username private_key public_cert passphrase =
     \<lparr>uc_username = empty_as_none (Some username), uc_private_key = empty_as_none (Some private_key),
      uc_public_cert = empty_as_none public_cert, uc_passphrase = empty_as_none passphrase\<rparr>"

definition remove_suffix :: "string \<Rightarrow> string \<Rightarrow> string" where
  "remove_suffix text suffix =
     (if suffix \<noteq> [] \<and> starts_with (rev suffix) (rev text)
      then take (length text - length suffix) text else text)"

definition credentials_request ::
  "('k, 'c, 'n) launcher_env \<Rightarrow> UserCredentials \<Rightarrow> (launcher, string) io" where
  "credentials_request env req =
     (case uc_username req of
        None \<Rightarrow> io_raise (HTTPException 400) ''Provide a valid username''
      | Some username \<Rightarrow>
          io_bind (ln_modify (\<lambda>s. s\<lparr>ln_webui_client := ln_webui_client s @ username\<rparr>)) (\<lambda>_.
          as_400 (le_repr env)
            (io_bind (io_lift (import_keys env (uc_private_key req) (uc_public_cert req) (uc_passphrase req))) (\<lambda>(key, cert).
             io_bind (io_lift (case uc_private_key req of None \<Rightarrow> raise ValueError [] | Some k \<Rightarrow> Inr k)) (\<lambda>private_key.
             io_bind (ln_modify (\<lambda>s. s\<lparr>ln_settings := (ln_settings s)\<lparr>us_ssh_credentials :=
                [(username, \<lparr>key_private = private_key, key_public_cert = uc_public_cert req,
                   key_passphrase = uc_passphrase req\<rparr>)]\<rparr>\<rparr>)) (\<lambda>_.
             io_bind (sshClient env (username, key, uc_passphrase req, cert)) (\<lambda>client.
             io_bind (io_lift (run_command env client (pwd_get_command 5) (pwd_parse_output 5))) (\<lambda>home.
             (let user_home = remove_suffix home (''/'' @ username) in
              io_bind (ln_modify (\<lambda>s. s\<lparr>ln_settings := (ln_settings s)
                \<lparr>us_service_account := (username, []),
                 us_cluster := (us_cluster (ln_settings s))\<lparr>cl_file_systems := [file_system user_home FsUsers True]\<rparr>\<rparr>\<rparr>)) (\<lambda>_.
              io_return user_home))))))))))"

record BootScheduler =
  bs_cluster_name :: string
  bs_scheduler_type :: string

text \<open>The version the scheduler reports and whether it is supported; another scheduler has none.\<close>

definition scheduler_version ::
  "('k, 'c, 'n) launcher_env \<Rightarrow> 'n \<Rightarrow> string \<Rightarrow> (string option \<times> bool) res" where
  "scheduler_version env client scheduler_type =
     (if scheduler_type = ''pbs'' then
        bind_res (run_command env client (qstat_version_get_command 5) (qstat_version_parse_output 5)) (\<lambda>version.
          map_res (\<lambda>c. (Some version, 0 \<le> c)) (le_compare env version ''23.06.06''))
      else if scheduler_type = ''slurm'' then
        bind_res (run_command env client (sinfo_version_get_command 5) (sinfo_version_parse_output 5)) (\<lambda>version.
          map_res (\<lambda>c. (Some version, 0 < c)) (le_compare env version ''22.05''))
      else Inr (None, False))"

definition set_scheduler :: "(Scheduler \<Rightarrow> Scheduler) \<Rightarrow> (launcher, unit) io" where
  "set_scheduler f =
     io_bind (ln_gets (f \<circ> cl_scheduler \<circ> us_cluster \<circ> ln_settings)) (\<lambda>sched.
     io_bind (io_lift (check_scheduler_mode sched)) (\<lambda>sched.
       ln_modify (\<lambda>s. s\<lparr>ln_settings := (ln_settings s)\<lparr>us_cluster := (us_cluster (ln_settings s))\<lparr>cl_scheduler := sched\<rparr>\<rparr>\<rparr>)))"

definition scheduler_type_of :: "string \<Rightarrow> SchedulerType res" where
  "scheduler_type_of t =
     (if t = ''slurm'' then Inr SchedSlurm else if t = ''pbs'' then Inr SchedPbs else raise ValueError [])"

text \<open>The assignments to the cluster are validated, each on its own.\<close>

definition configure_cluster :: "BootScheduler \<Rightarrow> string option \<Rightarrow> (launcher, unit) io" where
  "configure_cluster req version =
     io_bind (ln_modify (\<lambda>s. s\<lparr>ln_settings := (ln_settings s)
       \<lparr>us_cluster := (us_cluster (ln_settings s))\<lparr>cl_name := to_lowercase (bs_cluster_name req)\<rparr>\<rparr>\<rparr>)) (\<lambda>_.
     io_bind (io_lift (scheduler_type_of (bs_scheduler_type req))) (\<lambda>ty.
     io_bind (set_scheduler (\<lambda>sc. sc\<lparr>sched_type := ty\<rparr>)) (\<lambda>_.
     io_bind (io_lift (case version of None \<Rightarrow> raise ValueError [] | Some v \<Rightarrow> Inr v)) (\<lambda>v.
       set_scheduler (\<lambda>sc. sc\<lparr>sched_version := v\<rparr>)))))"

definition supervise :: "('k, 'c, 'n) launcher_env \<Rightarrow> sup_call \<Rightarrow> (launcher, unit) io" where
  "supervise env call =
     io_bind (ln_gets (\<lambda>s. le_supervise env (ln_calls s) call)) (\<lambda>r.
     io_bind (io_lift r) (\<lambda>_. ln_modify (\<lambda>s. s\<lparr>ln_calls := ln_calls s @ [call]\<rparr>)))"

definition restart_process :: "('k, 'c, 'n) launcher_env \<Rightarrow> string \<Rightarrow> (launcher, unit) io" where
  "restart_process env p =
     io_bind (ln_gets (\<lambda>s. le_statename env (ln_calls s) p)) (\<lambda>r.
     io_bind (io_lift r) (\<lambda>statename.
     io_bind (if statename = ''RUNNING'' then supervise env (StopProcess p) else io_return ()) (\<lambda>_.
       supervise env (StartProcess p))))"

definition write_settings :: "('k, 'c, 'n) launcher_env \<Rightarrow> (launcher, unit) io" where
  "write_settings env =
     (case le_settings_file env of
        None \<Rightarrow> io_raise TypeError []
      | Some f \<Rightarrow> ln_modify (\<lambda>s. s\<lparr>ln_config_file := Some (ln_settings s)\<rparr>))"

record boot_answer =
  ba_access_token :: string
  ba_system_name :: string
  ba_scheduler_type :: string
  ba_version :: "string option"
  ba_is_compatible :: bool

text \<open>
  \<open>next(iter(keys))\<close> of no keys is a \<open>StopIteration\<close>, which leaves the coroutine as another error; both
  are answered 500.
\<close>

definition boot :: "('k, 'c, 'n) launcher_env \<Rightarrow> BootScheduler \<Rightarrow> (launcher, boot_answer) io" where
  "boot env req =
     io_bind (ln_gets (us_ssh_credentials \<circ> ln_settings)) (\<lambda>keys.
     case keys of
       [] \<Rightarrow> io_raise StopIteration []
     | (username, credentials) # _ \<Rightarrow>
         io_bind (as_400 (le_repr env)
           (io_bind (io_lift (import_keys env (Some (key_private credentials)) (key_public_cert credentials)
              (key_passphrase credentials))) (\<lambda>(key, cert).
            io_bind (sshClient env (username, key, key_passphrase credentials, cert)) (\<lambda>client.
              io_lift (scheduler_version env client (bs_scheduler_type req)))))) (\<lambda>(version, compatible).
         io_bind (configure_cluster req version) (\<lambda>_.
         io_bind (write_settings env) (\<lambda>_.
         io_bind (restart_process env ''firecrest'') (\<lambda>_.
         io_bind (restart_process env ''firecrest-ui'') (\<lambda>_.
         io_bind (ln_gets (cl_name \<circ> us_cluster \<circ> ln_settings)) (\<lambda>system_name.
           io_return \<lparr>ba_access_token = generate_token env (Some username), ba_system_name = system_name,
             ba_scheduler_type = bs_scheduler_type req, ba_version = version, ba_is_compatible = compatible\<rparr>)))))))"

subsection \<open>What the launcher keeps\<close>

datatype launcher_request =
    ConnectRequest SSHConnection
  | CredentialsRequest UserCredentials
  | BootRequest BootScheduler

text \<open>The launcher after one request, and after many, each with its own answers from outside.\<close>

definition after_request :: "('k, 'c, 'n) launcher_env \<times> launcher_request \<Rightarrow> launcher \<Rightarrow> launcher" where
  "after_request er s =
     (case er of
        (env, ConnectRequest req) \<Rightarrow> snd (ssh_connection env req s)
      | (env, CredentialsRequest req) \<Rightarrow> snd (credentials_request env req s)
      | (env, BootRequest req) \<Rightarrow> snd (boot env req s))"

definition after_requests :: "(('k, 'c, 'n) launcher_env \<times> launcher_request) list \<Rightarrow> launcher \<Rightarrow> launcher" where
  "after_requests ers s = fold after_request ers s"

text \<open>
  Settings the API can start with: one user's keys, a scheduler whose connection mode is admitted, a
  name in lower case, normalised mount paths.
\<close>

definition settings_ok :: "UnsafeSettings \<Rightarrow> bool" where
  "settings_ok u \<longleftrightarrow>
     length (us_ssh_credentials u) = 1 \<and>
     check_scheduler_mode (cl_scheduler (us_cluster u)) = Inr (cl_scheduler (us_cluster u)) \<and>
     to_lowercase (cl_name (us_cluster u)) = cl_name (us_cluster u) \<and>
     list_all (\<lambda>fs. \<exists>p. fs_path fs = normalize_path p) (cl_file_systems (us_cluster u))"

definition launcher_ok :: "launcher \<Rightarrow> bool" where
  "launcher_ok s \<longleftrightarrow> settings_ok (ln_settings s) \<and>
     (case ln_config_file s of None \<Rightarrow> True | Some u \<Rightarrow> settings_ok u)"

text \<open>An operation keeps a condition on the state whether it succeeds or fails.\<close>

definition keeps :: "('s \<Rightarrow> bool) \<Rightarrow> ('s, 'a) io \<Rightarrow> bool" where
  "keeps P m \<longleftrightarrow> (\<forall>s. P s \<longrightarrow> P (snd (m s)))"

lemma keepsD: "keeps P m \<Longrightarrow> P s \<Longrightarrow> P (snd (m s))"
  by (simp add: keeps_def)

named_theorems keeps_rules \<open>what keeps a condition on the state\<close>

lemma keeps_bind [keeps_rules]: "keeps P m \<Longrightarrow> (\<And>x. keeps P (f x)) \<Longrightarrow> keeps P (io_bind m f)"
  by (auto simp: keeps_def io_simps split: prod.split sum.split)

lemma keeps_prod [keeps_rules]: "(\<And>a b. keeps P (f a b)) \<Longrightarrow> keeps P (case_prod f x)"
  by (cases x) simp

lemma keeps_lift [keeps_rules]: "keeps P (io_lift r)"
  by (simp add: keeps_def io_simps)

lemma keeps_return [keeps_rules]: "keeps P (io_return x)"
  by (simp add: keeps_def io_simps)

lemma keeps_gets [keeps_rules]: "keeps P (ln_gets f)"
  by (simp add: keeps_def io_simps)

lemma keeps_as_400 [keeps_rules]: "keeps P m \<Longrightarrow> keeps P (as_400 repr m)"
  by (auto simp: keeps_def as_400_def io_simps split: prod.split sum.split)

lemma keeps_modify: "(\<And>s. P s \<Longrightarrow> P (f s)) \<Longrightarrow> keeps P (ln_modify f)"
  by (simp add: keeps_def io_simps)

lemma keeps_set_scheduler [keeps_rules]: "keeps launcher_ok (set_scheduler f)"
proof -
  have "launcher_ok (snd (set_scheduler f s))" if ok: "launcher_ok s" for s
  proof (cases "check_scheduler_mode (f (cl_scheduler (us_cluster (ln_settings s))))")
    case (Inr sc)
    then have "check_scheduler_mode sc = Inr sc" by (auto simp: check_scheduler_mode_def split: if_splits)
    then show ?thesis using ok Inr by (simp add: set_scheduler_def io_simps launcher_ok_def settings_ok_def)
  qed (use ok in \<open>simp add: set_scheduler_def io_simps\<close>)
  then show ?thesis by (simp add: keeps_def)
qed

lemma keeps_supervise [keeps_rules]: "keeps launcher_ok (supervise env call)"
  by (auto simp: keeps_def supervise_def io_simps launcher_ok_def split: sum.split)

lemma keeps_restart [keeps_rules]: "keeps launcher_ok (restart_process env p)"
  unfolding restart_process_def by (intro keeps_rules; simp add: keeps_rules)

lemma keeps_write [keeps_rules]: "keeps launcher_ok (write_settings env)"
  by (auto simp: keeps_def write_settings_def io_simps launcher_ok_def split: option.split)

lemma keeps_configure [keeps_rules]: "keeps launcher_ok (configure_cluster req version)"
  unfolding configure_cluster_def
  by (intro keeps_rules keeps_modify)
    (simp_all add: launcher_ok_def settings_ok_def to_lowercase_idem)

lemma keeps_sshClient [keeps_rules]: "keeps P (sshClient env login)"
  unfolding sshClient_def by (intro keeps_rules)

lemma keeps_ssh_connection: "keeps launcher_ok (ssh_connection env req)"
  unfolding ssh_connection_def
  by (intro keeps_rules keeps_modify) (simp add: launcher_ok_def settings_ok_def)

lemma keeps_credentials: "keeps launcher_ok (credentials_request env req)"
proof (cases "uc_username req")
  case None
  then show ?thesis by (simp add: credentials_request_def keeps_lift)
next
  case (Some u)
  then show ?thesis
    unfolding credentials_request_def Some option.case Let_def
    by (intro keeps_rules keeps_modify)
      (auto simp: launcher_ok_def settings_ok_def file_system_def)
qed

lemma keeps_case_list [keeps_rules]:
  "keeps P m \<Longrightarrow> (\<And>x xs. keeps P (f x xs)) \<Longrightarrow> keeps P (case l of [] \<Rightarrow> m | x # xs \<Rightarrow> f x xs)"
  by (cases l) simp_all

lemma keeps_boot: "keeps launcher_ok (boot env req)"
  unfolding boot_def by (intro keeps_rules)

text \<open>
  C36: whatever requests the launcher gets, in whatever order and however they end, its settings and
  the configuration file it writes for the API stay usable: the keys of exactly one user, a scheduler
  whose connection mode the API admits, a cluster name in lower case and normalised mount paths.
  A request that fails half-way keeps this too.
\<close>

theorem launcher_settings_stay_ok:
  fixes ers :: "(('k, 'c, 'n) launcher_env \<times> launcher_request) list"
  assumes "launcher_ok s"
  shows "launcher_ok (after_requests ers s)"
proof -
  have step: "launcher_ok (after_request er s)" if "launcher_ok s" for er :: "('k, 'c, 'n) launcher_env \<times> launcher_request" and s
    using that
    by (auto simp: after_request_def split: prod.split launcher_request.split
        intro: keepsD [OF keeps_ssh_connection] keepsD [OF keeps_credentials] keepsD [OF keeps_boot])
  show ?thesis unfolding after_requests_def using assms by (induction ers arbitrary: s) (simp_all add: step)
qed

definition demo_settings :: UnsafeSettings where
  "demo_settings =
     \<lparr>us_ssh_credentials = [(''tempuser'', \<lparr>key_private = ''tempuser'', key_public_cert = Some ''tempuser'',
        key_passphrase = None\<rparr>)],
      us_cluster = demo_cluster\<lparr>cl_name := ''cluster'',
        cl_file_systems := [file_system ''/users'' FsUsers True],
        cl_scheduler := \<lparr>sched_type = SchedSlurm, sched_connection_mode = Some ModeSsh, sched_version = ''24.11.0'',
          sched_api_url = None, sched_api_version = None, sched_timeout = 10\<rparr>\<rparr>,
      us_service_account = (''firecrest-health-check'', ''demo-secret'')\<rparr>"

definition demo_launcher :: launcher where
  "demo_launcher = \<lparr>ln_settings = demo_settings, ln_webui_client = [], ln_config_file = None, ln_calls = []\<rparr>"

text \<open>A host that answers every command with a Slurm version, and processes that do not run yet.\<close>

definition demo_answers :: "(unit, unit, unit) launcher_env" where
  "demo_answers =
     \<lparr>le_socket = (\<lambda>h p. Inr ()), le_private_key = (\<lambda>k p. Inr ()), le_certificate = (\<lambda>c. Inr ()),
      le_connect = (\<lambda>h p l t. Inr ()), le_run = (\<lambda>n c. Inr (''slurm 24.05.4'', [], 0)),
      le_compare = (\<lambda>v w. Inr 1), le_settings_file = Some ''/app/config/app-config.yaml'',
      le_statename = (\<lambda>cs p. Inr ''STOPPED''), le_supervise = (\<lambda>cs c. Inr ()), le_repr = exc_msg, le_now = 0,
      le_jwt_encode = (\<lambda>p. ''token''), le_jwt_decode = (\<lambda>t. Inr [])\<rparr>"

definition demo_boot :: BootScheduler where
  "demo_boot = \<lparr>bs_cluster_name = ''Daint'', bs_scheduler_type = ''slurm''\<rparr>"

lemma demo_launcher_ok: "launcher_ok demo_launcher"
  by (auto simp: launcher_ok_def demo_launcher_def demo_settings_def settings_ok_def check_scheduler_mode_def
      to_lowercase_def file_system_def lower_def lower_char_def)

lemma demo_boot_runs:
  "\<exists>a s. boot demo_answers demo_boot demo_launcher = (Inr a, s) \<and> ba_system_name a = ''daint'' \<and>
     ba_version a = Some ''24.05.4'' \<and> ba_is_compatible a \<and> ln_config_file s = Some (ln_settings s) \<and>
     cl_name (us_cluster (ln_settings s)) = ''daint'' \<and>
     ln_calls s = [StartProcess ''firecrest'', StartProcess ''firecrest-ui'']"
proof -
  have words: "split_ws ''slurm 24.05.4'' = [''slurm'', ''24.05.4'']" by code_simp
  have name: "to_lowercase ''Daint'' = ''daint''" by code_simp
  show ?thesis
    by (simp add: boot_def demo_answers_def demo_boot_def demo_launcher_def demo_settings_def io_simps as_400_def
        import_keys_def sshClient_def demo_cluster_def scheduler_version_def run_command_def
        sinfo_version_parse_output_def words name configure_cluster_def scheduler_type_of_def set_scheduler_def
        check_scheduler_mode_def write_settings_def restart_process_def supervise_def)
qed

lemma launcher_settings_stay_ok_witness:
  "\<exists>u. ln_config_file (after_requests [(demo_answers, BootRequest demo_boot)] demo_launcher) = Some u \<and>
     settings_ok u \<and> cl_name (us_cluster u) = ''daint''"
  using launcher_settings_stay_ok [OF demo_launcher_ok, of "[(demo_answers, BootRequest demo_boot)]"] demo_boot_runs
  by (auto simp: after_requests_def after_request_def launcher_ok_def)

subsection \<open>Booting\<close>

text \<open>
  When the launcher says that the API was started, the configuration file holds its settings, with the
  scheduler's type of the request and the version the host reported, both processes were started with
  it, and the token it answers is the one of the user whose keys are in the settings.
\<close>

lemma set_scheduler_Inr:
  assumes "set_scheduler f s = (Inr r, s')"
  shows "s' = s\<lparr>ln_settings := (ln_settings s)\<lparr>us_cluster := (us_cluster (ln_settings s))
    \<lparr>cl_scheduler := f (cl_scheduler (us_cluster (ln_settings s)))\<rparr>\<rparr>\<rparr>"
  using assms by (auto simp: set_scheduler_def io_simps check_scheduler_mode_def split: if_splits)

lemma supervise_Inr: "supervise env call s = (Inr r, s') \<Longrightarrow> s' = s\<lparr>ln_calls := ln_calls s @ [call]\<rparr>"
  by (auto simp: supervise_def io_simps split: sum.splits)

lemma restart_Inr:
  assumes "restart_process env p s = (Inr r, s')"
  shows "\<exists>cs. s' = s\<lparr>ln_calls := ln_calls s @ cs\<rparr> \<and> (cs = [StartProcess p] \<or> cs = [StopProcess p, StartProcess p])"
proof -
  obtain name where "le_statename env (ln_calls s) p = Inr name"
    using assms by (auto simp: restart_process_def io_simps split: sum.splits)
  then show ?thesis using assms
    by (auto simp: restart_process_def io_bind_Inr_iff ln_apply io_lift_apply io_return_apply dest!: supervise_Inr split: if_splits)
qed

lemma configure_Inr:
  assumes "configure_cluster req version s = (Inr r, s')"
  shows "\<exists>v. version = Some v \<and> ln_calls s' = ln_calls s \<and>
    us_ssh_credentials (ln_settings s') = us_ssh_credentials (ln_settings s) \<and>
    cl_name (us_cluster (ln_settings s')) = to_lowercase (bs_cluster_name req) \<and>
    sched_type_text (sched_type (cl_scheduler (us_cluster (ln_settings s')))) = bs_scheduler_type req \<and>
    sched_version (cl_scheduler (us_cluster (ln_settings s'))) = v"
  using assms
  by (auto simp: configure_cluster_def io_bind_Inr_iff ln_apply io_lift_apply scheduler_type_of_def
      sched_type_text_def dest!: set_scheduler_Inr split: if_splits option.splits)

theorem boot_starts_api:
  assumes "boot env req s = (Inr a, s')"
  shows "\<exists>user keys rest version ps. us_ssh_credentials (ln_settings s) = (user, keys) # rest \<and>
    ba_access_token a = generate_token env (Some user) \<and> ba_version a = Some version \<and>
    ln_config_file s' = Some (ln_settings s') \<and>
    us_ssh_credentials (ln_settings s') = us_ssh_credentials (ln_settings s) \<and>
    cl_name (us_cluster (ln_settings s')) = to_lowercase (bs_cluster_name req) \<and>
    sched_type_text (sched_type (cl_scheduler (us_cluster (ln_settings s')))) = bs_scheduler_type req \<and>
    sched_version (cl_scheduler (us_cluster (ln_settings s'))) = version \<and>
    ln_calls s' = ln_calls s @ ps \<and> {StartProcess ''firecrest'', StartProcess ''firecrest-ui''} \<subseteq> set ps"
proof -
  obtain user keys rest where keys: "us_ssh_credentials (ln_settings s) = (user, keys) # rest"
    using assms by (cases "us_ssh_credentials (ln_settings s)") (auto simp: boot_def io_simps)
  let ?probe = "as_400 (le_repr env)
      (io_bind (io_lift (import_keys env (Some (key_private keys)) (key_public_cert keys) (key_passphrase keys))) (\<lambda>(key, cert).
       io_bind (sshClient env (user, key, key_passphrase keys, cert)) (\<lambda>client.
         io_lift (scheduler_version env client (bs_scheduler_type req)))))"
  have "keeps (\<lambda>s1. s1 = s) ?probe" by (intro keeps_rules)
  from keepsD [OF this refl] have probe: "snd (?probe s) = s" .
  obtain version compatible s1 s2 s3 s4 where steps: "?probe s = (Inr (version, compatible), s1)"
    "configure_cluster req version s1 = (Inr (), s2)" "write_settings env s2 = (Inr (), s3)"
    "restart_process env ''firecrest'' s3 = (Inr (), s4)" "restart_process env ''firecrest-ui'' s4 = (Inr (), s')"
    and answer: "a = \<lparr>ba_access_token = generate_token env (Some user), ba_system_name = cl_name (us_cluster (ln_settings s')),
      ba_scheduler_type = bs_scheduler_type req, ba_version = version, ba_is_compatible = compatible\<rparr>"
    using assms by (auto simp: boot_def io_bind_Inr_iff ln_apply io_return_apply keys)
  have "s1 = s" using probe steps(1) by simp
  moreover obtain v where "version = Some v" using configure_Inr [OF steps(2)] by blast
  moreover have "s3 = s2\<lparr>ln_config_file := Some (ln_settings s2)\<rparr>"
    using steps(3) by (auto simp: write_settings_def ln_apply io_lift_apply split: option.splits)
  moreover obtain cs cs' where "s4 = s3\<lparr>ln_calls := ln_calls s3 @ cs\<rparr>" "s' = s4\<lparr>ln_calls := ln_calls s4 @ cs'\<rparr>"
    "StartProcess ''firecrest'' \<in> set cs" "StartProcess ''firecrest-ui'' \<in> set cs'"
    using restart_Inr [OF steps(4)] restart_Inr [OF steps(5)] by auto
  ultimately show ?thesis using configure_Inr [OF steps(2)] answer keys
    by (intro exI [of _ user] exI [of _ keys] exI [of _ rest] exI [of _ v] exI [of _ "cs @ cs'"]) simp
qed

lemma boot_starts_api_witness:
  "\<exists>a s ps. boot demo_answers demo_boot demo_launcher = (Inr a, s) \<and> ln_config_file s = Some (ln_settings s) \<and>
     sched_version (cl_scheduler (us_cluster (ln_settings s))) = ''24.05.4'' \<and>
     ln_calls s = ps \<and> StartProcess ''firecrest'' \<in> set ps"
proof -
  obtain a s where run: "boot demo_answers demo_boot demo_launcher = (Inr a, s)" "ba_version a = Some ''24.05.4''"
    using demo_boot_runs by blast
  then show ?thesis using boot_starts_api [OF run(1)] by (auto simp: demo_launcher_def)
qed

subsection \<open>Tokens\<close>

text \<open>
  A token is issued to whoever asks for it, whatever the secret, and names the user it was asked for.
  The answer announces that it lasts 31556952 seconds; it expires after 360 days, 31104000 seconds.
\<close>

theorem userinfo_names_token_user:
  assumes "le_jwt_decode env (generate_token env (Some (c # cs))) = Inr (token_payload (le_now env) (Some (c # cs)))"
  shows "\<exists>info. userinfo_endpoint env (ta_access_token (get_token env None grant (Some (c # cs)) secret)) = Inr info \<and>
    map_of info ''username'' = Some (JStr (c # cs)) \<and>
    map_of (token_payload (le_now env) (Some (c # cs))) ''exp'' = Some (JInt (le_now env + 31104000)) \<and>
    ta_expires_in (get_token env None grant (Some (c # cs)) secret) = 31556952"
  using assms by (simp add: userinfo_endpoint_def get_token_def token_payload_def opt_json_def Let_def)

text \<open>A provider that signs nothing: the token is the payload as it stands.\<close>

definition unsigned_answers :: "(unit, unit, unit) launcher_env" where
  "unsigned_answers = demo_answers\<lparr>le_jwt_encode := \<lambda>p. dumps (JObj p),
     le_jwt_decode := \<lambda>t. bind_res (json_loads t) (\<lambda>v. case v of JObj p \<Rightarrow> Inr p | _ \<Rightarrow> raise JWTError [])\<rparr>"

lemma userinfo_names_token_user_witness:
  "\<exists>info. userinfo_endpoint unsigned_answers
      (ta_access_token (get_token unsigned_answers None None (Some ''ana'') (Some ''wrong''))) = Inr info \<and>
     map_of info ''username'' = Some (JStr ''ana'')"
proof -
  have "json_loads (dumps (JObj (token_payload 0 (Some ''ana'')))) = Inr (JObj (token_payload 0 (Some ''ana'')))"
    by (rule json_roundtrip) (simp_all add: token_payload_def opt_json_def)
  then have "le_jwt_decode unsigned_answers (generate_token unsigned_answers (Some ''ana'')) =
      Inr (token_payload (le_now unsigned_answers) (Some ''ana''))"
    by (simp add: unsigned_answers_def generate_token_def demo_answers_def del: json_dumps.simps)
  from userinfo_names_token_user [OF this] show ?thesis by blast
qed

subsection \<open>A request that fails half-way\<close>

text \<open>
  Credentials of a user that cannot log in are refused, but they have replaced the former ones, and
  the user's name was already appended to the names of all users before.
\<close>

theorem refused_credentials_kept:
  assumes "uc_username req = Some u" and "uc_private_key req = Some k"
    and "import_keys env (Some k) (uc_public_cert req) (uc_passphrase req) = Inr kc"
    and "\<forall>h p l n. \<exists>e. le_connect env h p l n = Inl e"
  shows "\<exists>e. fst (credentials_request env req s) = Inl e \<and> error_status e = 400"
    and "map fst (us_ssh_credentials (ln_settings (snd (credentials_request env req s)))) = [u]"
    and "ln_webui_client (snd (credentials_request env req s)) = ln_webui_client s @ u"
proof -
  obtain key cert where kc: "kc = (key, cert)" by force
  obtain f where refused: "le_connect env h p l n = Inl (f h p l n)" for h p l n
    using assms(4) by metis
  show "\<exists>e. fst (credentials_request env req s) = Inl e \<and> error_status e = 400"
    and "map fst (us_ssh_credentials (ln_settings (snd (credentials_request env req s)))) = [u]"
    and "ln_webui_client (snd (credentials_request env req s)) = ln_webui_client s @ u"
    using assms(1-3)
    by (simp_all add: credentials_request_def as_400_def io_simps kc sshClient_def refused)
qed

subsection \<open>The published key\<close>

lemma from_bytes_to_bytes: "foldl (\<lambda>n c. n * 256 + of_char c) 0 (to_bytes n) = n"
proof (induction n rule: to_bytes.induct)
  case (1 n)
  then show ?case by (subst to_bytes.simps) (auto simp: div_mult_mod_eq)
qed

text \<open>What jose documents: URL-safe base 64 without the padding.\<close>

definition padded :: "string \<Rightarrow> string" where
  "padded t = t @ replicate ((4 - length t mod 4) mod 4) CHR ''=''"

definition unpadded_base64 :: "(string \<Rightarrow> string) \<Rightarrow> bool" where
  "unpadded_base64 b64url \<longleftrightarrow> (\<forall>s. padded (b64url s) = urlsafe_b64encode s)"

definition from_bytes :: "string \<Rightarrow> nat" where
  "from_bytes s = foldl (\<lambda>k c. k * 256 + of_char c) 0 s"

text \<open>A client that restores the padding reads exactly the numbers of the public key.\<close>

theorem jwk_holds_public_key:
  assumes "unpadded_base64 b64url"
  shows "map_res from_bytes (urlsafe_b64decode (padded (the (map_of (get_jwk b64url kid n e) ''n'')))) = Inr n \<and>
   map_res from_bytes (urlsafe_b64decode (padded (the (map_of (get_jwk b64url kid n e) ''e'')))) = Inr e"
  using assms by (simp add: get_jwk_def unpadded_base64_def from_bytes_def from_bytes_to_bytes)

lemma jwk_holds_public_key_witness:
  "map_res from_bytes (urlsafe_b64decode (padded (the (map_of
     (get_jwk (\<lambda>s. filter (\<lambda>c. c \<noteq> CHR ''='') (urlsafe_b64encode s)) ''42'' 3233 65537) ''e'')))) = Inr 65537"
proof -
  have plain: "urlsafe_char (b64_char v) \<noteq> CHR ''=''" if "v < 64" for v
  proof -
    have "list_all (\<lambda>c. urlsafe_char c \<noteq> CHR ''='') b64_alphabet" by code_simp
    moreover have "length b64_alphabet = 64" by (simp add: b64_alphabet_def)
    then have "b64_char v \<in> set b64_alphabet" using that by (simp add: b64_char_def)
    ultimately show ?thesis by (simp add: list_all_iff)
  qed
  have eq: "urlsafe_char CHR ''='' = CHR ''=''" by (simp add: urlsafe_char_def)
  have "padded (filter (\<lambda>c. c \<noteq> CHR ''='') (urlsafe_b64encode s)) = urlsafe_b64encode s" for s
    by (induction s rule: b64encode.induct)
      (simp_all add: padded_def urlsafe_b64encode_def plain b64_pieces eq numeral_2_eq_2)
  then have "unpadded_base64 (\<lambda>s. filter (\<lambda>c. c \<noteq> CHR ''='') (urlsafe_b64encode s))"
    by (simp add: unpadded_base64_def)
  from jwk_holds_public_key [OF this] show ?thesis by blast
qed

end
