(* ===== verification/ExampleClients.thy ===== *)
theory ExampleClients
  imports SlurmCommands
begin

section \<open>Clients that wait for a job\<close>

text \<open>
  Two of the examples of \<open>docs/use_cases\<close>: the script of a continuous integration
  (\<open>CI-pipeline/ci/ci_script.py\<close> and \<open>utilities.py\<close>) and the operators for Airflow
  (\<open>workflow-orchestrator/firecrest_airflow_operators.py\<close>).  Both submit a job and poll its state.

  The client library pyFirecREST is the record \<open>f7t_client\<close>; its \<open>FirecrestException\<close> whose last
  response had status \<open>s\<close> is written \<open>HTTPException s\<close>.  An \<open>AirflowException\<close> and a failed assertion
  are written \<open>BaseExc\<close>.  A loop that never ends has the value \<open>None\<close>; the pauses between two rounds,
  the arguments of the command line, what is printed and the temporary copy of the script are left out.
\<close>

record 'w f7t_client =
  fc_systems :: "('w, json list) io"
  fc_submit :: "string \<Rightarrow> string \<Rightarrow> string \<Rightarrow> ('w, json) io"
  fc_job_info :: "string \<Rightarrow> json \<Rightarrow> ('w, json list) io"
  fc_tail :: "string \<Rightarrow> string \<Rightarrow> nat \<Rightarrow> ('w, json) io"
  fc_download :: "string \<Rightarrow> string \<Rightarrow> string \<Rightarrow> bool option \<Rightarrow> ('w, unit) io"
  fc_upload :: "string \<Rightarrow> string \<Rightarrow> string \<Rightarrow> ('w, unit) io"

text \<open>\<open>job_info[0]["status"]["state"]\<close>.\<close>

definition info_state :: "json list \<Rightarrow> json res" where
  "info_state info =
     bind_res (nth_res info 0) (\<lambda>job. bind_res (jindex job ''status'') (\<lambda>st. jindex st ''state''))"

text \<open>
  A loop around calls that act on the world: \<open>body\<close> is one round, which says whether to go on or what
  to return.
\<close>

partial_function (option) poll :: "('w \<Rightarrow> 'a option \<times> 'w) \<Rightarrow> 'w \<Rightarrow> ('a \<times> 'w) option" where
  "poll body w =
     (case body w of
        (None, w') \<Rightarrow> poll body w'
      | (Some r, w') \<Rightarrow> Some (r, w'))"

subsection \<open>The script of the continuous integration\<close>

definition final_slurm_states :: "string list" where
  "final_slurm_states =
     [''BOOT_FAIL'', ''CANCELLED'', ''COMPLETED'', ''DEADLINE'', ''FAILED'', ''NODE_FAIL'', ''OUT_OF_MEMORY'',
      ''PREEMPTED'', ''TIMEOUT'']"

fun select_dict_by_name :: "json \<Rightarrow> string \<Rightarrow> json list \<Rightarrow> json option res" where
  "select_dict_by_name name key [] = Inr None"
| "select_dict_by_name name key (d # ds) =
     bind_res (jindex d key) (\<lambda>v. if v = name then Inr (Some d) else select_dict_by_name name key ds)"

definition check_mandatory_env_var :: "(string \<Rightarrow> string option) \<Rightarrow> string \<Rightarrow> string option" where
  "check_mandatory_env_var environ v = (if truthy (environ v) then environ v else None)"

definition create_batch_script ::
  "string option \<Rightarrow> nat \<Rightarrow> string option \<Rightarrow> string list \<Rightarrow> string \<Rightarrow> string option \<Rightarrow> string" where
  "create_batch_script repo num_nodes account custom_modules branch constraint =
     (let line = (\<lambda>t. t @ [newline]) in
      line ''#!/bin/bash -l'' @ line (''#SBATCH --job-name='' @ [CHR 0x22] @ ''ci_job'' @ [CHR 0x22]) @
      line ''#SBATCH --output=job.out'' @ line ''#SBATCH --error=job.err'' @ line ''#SBATCH --time=0:10:0'' @
      line (''#SBATCH --nodes='' @ show_nat num_nodes) @
      (if truthy constraint then line (''#SBATCH --constraint='' @ opt_str constraint) else []) @
      (if truthy account then line (''#SBATCH --account='' @ opt_str account) else []) @
      line [] @ line [] @ line ''# Clone command will fail if the directory already exists'' @
      line ''# Remove this first if you are using the same working directory'' @ line ''# every time'' @
      line ''# rm -rf firecrest-ci'' @ line (''git clone -b '' @ branch @ '' '' @ opt_str repo @ '' firecrest-ci'') @
      line ''cd firecrest-ci'' @
      (if custom_modules \<noteq> [] then line (''module load '' @ join '' '' custom_modules) else []) @
      line [] @ line ''python -m venv testing-venv'' @ line ''. ./testing-venv/bin/activate'' @
      line ''python -m pip install --upgrade pip'' @ line ''python -m pip install -r requirements.txt'' @
      line [] @ line ''python --version'' @ line [] @
      ''srun python -m timeit --setup='' @ [squote] @ ''import mylib; import numpy as np; '' @
      ''    p = np.arange(1000); q = np.arange(1000) + 2'' @ [squote] @ '' '' @
      line (''    '' @ [squote] @ ''mylib.simple_numpy_dist(p, q)'' @ [squote]))"

definition check_output :: "json \<Rightarrow> unit res" where
  "check_output file_content =
     bind_res (jin ''loops, best of'' file_content) (\<lambda>found. if found then Inr () else raise BaseExc [])"

text \<open>One round: a job that is not known yet and a state that is not final are asked for again.\<close>

definition ci_round :: "('w, json list) io \<Rightarrow> 'w \<Rightarrow> json list res option \<times> 'w" where
  "ci_round info w =
     (case info w of
        (Inl e, w') \<Rightarrow> (if exc_cls e = HTTPException 404 then None else Some (Inl e), w')
      | (Inr poll_result, w') \<Rightarrow>
          (case info_state poll_result of
             Inl e \<Rightarrow> (Some (Inl e), w')
           | Inr state \<Rightarrow>
               (if state \<in> set (map JStr final_slurm_states) then Some (Inr poll_result) else None, w')))"

definition os_path_join :: "string \<Rightarrow> string \<Rightarrow> string" where
  "os_path_join a b =
     (if starts_with ''/'' b then b
      else if a = [] \<or> List.last a = CHR ''/'' then a @ b else a @ ''/'' @ b)"

datatype ci_outcome = CiPassed | CiExit int

text \<open>What follows the polling: the two files of the job are read, its state and its output checked.\<close>

definition ci_report ::
  "'w f7t_client \<Rightarrow> string \<Rightarrow> string \<Rightarrow> json list \<Rightarrow> ('w, ci_outcome) io" where
  "ci_report client system_name dir poll_result =
     io_bind (fc_tail client system_name (os_path_join dir ''job.out'') 1000) (\<lambda>out.
     io_bind (io_lift (jindex out ''content'')) (\<lambda>stdout_content.
     io_bind (fc_tail client system_name (os_path_join dir ''job.err'') 1000) (\<lambda>err.
     io_bind (io_lift (jindex err ''content'')) (\<lambda>stderr_content.
     io_bind (io_lift (info_state poll_result)) (\<lambda>state.
       if state \<noteq> JStr ''COMPLETED'' then io_return (CiExit 1)
       else io_lift (map_res (\<lambda>_. CiPassed) (check_output stdout_content)))))))"

text \<open>What precedes it: the system and its scheduler must be there and healthy; then the job is submitted.\<close>

definition ci_submit ::
  "'w f7t_client \<Rightarrow> string \<Rightarrow> string \<Rightarrow> string \<Rightarrow> ('w, json option) io" where
  "ci_submit client system_name dir script =
     io_bind (fc_systems client) (\<lambda>all_systems.
     io_bind (io_lift (traverse (\<lambda>s. jindex s ''name'') all_systems)) (\<lambda>_.
     io_bind (io_lift (select_dict_by_name (JStr system_name) ''name'' all_systems)) (\<lambda>system_state.
     case system_state of
       None \<Rightarrow> io_return None
     | Some s \<Rightarrow>
         (if \<not> jtruthy s then io_return None else
          io_bind (io_lift (jindex s ''servicesHealth'')) (\<lambda>services.
          io_bind (io_lift (case services of
              JList hs \<Rightarrow> select_dict_by_name (JStr ''scheduler'') ''serviceType'' hs
            | _ \<Rightarrow> raise TypeError [])) (\<lambda>health.
          io_bind (io_lift (case health of None \<Rightarrow> raise TypeError [] | Some h \<Rightarrow> jindex h ''healthy'')) (\<lambda>healthy.
            if jtruthy healthy then
              io_bind (fc_submit client system_name dir script) (\<lambda>job.
                io_map Some (io_lift (jindex job ''jobId'')))
            else io_return None)))))))"

definition ci_main ::
  "'w f7t_client \<Rightarrow> string \<Rightarrow> string \<Rightarrow> string option \<Rightarrow> string option \<Rightarrow> string \<Rightarrow> 'w
   \<Rightarrow> (ci_outcome res \<times> 'w) option" where
  "ci_main client system_name dir repo account ref w =
     (case ci_submit client system_name dir
             (create_batch_script repo 2 account [''cray'', ''cray-python''] ref None) w of
        (Inl e, w1) \<Rightarrow> Some (Inl e, w1)
      | (Inr None, w1) \<Rightarrow> Some (Inr (CiExit 1), w1)
      | (Inr (Some job_id), w1) \<Rightarrow>
          (case poll (ci_round (fc_job_info client system_name job_id)) w1 of
             None \<Rightarrow> None
           | Some (Inl e, w2) \<Rightarrow> Some (Inl e, w2)
           | Some (Inr poll_result, w2) \<Rightarrow> Some (ci_report client system_name dir poll_result w2)))"

subsection \<open>The operators for Airflow\<close>

text \<open>\<open>job_status not in ("PENDING", "RUNNING")\<close> ends the loop.\<close>

definition airflow_round :: "('w, json list) io \<Rightarrow> 'w \<Rightarrow> unit res option \<times> 'w" where
  "airflow_round info w =
     (case info w of
        (Inl e, w') \<Rightarrow> (Some (Inl e), w')
      | (Inr job_info, w') \<Rightarrow>
          (case info_state job_info of
             Inl e \<Rightarrow> (Some (Inl e), w')
           | Inr state \<Rightarrow> (if state \<in> {JStr ''PENDING'', JStr ''RUNNING''} then None else Some (Inr ()), w')))"

definition airflow_completed :: "('w, json list) io \<Rightarrow> json \<Rightarrow> ('w, json) io" where
  "airflow_completed info job =
     io_bind info (\<lambda>job_info. io_bind (io_lift (info_state job_info)) (\<lambda>state.
       if state \<noteq> JStr ''COMPLETED'' then io_raise BaseExc (''Job state: '' @ json_str state) else io_return job))"

definition airflow_submit ::
  "'w f7t_client \<Rightarrow> string \<Rightarrow> string \<Rightarrow> string \<Rightarrow> 'w \<Rightarrow> (json res \<times> 'w) option" where
  "airflow_submit client system_name script dir w =
     (case io_bind (fc_submit client system_name dir script)
             (\<lambda>job. io_map (Pair job) (io_lift (jindex job ''jobId''))) w of
        (Inl e, w1) \<Rightarrow> Some (Inl e, w1)
      | (Inr (job, job_id), w1) \<Rightarrow>
          (case poll (airflow_round (fc_job_info client system_name job_id)) w1 of
             None \<Rightarrow> None
           | Some (Inl e, w2) \<Rightarrow> Some (Inl e, w2)
           | Some (Inr _, w2) \<Rightarrow> Some (airflow_completed (fc_job_info client system_name job_id) job w2)))"

text \<open>The files are downloaded in order; the first failure ends the task.\<close>

definition airflow_fetch :: "string \<Rightarrow> ('w, unit) io \<Rightarrow> ('w, unit) io" where
  "airflow_fetch remote_file m =
     io_catch m (\<lambda>e. io_raise BaseExc (''File`'' @ remote_file @ ''` failed to download: '' @ exc_msg e))"

definition airflow_download ::
  "'w f7t_client \<Rightarrow> string \<Rightarrow> string list \<Rightarrow> string \<Rightarrow> ('w, unit) io" where
  "airflow_download client system_name remote_files local_path =
     io_map (\<lambda>_. ()) (io_traverse (\<lambda>f. airflow_fetch f (fc_download client system_name f local_path (Some True))) remote_files)"

text \<open>\<open>fmt\<close> is \<open>str.format(_jobid_=\<dots>)\<close>; \<open>job\<close> is what the task that submitted returned.\<close>

definition airflow_download_from_job ::
  "'w f7t_client \<Rightarrow> (string \<Rightarrow> json \<Rightarrow> string res) \<Rightarrow> string \<Rightarrow> string list \<Rightarrow> string \<Rightarrow> json \<Rightarrow> ('w, unit) io" where
  "airflow_download_from_job client fmt system_name remote_files local_path job =
     io_bind (io_lift (jindex job ''jobId'')) (\<lambda>job_id.
     io_bind (fc_job_info client system_name job_id) (\<lambda>job_info.
     io_bind (io_lift (bind_res (nth_res job_info 0) (\<lambda>j. jindex j ''workingDirectory''))) (\<lambda>workdir.
       io_map (\<lambda>_. ()) (io_traverse (\<lambda>f. airflow_fetch f
         (io_bind (io_lift (bind_res (fmt f job_id) (\<lambda>name. case workdir of
              JStr dir \<Rightarrow> Inr (os_path_join dir name) | _ \<Rightarrow> raise TypeError []))) (\<lambda>source.
          io_bind (io_lift (fmt local_path job_id)) (\<lambda>target.
            fc_download client system_name source target None)))) remote_files))))"

definition airflow_upload :: "'w f7t_client \<Rightarrow> string \<Rightarrow> string \<Rightarrow> string \<Rightarrow> ('w, unit) io" where
  "airflow_upload client system_name source_path target_path = fc_upload client system_name source_path target_path"

subsection \<open>When polling ends\<close>

definition world_after :: "('w \<Rightarrow> 'a option \<times> 'w) \<Rightarrow> nat \<Rightarrow> 'w \<Rightarrow> 'w" where
  "world_after body k w = ((snd \<circ> body) ^^ k) w"

lemma world_after_simps [simp]:
  "world_after body 0 w = w" "world_after body (Suc k) w = world_after body k (snd (body w))"
  by (simp_all add: world_after_def funpow_swap1)

lemma poll_reaches:
  "fst (body (world_after body k w)) = Some r \<Longrightarrow> poll body w \<noteq> None"
proof (induction k arbitrary: w)
  case 0
  then show ?case by (subst poll.simps) (auto split: prod.split)
next
  case (Suc k)
  then show ?case by (subst poll.simps) (auto split: prod.splits option.splits)
qed

lemma poll_returned:
  assumes "poll body w = Some res"
  shows "\<exists>k. body (world_after body k w) = (Some (fst res), snd res)"
  using assms
proof (rule poll.raw_induct [rotated])
  fix again :: "('w \<Rightarrow> 'a option \<times> 'w) \<Rightarrow> 'w \<Rightarrow> ('a \<times> 'w) option" and body w res
  assume IH: "\<And>body w res. again body w = Some res \<Longrightarrow> \<exists>k. body (world_after body k w) = (Some (fst res), snd res)"
    and returned: "(case body w of (None, w') \<Rightarrow> again body w' | (Some r, w') \<Rightarrow> Some (r, w')) = Some res"
  obtain x w' where x: "body w = (x, w')" by force
  show "\<exists>k. body (world_after body k w) = (Some (fst res), snd res)"
  proof (cases x)
    case None
    then have "again body w' = Some res" using returned x by simp
    then obtain k where "body (world_after body k w') = (Some (fst res), snd res)" using IH by blast
    then show ?thesis using x by (intro exI [of _ "Suc k"]) simp
  next
    case (Some r)
    then show ?thesis using returned x by (intro exI [of _ 0]) auto
  qed
qed

text \<open>The loop ends exactly when some round decides, and it returns what such a round decided.\<close>

lemma poll_ends_iff: "poll body w \<noteq> None \<longleftrightarrow> (\<exists>k. fst (body (world_after body k w)) \<noteq> None)"
  using poll_reaches [of body _ w] poll_returned [of body w] by (metis fst_conv not_None_eq option.distinct(1))

text \<open>An answer after which the script no longer waits: a final state, a reply without one or an error but 404.\<close>

definition decisive :: "json list res \<Rightarrow> bool" where
  "decisive answer \<longleftrightarrow>
     (case answer of
        Inl e \<Rightarrow> exc_cls e \<noteq> HTTPException 404
      | Inr info \<Rightarrow> (case info_state info of Inl e \<Rightarrow> True | Inr st \<Rightarrow> st \<in> set (map JStr final_slurm_states)))"

lemma ci_round_decides: "fst (ci_round info w) \<noteq> None \<longleftrightarrow> decisive (fst (info w))"
  by (simp add: ci_round_def decisive_def split: prod.split sum.split)

lemma ci_round_returns:
  "ci_round info w = (Some (Inr js), w') \<Longrightarrow> \<exists>st \<in> set final_slurm_states. info_state js = Inr (JStr st)"
  by (auto simp: ci_round_def split: prod.splits sum.splits if_splits)

text \<open>
  C37: the continuous integration waits for its job exactly as long as nothing decisive is answered: the
  polling returns when some answer has one of the nine final states, has no state or is an error
  other than 404, and goes on forever otherwise.  The script passes only with a job it submitted to a
  system it found, whose state the polling read last was COMPLETED.
\<close>

theorem ci_waits_for_final_state:
  "(poll (ci_round info) w \<noteq> None \<longleftrightarrow> (\<exists>k. decisive (fst (info (world_after (ci_round info) k w))))) \<and>
   (case ci_main client system_name dir repo account ref w of
      Some (Inr CiPassed, w') \<Rightarrow>
        (\<exists>script job_id w1 js w2. ci_submit client system_name dir script w = (Inr (Some job_id), w1) \<and>
           poll (ci_round (fc_job_info client system_name job_id)) w1 = Some (Inr js, w2) \<and>
           info_state js = Inr (JStr ''COMPLETED''))
    | _ \<Rightarrow> True)"
proof
  show "poll (ci_round info) w \<noteq> None \<longleftrightarrow> (\<exists>k. decisive (fst (info (world_after (ci_round info) k w))))"
    unfolding poll_ends_iff ci_round_decides ..
  have report: "info_state js = Inr (JStr ''COMPLETED'')"
    if "ci_report client system_name dir js w2 = (Inr CiPassed, w3)" for js w2 w3
    using that by (auto simp: ci_report_def io_bind_Inr_iff io_lift_apply io_return_apply split: if_splits)
  show "case ci_main client system_name dir repo account ref w of
      Some (Inr CiPassed, w') \<Rightarrow>
        (\<exists>script job_id w1 js w2. ci_submit client system_name dir script w = (Inr (Some job_id), w1) \<and>
           poll (ci_round (fc_job_info client system_name job_id)) w1 = Some (Inr js, w2) \<and>
           info_state js = Inr (JStr ''COMPLETED''))
    | _ \<Rightarrow> True"
    using report
    by (fastforce simp: ci_main_def split: option.splits prod.splits sum.splits ci_outcome.splits)
qed

text \<open>
  The command line lists a job cancelled by a user as \<open>CANCELLED by\<close> and the user's number, which is
  no final state of the script: it polls such a job forever.
\<close>

theorem cancelled_job_polled_forever:
  assumes "\<forall>w. \<exists>js. fst (info w) = Inr js \<and> info_state js = Inr (JStr (''CANCELLED by '' @ uid))"
  shows "poll (ci_round info) w = None"
proof -
  have "\<not> decisive (fst (info w))" for w
  proof -
    obtain js where "fst (info w) = Inr js" "info_state js = Inr (JStr (''CANCELLED by '' @ uid))"
      using assms by blast
    then show ?thesis by (simp add: decisive_def final_slurm_states_def)
  qed
  then show ?thesis using poll_ends_iff [of "ci_round info" w, unfolded ci_round_decides] by blast
qed

definition demo_info :: "string \<Rightarrow> json list" where
  "demo_info st = [JObj [(''jobId'', JStr ''7''), (''status'', JObj [(''state'', JStr st)])]]"

lemma cancelled_job_polled_forever_witness:
  "poll (ci_round (io_return (demo_info ''CANCELLED by 1000''))) () = None"
  by (rule cancelled_job_polled_forever [where uid = "''1000''"])
    (simp add: io_simps demo_info_def info_state_def nth_res_def)

text \<open>
  The operator for Airflow waits only while a job is pending or running: a job that is completing, or
  being configured or suspended, is reported as failed.
\<close>

theorem airflow_fails_completing_job:
  assumes "st \<in> {''COMPLETING'', ''CONFIGURING'', ''SUSPENDED''}"
    and "fc_submit client system_name dir script w = (Inr (JObj [(''jobId'', i)]), w1)"
    and "\<forall>w. fc_job_info client system_name i w = (Inr (demo_info st), w)"
  shows "airflow_submit client system_name script dir w = Some (raise BaseExc (''Job state: '' @ st), w1)"
proof -
  have st: "info_state (demo_info st) = Inr (JStr st)" by (simp add: demo_info_def info_state_def nth_res_def)
  then have "airflow_round (fc_job_info client system_name i) w1 = (Some (Inr ()), w1)"
    using assms(1,3) by (auto simp: airflow_round_def)
  then have "poll (airflow_round (fc_job_info client system_name i)) w1 = Some (Inr (), w1)"
    by (subst poll.simps) simp
  then show ?thesis using assms st
    by (auto simp: airflow_submit_def io_simps airflow_completed_def)
qed

definition demo_client :: "string \<Rightarrow> unit f7t_client" where
  "demo_client st =
     \<lparr>fc_systems = io_return [], fc_submit = (\<lambda>s d t. io_return (JObj [(''jobId'', JStr ''7'')])),
      fc_job_info = (\<lambda>s i. io_return (demo_info st)), fc_tail = (\<lambda>s p n. io_return JNull),
      fc_download = (\<lambda>s r l b. io_return ()), fc_upload = (\<lambda>s r l. io_return ())\<rparr>"

lemma airflow_fails_completing_job_witness:
  "airflow_submit (demo_client ''COMPLETING'') ''daint'' ''#!/bin/bash'' ''/scratch'' () = Some (raise BaseExc ''Job state: COMPLETING'', ())"
  by (rule airflow_fails_completing_job [where st = "''COMPLETING''" and i = "JStr ''7''", simplified])
    (simp_all add: demo_client_def io_simps)

text \<open>A job the operator returns was completed when it was last asked for.\<close>

lemma airflow_returns_completed:
  "airflow_submit client system_name script dir w = Some (Inr job, w') \<Longrightarrow>
     \<exists>i w2 js. jindex job ''jobId'' = Inr i \<and> fc_job_info client system_name i w2 = (Inr js, w') \<and>
       info_state js = Inr (JStr ''COMPLETED'')"
  by (auto simp: airflow_submit_def airflow_completed_def io_bind_Inr_iff io_simps res_iff
      split: prod.splits sum.splits option.splits if_splits)

end
