(* ===== verification/StreamerJob.thy ===== *)
theory StreamerJob
  imports StreamerLink TransferRouter
begin

section \<open>From the API to the two ends of a stream\<close>

text \<open>
  The template \<open>lib/datatransfers/scripts/job_streamer.sh\<close>, the command line of the streamer
  (\<open>streamer/__main__.py\<close> and the commands of \<open>streamer_server.py\<close> and \<open>streamer_client.py\<close>), and
  how they fit together: the line the job runs is read back as the configuration of the server whose
  coordinates the API handed out.

  The commands are declared with click, which is an argument: \<open>parse\<close>, from the options of a command
  and the words to the options given, in order and with their values, and the words left.
\<close>

subsection \<open>The template of the job\<close>

definition python_check :: string where
  "python_check = script_lines
     [''latest_python=$(compgen -c python | grep -E '' @ [squote] @ ''^python[0-9.]+$'' @ [squote] @
        '' | sort -V | tail -1)'',
      ''echo '' @ [dquote] @ ''Most recent Python version detected is: $latest_python'' @ [dquote], [], [],
      ''if $latest_python -c '' @ [squote] @ ''import sys; sys.exit(0 if sys.version_info < (3, 8) else 1)'' @
        [squote] @ ''; then'',
      ''    echo '' @ [dquote] @ ''Error: python version is too old. Minimum required version is 3.8.'' @ [dquote],
      ''    exit 1'', ''fi'', []]"

definition file_check :: "string \<Rightarrow> string \<Rightarrow> string \<Rightarrow> piece list" where
  "file_check test blank complaint =
     [Txt (blank @ newline # ''if [ '' @ test @ ''-f '' @ [dquote]), Var ''target_path'',
      Txt (dquote # script_lines
        ['' ]; then'', ''    echo '' @ [dquote] @ complaint @ [dquote], ''    exit 1'', ''fi''])]"

definition python_environment :: "piece list" where
  "python_environment =
     [Txt (script_lines
        [[], [], [],
         ''export env_folder='' @ [dquote] @ ''.venv-${SLURM_JOB_ID:-${PBS_JOBID:-unknown}}'' @ [dquote],
         ''cleanup() { '',
         ''    echo $(date -u) '' @ [dquote] @ ''Clean up temp env folder...'' @ [dquote] @ '';'',
         ''    rm -rf $env_folder;'', ''}'', ''trap cleanup EXIT'', [], [],
         ''$latest_python -m venv ${env_folder}'', ''source ${env_folder}/bin/activate''] @
       ''pip install firecrest-streamer ''),
      IfNotNone ''pypi_index_url'' [Txt '' --index-url '', Var ''pypi_index_url'', Txt ''  ''],
      Txt (script_lines [[], [], []] @ ''echo $(date -u) '' @ [dquote] @ ''Starting firecrest streamer in ''),
      Var ''operation'', Txt ('' mode...'' @ [dquote])]"

definition streamer_command :: "piece list" where
  "streamer_command =
     [Txt ''streamer server --secret '', Var ''secret'', Txt '' --host '', Var ''host'', Txt '' '',
      ForEach ''ip'' ''public_ips'' [Txt '' --public-ips '', Var ''ip'', Txt '' ''],
      Txt '' --port-range '', Var ''port_range'', Txt '' --wait-timeout '', Var ''wait_timeout'',
      Txt '' --inbound-transfer-limit '', Var ''inbound_transfer_limit'', Txt '' '', Var ''operation'',
      Txt '' --path '', Var ''target_path'']"

definition streamer_template :: "piece list" where
  "streamer_template =
     [Txt (script_header @ [newline, newline]), Var ''sbatch_directives'',
      Txt ([newline, newline, newline] @ script_title ''Ingress/Outgress File Transfer'' @
        [newline, newline] @ python_check),
      IfEq ''operation'' ''send'' (file_check ''! '' ''  '' ''Error: source file does not exist.'')
        [IfEq ''operation'' ''receive'' (file_check [] [] ''Error: destination file already exist.'') []]] @
     python_environment @ [Txt [newline, newline]] @ streamer_command"

subsection \<open>The options of click\<close>

text \<open>An option and the number of its values; an option on the command line and its values.\<close>

type_synonym click_option = "string \<times> nat"

type_synonym given = "string \<times> string list"

type_synonym click = "click_option list \<Rightarrow> string list \<Rightarrow> (given list \<times> string list) res"

definition given_words :: "given list \<Rightarrow> string list" where
  "given_words gs = concat (map (\<lambda>g. fst g # snd g) gs)"

definition declared :: "click_option list \<Rightarrow> given \<Rightarrow> bool" where
  "declared opts g \<longleftrightarrow> (fst g, length (snd g)) \<in> set opts"

text \<open>
  What click documents: a declared option takes the words that follow it as its values, as many as it
  has, and the options end with the first word that is none.
\<close>

definition click_parses :: "click \<Rightarrow> bool" where
  "click_parses parse \<longleftrightarrow>
     (\<forall>opts gs rest. distinct (map fst opts) \<and> list_all (\<lambda>opt. starts_with ''-'' (fst opt)) opts \<and>
        list_all (declared opts) gs \<and> (rest = [] \<or> \<not> starts_with ''-'' (hd rest)) \<longrightarrow>
        parse opts (given_words gs @ rest) = Inr (gs, rest))"

text \<open>Reading the options given: the last one counts, a required one must be there, an integer must read as one.\<close>

definition usage_error :: "string \<Rightarrow> 'a res" where
  "usage_error text = raise ClickException text"

definition all_given :: "given list \<Rightarrow> string \<Rightarrow> string list list" where
  "all_given gs flag = map snd (filter (\<lambda>g. fst g = flag) gs)"

definition last_given :: "given list \<Rightarrow> string \<Rightarrow> string list option" where
  "last_given gs flag = (case all_given gs flag of [] \<Rightarrow> None | vs \<Rightarrow> Some (List.last vs))"

definition required :: "given list \<Rightarrow> string \<Rightarrow> string res" where
  "required gs flag =
     (case last_given gs flag of Some [v] \<Rightarrow> Inr v
      | _ \<Rightarrow> usage_error (''Missing option '' @ [squote] @ flag @ [squote] @ ''.''))"

definition click_int :: "string \<Rightarrow> int res" where
  "click_int s =
     (case py_int s of Inr i \<Rightarrow> Inr i
      | Inl _ \<Rightarrow> usage_error ([squote] @ s @ [squote] @ '' is not a valid integer.''))"

definition int_option :: "given list \<Rightarrow> string \<Rightarrow> int \<Rightarrow> int res" where
  "int_option gs flag otherwise =
     (case last_given gs flag of Some [v] \<Rightarrow> click_int v | _ \<Rightarrow> Inr otherwise)"

definition int_pair_option :: "given list \<Rightarrow> string \<Rightarrow> int \<times> int \<Rightarrow> (int \<times> int) res" where
  "int_pair_option gs flag otherwise =
     (case last_given gs flag of
        Some [a, b] \<Rightarrow> bind_res (click_int a) (\<lambda>i. bind_res (click_int b) (\<lambda>j. Inr (i, j)))
      | _ \<Rightarrow> Inr otherwise)"

definition text_option :: "given list \<Rightarrow> string \<Rightarrow> string \<Rightarrow> string" where
  "text_option gs flag otherwise = (case last_given gs flag of Some [v] \<Rightarrow> v | _ \<Rightarrow> otherwise)"

subsection \<open>The server's commands\<close>

definition server_options :: "click_option list" where
  "server_options = [(''--secret'', 1), (''--public-ips'', 1), (''--host'', 1), (''--port-range'', 2),
     (''--wait-timeout'', 1), (''--inbound-transfer-limit'', 1)]"

text \<open>
  The group \<open>server\<close>.  The configuration it leaves in the context has no operation and no target yet;
  its commands \<open>replace\<close> these two, so it is a function of them.
\<close>

definition server_group :: "given list \<Rightarrow> (Operation \<Rightarrow> string \<Rightarrow> StreamConfig) res" where
  "server_group gs =
     bind_res (required gs ''--secret'') (\<lambda>secret.
     bind_res (int_pair_option gs ''--port-range'' (5665, 5670)) (\<lambda>port_range.
     bind_res (int_option gs ''--wait-timeout'' (60 * 60 * 24)) (\<lambda>wait_timeout.
     bind_res (int_option gs ''--inbound-transfer-limit'' (5 * 1024 * 1024 * 1024)) (\<lambda>limit.
       Inr (\<lambda>operation target.
         \<lparr>sc_operation = operation, sc_target = target, sc_secret = secret, sc_port_range = port_range,
          sc_ips = (case all_given gs ''--public-ips'' of [] \<Rightarrow> [''localhost''] | vs \<Rightarrow> concat vs),
          sc_host = text_option gs ''--host'' ''localhost'', sc_wait_timeout = wait_timeout,
          sc_inbound_transfer_limit = limit\<rparr>)))))"

definition no_more :: "string list \<Rightarrow> unit res" where
  "no_more rest =
     (if rest = [] then Inr ()
      else usage_error (''Got unexpected extra argument ('' @ join '' '' rest @ '')''))"

definition server_operation :: "string \<Rightarrow> Operation option" where
  "server_operation name =
     (if name = ''send'' then Some OpSend else if name = ''receive'' then Some OpReceive else None)"

text \<open>\<open>send\<close> and \<open>receive\<close>, and the group that dispatches to them.\<close>

definition server_subcommand ::
  "click \<Rightarrow> (Operation \<Rightarrow> string \<Rightarrow> StreamConfig) \<Rightarrow> Operation \<Rightarrow> string list \<Rightarrow> StreamConfig res" where
  "server_subcommand parse obj operation words =
     bind_res (parse [(''--path'', 1)] words) (\<lambda>(gs, rest).
     bind_res (required gs ''--path'') (\<lambda>path.
     bind_res (no_more rest) (\<lambda>_. Inr (obj operation path))))"

definition no_command :: "string \<Rightarrow> 'a res" where
  "no_command name = usage_error (''No such command '' @ [squote] @ name @ [squote] @ ''.'')"

definition server_cli :: "click \<Rightarrow> string list \<Rightarrow> StreamConfig res" where
  "server_cli parse words =
     bind_res (parse server_options words) (\<lambda>(gs, rest).
     bind_res (server_group gs) (\<lambda>obj.
       case rest of
         [] \<Rightarrow> usage_error ''Missing command.''
       | name # args \<Rightarrow>
           (case server_operation name of
              None \<Rightarrow> no_command name
            | Some operation \<Rightarrow> server_subcommand parse obj operation args)))"

subsection \<open>The client's commands and the program\<close>

definition client_options :: "click_option list" where
  "client_options = [(''--path'', 1), (''--coordinates'', 1)]"

text \<open>\<open>send\<close> and \<open>receive\<close> read the coordinates and set the target; then they connect.\<close>

definition client_cli :: "click \<Rightarrow> string list \<Rightarrow> ClientConfig res" where
  "client_cli parse words =
     bind_res (parse client_options words) (\<lambda>(gs, rest).
     bind_res (required gs ''--path'') (\<lambda>path.
     bind_res (required gs ''--coordinates'') (\<lambda>coordinates.
     bind_res (no_more rest) (\<lambda>_.
       map_res (\<lambda>config. config\<lparr>cc_target := path\<rparr>) (set_coordinates coordinates)))))"

datatype cli_action =
    PrintVersion string
  | NoCommand
  | RunServer StreamConfig
  | RunSend ClientConfig
  | RunReceive ClientConfig

definition get_version :: "string res \<Rightarrow> string" where
  "get_version installed = (case installed of Inr v \<Rightarrow> v | Inl _ \<Rightarrow> ''dev'')"

text \<open>The group \<open>cli\<close> of \<open>__main__.py\<close>; with \<open>--version\<close> it exits before any command runs.\<close>

definition streamer_cli :: "click \<Rightarrow> string res \<Rightarrow> string list \<Rightarrow> cli_action res" where
  "streamer_cli parse installed words =
     bind_res (parse [(''--version'', 0)] words) (\<lambda>(gs, rest).
       if rest \<noteq> [] \<and> hd rest \<notin> {''send'', ''receive'', ''server''} then no_command (hd rest)
       else if gs \<noteq> [] then Inr (PrintVersion (''Firecrest streamer version: '' @ get_version installed))
       else case rest of
         [] \<Rightarrow> Inr NoCommand
       | name # args \<Rightarrow>
           if name = ''server'' then map_res RunServer (server_cli parse args)
           else if name = ''send'' then map_res RunSend (client_cli parse args)
           else map_res RunReceive (client_cli parse args))"

subsection \<open>The words of the job's command\<close>

text \<open>A text that a shell reads as one word as it is.\<close>

definition plain_word :: "string \<Rightarrow> bool" where
  "plain_word s \<longleftrightarrow> s \<noteq> [] \<and> list_all sh_safe s"

lemma plain_not_markup: "plain_word s \<Longrightarrow> set s \<inter> set markup_chars = {}"
  by (auto simp: plain_word_def list_all_iff markup_chars_def sh_eval)

lemma plain_unescaped: "escapes_markup esc \<Longrightarrow> plain_word s \<Longrightarrow> esc s = s"
  by (rule escapes_plain [OF _ plain_not_markup])

lemma show_int_plain: "plain_word (show_int i)"
  by (simp add: plain_word_def show_int_safe)

lemma plain_scan_space:
  "plain_word w \<Longrightarrow> sh_scan ShPlain [] False (w @ CHR '' '' # s) =
     map_option (\<lambda>ts. ShWord w # ts) (sh_scan ShPlain [] False s)"
  by (simp add: plain_word_def sh_scan_piece_space sh_piece_safe)

lemma plain_scan_end: "plain_word w \<Longrightarrow> sh_scan ShPlain [] False w = Some [ShWord w]"
  using sh_scan_piece_end [OF sh_piece_safe, of w "[]" False] by (simp add: plain_word_def)

definition streamer_words :: "'w StreamerDatatransfer \<Rightarrow> string \<Rightarrow> string \<Rightarrow> string \<Rightarrow> string \<Rightarrow> string list" where
  "streamer_words d secret host operation path =
     [''server'', ''--secret'', secret, ''--host'', host] @
     concat (map (\<lambda>ip. [''--public-ips'', ip]) (sd_public_ips d)) @
     [''--port-range'', show_int (fst (sd_port_range d)), show_int (snd (sd_port_range d)),
      ''--wait-timeout'', show_int (sd_wait_timeout d),
      ''--inbound-transfer-limit'', show_int (sd_inbound_transfer_limit d), operation, ''--path'', path]"

lemma public_ips_scan:
  assumes "list_all plain_word ips"
  shows "sh_scan ShPlain [] False (concat (map (\<lambda>ip. '' --public-ips '' @ ip @ '' '') ips) @ s) =
    map_option (\<lambda>ts. map ShWord (concat (map (\<lambda>ip. [''--public-ips'', ip]) ips)) @ ts) (sh_scan ShPlain [] False s)"
  using assms
proof (induction ips)
  case Nil
  then show ?case by (cases "sh_scan ShPlain [] False s") simp_all
next
  case (Cons ip ips)
  then show ?case
    by (simp add: sh_eval plain_scan_space option.map_comp comp_def)
qed

lemma streamer_command_text:
  assumes "escapes_markup esc" and "list_all plain_word (sd_public_ips d)"
    and "plain_word secret" "plain_word host" "plain_word operation" "esc path = path" and "host = opt_str (sd_host d)"
  shows "expand esc (streamer_params d directives operation (Some path) secret) streamer_command =
    ''streamer server --secret '' @ secret @ '' --host '' @ host @ '' '' @
    concat (map (\<lambda>ip. '' --public-ips '' @ ip @ '' '') (sd_public_ips d)) @ '' --port-range '' @
    show_int (fst (sd_port_range d)) @ '' '' @ show_int (snd (sd_port_range d)) @
    '' --wait-timeout '' @ show_int (sd_wait_timeout d) @
    '' --inbound-transfer-limit '' @ show_int (sd_inbound_transfer_limit d) @ '' '' @ operation @ '' --path '' @ path"
proof -
  have "esc ip = ip" if "ip \<in> set (sd_public_ips d)" for ip
    using assms(2) that plain_unescaped [OF assms(1)] by (simp add: list_all_iff)
  moreover have "tv_text (TInt i) = show_int i" for i by (simp add: tv_text_def)
  moreover have "esc (show_int i @ '' '' @ show_int j) = show_int i @ '' '' @ show_int j" for i j
    using plain_not_markup [OF show_int_plain, of i] plain_not_markup [OF show_int_plain, of j]
    by (intro escapes_plain [OF assms(1)]) (auto simp: markup_chars_def)
  ultimately show ?thesis
    using assms(3-) show_int_plain
    by (simp add: streamer_command_def streamer_params_def tv_items_def plain_unescaped [OF assms(1)] cong: map_cong)
qed

text \<open>The line is read as words up to the path, which the template does not quote.\<close>

lemma streamer_command_scan:
  assumes "escapes_markup esc" and "list_all plain_word (sd_public_ips d)"
    and "plain_word secret" "plain_word host" "plain_word operation" "esc path = path" and "host = opt_str (sd_host d)"
  shows "sh_tokens (expand esc (streamer_params d directives operation (Some path) secret) streamer_command) =
    map_option (\<lambda>ts. map ShWord (''streamer'' # butlast (streamer_words d secret host operation path)) @ ts)
      (sh_scan ShPlain [] False path)"
proof -
  have space: "sh_scan ShPlain [] False (CHR '' '' # s) = sh_scan ShPlain [] False s" for s
    by (cases "sh_scan ShPlain [] False s") (simp_all add: sh_eval)
  have words: "sh_scan ShPlain [] False (concat (map (\<lambda>w. w @ '' '') ws) @ s) =
      map_option (\<lambda>ts. map ShWord ws @ ts) (sh_scan ShPlain [] False s)" if "list_all plain_word ws" for ws s
    using that sh_piece_safe by (intro sh_scan_words_then) (auto simp: list_all2_same list_all_iff plain_word_def)
  show ?thesis
    unfolding sh_tokens_def streamer_command_text [OF assms]
    using words [of "[''streamer'', ''server'', ''--secret'', secret, ''--host'', host]"]
      words [of "[''--port-range'', show_int (fst (sd_port_range d)), show_int (snd (sd_port_range d)),
        ''--wait-timeout'', show_int (sd_wait_timeout d), ''--inbound-transfer-limit'',
        show_int (sd_inbound_transfer_limit d), operation, ''--path'']"]
      assms(3-5) show_int_plain
    by (simp add: public_ips_scan [OF assms(2), simplified] space plain_word_def sh_eval streamer_words_def
        butlast_append option.map_comp comp_def del: sh_scan.simps)
qed

lemma streamer_command_words:
  assumes "escapes_markup esc" and "list_all plain_word (sd_public_ips d)"
    and "plain_word secret" "plain_word host" "plain_word operation" "plain_word path" and "host = opt_str (sd_host d)"
  shows "sh_tokens (expand esc (streamer_params d directives operation (Some path) secret) streamer_command) =
    Some (map ShWord (''streamer'' # streamer_words d secret host operation path))"
  using streamer_command_scan [OF assms(1-5) plain_unescaped [OF assms(1,6)] assms(7)]
  by (simp add: plain_scan_end [OF assms(6)] streamer_words_def butlast_append)

text \<open>A path with a semicolon ends the streamer's command: what follows is a command of the job.\<close>

theorem streamer_path_injection:
  assumes "escapes_markup esc" and "list_all plain_word (sd_public_ips d)"
    and "plain_word secret" "plain_word host" "plain_word operation" and "host = opt_str (sd_host d)"
    and "plain_word path" "plain_word command"
  shows "sh_tokens (expand esc (streamer_params d directives operation (Some (path @ '';'' @ command)) secret)
      streamer_command) =
    Some (map ShWord (''streamer'' # streamer_words d secret host operation path) @ [ShOp '';'', ShWord command])"
proof -
  let ?path = "path @ '';'' @ command"
  have "esc ?path = ?path"
    using plain_not_markup [OF assms(7)] plain_not_markup [OF assms(8)]
    by (intro escapes_plain [OF assms(1)]) (auto simp: markup_chars_def)
  moreover have "sh_scan ShPlain [] False (path @ '';'' @ command) = Some [ShWord path, ShOp '';'', ShWord command]"
    using sh_pieceD [OF sh_piece_safe, of path "[]" False "'';'' @ command"] assms(7) plain_scan_end [OF assms(8)]
    by (simp add: plain_word_def sh_eval)
  ultimately show ?thesis
    using streamer_command_scan [OF assms(1-5), of ?path] assms(6)
    by (simp add: streamer_words_def butlast_append)
qed

subsection \<open>The command line read back\<close>

definition server_given :: "'w StreamerDatatransfer \<Rightarrow> string \<Rightarrow> string \<Rightarrow> given list" where
  "server_given d secret host =
     [(''--secret'', [secret]), (''--host'', [host])] @ map (\<lambda>ip. (''--public-ips'', [ip])) (sd_public_ips d) @
     [(''--port-range'', [show_int (fst (sd_port_range d)), show_int (snd (sd_port_range d))]),
      (''--wait-timeout'', [show_int (sd_wait_timeout d)]),
      (''--inbound-transfer-limit'', [show_int (sd_inbound_transfer_limit d)])]"

lemma server_given_words:
  "streamer_words d secret host operation path =
     ''server'' # given_words (server_given d secret host) @ [operation, ''--path'', path]"
  by (simp add: streamer_words_def given_words_def server_given_def comp_def)

lemma server_given_declared: "list_all (declared server_options) (server_given d secret host)"
  by (simp add: server_given_def declared_def server_options_def list_all_iff)

definition server_config ::
  "'w StreamerDatatransfer \<Rightarrow> string \<Rightarrow> string \<Rightarrow> Operation \<Rightarrow> string \<Rightarrow> StreamConfig" where
  "server_config d secret host operation path =
     \<lparr>sc_operation = operation, sc_target = path, sc_secret = secret, sc_port_range = sd_port_range d,
      sc_ips = sd_public_ips d, sc_host = host, sc_wait_timeout = sd_wait_timeout d,
      sc_inbound_transfer_limit = sd_inbound_transfer_limit d\<rparr>"

lemma all_given_append [simp]: "all_given (gs @ hs) flag = all_given gs flag @ all_given hs flag"
  by (simp add: all_given_def)

lemma all_given_Cons [simp]: "all_given (g # gs) flag = (if fst g = flag then [snd g] else []) @ all_given gs flag"
  by (simp add: all_given_def)

lemma all_given_Nil [simp]: "all_given [] flag = []"
  by (simp add: all_given_def)

lemma all_given_map [simp]:
  "all_given (map (\<lambda>v. (f, [v])) vs) flag = (if f = flag then map (\<lambda>v. [v]) vs else [])"
  by (induction vs) simp_all

lemma server_group_given:
  assumes "sd_public_ips d \<noteq> []"
  shows "server_group (server_given d secret host) = Inr (server_config d secret host)"
proof -
  have "(case map (\<lambda>v. [v]) (sd_public_ips d) of [] \<Rightarrow> [''localhost''] | v # vs \<Rightarrow> concat (v # vs)) = sd_public_ips d"
    using assms by (cases "sd_public_ips d") (simp_all add: concat_map_singleton)
  then show ?thesis
    by (simp add: server_group_def server_given_def required_def int_pair_option_def int_option_def text_option_def
        last_given_def click_int_def server_config_def fun_eq_iff)
qed

lemma click_parsesD:
  "click_parses parse \<Longrightarrow> list_all (declared opts) gs \<Longrightarrow>
     distinct (map fst opts) \<and> list_all (\<lambda>opt. starts_with ''-'' (fst opt)) opts \<Longrightarrow> rest = [] \<or> \<not> starts_with ''-'' (hd rest) \<Longrightarrow>
     parse opts (given_words gs @ rest) = Inr (gs, rest)"
  by (simp add: click_parses_def)

lemma operation_value_simps [simp]:
  "server_operation (operation_value op) = Some op" "\<not> starts_with ''-'' (operation_value op)"
  "plain_word (operation_value op)"
  by (cases op; simp add: operation_value_def server_operation_def plain_word_def sh_eval)+

lemma server_cli_words:
  assumes "click_parses parse" and "sd_public_ips d \<noteq> []"
  shows "streamer_cli parse installed (streamer_words d secret host (operation_value op) path) =
    Inr (RunServer (server_config d secret host op path))"
proof -
  let ?rest = "[operation_value op, ''--path'', path]"
  have "parse [(''--version'', 0)] (''server'' # given_words (server_given d secret host) @ ?rest) =
      Inr ([], ''server'' # given_words (server_given d secret host) @ ?rest)"
    using click_parsesD [OF assms(1), of "[(''--version'', 0)]" "[]" "''server'' # given_words (server_given d secret host) @ ?rest"]
    by (simp add: given_words_def)
  moreover have "parse server_options (given_words (server_given d secret host) @ ?rest) =
      Inr (server_given d secret host, ?rest)"
    by (rule click_parsesD [OF assms(1) server_given_declared]) (simp_all add: server_options_def)
  moreover have "parse [(''--path'', 1)] [''--path'', path] = Inr ([(''--path'', [path])], [])"
    using click_parsesD [OF assms(1), of "[(''--path'', 1)]" "[(''--path'', [path])]" "[]"]
    by (simp add: given_words_def declared_def)
  ultimately show ?thesis
    by (simp add: streamer_cli_def server_given_words server_cli_def server_group_given [OF assms(2)]
        server_subcommand_def required_def last_given_def no_more_def)
qed

lemma client_cli_words:
  assumes "click_parses parse"
  shows "client_cli parse [''--path'', path, ''--coordinates'', coordinates] =
    map_res (\<lambda>config. config\<lparr>cc_target := path\<rparr>) (set_coordinates coordinates)"
proof -
  have "parse client_options [''--path'', path, ''--coordinates'', coordinates] =
      Inr ([(''--path'', [path]), (''--coordinates'', [coordinates])], [])"
    using click_parsesD [OF assms(1), of client_options "[(''--path'', [path]), (''--coordinates'', [coordinates])]" "[]"]
    by (simp add: given_words_def declared_def client_options_def)
  then show ?thesis
    by (simp add: client_cli_def required_def last_given_def no_more_def)
qed

text \<open>\<open>secrets.token_urlsafe\<close> of the random bytes drawn: a token is one plain word without a space.\<close>

definition token_urlsafe :: "string \<Rightarrow> string" where
  "token_urlsafe bytes = rstrip_chars ''='' (urlsafe_b64encode bytes)"

lemma b64_char_member: "v < 64 \<Longrightarrow> b64_char v \<in> set b64_alphabet"
proof -
  assume "v < 64"
  moreover have "length b64_alphabet = 64" by (simp add: b64_alphabet_def)
  ultimately show ?thesis by (simp add: b64_char_def)
qed

lemma b64_char_safe: "v < 64 \<Longrightarrow> sh_safe (urlsafe_char (b64_char v)) \<and> urlsafe_char (b64_char v) \<noteq> CHR ''=''"
proof -
  assume "v < 64"
  moreover have "list_all (\<lambda>c. sh_safe (urlsafe_char c) \<and> urlsafe_char c \<noteq> CHR ''='') b64_alphabet"
    by (simp add: b64_alphabet_def urlsafe_char_def sh_eval)
  ultimately show ?thesis using b64_char_member by (simp add: list_all_iff)
qed

lemma b64encode_safe: "list_all (\<lambda>c. sh_safe (urlsafe_char c)) (b64encode s)"
  by (induction s rule: b64encode.induct)
     (simp_all add: b64_char_safe b64_pieces, simp_all add: urlsafe_char_def sh_eval)

lemma b64encode_start:
  assumes "s \<noteq> []"
  shows "\<exists>c t. b64encode s = c # t \<and> urlsafe_char c \<noteq> CHR ''=''"
  using assms b64_pieces by (cases s rule: b64encode.cases) (simp_all add: b64_char_safe)

lemma token_plain:
  assumes "bytes \<noteq> []"
  shows "plain_word (token_urlsafe bytes)" "CHR '' '' \<notin> set (token_urlsafe bytes)"
proof -
  obtain c t where "urlsafe_b64encode bytes = c # t" "c \<noteq> CHR ''=''"
    using b64encode_start [OF assms] by (auto simp: urlsafe_b64encode_def)
  then have "token_urlsafe bytes \<noteq> []"
    by (simp add: token_urlsafe_def rstrip_chars_def dropWhile_eq_Nil_conv)
  moreover have "set (token_urlsafe bytes) \<subseteq> set (urlsafe_b64encode bytes)"
    by (simp add: token_urlsafe_def rstrip_chars_subset)
  moreover have "list_all sh_safe (urlsafe_b64encode bytes)"
    using b64encode_safe [of bytes] by (simp add: urlsafe_b64encode_def list_all_iff)
  ultimately show "plain_word (token_urlsafe bytes)" by (auto simp: plain_word_def list_all_iff)
  then show "CHR '' '' \<notin> set (token_urlsafe bytes)" by (auto simp: plain_word_def list_all_iff sh_eval)
qed

lemma streamer_script_line:
  "\<exists>before. expand esc ps streamer_template = before @ newline # expand esc ps streamer_command"
  by (simp add: streamer_template_def)

text \<open>The client that meets a server: who sends when the server receives, and the other way round.\<close>

definition counterpart :: "Operation \<Rightarrow> string" where
  "counterpart op = (case op of OpSend \<Rightarrow> ''receive'' | OpReceive \<Rightarrow> ''send'')"

definition counterpart_action :: "Operation \<Rightarrow> ClientConfig \<Rightarrow> cli_action" where
  "counterpart_action op = (case op of OpSend \<Rightarrow> RunReceive | OpReceive \<Rightarrow> RunSend)"

lemma counterpart_cli:
  assumes "click_parses parse"
  shows "streamer_cli parse installed [counterpart op, ''--path'', p, ''--coordinates'', coordinates] =
    map_res (\<lambda>config. counterpart_action op (config\<lparr>cc_target := p\<rparr>)) (set_coordinates coordinates)"
proof -
  have "\<not> starts_with ''-'' (counterpart op)" by (cases op) (simp_all add: counterpart_def)
  then have "parse [(''--version'', 0)] [counterpart op, ''--path'', p, ''--coordinates'', coordinates] =
      Inr ([], [counterpart op, ''--path'', p, ''--coordinates'', coordinates])"
    using click_parsesD [OF assms, of "[(''--version'', 0)]" "[]"
        "[counterpart op, ''--path'', p, ''--coordinates'', coordinates]"]
    by (simp add: given_words_def)
  then show ?thesis
    by (cases op; cases "set_coordinates coordinates")
       (simp_all add: streamer_cli_def counterpart_def counterpart_action_def client_cli_words [OF assms])
qed

text \<open>
  The configuration passes its own default for the host, none, to the transfer, whose default is then
  not used: the template prints it as the text \<open>None\<close>, and the server tries to listen on an interface
  of that name.
\<close>

theorem unset_host_is_text:
  assumes "escapes_markup esc" and "click_parses parse" and "st_host c = None"
    and "d = streamer_init submit directives work_dir system_name c ssh"
    and "list_all plain_word (sd_public_ips d)" and "plain_word secret" and "plain_word path"
  shows "\<exists>ws server.
    sh_tokens (expand esc (streamer_params d ds (operation_value op) (Some path) secret) streamer_command) =
      Some (map ShWord (''streamer'' # ws)) \<and>
    streamer_cli parse installed ws = Inr (RunServer server) \<and> sc_host server = ''None''"
proof -
  have host: "''None'' = opt_str (sd_host d)" and ips: "sd_public_ips d \<noteq> []" and plain: "plain_word ''None''"
    by (simp_all add: assms(3,4) streamer_init_def opt_str_def plain_word_def sh_eval split: option.split list.split)
  show ?thesis
    using streamer_command_words [OF assms(1,5,6) plain operation_value_simps(3) assms(7) host]
      server_cli_words [OF assms(2) ips]
    by (intro exI conjI) (auto simp: server_config_def)
qed

subsection \<open>Properties\<close>


text \<open>A parser of options that does what click documents.\<close>

function demo_click :: click where
  "demo_click opts [] = Inr ([], [])"
| "demo_click opts (w # ws) =
     (if \<not> starts_with ''-'' w then Inr ([], w # ws)
      else (case map_of opts w of
          None \<Rightarrow> usage_error (''No such option: '' @ w)
        | Some n \<Rightarrow>
            if length ws < n then usage_error (''Option '' @ w @ '' requires an argument.'')
            else map_res (\<lambda>(gs, rest). ((w, take n ws) # gs, rest)) (demo_click opts (drop n ws))))"
  by pat_completeness auto
termination by (relation "measure (\<lambda>(opts, ws). length ws)") auto

lemma demo_click_rest: "rest = [] \<or> \<not> starts_with ''-'' (hd rest) \<Longrightarrow> demo_click opts rest = Inr ([], rest)"
  by (cases rest) auto

lemma demo_click_parses: "click_parses demo_click"
proof -
  have "demo_click opts (given_words gs @ rest) = Inr (gs, rest)"
    if "distinct (map fst opts)" "list_all (\<lambda>opt. starts_with ''-'' (fst opt)) opts"
      "list_all (declared opts) gs" "rest = [] \<or> \<not> starts_with ''-'' (hd rest)" for opts gs rest
    using that(3)
  proof (induction gs)
    case Nil
    then show ?case using demo_click_rest [OF that(4)] by (simp add: given_words_def)
  next
    case (Cons g gs)
    obtain f vs where g: "g = (f, vs)" by (cases g)
    with Cons.prems have mem: "(f, length vs) \<in> set opts" by (simp add: declared_def)
    then have "map_of opts f = Some (length vs)" "starts_with ''-'' f"
      using that(1,2) by (auto simp: list_all_iff)
    then show ?case using Cons by (simp add: g given_words_def)
  qed
  then show ?thesis unfolding click_parses_def by blast
qed


end
