(* ===== verification/WebClient.thy ===== *)
theory WebClient
  imports ExampleClients PosixPath
begin

section \<open>The example web client\<close>

text \<open>
  \<open>docs/use_cases/UI-client-credentials/src/client.py\<close>, a page that prepares the directory of a
  simulation, submits its steps as a chain of jobs and shows how they get on.  Its global variables, its
  session and what it sends over the socket are the record \<open>web\<close>; pyFirecREST, the templates and the
  files of the host are the record \<open>web_api\<close>.

  As in \<open>ExampleClients\<close>, a \<open>FirecrestException\<close> is written with the class \<open>HTTPException\<close>.  What is
  printed into a text, \<open>json_str\<close>, is a text, an integer or \<open>None\<close>.  A handler that raises is an error of the effect, for which Flask
  answers 500; the log, the page and the start of the server are left out.
\<close>

subsection \<open>Settings, state and surroundings\<close>

record web_settings =
  ws_debug :: bool
  ws_system :: string
  ws_reservation :: string
  ws_user_group :: string
  ws_problem_subdir :: string
  ws_problem_ini_file :: string
  ws_problem_msh_file :: string
  ws_sbatch_template :: string
  ws_post_template :: string
  ws_base_path :: string

text \<open>\<open>JOB_LIST\<close>, \<open>POST_JOB_ID\<close>, \<open>SYSTEM_BASE_DIR\<close>, the session, the events emitted, everything else.\<close>

record 'w web =
  job_list :: "(json \<times> int) list"
  post_job_id :: json
  system_base_dir :: json
  web_session :: "(string \<times> json) list"
  emitted :: "(string \<times> string) list"
  outside :: 'w

record 'w web_api =
  wa_systems :: "('w, json) io"
  wa_list_files :: "string \<Rightarrow> string \<Rightarrow> ('w, json) io"
  wa_userinfo :: "string \<Rightarrow> ('w, json) io"
  wa_submit :: "string \<Rightarrow> string \<Rightarrow> string \<Rightarrow> ('w, json) io"
  wa_mkdir :: "string \<Rightarrow> string \<Rightarrow> ('w, unit) io"
  wa_job_info :: "string \<Rightarrow> json \<Rightarrow> ('w, json) io"
  wa_upload :: "string \<Rightarrow> string \<Rightarrow> string \<Rightarrow> string \<Rightarrow> ('w, unit) io"
  wa_download :: "string \<Rightarrow> string \<Rightarrow> string \<Rightarrow> string \<Rightarrow> ('w, unit) io"
  wa_get_template :: "string \<Rightarrow> ('w, unit) io"
  wa_mkdtemp :: "('w, string) io"
  wa_write_script :: "string \<Rightarrow> string \<Rightarrow> kwargs \<Rightarrow> ('w, unit) io"
  wa_local_time :: "int \<Rightarrow> string"

text \<open>An effect on the surroundings, and one on the client's own state.\<close>

definition api :: "('w, 'a) io \<Rightarrow> ('w web, 'a) io" where
  "api m st = (case m (outside st) of (r, w) \<Rightarrow> (r, st\<lparr>outside := w\<rparr>))"

definition modify :: "('w web \<Rightarrow> 'w web) \<Rightarrow> ('w web, unit) io" where
  "modify f st = (Inr (), f st)"

definition emit :: "string \<Rightarrow> string \<Rightarrow> ('w web, unit) io" where
  "emit event text = modify (\<lambda>st. st\<lparr>emitted := emitted st @ [(event, text)]\<rparr>)"

text \<open>\<open>except f7t.FirecrestException as fe\<close>\<close>

definition is_firecrest :: "exc \<Rightarrow> bool" where
  "is_firecrest e = (case exc_cls e of HTTPException s \<Rightarrow> True | _ \<Rightarrow> False)"

definition except_firecrest :: "('w, 'a) io \<Rightarrow> (exc \<Rightarrow> ('w, 'a) io) \<Rightarrow> ('w, 'a) io" where
  "except_firecrest m h = io_catch m (\<lambda>e. if is_firecrest e then h e else io_lift (Inl e))"

subsection \<open>Around the API\<close>

definition find_system :: "string \<Rightarrow> json \<Rightarrow> json option res" where
  "find_system name systems = bind_res (jelems systems) (select_dict_by_name (JStr name) ''name'')"

definition is_system_avail_f7t :: "'w web_api \<Rightarrow> string \<Rightarrow> ('w, bool) io" where
  "is_system_avail_f7t a name =
     except_firecrest
       (io_bind (wa_systems a) (\<lambda>systems. io_map (\<lambda>s. s \<noteq> None) (io_lift (find_system name systems))))
       (\<lambda>e. io_return False)"

definition list_files_with_f7t :: "'w web_api \<Rightarrow> string \<Rightarrow> string \<Rightarrow> ('w, json) io" where
  "list_files_with_f7t a name target_path =
     except_firecrest (wa_list_files a name target_path) (\<lambda>e. io_return JNull)"

definition get_username_with_f7t :: "'w web_api \<Rightarrow> string \<Rightarrow> ('w, json) io" where
  "get_username_with_f7t a name =
     except_firecrest
       (io_bind (wa_userinfo a name) (\<lambda>userinfo.
          io_lift (bind_res (jindex userinfo ''user'') (\<lambda>user. jindex user ''name''))))
       (\<lambda>e. io_return JNull)"

fun default_work_dir :: "json list \<Rightarrow> json option res" where
  "default_work_dir [] = Inr None"
| "default_work_dir (f # fs) =
     bind_res (jindex f ''defaultWorkDir'') (\<lambda>v. if jtruthy v then Inr (Some f) else default_work_dir fs)"

definition get_base_fs_with_f7t :: "'w web_api \<Rightarrow> string \<Rightarrow> ('w, json) io" where
  "get_base_fs_with_f7t a name =
     except_firecrest
       (io_bind (wa_systems a) (\<lambda>systems.
        io_bind (io_lift (find_system name systems)) (\<lambda>found.
        case found of
          None \<Rightarrow> io_return JNull
        | Some system \<Rightarrow>
            io_lift (bind_res (jindex system ''fileSystems'') (\<lambda>v.
                     bind_res (jelems v) (\<lambda>fs.
                     bind_res (default_work_dir fs) (\<lambda>filesystem.
                       case filesystem of None \<Rightarrow> Inr JNull | Some f \<Rightarrow> jindex f ''path'')))))))
       (\<lambda>e. io_return JNull)"

text \<open>The job, or the text of the error.\<close>

definition submit_job_with_f7t :: "'w web_api \<Rightarrow> string \<Rightarrow> string \<Rightarrow> string \<Rightarrow> ('w, string + json) io" where
  "submit_job_with_f7t a name working_dir job_script =
     except_firecrest (io_map Inr (wa_submit a name working_dir job_script))
       (\<lambda>e. io_return (Inl (''Error submitting job: '' @ exc_msg e @ '' '')))"

definition mkdir_with_f7t :: "'w web_api \<Rightarrow> string \<Rightarrow> string \<Rightarrow> ('w, bool) io" where
  "mkdir_with_f7t a name target_path =
     except_firecrest (io_map (\<lambda>_. True) (wa_mkdir a name target_path)) (\<lambda>e. io_return False)"

text \<open>\<open>int(v)\<close> of the start time.\<close>

definition start_seconds :: "json \<Rightarrow> int res" where
  "start_seconds v = (case v of
       JNull \<Rightarrow> Inr 0 | JInt i \<Rightarrow> Inr i | JFloat r \<Rightarrow> Inr (if r < 0 then - \<lfloor>- r\<rfloor> else \<lfloor>r\<rfloor>)
     | JBool b \<Rightarrow> Inr (if b then 1 else 0) | JStr s \<Rightarrow> py_int s | _ \<Rightarrow> raise TypeError [])"

text \<open>A state that begins with \<open>CANCELLED\<close> is shown as that alone; a list is sliced as well.\<close>

definition shown_state :: "json \<Rightarrow> json res" where
  "shown_state v = (case v of
       JStr s \<Rightarrow> Inr (if take 9 s = ''CANCELLED'' then JStr ''CANCELLED'' else v)
     | JList xs \<Rightarrow> Inr v
     | _ \<Rightarrow> raise TypeError [])"

definition job_row :: "(int \<Rightarrow> string) \<Rightarrow> json \<Rightarrow> json res" where
  "job_row local_time info =
     bind_res (jindex info ''time'') (\<lambda>time.
     bind_res (jindex time ''start'') (\<lambda>start.
     bind_res (start_seconds start) (\<lambda>seconds.
     bind_res (bind_res (jindex info ''status'') (\<lambda>status. jindex status ''state'')) (\<lambda>state.
     bind_res (shown_state state) (\<lambda>job_state.
     bind_res (jindex info ''jobId'') (\<lambda>job_id.
     bind_res (jindex info ''name'') (\<lambda>name.
     bind_res (jindex info ''nodes'') (\<lambda>nodes.
     bind_res (jindex info ''partition'') (\<lambda>part.
     bind_res (jindex time ''elapsed'') (\<lambda>elapsed.
       Inr (JObj [(''jobId'', job_id), (''name'', name), (''nodes'', nodes), (''partition'', part),
         (''start'', JStr (local_time seconds)), (''state'', job_state), (''elapsed'', elapsed)])))))))))))"

text \<open>The rows, or none when FirecREST refused.\<close>

definition list_jobs_with_f7t :: "'w web_api \<Rightarrow> string \<Rightarrow> json list \<Rightarrow> ('w, json list option) io" where
  "list_jobs_with_f7t a name job_ids =
     except_firecrest
       (io_map Some (io_traverse (\<lambda>job_id.
          io_bind (wa_job_info a name job_id) (\<lambda>infos.
            io_lift (bind_res (jelems infos) (\<lambda>xs.
                     bind_res (nth_res xs 0) (job_row (wa_local_time a)))))) job_ids))
       (\<lambda>e. io_return None)"

subsection \<open>The script of a job\<close>

text \<open>
  \<open>write_sbatch\<close>: the path of the script, or the message of an error.  Under \<open>DEBUG\<close> the handler of an
  \<open>IOError\<close> reads its \<open>message\<close>, which Python 3 does not have.
\<close>

definition sbatch_failed :: string where
  "sbatch_failed = ''Couldn'' @ [squote] @ ''t create sbatch file''"

definition write_sbatch :: "'w web_api \<Rightarrow> bool \<Rightarrow> string \<Rightarrow> kwargs \<Rightarrow> ('w, string + string) io" where
  "write_sbatch a debug job_template values =
     io_bind (io_catch (io_map Inr (wa_get_template a job_template)) (\<lambda>e. io_return (Inl sbatch_failed)))
       (\<lambda>loaded. case loaded of
          Inl msg \<Rightarrow> io_return (Inl msg)
        | Inr _ \<Rightarrow>
            io_catch
              (io_bind (wa_mkdtemp a) (\<lambda>td.
                 let sbatch_file_path = td @ ''/sbatch-job.sh'' in
                 io_map (\<lambda>_. Inr sbatch_file_path) (wa_write_script a sbatch_file_path job_template values)))
              (\<lambda>e. if isinstance e OSError \<and> debug
                    then io_raise AttributeError ''object has no attribute message''
                    else io_return (Inl sbatch_failed)))"

subsection \<open>The background tasks\<close>

record web_task =
  wt_template :: string
  wt_job_name :: string
  wt_ntasks :: json
  wt_partition :: json
  wt_constraint :: json
  wt_reservation :: json
  wt_target_path :: string
  wt_ini_file :: json
  wt_msh_file :: json

text \<open>What the template of one step is given; the defaults are those of \<open>write_sbatch\<close>.\<close>

definition script_values :: "web_settings \<Rightarrow> web_task \<Rightarrow> string \<Rightarrow> json \<Rightarrow> int \<Rightarrow> json \<Rightarrow> kwargs" where
  "script_values cfg t name ntasks step last_job_id =
     [(''jobName'', JStr name), (''partition'', wt_partition t), (''account'', JStr (ws_user_group cfg)),
      (''constraint'', wt_constraint t), (''reservation'', wt_reservation t), (''lastJobId'', last_job_id),
      (''ntasks'', ntasks), (''step'', JInt step), (''jobDir'', JStr (wt_target_path t)),
      (''problem_ini_file'', wt_ini_file t), (''problem_msh_file'', wt_msh_file t)]"

type_synonym task_end = "string \<times> nat"

definition refuse :: "string \<Rightarrow> ('w web, task_end) io" where
  "refuse text = io_bind (emit ''error'' text) (\<lambda>_. io_return (text, 400))"

definition write_failed :: "string \<Rightarrow> string \<Rightarrow> string" where
  "write_failed name msg = ''Error writing sbatch file for '' @ name @ '' ('' @ msg"

definition submit_failed :: "string \<Rightarrow> string \<Rightarrow> string" where
  "submit_failed name msg = ''Error submitting job '' @ name @ '' ('' @ msg"

definition announce :: "string \<Rightarrow> json \<Rightarrow> ('w web, unit) io" where
  "announce name job_id =
     emit ''success'' (''Job '' @ name @ '' submitted correctly (jobid: '' @ json_str job_id @ '')'')"

definition enter_job :: "json \<Rightarrow> ('w web, unit) io" where
  "enter_job job_id = modify (\<lambda>st. st\<lparr>job_list := dict_set job_id 0 (job_list st)\<rparr>)"

text \<open>
  The script of a step, inside the \<open>try\<close> that catches everything.  Only the first step is given the
  number of tasks that was asked for; every other one is given the job it follows.
\<close>

definition step_script :: "'w web_api \<Rightarrow> web_settings \<Rightarrow> web_task \<Rightarrow> int \<Rightarrow> json \<Rightarrow> ('w web, string + string) io" where
  "step_script a cfg t step last_job_id =
     (let name = wt_job_name t @ ''_'' @ show_int step in
      io_catch
        (api (write_sbatch a (ws_debug cfg) (wt_template t)
           (if step = 1 then script_values cfg t name (wt_ntasks t) step JNull
            else script_values cfg t name (JInt 1) step last_job_id)))
        (\<lambda>e. io_return (Inl (exc_msg e))))"

text \<open>
  The submission of a step: the task's end when it failed, or the identifier of its job, which the job
  list then has.  The list is emptied by the first step.
\<close>

definition submit_step ::
  "'w web_api \<Rightarrow> web_settings \<Rightarrow> web_task \<Rightarrow> bool \<Rightarrow> int \<Rightarrow> string \<Rightarrow> ('w web, task_end + json) io" where
  "submit_step a cfg t is_post_process step job_script =
     (let name = wt_job_name t @ ''_'' @ show_int step in
      io_catch
        (io_bind (api (submit_job_with_f7t a (ws_system cfg) (wt_target_path t) job_script)) (\<lambda>job_submitted.
         case job_submitted of
           Inl msg \<Rightarrow> io_map Inl (refuse (submit_failed name msg))
         | Inr job \<Rightarrow>
             io_bind (io_lift (jindex job ''jobId'')) (\<lambda>job_id.
             io_bind (announce name job_id) (\<lambda>_.
             io_bind (modify (\<lambda>st.
               if step = 1 \<and> \<not> is_post_process then st\<lparr>job_list := []\<rparr>
               else if is_post_process then st\<lparr>post_job_id := job_id\<rparr> else st)) (\<lambda>_.
             io_bind (enter_job job_id) (\<lambda>_. io_return (Inr job_id)))))))
        (\<lambda>e. io_return (Inl (''Job submission error: '' @ exc_msg e, 400))))"

fun submit_steps ::
  "'w web_api \<Rightarrow> web_settings \<Rightarrow> web_task \<Rightarrow> bool \<Rightarrow> int list \<Rightarrow> json \<Rightarrow> ('w web, task_end) io" where
  "submit_steps a cfg t is_post_process [] last_job_id = io_return (''All jobs submitted correctly'', 200)"
| "submit_steps a cfg t is_post_process (step # steps) last_job_id =
     io_bind (step_script a cfg t step last_job_id) (\<lambda>res. case res of
       Inl msg \<Rightarrow> refuse (write_failed (wt_job_name t @ ''_'' @ show_int step) msg)
     | Inr job_script \<Rightarrow>
         io_bind (submit_step a cfg t is_post_process step job_script) (\<lambda>submitted. case submitted of
           Inl failed \<Rightarrow> io_return failed
         | Inr job_id \<Rightarrow> submit_steps a cfg t is_post_process steps job_id))"

text \<open>\<open>range(1, steps + 1)\<close>, which a missing number of steps makes a \<open>TypeError\<close>.\<close>

definition background_submit_task ::
  "'w web_api \<Rightarrow> web_settings \<Rightarrow> web_task \<Rightarrow> int option \<Rightarrow> bool \<Rightarrow> ('w web, task_end) io" where
  "background_submit_task a cfg t steps is_post_process =
     (case steps of
        None \<Rightarrow> io_raise TypeError []
      | Some n \<Rightarrow> submit_steps a cfg t is_post_process [1..n] (JInt 0))"

text \<open>Here an error of \<open>write_sbatch\<close> that is returned is not looked at: it has no path.\<close>

definition background_submit_postproc :: "'w web_api \<Rightarrow> web_settings \<Rightarrow> web_task \<Rightarrow> ('w web, task_end) io" where
  "background_submit_postproc a cfg t =
     (let name = wt_job_name t @ ''_post'' in
      io_bind (io_catch
        (io_map Inr (api (write_sbatch a (ws_debug cfg) (wt_template t)
           (script_values cfg t name (wt_ntasks t) 1 JNull))))
        (\<lambda>e. io_map Inl (refuse (write_failed name (exc_msg e))))) (\<lambda>res. case res of
        Inl failed \<Rightarrow> io_return failed
      | Inr (Inl msg) \<Rightarrow> io_raise KeyError ''path''
      | Inr (Inr job_script) \<Rightarrow>
          io_bind (api (submit_job_with_f7t a (ws_system cfg) (wt_target_path t) job_script)) (\<lambda>job_submitted.
          case job_submitted of
            Inl msg \<Rightarrow> refuse (submit_failed name msg)
          | Inr job \<Rightarrow>
              io_bind (io_lift (jindex job ''jobId'')) (\<lambda>job_id.
              io_bind (announce name job_id) (\<lambda>_.
              io_bind (modify (\<lambda>st. st\<lparr>post_job_id := job_id\<rparr>)) (\<lambda>_.
              io_bind (enter_job job_id) (\<lambda>_.
                io_return (''Postprocess job submitted correctly'', 200))))))))"

subsection \<open>The handlers\<close>

type_synonym answer = "json \<times> nat"

definition rows :: "json list \<Rightarrow> json" where
  "rows xs = JObj [(''rows'', JList xs)]"

definition data_of :: "string \<Rightarrow> json" where
  "data_of text = JObj [(''data'', JStr text)]"

definition list_files :: "'w web_api \<Rightarrow> web_settings \<Rightarrow> string option \<Rightarrow> ('w web, answer) io" where
  "list_files a cfg target_path =
     (case target_path of
        None \<Rightarrow> io_return (rows [], 400)
      | Some p \<Rightarrow>
          io_map (\<lambda>files. if files = JNull then (rows [], 400) else (JObj [(''rows'', files)], 200))
            (api (list_files_with_f7t a (ws_system cfg) p)))"

definition list_jobs :: "'w web_api \<Rightarrow> web_settings \<Rightarrow> ('w web, answer) io" where
  "list_jobs a cfg st =
     io_map (\<lambda>jobs. case jobs of
         Some js \<Rightarrow> (rows js, 200)
       | None \<Rightarrow> (JObj [(''response'', JStr ''Error listing jobs'')], 400))
       (api (list_jobs_with_f7t a (ws_system cfg) (map fst (job_list st)))) st"

definition results :: "'w web_api \<Rightarrow> web_settings \<Rightarrow> ('w web, answer) io" where
  "results a cfg st =
     io_catch
       (io_bind (io_lift (jindex (JObj (web_session st)) ''jobDir'')) (\<lambda>job_dir.
        io_map (\<lambda>_. (data_of (''/static/'' @ json_str (post_job_id st) @ ''.gif''), 200))
          (api (wa_download a (ws_system cfg) (json_str job_dir @ ''/imag.gif'')
             (''/app/src/static/'' @ json_str (post_job_id st) @ ''.gif'') (ws_user_group cfg)))))
       (\<lambda>e. io_return (data_of
          ((if is_firecrest e then ''Download error '' else ''Download error: '') @ exc_msg e), 400)) st"

text \<open>The directory of a job, and \<open>mkdir(jobName)\<close>: the message when it failed.\<close>

definition target_dir :: "web_settings \<Rightarrow> json \<Rightarrow> json \<Rightarrow> string \<Rightarrow> string" where
  "target_dir cfg base_dir username name_of_job =
     json_str base_dir @ ''/'' @ json_str username @ ''/'' @ ws_problem_subdir cfg @ ''/'' @ name_of_job"

definition mkdir :: "'w web_api \<Rightarrow> web_settings \<Rightarrow> string \<Rightarrow> ('w web, string option) io" where
  "mkdir a cfg name_of_job st =
     io_bind (api (get_username_with_f7t a (ws_system cfg))) (\<lambda>username.
       if username = JNull
       then io_return (Some (''Error creating directory: couldn'' @ [squote] @ ''t get username''))
       else (let target_path = target_dir cfg (system_base_dir st) username name_of_job in
         io_map (\<lambda>made. if made then None else Some (''Error creating directory '' @ target_path))
           (api (mkdir_with_f7t a (ws_system cfg) target_path)))) st"

text \<open>The problem files, those that are configured, go to the directory above the job's.\<close>

definition upload_problem_files ::
  "'w web_api \<Rightarrow> web_settings \<Rightarrow> string \<Rightarrow> json list \<Rightarrow> ('w, string option) io" where
  "upload_problem_files a cfg target_path files =
     except_firecrest
       (io_map (\<lambda>_. None) (io_traverse (\<lambda>pf_path.
          if pf_path = JNull then io_return ()
          else (let source_path = ws_base_path cfg @ ''/problem_files/'' @ json_str pf_path in
            wa_upload a (ws_system cfg) source_path (dirname target_path) (basename source_path))) files))
       (\<lambda>e. io_return (Some ''Error uploading initial data''))"

text \<open>\<open>for f in files: if f["name"] == "post_proc.py": found = True; break\<close>\<close>

definition upload_post_proc :: "'w web_api \<Rightarrow> web_settings \<Rightarrow> string \<Rightarrow> ('w, string option) io" where
  "upload_post_proc a cfg target_path =
     except_firecrest
       (io_bind (wa_list_files a (ws_system cfg) target_path) (\<lambda>files.
        io_bind (io_lift (bind_res (jelems files) (select_dict_by_name (JStr ''post_proc.py'') ''name''))) (\<lambda>found.
          if found = None \<and> ws_debug cfg
          then io_map (\<lambda>_. None) (wa_upload a (ws_system cfg) (ws_base_path cfg @ ''/sbatch_templates/post_proc.py'')
                 target_path ''post_proc.py'')
          else io_return None)))
       (\<lambda>e. io_return (Some ''Error copying initial data''))"

text \<open>What is read of the form: every field that is missing has a default.\<close>

definition form_steps :: "(string \<times> string) list \<Rightarrow> int option" where
  "form_steps form = (case map_of form ''steps'' of
       None \<Rightarrow> None | Some s \<Rightarrow> (case py_int s of Inr i \<Rightarrow> Some i | Inl e \<Rightarrow> None))"

definition form_text :: "(string \<times> string) list \<Rightarrow> string \<Rightarrow> json \<Rightarrow> json" where
  "form_text form field missing = (case map_of form field of None \<Rightarrow> missing | Some s \<Rightarrow> JStr s)"

definition form_is_post_process :: "(string \<times> string) list \<Rightarrow> bool" where
  "form_is_post_process form = truthy (map_of form ''isPostProcess'')"

definition form_task :: "web_settings \<Rightarrow> (string \<times> string) list \<Rightarrow> string \<Rightarrow> web_task" where
  "form_task cfg form target_path =
     (let configured = (\<lambda>t. if t = [] then JNull else JStr t) in
      \<lparr>wt_template = (if form_is_post_process form then ws_post_template cfg else ws_sbatch_template cfg),
       wt_job_name = json_str (form_text form ''jobName'' (JStr ''f7t_test'')),
       wt_ntasks = form_text form ''numberOfNodes'' (JInt 1),
       wt_partition = form_text form ''partition'' JNull, wt_constraint = form_text form ''constraint'' JNull,
       wt_reservation = configured (ws_reservation cfg), wt_target_path = target_path,
       wt_ini_file = configured (ws_problem_ini_file cfg), wt_msh_file = configured (ws_problem_msh_file cfg)\<rparr>)"

definition session_of :: "web_task \<Rightarrow> int option \<Rightarrow> bool \<Rightarrow> (string \<times> json) list" where
  "session_of t steps is_post_process =
     [(''jobDir'', JStr (wt_target_path t)), (''jobName'', JStr (wt_job_name t)), (''partition'', wt_partition t),
      (''constraint'', wt_constraint t), (''steps'', case steps of None \<Rightarrow> JNull | Some n \<Rightarrow> JInt n),
      (''numberOfNodes'', wt_ntasks t), (''activePost'', JBool is_post_process)]"

text \<open>
  The preparation of a job: the message of what failed.  \<open>submit_job\<close> answers, and says which task it left
  to run in the background, which \<open>run_background\<close> runs.
\<close>

datatype background = Steps web_task "int option" | PostProcess web_task

definition run_background :: "'w web_api \<Rightarrow> web_settings \<Rightarrow> background \<Rightarrow> ('w web, task_end) io" where
  "run_background a cfg b = (case b of
       Steps t steps \<Rightarrow> background_submit_task a cfg t steps False
     | PostProcess t \<Rightarrow> background_submit_postproc a cfg t)"

definition prepare_job ::
  "'w web_api \<Rightarrow> web_settings \<Rightarrow> web_task \<Rightarrow> bool \<Rightarrow> ('w web, string option) io" where
  "prepare_job a cfg t is_post_process =
     (if is_post_process then api (upload_post_proc a cfg (wt_target_path t))
      else io_bind (mkdir a cfg (wt_job_name t)) (\<lambda>failed. case failed of
          Some msg \<Rightarrow> io_return (Some msg)
        | None \<Rightarrow> api (upload_problem_files a cfg (wt_target_path t) [wt_ini_file t, wt_msh_file t])))"

definition submit_job ::
  "'w web_api \<Rightarrow> web_settings \<Rightarrow> (string \<times> string) list \<Rightarrow> ('w web, answer \<times> background option) io" where
  "submit_job a cfg form st =
     io_bind (api (get_username_with_f7t a (ws_system cfg))) (\<lambda>username.
       if username = JNull then io_return ((data_of ''Error at getting username'', 400), None)
       else (let steps = form_steps form; post = form_is_post_process form;
                 name_of_job = json_str (form_text form ''jobName'' (JStr ''f7t_test''));
                 t = form_task cfg form (target_dir cfg (system_base_dir st) username name_of_job) in
         io_bind (prepare_job a cfg t post) (\<lambda>failed. case failed of
             Some msg \<Rightarrow> io_return ((data_of msg, 400), None)
           | None \<Rightarrow>
               io_bind (modify (\<lambda>st. st\<lparr>web_session := session_of t steps post\<rparr>)) (\<lambda>_.
                 io_return ((data_of ''Batch started'', 200),
                   Some (if post then PostProcess t else Steps t steps)))))) st"

definition before_request :: "'w web_api \<Rightarrow> web_settings \<Rightarrow> ('w web, json) io" where
  "before_request a cfg = api (get_username_with_f7t a (ws_system cfg))"

text \<open>The page: whether the system is there, and the directory of the jobs.\<close>

definition live :: "'w web_api \<Rightarrow> web_settings \<Rightarrow> json \<Rightarrow> ('w web, string \<times> string) io" where
  "live a cfg user =
     io_bind (api (is_system_avail_f7t a (ws_system cfg))) (\<lambda>avail.
     io_bind (if avail
              then io_bind (api (get_base_fs_with_f7t a (ws_system cfg))) (\<lambda>base.
                     modify (\<lambda>st. st\<lparr>system_base_dir := base\<rparr>))
              else io_return ()) (\<lambda>_.
       (\<lambda>st. (Inr (if avail then ''avail'' else ''notavail'',
          json_str (system_base_dir st) @ ''/'' @ json_str user @ ''/'' @ ws_problem_subdir cfg @ ''/''), st))))"

subsection \<open>A chain of jobs\<close>

text \<open>The same surroundings with a log of the scripts written and of the jobs the API accepted.\<close>

datatype web_event = Wrote kwargs | Accepted string json

definition aside :: "('w, 'a) io \<Rightarrow> ('w \<times> web_event list, 'a) io" where
  "aside m = (\<lambda>(w, log). case m w of (r, w') \<Rightarrow> (r, (w', log)))"

definition noting :: "('a \<Rightarrow> web_event list) \<Rightarrow> ('w, 'a) io \<Rightarrow> ('w \<times> web_event list, 'a) io" where
  "noting note_of m = (\<lambda>(w, log). case m w of
     (Inl e, w') \<Rightarrow> (Inl e, (w', log)) | (Inr x, w') \<Rightarrow> (Inr x, (w', log @ note_of x)))"

definition logged :: "'w web_api \<Rightarrow> ('w \<times> web_event list) web_api" where
  "logged a =
     \<lparr>wa_systems = aside (wa_systems a), wa_list_files = (\<lambda>s p. aside (wa_list_files a s p)),
      wa_userinfo = (\<lambda>s. aside (wa_userinfo a s)),
      wa_submit = (\<lambda>s d p. noting (\<lambda>job. case jindex job ''jobId'' of Inr i \<Rightarrow> [Accepted d i] | Inl e \<Rightarrow> [])
         (wa_submit a s d p)),
      wa_mkdir = (\<lambda>s p. aside (wa_mkdir a s p)), wa_job_info = (\<lambda>s i. aside (wa_job_info a s i)),
      wa_upload = (\<lambda>s l d f. aside (wa_upload a s l d f)), wa_download = (\<lambda>s p q u. aside (wa_download a s p q u)),
      wa_get_template = (\<lambda>n. aside (wa_get_template a n)), wa_mkdtemp = aside (wa_mkdtemp a),
      wa_write_script = (\<lambda>p n values. noting (\<lambda>_. [Wrote values]) (wa_write_script a p n values)),
      wa_local_time = wa_local_time a\<rparr>"

abbreviation log_of :: "('w \<times> web_event list) web \<Rightarrow> web_event list" where
  "log_of st \<equiv> snd (outside st)"

text \<open>The values of a step, and what a chain of accepted jobs leaves in the log.\<close>

definition step_values :: "web_settings \<Rightarrow> web_task \<Rightarrow> int \<Rightarrow> json \<Rightarrow> kwargs" where
  "step_values cfg t k previous =
     (if k = 1 then script_values cfg t (wt_job_name t @ ''_'' @ show_int k) (wt_ntasks t) k JNull
      else script_values cfg t (wt_job_name t @ ''_'' @ show_int k) (JInt 1) k previous)"

fun chain_log :: "web_settings \<Rightarrow> web_task \<Rightarrow> int \<Rightarrow> json \<Rightarrow> json list \<Rightarrow> web_event list" where
  "chain_log cfg t k previous [] = []"
| "chain_log cfg t k previous (i # ids) =
     Wrote (step_values cfg t k previous) # Accepted (wt_target_path t) i # chain_log cfg t (k + 1) i ids"

lemmas web_simps = io_simps api_def modify_def emit_def except_firecrest_def

lemma step_script_cases:
  assumes "step_script (logged a) cfg t k previous st = (res, st')"
  shows "job_list st' = job_list st \<and>
    ((\<exists>p. res = Inr (Inr p) \<and> log_of st' = log_of st @ [Wrote (step_values cfg t k previous)]) \<or>
     (\<exists>msg. res = Inr (Inl msg) \<and> log_of st' = log_of st))"
  using assms
  by (cases "outside st")
     (auto simp: step_script_def write_sbatch_def logged_def aside_def noting_def step_values_def Let_def web_simps
       split: prod.splits sum.splits if_splits)

lemma submit_step_cases:
  assumes "submit_step (logged a) cfg t False k script st = (res, st')"
  shows "(\<exists>i. res = Inr (Inr i) \<and> log_of st' = log_of st @ [Accepted (wt_target_path t) i] \<and>
       job_list st' = dict_set i 0 (if k = 1 then [] else job_list st)) \<or>
     (\<exists>text. res = Inr (Inl (text, 400)) \<and> log_of st' = log_of st \<and> job_list st' = job_list st)"
  using assms
  by (cases "outside st")
     (auto simp: submit_step_def submit_job_with_f7t_def refuse_def announce_def enter_job_def logged_def noting_def
       Let_def web_simps split: prod.splits sum.splits if_splits)

text \<open>
  How far a chain of \<open>m\<close> steps got, the first of which is step \<open>k\<close>: its accepted jobs, and the script of the
  step that failed, if it was written.
\<close>

definition chain_end ::
  "web_settings \<Rightarrow> web_task \<Rightarrow> int \<Rightarrow> nat \<Rightarrow> json \<Rightarrow> ('w \<times> web_event list) web \<Rightarrow>
   task_end res \<times> ('w \<times> web_event list) web \<Rightarrow> json list \<Rightarrow> web_event list \<Rightarrow> bool" where
  "chain_end cfg t k m previous st out ids written \<longleftrightarrow>
     log_of (snd out) = log_of st @ chain_log cfg t k previous ids @ written \<and>
     length ids \<le> m \<and>
     (\<exists>msg. fst out = Inr (msg, if length ids = m then 200 else 400)) \<and>
     (if length ids = m then written = []
      else written \<in> {[], [Wrote (step_values cfg t (k + int (length ids)) (List.last (previous # ids)))]}) \<and>
     job_list (snd out) =
       (if ids = [] then job_list st else foldl (\<lambda>d i. dict_set i 0 d) (if k = 1 then [] else job_list st) ids)"

lemma chain_end_step:
  assumes rest: "chain_end cfg t (k + 1) m i st2 out ids written" and "1 \<le> k"
    and log: "log_of st2 = log_of st @ [Wrote (step_values cfg t k previous), Accepted (wt_target_path t) i]"
    and jobs: "job_list st2 = dict_set i 0 (if k = 1 then [] else job_list st)"
  shows "chain_end cfg t k (Suc m) previous st out (i # ids) written"
proof -
  note r = rest [unfolded chain_end_def]
  have "log_of (snd out) = log_of st @ chain_log cfg t k previous (i # ids) @ written"
    using conjunct1 [OF r] log by simp
  moreover have "job_list (snd out) = foldl (\<lambda>d i. dict_set i 0 d) (if k = 1 then [] else job_list st) (i # ids)"
    using r jobs \<open>1 \<le> k\<close> by (cases ids) (simp_all split: if_splits)
  moreover have "k + 1 + int (length ids) = k + int (length (i # ids))" by simp
  moreover have "List.last (previous # i # ids) = List.last (i # ids)" by simp
  ultimately show ?thesis
    using r unfolding chain_end_def by (simp only: length_Cons Suc_le_mono nat.inject list.distinct if_False simp_thms) (elim conjE, assumption)
qed

lemma submit_steps_chain:
  assumes "1 \<le> k"
  shows "\<exists>ids written. chain_end cfg t k (nat (n + 1 - k)) previous st
    (submit_steps (logged a) cfg t False [k..n] previous st) ids written"
  using assms
proof (induction "nat (n + 1 - k)" arbitrary: k previous st)
  case 0
  then have "[k..n] = []" "nat (n + 1 - k) = 0" by simp_all
  then show ?case
    by (intro exI [of _ "[]"]) (simp add: chain_end_def io_return_apply)
next
  case (Suc m)
  then have k: "[k..n] = k # [k + 1..n]" and m: "m = nat (n + 1 - (k + 1))" "nat (n + 1 - k) = Suc m"
    by (simp_all add: upto_rec1)
  obtain res st1 where script: "step_script (logged a) cfg t k previous st = (res, st1)" by force
  note sc = step_script_cases [OF script]
  show ?case
  proof (cases "\<exists>p. res = Inr (Inr p)")
    case False
    then obtain msg where "res = Inr (Inl msg)" "log_of st1 = log_of st" "job_list st1 = job_list st" using sc by blast
    then show ?thesis
      by (intro exI [of _ "[]"]) (simp add: k script chain_end_def m(2) refuse_def web_simps)
  next
    case True
    then obtain p where p: "res = Inr (Inr p)" "log_of st1 = log_of st @ [Wrote (step_values cfg t k previous)]"
      "job_list st1 = job_list st" using sc by blast
    obtain sub st2 where sub: "submit_step (logged a) cfg t False k p st1 = (sub, st2)" by force
    from submit_step_cases [OF sub] show ?thesis
    proof (elim disjE exE conjE)
      fix msg assume "sub = Inr (Inl (msg, 400))" "log_of st2 = log_of st1" "job_list st2 = job_list st1"
      then show ?thesis
        by (intro exI [of _ "[]"] exI [of _ "[Wrote (step_values cfg t k previous)]"])
           (simp add: k script p sub chain_end_def m(2) web_simps)
    next
      fix i assume i: "sub = Inr (Inr i)" "log_of st2 = log_of st1 @ [Accepted (wt_target_path t) i]"
        "job_list st2 = dict_set i 0 (if k = 1 then [] else job_list st1)"
      have out: "submit_steps (logged a) cfg t False [k..n] previous st =
          submit_steps (logged a) cfg t False [k + 1..n] i st2"
        by (simp add: k script p(1) sub i(1) web_simps)
      have "1 \<le> k + 1" using Suc.prems by simp
      from Suc.hyps(1) [OF m(1) this] obtain ids written where "chain_end cfg t (k + 1) m i st2
          (submit_steps (logged a) cfg t False [k + 1..n] i st2) ids written" unfolding m(1) by blast
      from chain_end_step [OF this Suc.prems, of st previous]
      have "chain_end cfg t k (Suc m) previous st
          (submit_steps (logged a) cfg t False [k + 1..n] i st2) (i # ids) written"
        by (simp add: i p)
      then show ?thesis unfolding out m(2) by blast
    qed
  qed
qed

subsection \<open>Properties\<close>

text \<open>
  C38: the steps of a simulation form a chain.  Whatever the API answers and whatever scripts can be
  written, the jobs it accepted are those of the first steps, in order, and each was submitted with a
  script that names the job of the step before; the job list of the page holds exactly these jobs.  The
  task ends with 200 when all steps were accepted, and otherwise with 400 right after the step that
  failed.  The number of tasks asked for reaches the first step only.
\<close>

theorem steps_form_chain:
  "case background_submit_task (logged a) cfg t (Some n) False st of (r, st') \<Rightarrow>
     \<exists>ids written msg. r = Inr (msg, if length ids = nat n then 200 else 400) \<and> length ids \<le> nat n \<and>
       snd (outside st') = snd (outside st) @ chain_log cfg t 1 (JInt 0) ids @ written \<and>
       (if length ids = nat n then written = []
        else written \<in> {[], [Wrote (step_values cfg t (1 + int (length ids)) (List.last (JInt 0 # ids)))]}) \<and>
       job_list st' = (if ids = [] then job_list st else foldl (\<lambda>d i. dict_set i 0 d) [] ids)"
proof -
  obtain r st' where out: "submit_steps (logged a) cfg t False [1..n] (JInt 0) st = (r, st')" by force
  obtain ids written where "chain_end cfg t 1 (nat n) (JInt 0) st (r, st') ids written"
    using submit_steps_chain [of 1 cfg t n "JInt 0" st a] out by auto
  then show ?thesis
    unfolding background_submit_task_def option.case out prod.case chain_end_def fst_conv snd_conv
    by (simp only: refl if_True) blast
qed

text \<open>The script that draws the results is uploaded by a page in debug mode only.\<close>

theorem post_proc_upload_needs_debug:
  assumes "\<not> ws_debug cfg"
  shows "upload_post_proc a cfg p = upload_post_proc (a\<lparr>wa_upload := u\<rparr>) cfg p"
  using assms by (simp add: upload_post_proc_def)

text \<open>A script for the postprocessing that cannot be written ends its task with a \<open>KeyError\<close> nobody is told of.\<close>

theorem unwritten_post_proc_raises:
  assumes "write_sbatch a (ws_debug cfg) (wt_template t)
      (script_values cfg t (wt_job_name t @ ''_post'') (wt_ntasks t) 1 JNull) (outside st) = (Inr (Inl msg), w)"
  shows "background_submit_postproc a cfg t st = (raise KeyError ''path'', st\<lparr>outside := w\<rparr>)"
  using assms by (simp add: background_submit_postproc_def web_simps Let_def)

lemma split_on_last: "slash \<notin> set b \<Longrightarrow> List.last (split_on slash (a @ slash # b)) = b"
proof (induction a)
  case Nil
  then show ?case by (simp add: split_on_no_sep)
next
  case (Cons c a)
  obtain w v ws where "split_on slash (a @ slash # b) = w # v # ws"
  proof -
    have "length (split_on slash (a @ slash # b)) \<ge> 2"
      by (induction a) (auto split: list.split simp: Suc_le_eq)
    then show ?thesis using that by (cases "split_on slash (a @ slash # b)" rule: remdups_adj.cases) auto
  qed
  then show ?case using Cons by simp
qed

text \<open>The problem files are uploaded beside the directory in which the job looks for them.\<close>

theorem problem_files_above_job:
  assumes "slash \<notin> set job" and "d \<noteq> []" and "List.last d \<noteq> slash" and "slash \<notin> set f" and "f \<noteq> []"
  shows "upload_problem_files a cfg (d @ slash # job) [JStr f, JNull] =
    except_firecrest (io_map (\<lambda>_. None) (wa_upload a (ws_system cfg) (ws_base_path cfg @ ''/problem_files/'' @ f) d f))
      (\<lambda>e. io_return (Some ''Error uploading initial data''))"
proof -
  have name: "basename (p @ slash # g) = g" if "slash \<notin> set g" for p g
    using that by (simp add: basename_def split_on_last)
  have "\<not> list_all (\<lambda>c. c = slash) (d @ [slash])"
    using assms(2,3) last_in_set [of d] by (auto simp: list_all_iff simp del: last_in_set)
  moreover have "rstrip_chars [slash] (d @ [slash]) = d"
    using rstrip_chars_id [of d "[slash]"] assms(2,3) by (simp add: rstrip_chars_def)
  ultimately have "dirname (d @ slash # job) = d"
    unfolding dirname_def name [OF assms(1)] Let_def by simp
  moreover have "basename (ws_base_path cfg @ ''/problem_files/'' @ f) = f"
    using name [OF assms(4), of "ws_base_path cfg @ ''/problem_files''"] by simp
  ultimately show ?thesis
    by (intro ext) (simp add: upload_problem_files_def web_simps Let_def split: prod.split sum.split)
qed

end
