(* ===== verification/Spec2Isabelle.thy ===== *)
theory Spec2Isabelle
  imports Prelude PyString Numerals Regex Shell PosixPath Json Errors Auth LsCommand FsCommands SshPool Config Dependencies SlurmModels SlurmCommands SlurmListing SlurmClients JsonText PbsModels PbsClient PbsListing SshCalls Base64 FsOps Caller Compute Health JobScripts DataTransferBase FloatDiv S3Transfer JsonDump Utf8 PointTransfers StreamerCore StreamerLink TransferRouter Credentials Tracing WebApp PoolProgress NodeListing DemoLauncher ExampleClients StreamerJob WebClient
begin

section \<open>FirecREST v2, a REST API for HPC systems\<close>

text \<open>
  FirecREST gives web access to high performance computing systems: a user authenticates with a
  bearer token, and the API lists, copies and transfers files, submits and inspects jobs and reports
  on the state of a system.  Nothing is installed on the systems: every operation is a command run
  through an SSH connection opened in the user's name, a request to the REST API of Slurm, or a job
  handed to the scheduler.  This library models the program under \<open>src/src\<close>, and the programs
  beside it that set it up and use it, in definitions that compute, and proves what makes its parts
  correct; where the code falls short, the theorem states what it does instead.

  \<^bold>\<open>How a request travels.\<close>  It passes the middleware of \<open>firecrest/main.py\<close> (\<open>WebApp\<close>, with the
  tracing log in \<open>Tracing\<close>), is authenticated and authorised (\<open>Auth\<close>), checked against the health
  of the services and the file systems of the configuration (\<open>Dependencies\<close>, \<open>Config\<close>) and handled by
  an endpoint (\<open>FsOps\<close>, \<open>TransferRouter\<close>, \<open>Compute\<close>).  The endpoint builds command lines (\<open>LsCommand\<close>,
  \<open>FsCommands\<close>, \<open>SlurmCommands\<close>, \<open>PbsClient\<close>), which run on the user's connection (\<open>SshPool\<close>,
  \<open>Credentials\<close>), and its answer or exception becomes a response (\<open>Errors\<close>).  Beside the requests,
  scheduled tasks probe every cluster (\<open>Health\<close>) and prune idle connections (\<open>SshPool\<close>).

  \<^bold>\<open>Python.\<close>  \<open>Prelude\<close>: exceptions as values with their class, text, headers and cause, the class
  hierarchy, results \<open>'a res\<close> (an exception or a value), effects \<open>('w, 'a) io\<close> over an explicit world, ordered
  dictionaries.  \<open>PyString\<close>, \<open>Numerals\<close>, \<open>Regex\<close>, \<open>PosixPath\<close>, \<open>Json\<close>, \<open>JsonText\<close>, \<open>JsonDump\<close>,
  \<open>Base64\<close>, \<open>Utf8\<close>, \<open>FloatDiv\<close>, \<open>Shell\<close>: what the code uses of Python's library, written out from its
  documentation, and the word splitting of a POSIX shell.  Texts are lists of characters below 256;
  Python's integers are \<open>int\<close>; the only floating point numbers the code computes with are quotients of
  integers, which \<open>FloatDiv\<close> rounds as a double.

  \<^bold>\<open>Theories and code.\<close>
  \<^item> \<open>Errors\<close>: \<open>lib/exceptions.py\<close>, \<open>lib/models/apis/api_response_model.py\<close>,
    \<open>lib/handlers/api_response_handler.py\<close>, \<open>base_command_error_handling.py\<close>, the exception handler of
    \<open>firecrest/main.py\<close>.  Every failure of a remote command has its status and text.
  \<^item> \<open>Auth\<close>, \<open>Caller\<close>: \<open>lib/auth\<close>, \<open>lib/dependencies.py\<close>, \<open>lib/helpers\<close>, \<open>lib/request_vars.py\<close>.  The locales
    \<open>authentication_service\<close> and \<open>authorization_service\<close> are the two abstract classes, interpreted on
    OIDC and OpenFGA; the dependency is proved sound over them.
  \<^item> \<open>Config\<close>, \<open>Dependencies\<close>: \<open>firecrest/config.py\<close>, \<open>firecrest/dependencies.py\<close>.  The path of a file system
    request is confined to the configured file systems, as long as the check sees the path that is used.
  \<^item> \<open>LsCommand\<close>, \<open>FsCommands\<close>, \<open>FsOps\<close>: \<open>firecrest/filesystem/ops\<close>.  The locale \<open>remote_command\<close> is what
    \<open>SSHClient.execute\<close> needs of a command; each command class interprets it.  The words a shell sees are
    proved for paths without a single quote, and an injection for a path with one; listings of \<open>ls\<close>,
    views of \<open>dd\<close> and downloads are read back exactly.
  \<^item> \<open>SshPool\<close>, \<open>PoolProgress\<close>, \<open>SshCalls\<close>, \<open>Credentials\<close>: \<open>lib/ssh_clients\<close>.  \<open>pool_step\<close> interleaves the atomic blocks
    between the awaits of \<open>get_client\<close>, pruning, time and lost connections in any order; users are
    isolated, connections are not leaked, no request is stuck behind a lost lock, and the capacity is
    exceeded by at most the number of concurrent connection attempts.  \<open>execute\<close> runs one command and
    writes its record to the tracing log.
  \<^item> \<open>SlurmModels\<close>, \<open>SlurmCommands\<close>, \<open>SlurmListing\<close>, \<open>NodeListing\<close>, \<open>SlurmClients\<close>:
    \<open>lib/scheduler_clients/slurm\<close> and the models of \<open>lib/scheduler_clients/models.py\<close>.  The
    locale \<open>scheduler_command\<close> is the contract of the parsers (a failed command is an error of the
    scheduler), \<open>job_listing\<close> that of the two merged job lists, interpreted on the command line and
    on the REST client.  The merge of \<open>sacct\<close> and \<open>squeue\<close> refines a specification by job identifier; the
    rows \<open>sinfo\<close> prints of a node become one node with all its partitions.
  \<^item> \<open>PbsModels\<close>, \<open>PbsClient\<close>, \<open>PbsListing\<close>: \<open>lib/scheduler_clients/pbs\<close>.  The words of \<open>qsub\<close>, the owner
    filter of \<open>qstat\<close> and the expansion of node lists.
  \<^item> \<open>Compute\<close>: \<open>firecrest/compute\<close>, \<open>firecrest/status\<close>; \<open>Health\<close>: \<open>firecrest/status/health_check\<close>.  The
    endpoints over an abstract scheduler client, the probes and the reports they leave.
  \<^item> \<open>JobScripts\<close>, \<open>DataTransferBase\<close>, \<open>S3Transfer\<close>, \<open>PointTransfers\<close>, \<open>TransferRouter\<close>:
    \<open>lib/datatransfers\<close>, \<open>firecrest/filesystem/transfer\<close>.  The abstract class of the transfers is the
    locale \<open>data_transfer_base\<close>, two \<open>transfer_direction\<close>s: a transfer that answers has submitted one job,
    under the caller's name and token.  S3, wormhole and the streamer interpret it, and so does the
    endpoint's choice among them.  The command lines that the jobs run are derived from the templates
    under \<open>scripts/\<close>; the URLs of a multipart upload cover the file.
  \<^item> \<open>StreamerCore\<close>, \<open>StreamerLink\<close>, \<open>StreamerJob\<close>: \<open>firecrest-streamer\<close>.  Sending, receiving, the limits
    of a transfer, the admission by a secret, how the client finds the server, and the way from the
    API's job through the shell and the command line to the server's configuration.
  \<^item> \<open>Tracing\<close>, \<open>WebApp\<close>: \<open>lib/loggers\<close>, \<open>firecrest/main.py\<close>.  What is logged of a request, and that logging
    does not change its answer.
  \<^item> \<open>DemoLauncher\<close>: \<open>build/demo-launcher\<close>, the setup page that writes the settings of a demonstration and
    restarts the API; the settings it writes stay valid.  \<open>ExampleClients\<close>: the script of
    \<open>docs/use_cases/CI-pipeline\<close> and the operators of \<open>docs/use_cases/workflow-orchestrator\<close>, which wait
    for the jobs they submit.  \<open>WebClient\<close>: the web client of \<open>docs/use_cases/UI-client-credentials\<close>, whose
    jobs form a chain.

  \<^bold>\<open>Bounds and fuel.\<close>  Loops over text are structural or have a measure.  Fuel is used where a loop
  advances by a varying amount, and is always enough: \<open>json_loads\<close> gets twice the length of the text
  and one (\<open>json_fuel_enough\<close>), \<open>replace\<close>, \<open>split_str\<close>, \<open>re_finditer\<close> and \<open>py_format\<close> the length of
  the text, of which every round consumes at least one character.  The star of a regular expression
  repeats at most as often as there are characters left, since an iteration that consumes none is
  rejected, as in \<open>re\<close>.  \<open>FloatDiv\<close> scales by at most the exponents of a double.  The class hierarchy of
  the exceptions has depth three, which \<open>exc_le\<close> climbs.

  \<^bold>\<open>Arguments of the model.\<close>  What is not part of the program is an argument: \<open>ssh\<close> and \<open>http\<close> (a process
  run by asyncssh, a request made by aiohttp), \<open>post\<close> (OpenFGA, the services of SSH credentials), the
  decoding and verification of tokens (jose), the client of the object store (aiobotocore), \<open>render\<close>
  (jinja2, with the hypotheses \<open>renders\<close> and \<open>escapes_markup\<close> where a property needs what it
  documents), SHA-256, random numbers, click's parsing of options (\<open>click_parses\<close>), the clock and the host's calendar, the comparison of versions and
  Pydantic's reading of an integer.  Each may fail; the theorems hold for every behaviour their
  hypotheses admit, and every hypothesis has a witness.

  \<^bold>\<open>Not modelled.\<close>  The parsing of YAML and of request bodies by Pydantic beyond the validators the
  classes declare; the objects of FastAPI, uvicorn, the background scheduler and
  \<open>RawContextMiddleware\<close>; the texts of exceptions that the interpreter raises; the record
  \<open>get_ssh_debug_info\<close> logs; progress bars of the streamer; the construction of
  the object store's clients.  Outside of \<open>src/src\<close>: the container and helm files, the scripts
  of the documentation, the pages of the examples and the tests.
\<close>

end
